(* ===== verification/Cass_Prelude.thy ===== *)
theory Cass_Prelude
  imports Main "HOL-Library.Word" "HOL-Library.Monad_Syntax"
begin

text \<open>
  Shared vocabulary of the development.

  \<^item> Machine integers are words of the width the Rust code uses.  A signed integer is stored as
    its two's complement word and read with \<open>sint\<close>; a float is its bit pattern.
  \<^item> A Rust \<open>String\<close> or \<open>&str\<close> is a \<^typ>\<open>string\<close> whose characters are the UTF-8 bytes.
  \<^item> A nullable C pointer to an object of the driver is an \<^typ>\<open>'a option\<close>: \<open>None\<close> is the null
    pointer, \<open>Some x\<close> a valid pointer to the object \<open>x\<close>.
  \<^item> Code that can panic returns an \<^typ>\<open>'a option\<close> under the name \<open>panics\<close>: \<open>None\<close> is the panic,
    \<open>Some r\<close> the normal return of \<open>r\<close>.
  \<^item> A fallible Rust function returns \<open>'e + 'a\<close>: \<open>Inl\<close> is \<open>Err\<close>, \<open>Inr\<close> is \<open>Ok\<close>.
\<close>

unbundle bit_operations_syntax

type_synonym u8 = "8 word"
type_synonym u16 = "16 word"
type_synonym u32 = "32 word"
type_synonym u64 = "64 word"
type_synonym u128 = "128 word"

type_synonym 'a c_ptr = "'a option"
type_synonym 'a panics = "'a option"

named_theorems null_simps \<open>results of API functions on null pointers\<close>
named_theorems inv_intros \<open>preservation of component invariants\<close>

subsection \<open>Short-circuiting checks that may panic\<close>

text \<open>
  \<open>Iterator::all\<close> over a predicate that may panic: elements are visited from the left, and the
  first \<open>False\<close> ends the iteration before later elements are looked at.
\<close>

fun all_p :: "('a \<Rightarrow> bool panics) \<Rightarrow> 'a list \<Rightarrow> bool panics" where
  "all_p f [] = Some True"
| "all_p f (x # xs) = do { b \<leftarrow> f x; if b then all_p f xs else Some False }"

text \<open>The same for a left-to-right conjunction \<open>a && b\<close>.\<close>

definition and_p :: "bool panics \<Rightarrow> bool panics \<Rightarrow> bool panics" where
  "and_p a b = do { x \<leftarrow> a; if x then b else Some False }"

lemma all_p_cong [fundef_cong]:
  assumes "xs = ys" and "\<And>x. x \<in> set ys \<Longrightarrow> f x = g x"
  shows "all_p f xs = all_p g ys"
proof -
  have "all_p f ys = all_p g ys"
    using assms(2) by (induction ys) (simp_all cong: if_cong)
  with assms(1) show ?thesis by simp
qed

lemma all_p_total:
  assumes "\<And>x. x \<in> set xs \<Longrightarrow> f x = Some (g x)"
  shows "all_p f xs = Some (list_all g xs)"
  using assms by (induction xs) auto

lemma all_p_Some_True:
  "all_p f xs = Some True \<longleftrightarrow> (\<forall>x \<in> set xs. f x = Some True)"
  by (induction xs) (auto simp: bind_eq_Some_conv split: if_splits)

lemma all_p_not_None: "(\<And>x. x \<in> set xs \<Longrightarrow> f x \<noteq> None) \<Longrightarrow> all_p f xs \<noteq> None"
  by (induction xs) (auto split: bind_splits)

lemma and_p_not_None: "a \<noteq> None \<Longrightarrow> b \<noteq> None \<Longrightarrow> and_p a b \<noteq> None"
  by (auto simp: and_p_def)

lemma and_p_simps [simp]:
  "and_p (Some True) b = b"
  "and_p (Some False) b = Some False"
  "and_p None b = None"
  by (simp_all add: and_p_def)

lemma and_p_Some_True:
  "and_p a b = Some True \<longleftrightarrow> a = Some True \<and> b = Some True"
  by (auto simp: and_p_def bind_eq_Some_conv split: if_splits)

subsection \<open>Slices\<close>

text \<open>\<open>slice::get\<close>: the element at an index, or nothing when the index is out of range.\<close>

definition list_get :: "'a list \<Rightarrow> nat \<Rightarrow> 'a option" where
  "list_get xs i = (if i < length xs then Some (xs ! i) else None)"

lemma list_get_Some [simp]: "list_get xs i = Some x \<longleftrightarrow> i < length xs \<and> xs ! i = x"
  by (auto simp: list_get_def)

lemma list_get_None [simp]: "list_get xs i = None \<longleftrightarrow> length xs \<le> i"
  by (auto simp: list_get_def)

lemma list_get_in_range: "i < length xs \<Longrightarrow> list_get xs i = Some (xs ! i)"
  by (simp add: list_get_def)

lemma list_get_Nil [simp]: "list_get [] i = None"
  by simp

lemma list_get_Cons_0 [simp]: "list_get (x # xs) 0 = Some x"
  by (simp add: list_get_def)

lemma list_get_Cons_Suc [simp]: "list_get (x # xs) (Suc i) = list_get xs i"
  by (simp add: list_get_def)

subsection \<open>Hash maps\<close>

text \<open>
  A \<open>HashMap\<close> is an association list with distinct keys, in the order in which it would be iterated;
  that order means nothing.  \<open>HashMap::insert\<close> replaces an entry or adds one.
\<close>

definition hash_insert :: "'k \<Rightarrow> 'v \<Rightarrow> ('k \<times> 'v) list \<Rightarrow> ('k \<times> 'v) list" where
  "hash_insert k v m = (k, v) # filter (\<lambda>(k', _). k' \<noteq> k) m"

lemma map_of_hash_insert [simp]: "map_of (hash_insert k v m) = (map_of m)(k \<mapsto> v)"
proof
  fix x
  show "map_of (hash_insert k v m) x = ((map_of m)(k \<mapsto> v)) x"
    by (induction m) (auto simp: hash_insert_def)
qed

lemma keys_hash_insert [simp]: "fst ` set (hash_insert k v m) = insert k (fst ` set m)"
  by (auto simp: hash_insert_def image_iff)

lemma distinct_filter_keys: "distinct (map fst m) \<Longrightarrow> distinct (map fst (filter P m))"
  by (induction m) auto

lemma distinct_hash_insert [simp]:
  "distinct (map fst m) \<Longrightarrow> distinct (map fst (hash_insert k v m))"
  by (auto simp: hash_insert_def distinct_filter_keys)

lemma hash_insert_new: "k \<notin> fst ` set m \<Longrightarrow> hash_insert k v m = (k, v) # m"
  by (induction m) (auto simp: hash_insert_def)

subsection \<open>Big-endian bytes\<close>

text \<open>
  \<open>be_bytes n v\<close> is the big-endian string of the \<open>n\<close> least significant bytes of the number \<open>v\<close>,
  what \<open>to_be_bytes\<close> gives for an integer of \<open>n\<close> bytes.
\<close>

fun be_bytes :: "nat \<Rightarrow> nat \<Rightarrow> u8 list" where
  "be_bytes 0 v = []"
| "be_bytes (Suc n) v = be_bytes n (v div 256) @ [word_of_nat (v mod 256)]"

text \<open>The number a big-endian string of bytes denotes.\<close>

definition of_be_bytes :: "u8 list \<Rightarrow> nat" where
  "of_be_bytes bs = foldl (\<lambda>acc b. 256 * acc + unat b) 0 bs"

lemma length_be_bytes [simp]: "length (be_bytes n v) = n"
  by (induction n arbitrary: v) auto

lemma of_be_bytes_snoc [simp]: "of_be_bytes (bs @ [b]) = 256 * of_be_bytes bs + unat b"
  by (simp add: of_be_bytes_def)

lemma of_be_bytes_Nil [simp]: "of_be_bytes [] = 0"
  by (simp add: of_be_bytes_def)

lemma unat_of_byte: "v < 256 \<Longrightarrow> unat (word_of_nat v :: u8) = v"
  by (simp add: unat_of_nat take_bit_nat_eq_self)

lemma of_be_bytes_be_bytes: "of_be_bytes (be_bytes n v) = v mod 256 ^ n"
proof (induction n arbitrary: v)
  case 0
  show ?case by simp
next
  case (Suc n)
  have "unat (word_of_nat (v mod 256) :: u8) = v mod 256"
    by (rule unat_of_byte) simp
  with Suc show ?case
    by (simp add: mod_mult2_eq)
qed

lemma of_be_bytes_be_bytes_id: "v < 256 ^ n \<Longrightarrow> of_be_bytes (be_bytes n v) = v"
  by (simp add: of_be_bytes_be_bytes)

end
