(* ===== verification/Cass_Enums.thy ===== *)
theory Cass_Enums
  imports Cass_Prelude
begin

text \<open>
  The C enumerations of \<open>include/cassandra.h\<close> that the Rust code sees.  \<open>build.rs\<close> asks bindgen
  for \<open>NewType\<close> enums, so each of them is a 32-bit integer that may hold a value with no name; the
  names are abbreviations for the numbers the header gives them.  The theory also has the two
  name tables of \<open>cql_types/mod.rs\<close>, the table of error descriptions of \<open>cass_error.rs\<close>, and the
  driver's own enumerations of consistency levels and write types with their conversions.
\<close>

type_synonym CassValueType = u32
type_synonym CassError = u32
type_synonym CassErrorSource = u32
type_synonym CassConsistency = u32
type_synonym CassWriteType = u32
type_synonym CassCollectionType = u32
type_synonym CassBatchType = u32

subsection \<open>Value types\<close>

abbreviation CASS_VALUE_TYPE_CUSTOM :: CassValueType where
  "CASS_VALUE_TYPE_CUSTOM \<equiv> 0x0000"

abbreviation CASS_VALUE_TYPE_ASCII :: CassValueType where
  "CASS_VALUE_TYPE_ASCII \<equiv> 0x0001"

abbreviation CASS_VALUE_TYPE_BIGINT :: CassValueType where
  "CASS_VALUE_TYPE_BIGINT \<equiv> 0x0002"

abbreviation CASS_VALUE_TYPE_BLOB :: CassValueType where
  "CASS_VALUE_TYPE_BLOB \<equiv> 0x0003"

abbreviation CASS_VALUE_TYPE_BOOLEAN :: CassValueType where
  "CASS_VALUE_TYPE_BOOLEAN \<equiv> 0x0004"

abbreviation CASS_VALUE_TYPE_COUNTER :: CassValueType where
  "CASS_VALUE_TYPE_COUNTER \<equiv> 0x0005"

abbreviation CASS_VALUE_TYPE_DECIMAL :: CassValueType where
  "CASS_VALUE_TYPE_DECIMAL \<equiv> 0x0006"

abbreviation CASS_VALUE_TYPE_DOUBLE :: CassValueType where
  "CASS_VALUE_TYPE_DOUBLE \<equiv> 0x0007"

abbreviation CASS_VALUE_TYPE_FLOAT :: CassValueType where
  "CASS_VALUE_TYPE_FLOAT \<equiv> 0x0008"

abbreviation CASS_VALUE_TYPE_INT :: CassValueType where
  "CASS_VALUE_TYPE_INT \<equiv> 0x0009"

abbreviation CASS_VALUE_TYPE_TEXT :: CassValueType where
  "CASS_VALUE_TYPE_TEXT \<equiv> 0x000A"

abbreviation CASS_VALUE_TYPE_TIMESTAMP :: CassValueType where
  "CASS_VALUE_TYPE_TIMESTAMP \<equiv> 0x000B"

abbreviation CASS_VALUE_TYPE_UUID :: CassValueType where
  "CASS_VALUE_TYPE_UUID \<equiv> 0x000C"

abbreviation CASS_VALUE_TYPE_VARCHAR :: CassValueType where
  "CASS_VALUE_TYPE_VARCHAR \<equiv> 0x000D"

abbreviation CASS_VALUE_TYPE_VARINT :: CassValueType where
  "CASS_VALUE_TYPE_VARINT \<equiv> 0x000E"

abbreviation CASS_VALUE_TYPE_TIMEUUID :: CassValueType where
  "CASS_VALUE_TYPE_TIMEUUID \<equiv> 0x000F"

abbreviation CASS_VALUE_TYPE_INET :: CassValueType where
  "CASS_VALUE_TYPE_INET \<equiv> 0x0010"

abbreviation CASS_VALUE_TYPE_DATE :: CassValueType where
  "CASS_VALUE_TYPE_DATE \<equiv> 0x0011"

abbreviation CASS_VALUE_TYPE_TIME :: CassValueType where
  "CASS_VALUE_TYPE_TIME \<equiv> 0x0012"

abbreviation CASS_VALUE_TYPE_SMALL_INT :: CassValueType where
  "CASS_VALUE_TYPE_SMALL_INT \<equiv> 0x0013"

abbreviation CASS_VALUE_TYPE_TINY_INT :: CassValueType where
  "CASS_VALUE_TYPE_TINY_INT \<equiv> 0x0014"

abbreviation CASS_VALUE_TYPE_DURATION :: CassValueType where
  "CASS_VALUE_TYPE_DURATION \<equiv> 0x0015"

abbreviation CASS_VALUE_TYPE_LIST :: CassValueType where
  "CASS_VALUE_TYPE_LIST \<equiv> 0x0020"

abbreviation CASS_VALUE_TYPE_MAP :: CassValueType where
  "CASS_VALUE_TYPE_MAP \<equiv> 0x0021"

abbreviation CASS_VALUE_TYPE_SET :: CassValueType where
  "CASS_VALUE_TYPE_SET \<equiv> 0x0022"

abbreviation CASS_VALUE_TYPE_UDT :: CassValueType where
  "CASS_VALUE_TYPE_UDT \<equiv> 0x0030"

abbreviation CASS_VALUE_TYPE_TUPLE :: CassValueType where
  "CASS_VALUE_TYPE_TUPLE \<equiv> 0x0031"

abbreviation CASS_VALUE_TYPE_VECTOR :: CassValueType where
  "CASS_VALUE_TYPE_VECTOR \<equiv> 0x5356"

abbreviation CASS_VALUE_TYPE_LAST_ENTRY :: CassValueType where
  "CASS_VALUE_TYPE_LAST_ENTRY \<equiv> 0x5357"

abbreviation CASS_VALUE_TYPE_UNKNOWN :: CassValueType where
  "CASS_VALUE_TYPE_UNKNOWN \<equiv> 0xFFFF"

subsection \<open>Errors\<close>

abbreviation CASS_ERROR_SOURCE_NONE :: CassErrorSource where
  "CASS_ERROR_SOURCE_NONE \<equiv> 0"

abbreviation CASS_ERROR_SOURCE_LIB :: CassErrorSource where
  "CASS_ERROR_SOURCE_LIB \<equiv> 1"

abbreviation CASS_ERROR_SOURCE_SERVER :: CassErrorSource where
  "CASS_ERROR_SOURCE_SERVER \<equiv> 2"

abbreviation CASS_ERROR_SOURCE_SSL :: CassErrorSource where
  "CASS_ERROR_SOURCE_SSL \<equiv> 3"

abbreviation CASS_ERROR_SOURCE_COMPRESSION :: CassErrorSource where
  "CASS_ERROR_SOURCE_COMPRESSION \<equiv> 4"

abbreviation CASS_OK :: CassError where
  "CASS_OK \<equiv> 0"

abbreviation CASS_ERROR_LIB_BAD_PARAMS :: CassError where
  "CASS_ERROR_LIB_BAD_PARAMS \<equiv> 0x01000001"

abbreviation CASS_ERROR_LIB_NO_STREAMS :: CassError where
  "CASS_ERROR_LIB_NO_STREAMS \<equiv> 0x01000002"

abbreviation CASS_ERROR_LIB_UNABLE_TO_INIT :: CassError where
  "CASS_ERROR_LIB_UNABLE_TO_INIT \<equiv> 0x01000003"

abbreviation CASS_ERROR_LIB_MESSAGE_ENCODE :: CassError where
  "CASS_ERROR_LIB_MESSAGE_ENCODE \<equiv> 0x01000004"

abbreviation CASS_ERROR_LIB_HOST_RESOLUTION :: CassError where
  "CASS_ERROR_LIB_HOST_RESOLUTION \<equiv> 0x01000005"

abbreviation CASS_ERROR_LIB_UNEXPECTED_RESPONSE :: CassError where
  "CASS_ERROR_LIB_UNEXPECTED_RESPONSE \<equiv> 0x01000006"

abbreviation CASS_ERROR_LIB_REQUEST_QUEUE_FULL :: CassError where
  "CASS_ERROR_LIB_REQUEST_QUEUE_FULL \<equiv> 0x01000007"

abbreviation CASS_ERROR_LIB_NO_AVAILABLE_IO_THREAD :: CassError where
  "CASS_ERROR_LIB_NO_AVAILABLE_IO_THREAD \<equiv> 0x01000008"

abbreviation CASS_ERROR_LIB_WRITE_ERROR :: CassError where
  "CASS_ERROR_LIB_WRITE_ERROR \<equiv> 0x01000009"

abbreviation CASS_ERROR_LIB_NO_HOSTS_AVAILABLE :: CassError where
  "CASS_ERROR_LIB_NO_HOSTS_AVAILABLE \<equiv> 0x0100000A"

abbreviation CASS_ERROR_LIB_INDEX_OUT_OF_BOUNDS :: CassError where
  "CASS_ERROR_LIB_INDEX_OUT_OF_BOUNDS \<equiv> 0x0100000B"

abbreviation CASS_ERROR_LIB_INVALID_ITEM_COUNT :: CassError where
  "CASS_ERROR_LIB_INVALID_ITEM_COUNT \<equiv> 0x0100000C"

abbreviation CASS_ERROR_LIB_INVALID_VALUE_TYPE :: CassError where
  "CASS_ERROR_LIB_INVALID_VALUE_TYPE \<equiv> 0x0100000D"

abbreviation CASS_ERROR_LIB_REQUEST_TIMED_OUT :: CassError where
  "CASS_ERROR_LIB_REQUEST_TIMED_OUT \<equiv> 0x0100000E"

abbreviation CASS_ERROR_LIB_UNABLE_TO_SET_KEYSPACE :: CassError where
  "CASS_ERROR_LIB_UNABLE_TO_SET_KEYSPACE \<equiv> 0x0100000F"

abbreviation CASS_ERROR_LIB_CALLBACK_ALREADY_SET :: CassError where
  "CASS_ERROR_LIB_CALLBACK_ALREADY_SET \<equiv> 0x01000010"

abbreviation CASS_ERROR_LIB_INVALID_STATEMENT_TYPE :: CassError where
  "CASS_ERROR_LIB_INVALID_STATEMENT_TYPE \<equiv> 0x01000011"

abbreviation CASS_ERROR_LIB_NAME_DOES_NOT_EXIST :: CassError where
  "CASS_ERROR_LIB_NAME_DOES_NOT_EXIST \<equiv> 0x01000012"

abbreviation CASS_ERROR_LIB_UNABLE_TO_DETERMINE_PROTOCOL :: CassError where
  "CASS_ERROR_LIB_UNABLE_TO_DETERMINE_PROTOCOL \<equiv> 0x01000013"

abbreviation CASS_ERROR_LIB_NULL_VALUE :: CassError where
  "CASS_ERROR_LIB_NULL_VALUE \<equiv> 0x01000014"

abbreviation CASS_ERROR_LIB_NOT_IMPLEMENTED :: CassError where
  "CASS_ERROR_LIB_NOT_IMPLEMENTED \<equiv> 0x01000015"

abbreviation CASS_ERROR_LIB_UNABLE_TO_CONNECT :: CassError where
  "CASS_ERROR_LIB_UNABLE_TO_CONNECT \<equiv> 0x01000016"

abbreviation CASS_ERROR_LIB_UNABLE_TO_CLOSE :: CassError where
  "CASS_ERROR_LIB_UNABLE_TO_CLOSE \<equiv> 0x01000017"

abbreviation CASS_ERROR_LIB_NO_PAGING_STATE :: CassError where
  "CASS_ERROR_LIB_NO_PAGING_STATE \<equiv> 0x01000018"

abbreviation CASS_ERROR_LIB_PARAMETER_UNSET :: CassError where
  "CASS_ERROR_LIB_PARAMETER_UNSET \<equiv> 0x01000019"

abbreviation CASS_ERROR_LIB_INVALID_ERROR_RESULT_TYPE :: CassError where
  "CASS_ERROR_LIB_INVALID_ERROR_RESULT_TYPE \<equiv> 0x0100001A"

abbreviation CASS_ERROR_LIB_INVALID_FUTURE_TYPE :: CassError where
  "CASS_ERROR_LIB_INVALID_FUTURE_TYPE \<equiv> 0x0100001B"

abbreviation CASS_ERROR_LIB_INTERNAL_ERROR :: CassError where
  "CASS_ERROR_LIB_INTERNAL_ERROR \<equiv> 0x0100001C"

abbreviation CASS_ERROR_LIB_INVALID_CUSTOM_TYPE :: CassError where
  "CASS_ERROR_LIB_INVALID_CUSTOM_TYPE \<equiv> 0x0100001D"

abbreviation CASS_ERROR_LIB_INVALID_DATA :: CassError where
  "CASS_ERROR_LIB_INVALID_DATA \<equiv> 0x0100001E"

abbreviation CASS_ERROR_LIB_NOT_ENOUGH_DATA :: CassError where
  "CASS_ERROR_LIB_NOT_ENOUGH_DATA \<equiv> 0x0100001F"

abbreviation CASS_ERROR_LIB_INVALID_STATE :: CassError where
  "CASS_ERROR_LIB_INVALID_STATE \<equiv> 0x01000020"

abbreviation CASS_ERROR_LIB_NO_CUSTOM_PAYLOAD :: CassError where
  "CASS_ERROR_LIB_NO_CUSTOM_PAYLOAD \<equiv> 0x01000021"

abbreviation CASS_ERROR_LIB_EXECUTION_PROFILE_INVALID :: CassError where
  "CASS_ERROR_LIB_EXECUTION_PROFILE_INVALID \<equiv> 0x01000022"

abbreviation CASS_ERROR_LIB_NO_TRACING_ID :: CassError where
  "CASS_ERROR_LIB_NO_TRACING_ID \<equiv> 0x01000023"

abbreviation CASS_ERROR_SERVER_SERVER_ERROR :: CassError where
  "CASS_ERROR_SERVER_SERVER_ERROR \<equiv> 0x02000000"

abbreviation CASS_ERROR_SERVER_PROTOCOL_ERROR :: CassError where
  "CASS_ERROR_SERVER_PROTOCOL_ERROR \<equiv> 0x0200000A"

abbreviation CASS_ERROR_SERVER_BAD_CREDENTIALS :: CassError where
  "CASS_ERROR_SERVER_BAD_CREDENTIALS \<equiv> 0x02000100"

abbreviation CASS_ERROR_SERVER_UNAVAILABLE :: CassError where
  "CASS_ERROR_SERVER_UNAVAILABLE \<equiv> 0x02001000"

abbreviation CASS_ERROR_SERVER_OVERLOADED :: CassError where
  "CASS_ERROR_SERVER_OVERLOADED \<equiv> 0x02001001"

abbreviation CASS_ERROR_SERVER_IS_BOOTSTRAPPING :: CassError where
  "CASS_ERROR_SERVER_IS_BOOTSTRAPPING \<equiv> 0x02001002"

abbreviation CASS_ERROR_SERVER_TRUNCATE_ERROR :: CassError where
  "CASS_ERROR_SERVER_TRUNCATE_ERROR \<equiv> 0x02001003"

abbreviation CASS_ERROR_SERVER_WRITE_TIMEOUT :: CassError where
  "CASS_ERROR_SERVER_WRITE_TIMEOUT \<equiv> 0x02001100"

abbreviation CASS_ERROR_SERVER_READ_TIMEOUT :: CassError where
  "CASS_ERROR_SERVER_READ_TIMEOUT \<equiv> 0x02001200"

abbreviation CASS_ERROR_SERVER_READ_FAILURE :: CassError where
  "CASS_ERROR_SERVER_READ_FAILURE \<equiv> 0x02001300"

abbreviation CASS_ERROR_SERVER_FUNCTION_FAILURE :: CassError where
  "CASS_ERROR_SERVER_FUNCTION_FAILURE \<equiv> 0x02001400"

abbreviation CASS_ERROR_SERVER_WRITE_FAILURE :: CassError where
  "CASS_ERROR_SERVER_WRITE_FAILURE \<equiv> 0x02001500"

abbreviation CASS_ERROR_SERVER_SYNTAX_ERROR :: CassError where
  "CASS_ERROR_SERVER_SYNTAX_ERROR \<equiv> 0x02002000"

abbreviation CASS_ERROR_SERVER_UNAUTHORIZED :: CassError where
  "CASS_ERROR_SERVER_UNAUTHORIZED \<equiv> 0x02002100"

abbreviation CASS_ERROR_SERVER_INVALID_QUERY :: CassError where
  "CASS_ERROR_SERVER_INVALID_QUERY \<equiv> 0x02002200"

abbreviation CASS_ERROR_SERVER_CONFIG_ERROR :: CassError where
  "CASS_ERROR_SERVER_CONFIG_ERROR \<equiv> 0x02002300"

abbreviation CASS_ERROR_SERVER_ALREADY_EXISTS :: CassError where
  "CASS_ERROR_SERVER_ALREADY_EXISTS \<equiv> 0x02002400"

abbreviation CASS_ERROR_SERVER_UNPREPARED :: CassError where
  "CASS_ERROR_SERVER_UNPREPARED \<equiv> 0x02002500"

abbreviation CASS_ERROR_SSL_INVALID_CERT :: CassError where
  "CASS_ERROR_SSL_INVALID_CERT \<equiv> 0x03000001"

abbreviation CASS_ERROR_SSL_INVALID_PRIVATE_KEY :: CassError where
  "CASS_ERROR_SSL_INVALID_PRIVATE_KEY \<equiv> 0x03000002"

abbreviation CASS_ERROR_SSL_NO_PEER_CERT :: CassError where
  "CASS_ERROR_SSL_NO_PEER_CERT \<equiv> 0x03000003"

abbreviation CASS_ERROR_SSL_INVALID_PEER_CERT :: CassError where
  "CASS_ERROR_SSL_INVALID_PEER_CERT \<equiv> 0x03000004"

abbreviation CASS_ERROR_SSL_IDENTITY_MISMATCH :: CassError where
  "CASS_ERROR_SSL_IDENTITY_MISMATCH \<equiv> 0x03000005"

abbreviation CASS_ERROR_SSL_PROTOCOL_ERROR :: CassError where
  "CASS_ERROR_SSL_PROTOCOL_ERROR \<equiv> 0x03000006"

abbreviation CASS_ERROR_SSL_CLOSED :: CassError where
  "CASS_ERROR_SSL_CLOSED \<equiv> 0x03000007"

abbreviation CASS_ERROR_LAST_ENTRY :: CassError where
  "CASS_ERROR_LAST_ENTRY \<equiv> 0x03000008"

subsection \<open>Consistency levels, write types, collections and batches\<close>

abbreviation CASS_CONSISTENCY_UNKNOWN :: CassConsistency where
  "CASS_CONSISTENCY_UNKNOWN \<equiv> 0xFFFF"

abbreviation CASS_CONSISTENCY_ANY :: CassConsistency where
  "CASS_CONSISTENCY_ANY \<equiv> 0x0000"

abbreviation CASS_CONSISTENCY_ONE :: CassConsistency where
  "CASS_CONSISTENCY_ONE \<equiv> 0x0001"

abbreviation CASS_CONSISTENCY_TWO :: CassConsistency where
  "CASS_CONSISTENCY_TWO \<equiv> 0x0002"

abbreviation CASS_CONSISTENCY_THREE :: CassConsistency where
  "CASS_CONSISTENCY_THREE \<equiv> 0x0003"

abbreviation CASS_CONSISTENCY_QUORUM :: CassConsistency where
  "CASS_CONSISTENCY_QUORUM \<equiv> 0x0004"

abbreviation CASS_CONSISTENCY_ALL :: CassConsistency where
  "CASS_CONSISTENCY_ALL \<equiv> 0x0005"

abbreviation CASS_CONSISTENCY_LOCAL_QUORUM :: CassConsistency where
  "CASS_CONSISTENCY_LOCAL_QUORUM \<equiv> 0x0006"

abbreviation CASS_CONSISTENCY_EACH_QUORUM :: CassConsistency where
  "CASS_CONSISTENCY_EACH_QUORUM \<equiv> 0x0007"

abbreviation CASS_CONSISTENCY_SERIAL :: CassConsistency where
  "CASS_CONSISTENCY_SERIAL \<equiv> 0x0008"

abbreviation CASS_CONSISTENCY_LOCAL_SERIAL :: CassConsistency where
  "CASS_CONSISTENCY_LOCAL_SERIAL \<equiv> 0x0009"

abbreviation CASS_CONSISTENCY_LOCAL_ONE :: CassConsistency where
  "CASS_CONSISTENCY_LOCAL_ONE \<equiv> 0x000A"

abbreviation CASS_WRITE_TYPE_UNKNOWN :: CassWriteType where
  "CASS_WRITE_TYPE_UNKNOWN \<equiv> 0"

abbreviation CASS_WRITE_TYPE_SIMPLE :: CassWriteType where
  "CASS_WRITE_TYPE_SIMPLE \<equiv> 1"

abbreviation CASS_WRITE_TYPE_BATCH :: CassWriteType where
  "CASS_WRITE_TYPE_BATCH \<equiv> 2"

abbreviation CASS_WRITE_TYPE_UNLOGGED_BATCH :: CassWriteType where
  "CASS_WRITE_TYPE_UNLOGGED_BATCH \<equiv> 3"

abbreviation CASS_WRITE_TYPE_COUNTER :: CassWriteType where
  "CASS_WRITE_TYPE_COUNTER \<equiv> 4"

abbreviation CASS_WRITE_TYPE_BATCH_LOG :: CassWriteType where
  "CASS_WRITE_TYPE_BATCH_LOG \<equiv> 5"

abbreviation CASS_WRITE_TYPE_CAS :: CassWriteType where
  "CASS_WRITE_TYPE_CAS \<equiv> 6"

abbreviation CASS_WRITE_TYPE_VIEW :: CassWriteType where
  "CASS_WRITE_TYPE_VIEW \<equiv> 7"

abbreviation CASS_WRITE_TYPE_CDC :: CassWriteType where
  "CASS_WRITE_TYPE_CDC \<equiv> 8"

abbreviation CASS_COLLECTION_TYPE_LIST :: CassCollectionType where
  "CASS_COLLECTION_TYPE_LIST \<equiv> CASS_VALUE_TYPE_LIST"

abbreviation CASS_COLLECTION_TYPE_MAP :: CassCollectionType where
  "CASS_COLLECTION_TYPE_MAP \<equiv> CASS_VALUE_TYPE_MAP"

abbreviation CASS_COLLECTION_TYPE_SET :: CassCollectionType where
  "CASS_COLLECTION_TYPE_SET \<equiv> CASS_VALUE_TYPE_SET"

abbreviation CASS_BATCH_TYPE_LOGGED :: CassBatchType where
  "CASS_BATCH_TYPE_LOGGED \<equiv> 0"

abbreviation CASS_BATCH_TYPE_UNLOGGED :: CassBatchType where
  "CASS_BATCH_TYPE_UNLOGGED \<equiv> 1"

abbreviation CASS_BATCH_TYPE_COUNTER :: CassBatchType where
  "CASS_BATCH_TYPE_COUNTER \<equiv> 2"

subsection \<open>Name tables\<close>

definition CassConsistency_as_cstr :: "CassConsistency \<Rightarrow> string" where
  "CassConsistency_as_cstr c =
    (if c = CASS_CONSISTENCY_UNKNOWN then ''UNKNOWN''
     else if c = CASS_CONSISTENCY_ANY then ''ANY''
     else if c = CASS_CONSISTENCY_ONE then ''ONE''
     else if c = CASS_CONSISTENCY_TWO then ''TWO''
     else if c = CASS_CONSISTENCY_THREE then ''THREE''
     else if c = CASS_CONSISTENCY_QUORUM then ''QUORUM''
     else if c = CASS_CONSISTENCY_ALL then ''ALL''
     else if c = CASS_CONSISTENCY_LOCAL_QUORUM then ''LOCAL_QUORUM''
     else if c = CASS_CONSISTENCY_EACH_QUORUM then ''EACH_QUORUM''
     else if c = CASS_CONSISTENCY_SERIAL then ''SERIAL''
     else if c = CASS_CONSISTENCY_LOCAL_SERIAL then ''LOCAL_SERIAL''
     else if c = CASS_CONSISTENCY_LOCAL_ONE then ''LOCAL_ONE''
     else '''')"

definition CassWriteType_as_cstr :: "CassWriteType \<Rightarrow> string" where
  "CassWriteType_as_cstr w =
    (if w = CASS_WRITE_TYPE_SIMPLE then ''SIMPLE''
     else if w = CASS_WRITE_TYPE_BATCH then ''BATCH''
     else if w = CASS_WRITE_TYPE_UNLOGGED_BATCH then ''UNLOGGED_BATCH''
     else if w = CASS_WRITE_TYPE_COUNTER then ''COUNTER''
     else if w = CASS_WRITE_TYPE_BATCH_LOG then ''BATCH_LOG''
     else if w = CASS_WRITE_TYPE_CAS then ''CAS''
     else if w = CASS_WRITE_TYPE_VIEW then ''VIEW''
     else if w = CASS_WRITE_TYPE_CDC then ''CDC''
     else '''')"

definition cass_error_desc :: "CassError \<Rightarrow> string" where
  "cass_error_desc e =
    (if e = CASS_ERROR_LIB_BAD_PARAMS then ''Bad parameters''
     else if e = CASS_ERROR_LIB_NO_STREAMS then ''No streams available''
     else if e = CASS_ERROR_LIB_UNABLE_TO_INIT then ''Unable to initialize''
     else if e = CASS_ERROR_LIB_MESSAGE_ENCODE then ''Unable to encode message''
     else if e = CASS_ERROR_LIB_HOST_RESOLUTION then ''Unable to resolve host''
     else if e = CASS_ERROR_LIB_UNEXPECTED_RESPONSE then ''Unexpected response from server''
     else if e = CASS_ERROR_LIB_REQUEST_QUEUE_FULL then ''The request queue is full''
     else if e = CASS_ERROR_LIB_NO_AVAILABLE_IO_THREAD then ''No available IO threads''
     else if e = CASS_ERROR_LIB_WRITE_ERROR then ''Write error''
     else if e = CASS_ERROR_LIB_NO_HOSTS_AVAILABLE then ''No hosts available''
     else if e = CASS_ERROR_LIB_INDEX_OUT_OF_BOUNDS then ''Index out of bounds''
     else if e = CASS_ERROR_LIB_INVALID_ITEM_COUNT then ''Invalid item count''
     else if e = CASS_ERROR_LIB_INVALID_VALUE_TYPE then ''Invalid value type''
     else if e = CASS_ERROR_LIB_REQUEST_TIMED_OUT then ''Request timed out''
     else if e = CASS_ERROR_LIB_UNABLE_TO_SET_KEYSPACE then ''Unable to set keyspace''
     else if e = CASS_ERROR_LIB_CALLBACK_ALREADY_SET then ''Callback already set''
     else if e = CASS_ERROR_LIB_INVALID_STATEMENT_TYPE then ''Invalid statement type''
     else if e = CASS_ERROR_LIB_NAME_DOES_NOT_EXIST then ''No value or column for name''
     else if e = CASS_ERROR_LIB_UNABLE_TO_DETERMINE_PROTOCOL then ''Unable to find supported protocol version''
     else if e = CASS_ERROR_LIB_NULL_VALUE then ''NULL value specified''
     else if e = CASS_ERROR_LIB_NOT_IMPLEMENTED then ''Not implemented''
     else if e = CASS_ERROR_LIB_UNABLE_TO_CONNECT then ''Unable to connect''
     else if e = CASS_ERROR_LIB_UNABLE_TO_CLOSE then ''Unable to close''
     else if e = CASS_ERROR_LIB_NO_PAGING_STATE then ''No paging state''
     else if e = CASS_ERROR_LIB_PARAMETER_UNSET then ''Parameter unset''
     else if e = CASS_ERROR_LIB_INVALID_ERROR_RESULT_TYPE then ''Invalid error result type''
     else if e = CASS_ERROR_LIB_INVALID_FUTURE_TYPE then ''Invalid future type''
     else if e = CASS_ERROR_LIB_INTERNAL_ERROR then ''Internal error''
     else if e = CASS_ERROR_LIB_INVALID_CUSTOM_TYPE then ''Invalid custom type''
     else if e = CASS_ERROR_LIB_INVALID_DATA then ''Invalid data''
     else if e = CASS_ERROR_LIB_NOT_ENOUGH_DATA then ''Not enough data''
     else if e = CASS_ERROR_LIB_INVALID_STATE then ''Invalid state''
     else if e = CASS_ERROR_LIB_NO_CUSTOM_PAYLOAD then ''No custom payload''
     else if e = CASS_ERROR_LIB_EXECUTION_PROFILE_INVALID then ''Invalid execution profile specified''
     else if e = CASS_ERROR_LIB_NO_TRACING_ID then ''No tracing ID''
     else if e = CASS_ERROR_SERVER_SERVER_ERROR then ''Server error''
     else if e = CASS_ERROR_SERVER_PROTOCOL_ERROR then ''Protocol error''
     else if e = CASS_ERROR_SERVER_BAD_CREDENTIALS then ''Bad credentials''
     else if e = CASS_ERROR_SERVER_UNAVAILABLE then ''Unavailable''
     else if e = CASS_ERROR_SERVER_OVERLOADED then ''Overloaded''
     else if e = CASS_ERROR_SERVER_IS_BOOTSTRAPPING then ''Is bootstrapping''
     else if e = CASS_ERROR_SERVER_TRUNCATE_ERROR then ''Truncate error''
     else if e = CASS_ERROR_SERVER_WRITE_TIMEOUT then ''Write timeout''
     else if e = CASS_ERROR_SERVER_READ_TIMEOUT then ''Read timeout''
     else if e = CASS_ERROR_SERVER_READ_FAILURE then ''Read failure''
     else if e = CASS_ERROR_SERVER_FUNCTION_FAILURE then ''Function failure''
     else if e = CASS_ERROR_SERVER_WRITE_FAILURE then ''Write failure''
     else if e = CASS_ERROR_SERVER_SYNTAX_ERROR then ''Syntax error''
     else if e = CASS_ERROR_SERVER_UNAUTHORIZED then ''Unauthorized''
     else if e = CASS_ERROR_SERVER_INVALID_QUERY then ''Invalid query''
     else if e = CASS_ERROR_SERVER_CONFIG_ERROR then ''Configuration error''
     else if e = CASS_ERROR_SERVER_ALREADY_EXISTS then ''Already exists''
     else if e = CASS_ERROR_SERVER_UNPREPARED then ''Unprepared''
     else if e = CASS_ERROR_SSL_INVALID_CERT then ''Unable to load certificate''
     else if e = CASS_ERROR_SSL_INVALID_PRIVATE_KEY then ''Unable to load private key''
     else if e = CASS_ERROR_SSL_NO_PEER_CERT then ''No peer certificate''
     else if e = CASS_ERROR_SSL_INVALID_PEER_CERT then ''Invalid peer certificate''
     else if e = CASS_ERROR_SSL_IDENTITY_MISMATCH then ''Certificate does not match host or IP address''
     else if e = CASS_ERROR_SSL_PROTOCOL_ERROR then ''Protocol error''
     else if e = CASS_ERROR_SSL_CLOSED then ''Connection closed''
     else '''')"

text \<open>The table of error codes and messages that the public header publishes.\<close>

definition CASS_ERROR_MAPPING :: "(CassError \<times> string) list" where
  "CASS_ERROR_MAPPING =
    [(CASS_ERROR_LIB_BAD_PARAMS, ''Bad parameters''),
     (CASS_ERROR_LIB_NO_STREAMS, ''No streams available''),
     (CASS_ERROR_LIB_UNABLE_TO_INIT, ''Unable to initialize''),
     (CASS_ERROR_LIB_MESSAGE_ENCODE, ''Unable to encode message''),
     (CASS_ERROR_LIB_HOST_RESOLUTION, ''Unable to resolve host''),
     (CASS_ERROR_LIB_UNEXPECTED_RESPONSE, ''Unexpected response from server''),
     (CASS_ERROR_LIB_REQUEST_QUEUE_FULL, ''The request queue is full''),
     (CASS_ERROR_LIB_NO_AVAILABLE_IO_THREAD, ''No available IO threads''),
     (CASS_ERROR_LIB_WRITE_ERROR, ''Write error''),
     (CASS_ERROR_LIB_NO_HOSTS_AVAILABLE, ''No hosts available''),
     (CASS_ERROR_LIB_INDEX_OUT_OF_BOUNDS, ''Index out of bounds''),
     (CASS_ERROR_LIB_INVALID_ITEM_COUNT, ''Invalid item count''),
     (CASS_ERROR_LIB_INVALID_VALUE_TYPE, ''Invalid value type''),
     (CASS_ERROR_LIB_REQUEST_TIMED_OUT, ''Request timed out''),
     (CASS_ERROR_LIB_UNABLE_TO_SET_KEYSPACE, ''Unable to set keyspace''),
     (CASS_ERROR_LIB_CALLBACK_ALREADY_SET, ''Callback already set''),
     (CASS_ERROR_LIB_INVALID_STATEMENT_TYPE, ''Invalid statement type''),
     (CASS_ERROR_LIB_NAME_DOES_NOT_EXIST, ''No value or column for name''),
     (CASS_ERROR_LIB_UNABLE_TO_DETERMINE_PROTOCOL, ''Unable to find supported protocol version''),
     (CASS_ERROR_LIB_NULL_VALUE, ''NULL value specified''),
     (CASS_ERROR_LIB_NOT_IMPLEMENTED, ''Not implemented''),
     (CASS_ERROR_LIB_UNABLE_TO_CONNECT, ''Unable to connect''),
     (CASS_ERROR_LIB_UNABLE_TO_CLOSE, ''Unable to close''),
     (CASS_ERROR_LIB_NO_PAGING_STATE, ''No paging state''),
     (CASS_ERROR_LIB_PARAMETER_UNSET, ''Parameter unset''),
     (CASS_ERROR_LIB_INVALID_ERROR_RESULT_TYPE, ''Invalid error result type''),
     (CASS_ERROR_LIB_INVALID_FUTURE_TYPE, ''Invalid future type''),
     (CASS_ERROR_LIB_INTERNAL_ERROR, ''Internal error''),
     (CASS_ERROR_LIB_INVALID_CUSTOM_TYPE, ''Invalid custom type''),
     (CASS_ERROR_LIB_INVALID_DATA, ''Invalid data''),
     (CASS_ERROR_LIB_NOT_ENOUGH_DATA, ''Not enough data''),
     (CASS_ERROR_LIB_INVALID_STATE, ''Invalid state''),
     (CASS_ERROR_LIB_NO_CUSTOM_PAYLOAD, ''No custom payload''),
     (CASS_ERROR_LIB_EXECUTION_PROFILE_INVALID, ''Invalid execution profile specified''),
     (CASS_ERROR_LIB_NO_TRACING_ID, ''No tracing ID''),
     (CASS_ERROR_SERVER_SERVER_ERROR, ''Server error''),
     (CASS_ERROR_SERVER_PROTOCOL_ERROR, ''Protocol error''),
     (CASS_ERROR_SERVER_BAD_CREDENTIALS, ''Bad credentials''),
     (CASS_ERROR_SERVER_UNAVAILABLE, ''Unavailable''),
     (CASS_ERROR_SERVER_OVERLOADED, ''Overloaded''),
     (CASS_ERROR_SERVER_IS_BOOTSTRAPPING, ''Is bootstrapping''),
     (CASS_ERROR_SERVER_TRUNCATE_ERROR, ''Truncate error''),
     (CASS_ERROR_SERVER_WRITE_TIMEOUT, ''Write timeout''),
     (CASS_ERROR_SERVER_READ_TIMEOUT, ''Read timeout''),
     (CASS_ERROR_SERVER_READ_FAILURE, ''Read failure''),
     (CASS_ERROR_SERVER_FUNCTION_FAILURE, ''Function failure''),
     (CASS_ERROR_SERVER_WRITE_FAILURE, ''Write failure''),
     (CASS_ERROR_SERVER_SYNTAX_ERROR, ''Syntax error''),
     (CASS_ERROR_SERVER_UNAUTHORIZED, ''Unauthorized''),
     (CASS_ERROR_SERVER_INVALID_QUERY, ''Invalid query''),
     (CASS_ERROR_SERVER_CONFIG_ERROR, ''Configuration error''),
     (CASS_ERROR_SERVER_ALREADY_EXISTS, ''Already exists''),
     (CASS_ERROR_SERVER_UNPREPARED, ''Unprepared''),
     (CASS_ERROR_SSL_INVALID_CERT, ''Unable to load certificate''),
     (CASS_ERROR_SSL_INVALID_PRIVATE_KEY, ''Unable to load private key''),
     (CASS_ERROR_SSL_NO_PEER_CERT, ''No peer certificate''),
     (CASS_ERROR_SSL_INVALID_PEER_CERT, ''Invalid peer certificate''),
     (CASS_ERROR_SSL_IDENTITY_MISMATCH, ''Certificate does not match host or IP address''),
     (CASS_ERROR_SSL_PROTOCOL_ERROR, ''Protocol error''),
     (CASS_ERROR_SSL_CLOSED, ''Connection closed'')]"

text \<open>\<open>CASS_ERROR(source, code)\<close> of the header.\<close>

definition CASS_ERROR :: "CassErrorSource \<Rightarrow> u32 \<Rightarrow> CassError" where
  "CASS_ERROR source code = push_bit 24 source OR code"

subsection \<open>Consistency levels and write types of the Rust driver\<close>

datatype Consistency =
    Consistency_Any | Consistency_One | Consistency_Two | Consistency_Three
  | Consistency_Quorum | Consistency_All | Consistency_LocalQuorum | Consistency_EachQuorum
  | Consistency_LocalOne | Consistency_Serial | Consistency_LocalSerial

datatype SerialConsistency = SerialConsistency_Serial | SerialConsistency_LocalSerial

datatype WriteType =
    WriteType_Simple | WriteType_Batch | WriteType_UnloggedBatch | WriteType_Counter
  | WriteType_BatchLog | WriteType_Cas | WriteType_View | WriteType_Cdc
  | WriteType_Other string

fun CassConsistency_from :: "Consistency \<Rightarrow> CassConsistency" where
  "CassConsistency_from Consistency_Any = CASS_CONSISTENCY_ANY"
| "CassConsistency_from Consistency_One = CASS_CONSISTENCY_ONE"
| "CassConsistency_from Consistency_Two = CASS_CONSISTENCY_TWO"
| "CassConsistency_from Consistency_Three = CASS_CONSISTENCY_THREE"
| "CassConsistency_from Consistency_Quorum = CASS_CONSISTENCY_QUORUM"
| "CassConsistency_from Consistency_All = CASS_CONSISTENCY_ALL"
| "CassConsistency_from Consistency_LocalQuorum = CASS_CONSISTENCY_LOCAL_QUORUM"
| "CassConsistency_from Consistency_EachQuorum = CASS_CONSISTENCY_EACH_QUORUM"
| "CassConsistency_from Consistency_LocalOne = CASS_CONSISTENCY_LOCAL_ONE"
| "CassConsistency_from Consistency_Serial = CASS_CONSISTENCY_SERIAL"
| "CassConsistency_from Consistency_LocalSerial = CASS_CONSISTENCY_LOCAL_SERIAL"

fun CassWriteType_from :: "WriteType \<Rightarrow> CassWriteType" where
  "CassWriteType_from WriteType_Simple = CASS_WRITE_TYPE_SIMPLE"
| "CassWriteType_from WriteType_Batch = CASS_WRITE_TYPE_BATCH"
| "CassWriteType_from WriteType_UnloggedBatch = CASS_WRITE_TYPE_UNLOGGED_BATCH"
| "CassWriteType_from WriteType_Counter = CASS_WRITE_TYPE_COUNTER"
| "CassWriteType_from WriteType_BatchLog = CASS_WRITE_TYPE_BATCH_LOG"
| "CassWriteType_from WriteType_Cas = CASS_WRITE_TYPE_CAS"
| "CassWriteType_from WriteType_View = CASS_WRITE_TYPE_VIEW"
| "CassWriteType_from WriteType_Cdc = CASS_WRITE_TYPE_CDC"
| "CassWriteType_from (WriteType_Other s) = CASS_WRITE_TYPE_UNKNOWN"

lemma case_map_of_Cons:
  "(case map_of ((k, v) # xs) e of Some d \<Rightarrow> d | None \<Rightarrow> z) =
    (if e = k then v else (case map_of xs e of Some d \<Rightarrow> d | None \<Rightarrow> z))"
  by simp

lemma case_map_of_Nil: "(case map_of [] e of Some d \<Rightarrow> d | None \<Rightarrow> z) = z"
  by simp

text \<open>The Rust description table is the header's table, and empty for every other code.\<close>

lemma cass_error_desc_mapping:
  "cass_error_desc e = (case map_of CASS_ERROR_MAPPING e of Some d \<Rightarrow> d | None \<Rightarrow> [])"
  by (simp only: CASS_ERROR_MAPPING_def cass_error_desc_def case_map_of_Cons case_map_of_Nil)

lemma CassConsistency_from_inject [simp]:
  "CassConsistency_from c = CassConsistency_from d \<longleftrightarrow> c = d"
  by (cases c; cases d; simp)

end
