(* ===== verification/Cass_Arg_Conv.thy ===== *)
theory Cass_Arg_Conv
  imports Cass_Enums
begin

text \<open>
  The string side of \<open>argconv.rs\<close>: how a \<open>const char*\<close> of a C caller, null-terminated or with an
  explicit length, becomes a Rust string, and how a Rust string is copied into a fixed array.

  A pointer to characters is an optional \<^typ>\<open>string\<close>: the readable memory from the pointer on.
  The validation of \<open>std::str::from_utf8\<close> is \<open>utf8_valid\<close>; of the error only its variant is
  kept, since no caller looks at the position inside \<open>Utf8Error\<close>.
\<close>

datatype PtrToStrError = NullPointer | InvalidUtf8

type_synonym c_chars = "string c_ptr"

subsection \<open>UTF-8\<close>

abbreviation byte_of :: "char \<Rightarrow> nat" where
  "byte_of c \<equiv> of_char c"

abbreviation nul :: char where
  "nul \<equiv> CHR 0x00"

text \<open>A continuation byte of a multi-byte sequence.\<close>

definition utf8_cont :: "char \<Rightarrow> bool" where
  "utf8_cont c \<longleftrightarrow> 0x80 \<le> byte_of c \<and> byte_of c \<le> 0xBF"

text \<open>Which second bytes may follow the first byte of a three- or four-byte sequence.\<close>

definition utf8_second :: "nat \<Rightarrow> char \<Rightarrow> bool" where
  "utf8_second b c \<longleftrightarrow>
     (if b = 0xE0 then 0xA0 \<le> byte_of c \<and> byte_of c \<le> 0xBF
      else if b = 0xED then 0x80 \<le> byte_of c \<and> byte_of c \<le> 0x9F
      else if b = 0xF0 then 0x90 \<le> byte_of c \<and> byte_of c \<le> 0xBF
      else if b = 0xF4 then 0x80 \<le> byte_of c \<and> byte_of c \<le> 0x8F
      else utf8_cont c)"

text \<open>
  \<open>utf8_split\<close> takes the first encoded scalar value off a byte string: its bytes and the rest,
  or nothing when the string does not start with a well-formed sequence.
\<close>

definition utf8_split :: "string \<Rightarrow> (string \<times> string) option" where
  "utf8_split s =
     (case s of
        [] \<Rightarrow> None
      | c # cs \<Rightarrow>
         (let b = byte_of c in
          if b < 0x80 then Some ([c], cs)
          else if 0xC2 \<le> b \<and> b \<le> 0xDF then
            (case cs of c1 # r \<Rightarrow> if utf8_cont c1 then Some ([c, c1], r) else None
                      | _ \<Rightarrow> None)
          else if 0xE0 \<le> b \<and> b \<le> 0xEF then
            (case cs of c1 # c2 # r \<Rightarrow>
                          if utf8_second b c1 \<and> utf8_cont c2 then Some ([c, c1, c2], r) else None
                      | _ \<Rightarrow> None)
          else if 0xF0 \<le> b \<and> b \<le> 0xF4 then
            (case cs of c1 # c2 # c3 # r \<Rightarrow>
                          if utf8_second b c1 \<and> utf8_cont c2 \<and> utf8_cont c3
                          then Some ([c, c1, c2, c3], r) else None
                      | _ \<Rightarrow> None)
          else None))"

lemma utf8_split_SomeD:
  assumes "utf8_split s = Some (h, t)"
  shows "s = h @ t" "h \<noteq> []" "length h \<le> 4" "\<not> utf8_cont (hd h)" "list_all utf8_cont (tl h)"
  using assms
  by (auto simp: utf8_split_def Let_def utf8_cont_def utf8_second_def
      split: list.splits if_splits)

lemma utf8_split_append:
  "utf8_split s = Some (h, t) \<Longrightarrow> utf8_split (h @ t') = Some (h, t')"
  by (auto simp: utf8_split_def Let_def split: list.split_asm if_split_asm)

lemma utf8_split_shorter: "utf8_split s = Some (h, t) \<Longrightarrow> length t < length s"
  using utf8_split_SomeD(1,2) [of s h t] by (cases h) auto

function utf8_valid :: "string \<Rightarrow> bool" where
  "utf8_valid s =
     (if s = [] then True
      else (case utf8_split s of None \<Rightarrow> False | Some (h, t) \<Rightarrow> utf8_valid t))"
  by pat_completeness auto
termination
  by (relation "measure length") (auto simp: utf8_split_shorter)

declare utf8_valid.simps [simp del]

lemma utf8_valid_Nil [simp]: "utf8_valid []"
  by (simp add: utf8_valid.simps)

lemma utf8_valid_split: "utf8_split s = Some (h, t) \<Longrightarrow> utf8_valid s = utf8_valid t"
  using utf8_split_SomeD(1,2) by (subst utf8_valid.simps) fastforce

lemma utf8_valid_ascii: "list_all (\<lambda>c. byte_of c < 0x80) s \<Longrightarrow> utf8_valid s"
  by (induction s) (simp_all add: utf8_valid_split utf8_split_def Let_def)

subsection \<open>Pointers to strings\<close>

definition cstr_content :: "string \<Rightarrow> string" where
  "cstr_content mem = takeWhile (\<lambda>c. c \<noteq> nul) mem"

definition strlen :: "c_chars \<Rightarrow> nat" where
  "strlen p = (case p of None \<Rightarrow> 0 | Some mem \<Rightarrow> length (cstr_content mem))"

definition CassStrNulTerminated_to_str :: "c_chars \<Rightarrow> PtrToStrError + string" where
  "CassStrNulTerminated_to_str p =
     (case p of
        None \<Rightarrow> Inl NullPointer
      | Some mem \<Rightarrow>
          (let s = cstr_content mem in if utf8_valid s then Inr s else Inl InvalidUtf8))"

definition CassStrLenDelimited_to_str :: "c_chars \<Rightarrow> nat \<Rightarrow> PtrToStrError + string" where
  "CassStrLenDelimited_to_str p len =
     (case p of
        None \<Rightarrow> Inl NullPointer
      | Some mem \<Rightarrow>
          (let s = take len mem in if utf8_valid s then Inr s else Inl InvalidUtf8))"

definition as_len_delimited :: "c_chars \<Rightarrow> c_chars \<times> nat" where
  "as_len_delimited p =
     (case p of None \<Rightarrow> (None, 0) | Some mem \<Rightarrow> (Some mem, strlen (Some mem)))"

text \<open>\<open>write_str_to_c\<close> stores the address and the length of the string: the caller sees its bytes.\<close>

definition write_str_to_c :: "string \<Rightarrow> string \<times> nat" where
  "write_str_to_c s = (s, length s)"

subsection \<open>Copying into a fixed array\<close>

definition is_char_boundary :: "string \<Rightarrow> nat \<Rightarrow> bool" where
  "is_char_boundary s i \<longleftrightarrow>
     i = 0 \<or> i = length s \<or> (i < length s \<and> \<not> utf8_cont (s ! i))"

fun shrink_to_boundary :: "string \<Rightarrow> nat \<Rightarrow> nat" where
  "shrink_to_boundary s 0 = 0"
| "shrink_to_boundary s (Suc n) =
     (if is_char_boundary s (Suc n) then Suc n else shrink_to_boundary s n)"

text \<open>The array has \<open>N\<close> elements, and \<open>N\<close> is a positive constant at every use.\<close>

definition str_to_arr :: "nat \<Rightarrow> string \<Rightarrow> string" where
  "str_to_arr N s =
     (let max_len = shrink_to_boundary s (min (N - 1) (length s))
      in take max_len s @ replicate (N - max_len) nul)"

lemma takeWhile_length_take: "take (length (takeWhile P xs)) xs = takeWhile P xs"
  by (metis takeWhile_eq_take)

text \<open>Forwarding a null-terminated argument to its \<open>_n\<close> variant gives the same string.\<close>

lemma to_str_as_len_delimited:
  "case_prod CassStrLenDelimited_to_str (as_len_delimited p) = CassStrNulTerminated_to_str p"
  by (cases p)
    (simp_all add: as_len_delimited_def CassStrLenDelimited_to_str_def
      CassStrNulTerminated_to_str_def strlen_def cstr_content_def takeWhile_length_take)

lemma shrink_to_boundary_le: "shrink_to_boundary s n \<le> n"
  by (induction s n rule: shrink_to_boundary.induct) auto

lemma shrink_to_boundary_is_boundary: "is_char_boundary s (shrink_to_boundary s n)"
  by (induction s n rule: shrink_to_boundary.induct) (auto simp: is_char_boundary_def)

lemma length_str_to_arr: "length (str_to_arr N s) = N"
  using shrink_to_boundary_le [of s "min (N - 1) (length s)"]
  by (auto simp: str_to_arr_def Let_def min_def split: if_splits)

lemma is_char_boundary_split:
  assumes split: "utf8_split s = Some (h, t)" and b: "is_char_boundary s i" and "i \<noteq> 0"
  shows "length h \<le> i \<and> is_char_boundary t (i - length h)"
proof -
  note h = utf8_split_SomeD [OF split]
  have "length h \<le> i"
  proof (rule ccontr)
    assume "\<not> length h \<le> i"
    then have i: "i < length h" by simp
    with \<open>i \<noteq> 0\<close> have "s ! i = tl h ! (i - 1)"
      by (simp add: h(1) nth_append nth_tl)
    moreover have "i - 1 < length (tl h)"
      using i \<open>i \<noteq> 0\<close> by simp
    ultimately have "utf8_cont (s ! i)"
      using h(5) by (simp add: list_all_length)
    with b i \<open>i \<noteq> 0\<close> show False
      by (auto simp: is_char_boundary_def h(1))
  qed
  with b \<open>i \<noteq> 0\<close> show ?thesis
    by (auto simp: is_char_boundary_def h(1) nth_append)
qed

text \<open>Cutting a well-formed string at a character boundary gives a well-formed string.\<close>

lemma utf8_valid_take: "utf8_valid s \<Longrightarrow> is_char_boundary s i \<Longrightarrow> utf8_valid (take i s)"
proof (induction s arbitrary: i rule: utf8_valid.induct)
  case (1 s)
  show ?case
  proof (cases "s = [] \<or> i = 0")
    case True
    then show ?thesis by auto
  next
    case False
    with "1.prems"(1) obtain h t where split: "utf8_split s = Some (h, t)" and t: "utf8_valid t"
      by (subst (asm) utf8_valid.simps) (auto split: option.splits)
    have b: "length h \<le> i" "is_char_boundary t (i - length h)"
      using is_char_boundary_split [OF split "1.prems"(2)] False by auto
    have "utf8_valid (take (i - length h) t)"
      using "1.IH" [OF _ split refl t b(2)] False by blast
    moreover have "take i s = h @ take (i - length h) t"
      using b(1) utf8_split_SomeD(1) [OF split] by simp
    then have "utf8_split (take i s) = Some (h, take (i - length h) t)"
      using utf8_split_append [OF split] by simp
    ultimately show ?thesis
      by (simp add: utf8_valid_split)
  qed
qed

lemma shrink_to_boundary_max:
  "is_char_boundary s j \<Longrightarrow> j \<le> n \<Longrightarrow> j \<le> shrink_to_boundary s n"
  by (induction s n rule: shrink_to_boundary.induct) (auto simp: le_Suc_eq)

lemma utf8_valid_hd:
  assumes "utf8_valid s" shows "s = [] \<or> \<not> utf8_cont (hd s)"
proof (cases "utf8_split s")
  case None
  with assms show ?thesis by (simp add: utf8_valid.simps [of s] split: if_splits)
next
  case (Some p)
  obtain h t where "p = (h, t)" by (cases p)
  with Some have "utf8_split s = Some (h, t)" by simp
  from utf8_split_SomeD [OF this] show ?thesis by auto
qed

text \<open>No character is longer than four bytes, so a boundary is at most three bytes away.\<close>

lemma utf8_boundary_near:
  "utf8_valid s \<Longrightarrow> i \<le> length s \<Longrightarrow> \<exists>j. is_char_boundary s j \<and> j \<le> i \<and> i \<le> j + 3"
proof (induction s arbitrary: i rule: utf8_valid.induct)
  case (1 s)
  show ?case
  proof (cases "i \<le> 3")
    case True
    then show ?thesis by (auto simp: is_char_boundary_def intro: exI [of _ 0])
  next
    case False
    with "1.prems" have "s \<noteq> []" by auto
    with "1.prems"(1) obtain h t where split: "utf8_split s = Some (h, t)" and t: "utf8_valid t"
      by (subst (asm) utf8_valid.simps) (auto split: option.splits)
    note h = utf8_split_SomeD [OF split]
    have "i - length h \<le> length t" and "length h \<le> i"
      using "1.prems"(2) h(1,3) False by auto
    with "1.IH" [OF \<open>s \<noteq> []\<close> split refl t] obtain j where
      j: "is_char_boundary t j" "j \<le> i - length h" "i - length h \<le> j + 3" by blast
    have "is_char_boundary s (length h + j)"
    proof (cases "t = []")
      case True
      with j(1) show ?thesis by (auto simp: is_char_boundary_def h(1))
    next
      case False
      with utf8_valid_hd [OF t] have "\<not> utf8_cont (t ! 0)" by (simp add: hd_conv_nth)
      with j(1) False show ?thesis by (auto simp: is_char_boundary_def h(1) nth_append)
    qed
    with j(2,3) \<open>length h \<le> i\<close> show ?thesis
      by (intro exI [of _ "length h + j"]) auto
  qed
qed

lemma cstr_content_append_nul:
  "nul \<notin> set s \<Longrightarrow> cstr_content (s @ replicate (Suc n) nul) = s"
  by (simp add: cstr_content_def takeWhile_append)

lemma str_to_arr_content:
  assumes "0 < N" and "nul \<notin> set s"
  shows "cstr_content (str_to_arr N s) = take (shrink_to_boundary s (min (N - 1) (length s))) s"
proof -
  let ?m = "shrink_to_boundary s (min (N - 1) (length s))"
  have "?m \<le> N - 1"
    using shrink_to_boundary_le [of s "min (N - 1) (length s)"] by simp
  with assms(1) obtain k where k: "N - ?m = Suc k"
    by (cases "N - ?m") auto
  have "nul \<notin> set (take ?m s)"
    using assms(2) by (meson in_set_takeD)
  then show ?thesis
    unfolding str_to_arr_def Let_def k by (rule cstr_content_append_nul)
qed

text \<open>
  A string copied into an array of \<open>N\<close> characters is cut so that the array is
  null-terminated and what it holds is a well-formed UTF-8 prefix of the string; the whole string
  is kept when it fits, and otherwise at most three bytes less than fit are kept.
\<close>

lemma str_to_arr_keeps_whole_characters:
  assumes "0 < N" and "utf8_valid s" and "nul \<notin> set s"
  shows "length (str_to_arr N s) = N \<and>
    (\<exists>m. cstr_content (str_to_arr N s) = take m s \<and> utf8_valid (take m s) \<and> m < N \<and>
         (m = length s \<or> (N \<le> length s \<and> N \<le> m + 4)))"
proof -
  let ?n = "min (N - 1) (length s)"
  let ?m = "shrink_to_boundary s ?n"
  have content: "cstr_content (str_to_arr N s) = take ?m s"
    by (rule str_to_arr_content [OF assms(1,3)])
  have valid: "utf8_valid (take ?m s)"
    by (rule utf8_valid_take [OF assms(2) shrink_to_boundary_is_boundary])
  have le: "?m \<le> ?n"
    by (rule shrink_to_boundary_le)
  obtain j where j: "is_char_boundary s j" "j \<le> ?n" "?n \<le> j + 3"
    using utf8_boundary_near [OF assms(2), of ?n] by auto
  have near: "?n \<le> ?m + 3"
    using j shrink_to_boundary_max [OF j(1,2)] by simp
  have whole: "?m = length s" if "length s \<le> N - 1"
    using that shrink_to_boundary_max [of s "length s" ?n] le
    by (simp add: is_char_boundary_def)
  have "?m = length s \<or> (N \<le> length s \<and> N \<le> ?m + 4)"
    using whole near assms(1) by (cases "length s \<le> N - 1") auto
  with content valid le assms(1) length_str_to_arr [of N s] show ?thesis
    by (intro conjI exI [of _ ?m]) auto
qed

end
