(* ===== verification/Cass_Data_Type.thy ===== *)
theory Cass_Data_Type
  imports Cass_Arg_Conv
begin

text \<open>
  \<open>cql_types/data_type.rs\<close>: the data types of CQL values, the comparison used by every type check,
  the conversion from the column types of the Rust driver, and the C functions that build and
  inspect data types.

  A data type is modelled as the tree that is reachable from its \<open>Arc<CassDataType>\<close> when the
  function is called; a function that mutates it returns the new tree.  What sharing of sub-trees
  adds to this is the subject of \<open>Cass_Type_Heap\<close>.  \<open>NativeType\<close> and
  \<open>ColumnType\<close> are enumerations of the Rust driver that the source matches on; both are declared
  \<open>non_exhaustive\<close> there, and \<open>NT_Other\<close> and \<open>CT_Other\<close> stand for the variants the source
  does not know.
\<close>

subsection \<open>Data types\<close>

datatype CassDataType =
    DT_Value CassValueType
  | DT_Udt UdtDataType
  | DT_List "CassDataType option" bool
  | DT_Set "CassDataType option" bool
  | DT_Map MapDataType bool
  | DT_Tuple "CassDataType list"
  | DT_Vector CassDataType u16
  | DT_Custom string
and UdtDataType =
  UdtDataType (field_types: "(string \<times> CassDataType) list") (udt_keyspace: string)
    (udt_name: string) (udt_frozen: bool)
and MapDataType =
    MT_Untyped
  | MT_Key CassDataType
  | MT_KeyAndValue CassDataType CassDataType

datatype NativeType =
    NT_Ascii | NT_Boolean | NT_Blob | NT_Counter | NT_Date | NT_Decimal | NT_Double
  | NT_Duration | NT_Float | NT_Int | NT_BigInt | NT_Text | NT_Timestamp | NT_Inet
  | NT_SmallInt | NT_TinyInt | NT_Time | NT_Timeuuid | NT_Uuid | NT_Varint
  | NT_Other

datatype ColumnType =
    CT_Native NativeType
  | CT_List ColumnType bool
  | CT_Map ColumnType ColumnType bool
  | CT_Set ColumnType bool
  | CT_UserDefinedType "(string \<times> ColumnType) list" string string bool
  | CT_Tuple "ColumnType list"
  | CT_Vector ColumnType u16
  | CT_Other

definition UdtDataType_new :: UdtDataType where
  "UdtDataType_new = UdtDataType [] [] [] False"

text \<open>Capacity is an allocation hint: the vector is empty either way.\<close>

definition UdtDataType_with_capacity :: "nat \<Rightarrow> UdtDataType" where
  "UdtDataType_with_capacity capacity = UdtDataType [] [] [] False"

definition get_field_by_name :: "UdtDataType \<Rightarrow> string \<Rightarrow> CassDataType option" where
  "get_field_by_name u name =
     map_option snd (find (\<lambda>(field_name, _). field_name = name) (field_types u))"

subsection \<open>Comparing types\<close>

definition any_string_empty_or_both_equal :: "string \<Rightarrow> string \<Rightarrow> bool" where
  "any_string_empty_or_both_equal s1 s2 \<longleftrightarrow> s1 = [] \<or> s2 = [] \<or> s1 = s2"

definition value_types_equal :: "CassValueType \<Rightarrow> CassValueType \<Rightarrow> bool" where
  "value_types_equal t1 t2 \<longleftrightarrow>
     (if (t1 = CASS_VALUE_TYPE_TEXT \<and> t2 = CASS_VALUE_TYPE_VARCHAR) \<or>
         (t1 = CASS_VALUE_TYPE_VARCHAR \<and> t2 = CASS_VALUE_TYPE_TEXT)
      then True else t1 = t2)"

fun get_value_type :: "CassDataType \<Rightarrow> CassValueType" where
  "get_value_type (DT_Value value_data_type) = value_data_type"
| "get_value_type (DT_Udt _) = CASS_VALUE_TYPE_UDT"
| "get_value_type (DT_List _ _) = CASS_VALUE_TYPE_LIST"
| "get_value_type (DT_Set _ _) = CASS_VALUE_TYPE_SET"
| "get_value_type (DT_Map _ _) = CASS_VALUE_TYPE_MAP"
| "get_value_type (DT_Tuple _) = CASS_VALUE_TYPE_TUPLE"
| "get_value_type (DT_Vector _ _) = CASS_VALUE_TYPE_VECTOR"
| "get_value_type (DT_Custom _) = CASS_VALUE_TYPE_CUSTOM"

fun is_fully_typed :: "CassDataType \<Rightarrow> bool" where
  "is_fully_typed (DT_Value _) = True"
| "is_fully_typed (DT_Custom _) = False"
| "is_fully_typed (DT_List typ _) = (case typ of None \<Rightarrow> False | Some t \<Rightarrow> is_fully_typed t)"
| "is_fully_typed (DT_Set typ _) = (case typ of None \<Rightarrow> False | Some t \<Rightarrow> is_fully_typed t)"
| "is_fully_typed (DT_Map MT_Untyped _) = False"
| "is_fully_typed (DT_Map (MT_Key _) _) = False"
| "is_fully_typed (DT_Map (MT_KeyAndValue k v) _) = (is_fully_typed k \<and> is_fully_typed v)"
| "is_fully_typed (DT_Tuple subtypes) =
     (subtypes \<noteq> [] \<and> list_all is_fully_typed subtypes)"
| "is_fully_typed (DT_Udt (UdtDataType fields _ _ _)) =
     (fields \<noteq> [] \<and> list_all (\<lambda>(_, typ). is_fully_typed typ) fields)"
| "is_fully_typed (DT_Vector typ _) = is_fully_typed typ"

lemma size_field_type [termination_simp]:
  "f \<in> set fs \<Longrightarrow> size (snd f) < Suc (size_list (size_prod (\<lambda>x. 0) size) fs)"
  by (induction fs) auto

lemma size_in_zip_left [termination_simp]:
  "(x, y) \<in> set (zip xs ys) \<Longrightarrow> size x < Suc (size_list size xs)"
  using set_zip_leftD size_list_estimation' [of x xs "size x" size] by fastforce

text \<open>
  \<open>typecheck_equals\<close> with its iterations over tuple elements and over the common prefix of two lists
  of UDT fields.  Comparing \<^emph>\<open>from\<close> a custom type is \<open>unimplemented!\<close>, a panic.
\<close>

function (sequential) typecheck_equals :: "CassDataType \<Rightarrow> CassDataType \<Rightarrow> bool panics"
and UdtDataType_typecheck_equals :: "UdtDataType \<Rightarrow> UdtDataType \<Rightarrow> bool panics" where
  "typecheck_equals (DT_Value t) other = Some (value_types_equal t (get_value_type other))"
| "typecheck_equals (DT_Udt udt) other =
     (case other of DT_Udt other_udt \<Rightarrow> UdtDataType_typecheck_equals udt other_udt
                  | _ \<Rightarrow> Some False)"
| "typecheck_equals (DT_List typ fr) other =
     (case other of
        DT_List other_typ _ \<Rightarrow>
          (case (typ, other_typ) of (Some t, Some other_t) \<Rightarrow> typecheck_equals t other_t
                                  | _ \<Rightarrow> Some True)
      | _ \<Rightarrow> Some False)"
| "typecheck_equals (DT_Set typ fr) other =
     (case other of
        DT_Set other_typ _ \<Rightarrow>
          (case (typ, other_typ) of (Some t, Some other_t) \<Rightarrow> typecheck_equals t other_t
                                  | _ \<Rightarrow> Some True)
      | _ \<Rightarrow> Some False)"
| "typecheck_equals (DT_Map t fr) other =
     (case other of
        DT_Map t_other _ \<Rightarrow>
          (case (t, t_other) of
             (MT_Untyped, _) \<Rightarrow> Some True
           | (_, MT_Untyped) \<Rightarrow> Some True
           | (MT_Key k, MT_Key k_other) \<Rightarrow> typecheck_equals k k_other
           | (MT_KeyAndValue k v, MT_KeyAndValue k_other v_other) \<Rightarrow>
               and_p (typecheck_equals k k_other) (typecheck_equals v v_other)
           | _ \<Rightarrow> Some False)
      | _ \<Rightarrow> Some False)"
| "typecheck_equals (DT_Tuple sub) other =
     (case other of
        DT_Tuple other_sub \<Rightarrow>
          (if sub = [] \<or> other_sub = [] then Some True
           else if length sub \<noteq> length other_sub then Some False
           else all_p (\<lambda>(typ, other_typ). typecheck_equals typ other_typ) (zip sub other_sub))
      | _ \<Rightarrow> Some False)"
| "typecheck_equals (DT_Vector typ dims) other =
     (case other of
        DT_Vector other_typ other_dims \<Rightarrow>
          (if dims = other_dims then typecheck_equals typ other_typ else Some False)
      | _ \<Rightarrow> Some False)"
| "typecheck_equals (DT_Custom _) other = None"
| "UdtDataType_typecheck_equals (UdtDataType fs ks n fr) other =
     (if \<not> any_string_empty_or_both_equal ks (udt_keyspace other) then Some False
      else if \<not> any_string_empty_or_both_equal n (udt_name other) then Some False
      else all_p (\<lambda>(field, other_field).
                    if fst field \<noteq> fst other_field then Some False
                    else typecheck_equals (snd field) (snd other_field))
                 (zip fs (field_types other)))"
  by pat_completeness auto

termination
  by (relation "measure (case_sum (size \<circ> fst) (size \<circ> fst))")
    (auto simp: termination_simp dest: set_zip_leftD)

subsection \<open>Native types\<close>

fun CassValueType_from :: "NativeType \<Rightarrow> CassValueType" where
  "CassValueType_from NT_Ascii = CASS_VALUE_TYPE_ASCII"
| "CassValueType_from NT_Boolean = CASS_VALUE_TYPE_BOOLEAN"
| "CassValueType_from NT_Blob = CASS_VALUE_TYPE_BLOB"
| "CassValueType_from NT_Counter = CASS_VALUE_TYPE_COUNTER"
| "CassValueType_from NT_Date = CASS_VALUE_TYPE_DATE"
| "CassValueType_from NT_Decimal = CASS_VALUE_TYPE_DECIMAL"
| "CassValueType_from NT_Double = CASS_VALUE_TYPE_DOUBLE"
| "CassValueType_from NT_Duration = CASS_VALUE_TYPE_DURATION"
| "CassValueType_from NT_Float = CASS_VALUE_TYPE_FLOAT"
| "CassValueType_from NT_Int = CASS_VALUE_TYPE_INT"
| "CassValueType_from NT_BigInt = CASS_VALUE_TYPE_BIGINT"
| "CassValueType_from NT_Text = CASS_VALUE_TYPE_VARCHAR"
| "CassValueType_from NT_Timestamp = CASS_VALUE_TYPE_TIMESTAMP"
| "CassValueType_from NT_Inet = CASS_VALUE_TYPE_INET"
| "CassValueType_from NT_SmallInt = CASS_VALUE_TYPE_SMALL_INT"
| "CassValueType_from NT_TinyInt = CASS_VALUE_TYPE_TINY_INT"
| "CassValueType_from NT_Time = CASS_VALUE_TYPE_TIME"
| "CassValueType_from NT_Timeuuid = CASS_VALUE_TYPE_TIMEUUID"
| "CassValueType_from NT_Uuid = CASS_VALUE_TYPE_UUID"
| "CassValueType_from NT_Varint = CASS_VALUE_TYPE_VARINT"
| "CassValueType_from NT_Other = CASS_VALUE_TYPE_UNKNOWN"

definition NativeType_try_from :: "CassValueType \<Rightarrow> unit + NativeType" where
  "NativeType_try_from v =
     (if v = CASS_VALUE_TYPE_ASCII then Inr NT_Ascii
      else if v = CASS_VALUE_TYPE_BIGINT then Inr NT_BigInt
      else if v = CASS_VALUE_TYPE_BLOB then Inr NT_Blob
      else if v = CASS_VALUE_TYPE_BOOLEAN then Inr NT_Boolean
      else if v = CASS_VALUE_TYPE_COUNTER then Inr NT_Counter
      else if v = CASS_VALUE_TYPE_DECIMAL then Inr NT_Decimal
      else if v = CASS_VALUE_TYPE_DOUBLE then Inr NT_Double
      else if v = CASS_VALUE_TYPE_DURATION then Inr NT_Duration
      else if v = CASS_VALUE_TYPE_FLOAT then Inr NT_Float
      else if v = CASS_VALUE_TYPE_INT then Inr NT_Int
      else if v = CASS_VALUE_TYPE_TEXT \<or> v = CASS_VALUE_TYPE_VARCHAR then Inr NT_Text
      else if v = CASS_VALUE_TYPE_TIMESTAMP then Inr NT_Timestamp
      else if v = CASS_VALUE_TYPE_UUID then Inr NT_Uuid
      else if v = CASS_VALUE_TYPE_VARINT then Inr NT_Varint
      else if v = CASS_VALUE_TYPE_TIMEUUID then Inr NT_Timeuuid
      else if v = CASS_VALUE_TYPE_INET then Inr NT_Inet
      else if v = CASS_VALUE_TYPE_DATE then Inr NT_Date
      else if v = CASS_VALUE_TYPE_TIME then Inr NT_Time
      else if v = CASS_VALUE_TYPE_SMALL_INT then Inr NT_SmallInt
      else if v = CASS_VALUE_TYPE_TINY_INT then Inr NT_TinyInt
      else Inl ())"

subsection \<open>Sub-types\<close>

fun get_sub_data_type :: "CassDataType \<Rightarrow> nat \<Rightarrow> CassDataType option" where
  "get_sub_data_type (DT_Udt u) index = map_option snd (list_get (field_types u) index)"
| "get_sub_data_type (DT_List typ _) index = (if index > 0 then None else typ)"
| "get_sub_data_type (DT_Set typ _) index = (if index > 0 then None else typ)"
| "get_sub_data_type (DT_Map MT_Untyped _) index = None"
| "get_sub_data_type (DT_Map (MT_Key k) _) index = (if index = 0 then Some k else None)"
| "get_sub_data_type (DT_Map (MT_KeyAndValue k v) _) index =
     (if index = 0 then Some k else if index = 1 then Some v else None)"
| "get_sub_data_type (DT_Tuple v) index = list_get v index"
| "get_sub_data_type (DT_Vector typ _) index = (if index = 0 then Some typ else None)"
| "get_sub_data_type _ index = None"

fun add_sub_data_type :: "CassDataType \<Rightarrow> CassDataType \<Rightarrow> CassError + CassDataType" where
  "add_sub_data_type (DT_List typ fr) sub_type =
     (case typ of Some _ \<Rightarrow> Inl CASS_ERROR_LIB_BAD_PARAMS
                | None \<Rightarrow> Inr (DT_List (Some sub_type) fr))"
| "add_sub_data_type (DT_Set typ fr) sub_type =
     (case typ of Some _ \<Rightarrow> Inl CASS_ERROR_LIB_BAD_PARAMS
                | None \<Rightarrow> Inr (DT_Set (Some sub_type) fr))"
| "add_sub_data_type (DT_Map (MT_KeyAndValue _ _) fr) sub_type = Inl CASS_ERROR_LIB_BAD_PARAMS"
| "add_sub_data_type (DT_Map (MT_Key k) fr) sub_type =
     Inr (DT_Map (MT_KeyAndValue k sub_type) fr)"
| "add_sub_data_type (DT_Map MT_Untyped fr) sub_type = Inr (DT_Map (MT_Key sub_type) fr)"
| "add_sub_data_type (DT_Tuple types) sub_type = Inr (DT_Tuple (types @ [sub_type]))"
| "add_sub_data_type _ sub_type = Inl CASS_ERROR_LIB_INVALID_VALUE_TYPE"

text \<open>\<open>get_udt_type\<close> panics on every data type but a UDT.\<close>

fun get_udt_type :: "CassDataType \<Rightarrow> UdtDataType panics" where
  "get_udt_type (DT_Udt udt) = Some udt"
| "get_udt_type _ = None"

text \<open>
  \<open>NativeType::type_size_for_vector\<close> belongs to the Rust driver: the width, if it is fixed, of a
  native type inside a vector.
\<close>

fun uses_variable_length_encoding_in_vector ::
    "(NativeType \<Rightarrow> nat option) \<Rightarrow> CassDataType \<Rightarrow> bool" where
  "uses_variable_length_encoding_in_vector type_size_for_vector (DT_Value value_type) =
     (\<not> (case NativeType_try_from value_type of
            Inr native_type \<Rightarrow> type_size_for_vector native_type \<noteq> None
          | Inl _ \<Rightarrow> False))"
| "uses_variable_length_encoding_in_vector type_size_for_vector (DT_Vector typ _) =
     uses_variable_length_encoding_in_vector type_size_for_vector typ"
| "uses_variable_length_encoding_in_vector type_size_for_vector _ = True"

fun get_column_type :: "ColumnType \<Rightarrow> CassDataType" where
  "get_column_type (CT_Native native) = DT_Value (CassValueType_from native)"
| "get_column_type (CT_List t fr) = DT_List (Some (get_column_type t)) fr"
| "get_column_type (CT_Map k v fr) =
     DT_Map (MT_KeyAndValue (get_column_type k) (get_column_type v)) fr"
| "get_column_type (CT_Set t fr) = DT_Set (Some (get_column_type t)) fr"
| "get_column_type (CT_UserDefinedType fields ks n fr) =
     DT_Udt (UdtDataType (map (\<lambda>(name, t). (name, get_column_type t)) fields) ks n fr)"
| "get_column_type (CT_Tuple v) = DT_Tuple (map get_column_type v)"
| "get_column_type (CT_Vector t dims) = DT_Vector (get_column_type t) dims"
| "get_column_type CT_Other = DT_Value CASS_VALUE_TYPE_UNKNOWN"

subsection \<open>Laws of the comparison\<close>

text \<open>
  The three predicates the laws are about: no custom type inside (so the comparison cannot reach
  the panic), only scalar types as \<open>Value\<close> (as \<open>cass_data_type_new\<close> and
  \<open>get_column_type\<close> build them), and no wildcard or user defined type inside.
\<close>

definition scalar_value_type :: "CassValueType \<Rightarrow> bool" where
  "scalar_value_type v \<longleftrightarrow>
     v \<noteq> CASS_VALUE_TYPE_UDT \<and> v \<noteq> CASS_VALUE_TYPE_LIST \<and> v \<noteq> CASS_VALUE_TYPE_SET \<and>
     v \<noteq> CASS_VALUE_TYPE_MAP \<and> v \<noteq> CASS_VALUE_TYPE_TUPLE \<and> v \<noteq> CASS_VALUE_TYPE_VECTOR \<and>
     v \<noteq> CASS_VALUE_TYPE_CUSTOM"

fun custom_free :: "CassDataType \<Rightarrow> bool" where
  "custom_free (DT_Value _) = True"
| "custom_free (DT_Custom _) = False"
| "custom_free (DT_List typ _) = (case typ of None \<Rightarrow> True | Some t \<Rightarrow> custom_free t)"
| "custom_free (DT_Set typ _) = (case typ of None \<Rightarrow> True | Some t \<Rightarrow> custom_free t)"
| "custom_free (DT_Map MT_Untyped _) = True"
| "custom_free (DT_Map (MT_Key k) _) = custom_free k"
| "custom_free (DT_Map (MT_KeyAndValue k v) _) = (custom_free k \<and> custom_free v)"
| "custom_free (DT_Tuple ts) = list_all custom_free ts"
| "custom_free (DT_Udt (UdtDataType fs _ _ _)) = list_all (\<lambda>f. custom_free (snd f)) fs"
| "custom_free (DT_Vector t _) = custom_free t"

fun exact_type :: "CassDataType \<Rightarrow> bool" where
  "exact_type (DT_Value v) = scalar_value_type v"
| "exact_type (DT_List (Some t) _) = exact_type t"
| "exact_type (DT_Set (Some t) _) = exact_type t"
| "exact_type (DT_Map (MT_KeyAndValue k v) _) = (exact_type k \<and> exact_type v)"
| "exact_type (DT_Tuple ts) = (ts \<noteq> [] \<and> list_all exact_type ts)"
| "exact_type (DT_Vector t _) = exact_type t"
| "exact_type _ = False"

text \<open>The normal form the comparison cannot distinguish: \<open>text\<close> is \<open>varchar\<close>, nothing is frozen.\<close>

fun typecheck_form :: "CassDataType \<Rightarrow> CassDataType" where
  "typecheck_form (DT_Value v) =
     DT_Value (if v = CASS_VALUE_TYPE_TEXT then CASS_VALUE_TYPE_VARCHAR else v)"
| "typecheck_form (DT_List t _) = DT_List (map_option typecheck_form t) False"
| "typecheck_form (DT_Set t _) = DT_Set (map_option typecheck_form t) False"
| "typecheck_form (DT_Map (MT_KeyAndValue k v) _) =
     DT_Map (MT_KeyAndValue (typecheck_form k) (typecheck_form v)) False"
| "typecheck_form (DT_Map m _) = DT_Map m False"
| "typecheck_form (DT_Tuple ts) = DT_Tuple (map typecheck_form ts)"
| "typecheck_form (DT_Vector t d) = DT_Vector (typecheck_form t) d"
| "typecheck_form dt = dt"

lemma any_string_refl [simp]: "any_string_empty_or_both_equal s s"
  by (simp add: any_string_empty_or_both_equal_def)

lemma value_types_refl [simp]: "value_types_equal t t"
  by (simp add: value_types_equal_def)

lemma size_tuple_elem: "t \<in> set ts \<Longrightarrow> size t < size (DT_Tuple ts)"
  using size_list_estimation' [of t ts "size t" size] by auto

lemma size_udt_elem: "f \<in> set fs \<Longrightarrow> size (snd f) < size (DT_Udt (UdtDataType fs ks n fr))"
  using size_field_type [of f fs] by simp

lemma zip_same_elem: "p \<in> set (zip xs (xs @ ys)) \<Longrightarrow> fst p \<in> set xs \<and> snd p = fst p"
  by (induction xs) auto

lemma zip_same_elem_left: "p \<in> set (zip (xs @ ys) xs) \<Longrightarrow> fst p \<in> set xs \<and> snd p = fst p"
  by (induction xs) auto

lemma typecheck_equals_refl: "custom_free a \<Longrightarrow> typecheck_equals a a = Some True"
proof (induction a rule: measure_induct_rule [of size])
  case (less a)
  show ?case
  proof (cases a)
    case (DT_Udt u)
    obtain fs ks n fr where u: "u = UdtDataType fs ks n fr" by (cases u)
    have "\<And>f. f \<in> set fs \<Longrightarrow> typecheck_equals (snd f) (snd f) = Some True"
      using less DT_Udt u size_field_type [of _ fs] by (auto simp: list_all_iff less_Suc_eq)
    then show ?thesis
      using DT_Udt u zip_same_elem [of _ fs "[]"] by (fastforce simp: all_p_Some_True)
  next
    case (DT_Tuple ts)
    have "\<And>t. t \<in> set ts \<Longrightarrow> typecheck_equals t t = Some True"
      using less DT_Tuple size_tuple_elem by (auto simp: list_all_iff)
    then show ?thesis
      using DT_Tuple zip_same_elem [of _ ts "[]"] by (fastforce simp: all_p_Some_True)
  next
    case (DT_Map m fr)
    then show ?thesis using less by (cases m) auto
  qed (use less in \<open>auto split: option.splits\<close>)
qed

lemma typecheck_equals_total: "custom_free a \<Longrightarrow> typecheck_equals a b \<noteq> None"
proof (induction a arbitrary: b rule: measure_induct_rule [of size])
  case (less a)
  show ?case
  proof (cases a)
    case (DT_Udt u)
    obtain fs ks n fr where u: "u = UdtDataType fs ks n fr" by (cases u)
    have "typecheck_equals (snd f) g \<noteq> None" if "f \<in> set fs" for f g
      using that less.prems DT_Udt u size_udt_elem
      by (intro less.IH) (auto simp: list_all_iff simp del: CassDataType.size UdtDataType.size)
    then have "all_p (\<lambda>(f, g). if fst f \<noteq> fst g then Some False else typecheck_equals (snd f) (snd g))
        (zip fs gs) \<noteq> None" for gs
      by (intro all_p_not_None) (auto dest!: set_zip_leftD)
    then show ?thesis using DT_Udt u by (cases b) auto
  next
    case (DT_Tuple ts)
    have "\<And>t g. t \<in> set ts \<Longrightarrow> typecheck_equals t g \<noteq> None"
      using less DT_Tuple size_tuple_elem by (auto simp: list_all_iff)
    then have "all_p (\<lambda>(t, g). typecheck_equals t g) (zip ts gs) \<noteq> None" for gs
      by (intro all_p_not_None) (auto dest!: set_zip_leftD)
    then show ?thesis using DT_Tuple by (cases b) auto
  next
    case (DT_Map m fr)
    show ?thesis
      using less DT_Map and_p_not_None
      by (cases m; cases b) (auto split: MapDataType.splits)
  qed (use less in \<open>cases b; auto split: option.splits\<close>)+
qed

lemma value_types_equal_form:
  "value_types_equal v w \<longleftrightarrow> typecheck_form (DT_Value v) = typecheck_form (DT_Value w)"
  by (auto simp: value_types_equal_def)

lemma scalar_mismatch:
  assumes "scalar_value_type v" and "\<And>w. b \<noteq> DT_Value w"
  shows "\<not> value_types_equal v (get_value_type b)"
  using assms by (cases b) (auto simp: scalar_value_type_def value_types_equal_def)

lemma exact_type_cases:
  assumes "exact_type a"
  obtains v where "a = DT_Value v" "scalar_value_type v"
  | t fr where "a = DT_List (Some t) fr" "exact_type t"
  | t fr where "a = DT_Set (Some t) fr" "exact_type t"
  | k v fr where "a = DT_Map (MT_KeyAndValue k v) fr" "exact_type k" "exact_type v"
  | ts where "a = DT_Tuple ts" "ts \<noteq> []" "\<And>t. t \<in> set ts \<Longrightarrow> exact_type t"
  | t d where "a = DT_Vector t d" "exact_type t"
  using assms by (cases a rule: exact_type.cases) (auto simp: list_all_iff)

lemma all_p_zip_forms:
  assumes "length ts = length us"
    and "\<And>t u. t \<in> set ts \<Longrightarrow> u \<in> set us \<Longrightarrow>
           typecheck_equals t u = Some (typecheck_form t = typecheck_form u)"
  shows "all_p (\<lambda>(t, u). typecheck_equals t u) (zip ts us) =
         Some (map typecheck_form ts = map typecheck_form us)"
  using assms by (induction ts us rule: list_induct2) auto

lemma typecheck_equals_exact_form:
  "exact_type a \<Longrightarrow> exact_type b \<Longrightarrow>
     typecheck_equals a b = Some (typecheck_form a = typecheck_form b)"
proof (induction a arbitrary: b rule: measure_induct_rule [of size])
  case (less a)
  note b = \<open>exact_type b\<close>
  from \<open>exact_type a\<close> show ?case
  proof (cases a rule: exact_type_cases)
    case (1 v)
    show ?thesis
    proof (cases "\<exists>w. b = DT_Value w")
      case True
      then show ?thesis using 1 by (auto simp: value_types_equal_form)
    next
      case False
      then have "\<not> value_types_equal v (get_value_type b)"
        using scalar_mismatch 1 by blast
      moreover have "typecheck_form a \<noteq> typecheck_form b"
        using b False 1 by (cases b rule: exact_type_cases) auto
      ultimately show ?thesis using 1 by simp
    qed
  next
    case (2 t fr)
    show ?thesis using b 2 less.IH [of t] by (cases b rule: exact_type_cases) auto
  next
    case (3 t fr)
    show ?thesis using b 3 less.IH [of t] by (cases b rule: exact_type_cases) auto
  next
    case (4 k v fr)
    show ?thesis
      using b 4 less.IH [of k] less.IH [of v]
      by (cases b rule: exact_type_cases) (auto simp: and_p_def)
  next
    case (5 ts)
    have IH: "typecheck_equals t u = Some (typecheck_form t = typecheck_form u)"
      if "t \<in> set ts" "exact_type u" for t u
      using less.IH [of t u] 5 that size_tuple_elem by auto
    from b show ?thesis
    proof (cases b rule: exact_type_cases)
      case us: (5 us)
      then show ?thesis
        using 5 IH all_p_zip_forms [of ts us] map_eq_imp_length_eq [of _ ts _ us] by auto
    qed (use 5 in auto)
  next
    case (6 t d)
    show ?thesis using b 6 less.IH [of t] by (cases b rule: exact_type_cases) auto
  qed
qed

text \<open>
  Property C28.  On types that say everything (scalar values, and lists, sets, maps, tuples and
  vectors that name all their sub-types, down to scalars) the type check is exact: it never panics
  and holds if and only if the two types are the same up to \<open>text\<close> versus \<open>varchar\<close> and frozenness.
\<close>

theorem typecheck_equals_decides_exact_types:
  assumes "exact_type a" and "exact_type b"
  shows "typecheck_equals a b = Some (typecheck_form a = typecheck_form b)"
  using assms by (rule typecheck_equals_exact_form)

theorem typecheck_equals_decides_exact_types_witness:
  "typecheck_equals (DT_Map (MT_KeyAndValue (DT_Value CASS_VALUE_TYPE_TEXT)
                       (DT_List (Some (DT_Value CASS_VALUE_TYPE_INT)) True)) False)
     (DT_Map (MT_KeyAndValue (DT_Value CASS_VALUE_TYPE_VARCHAR)
                       (DT_List (Some (DT_Value CASS_VALUE_TYPE_BIGINT)) False)) False) = Some False"
  using typecheck_equals_decides_exact_types
    [of "DT_Map (MT_KeyAndValue (DT_Value CASS_VALUE_TYPE_TEXT)
           (DT_List (Some (DT_Value CASS_VALUE_TYPE_INT)) True)) False"
        "DT_Map (MT_KeyAndValue (DT_Value CASS_VALUE_TYPE_VARCHAR)
           (DT_List (Some (DT_Value CASS_VALUE_TYPE_BIGINT)) False)) False"]
  by (simp add: scalar_value_type_def)

lemma udt_prefix_typecheck:
  assumes fs: "\<And>f. f \<in> set fs \<Longrightarrow> custom_free (snd f)"
  shows "UdtDataType_typecheck_equals (UdtDataType fs ks n fr) (UdtDataType (fs @ gs) ks n fr') =
         Some True"
    and "UdtDataType_typecheck_equals (UdtDataType (fs @ gs) ks n fr') (UdtDataType fs ks n fr) =
         Some True"
  using zip_same_elem [of _ fs gs] zip_same_elem_left [of _ fs gs] typecheck_equals_refl fs
  by (fastforce simp: all_p_Some_True)+

text \<open>
  The comparison is reflexive, and a user defined type stays equal, in both
  directions, to a later version of itself that has more fields at its end, as long as the common
  fields contain no custom type.
\<close>

lemma udt_stays_equal_after_append:
  assumes "list_all (\<lambda>f. custom_free (snd f)) fs"
  shows "typecheck_equals (DT_Udt (UdtDataType fs ks n fr)) (DT_Udt (UdtDataType (fs @ gs) ks n fr'))
           = Some True \<and>
         typecheck_equals (DT_Udt (UdtDataType (fs @ gs) ks n fr')) (DT_Udt (UdtDataType fs ks n fr))
           = Some True"
  using assms udt_prefix_typecheck [of fs] by (simp_all add: list_all_iff)

text \<open>
  The type check can only panic because of a custom type: if the type on its left
  contains none, it has a result whatever is on its right, even a custom type; a custom type on
  the left always panics.
\<close>

lemma typecheck_panics_only_for_custom_types:
  "(custom_free a \<longrightarrow> typecheck_equals a b \<noteq> None) \<and> typecheck_equals (DT_Custom n) b = None"
  using typecheck_equals_total by simp

subsection \<open>Laws of the conversions\<close>

text \<open>
  Native types survive the way through C value types: every native type the driver
  knows comes back, and a value type that denotes a native type comes back up to \<open>text\<close> being
  \<open>varchar\<close>.  A native type the driver does not know becomes a value type that is rejected.
\<close>

lemma native_type_round_trip:
  "NativeType_try_from (CassValueType_from native) =
     (if native = NT_Other then Inl () else Inr native) \<and>
   (case NativeType_try_from v of
      Inr native' \<Rightarrow>
        CassValueType_from native' = (if v = CASS_VALUE_TYPE_TEXT then CASS_VALUE_TYPE_VARCHAR else v)
    | Inl _ \<Rightarrow> (\<forall>native'. CassValueType_from native' = v \<longrightarrow> native' = NT_Other))"
proof -
  have there: "NativeType_try_from (CassValueType_from n) =
      (if n = NT_Other then Inl () else Inr n)" for n
    by (cases n) (simp_all add: NativeType_try_from_def)
  have converse: "NativeType_try_from v = Inr m \<Longrightarrow>
      CassValueType_from m = (if v = CASS_VALUE_TYPE_TEXT then CASS_VALUE_TYPE_VARCHAR else v)" for m
    unfolding NativeType_try_from_def by (auto split: if_split_asm)
  show ?thesis
  proof (cases "NativeType_try_from v")
    case (Inl u)
    have "n = NT_Other" if "CassValueType_from n = v" for n
      using there [of n] that Inl by (simp split: if_split_asm)
    with Inl there show ?thesis by simp
  next
    case (Inr m)
    with converse [OF Inr] there show ?thesis by simp
  qed
qed

text \<open>
  The column types the server describes: known types only, and no tuple or user defined type
  without components.  \<open>column_thaw\<close> forgets frozenness.
\<close>

fun column_known :: "ColumnType \<Rightarrow> bool" where
  "column_known (CT_Native n) = (n \<noteq> NT_Other)"
| "column_known (CT_List t _) = column_known t"
| "column_known (CT_Map k v _) = (column_known k \<and> column_known v)"
| "column_known (CT_Set t _) = column_known t"
| "column_known (CT_UserDefinedType fs _ _ _) =
     (fs \<noteq> [] \<and> list_all (\<lambda>f. column_known (snd f)) fs)"
| "column_known (CT_Tuple ts) = (ts \<noteq> [] \<and> list_all column_known ts)"
| "column_known (CT_Vector t _) = column_known t"
| "column_known CT_Other = False"

fun column_udt_free :: "ColumnType \<Rightarrow> bool" where
  "column_udt_free (CT_List t _) = column_udt_free t"
| "column_udt_free (CT_Map k v _) = (column_udt_free k \<and> column_udt_free v)"
| "column_udt_free (CT_Set t _) = column_udt_free t"
| "column_udt_free (CT_UserDefinedType _ _ _ _) = False"
| "column_udt_free (CT_Tuple ts) = list_all column_udt_free ts"
| "column_udt_free (CT_Vector t _) = column_udt_free t"
| "column_udt_free _ = True"

fun column_thaw :: "ColumnType \<Rightarrow> ColumnType" where
  "column_thaw (CT_List t _) = CT_List (column_thaw t) False"
| "column_thaw (CT_Map k v _) = CT_Map (column_thaw k) (column_thaw v) False"
| "column_thaw (CT_Set t _) = CT_Set (column_thaw t) False"
| "column_thaw (CT_Tuple ts) = CT_Tuple (map column_thaw ts)"
| "column_thaw (CT_Vector t d) = CT_Vector (column_thaw t) d"
| "column_thaw t = t"

lemma CassValueType_from_scalar: "scalar_value_type (CassValueType_from n)"
  by (cases n) (simp_all add: scalar_value_type_def)

lemma CassValueType_from_not_text: "CassValueType_from n \<noteq> CASS_VALUE_TYPE_TEXT"
  by (cases n) simp_all

lemma CassValueType_from_inject: "CassValueType_from n = CassValueType_from m \<longleftrightarrow> n = m"
  by (cases n; cases m; simp)

lemma get_column_type_exact:
  "column_known c \<Longrightarrow> column_udt_free c \<Longrightarrow> exact_type (get_column_type c)"
  by (induction c) (auto simp: CassValueType_from_scalar list_all_iff)

lemma get_column_type_form:
  "column_udt_free c \<Longrightarrow> typecheck_form (get_column_type c) = get_column_type (column_thaw c)"
  by (induction c) (auto simp: CassValueType_from_not_text list_all_iff)

lemma get_column_type_inject:
  "column_known c \<Longrightarrow> column_udt_free c \<Longrightarrow> column_known d \<Longrightarrow> column_udt_free d \<Longrightarrow>
     get_column_type c = get_column_type d \<Longrightarrow> c = d"
proof (induction c arbitrary: d)
  case (CT_Tuple ts)
  then obtain us where d: "d = CT_Tuple us" by (cases d) auto
  have "ts = us"
    by (rule list.inj_map_strong [of ts us get_column_type get_column_type])
      (use CT_Tuple d in \<open>auto simp: list_all_iff\<close>)
  with d show ?case by simp
next
  case (CT_Native n)
  then show ?case by (cases d) (auto simp: CassValueType_from_inject)
next
  case (CT_List t fr)
  then show ?case by (cases d) auto
next
  case (CT_Map k v fr)
  then show ?case by (cases d) auto
next
  case (CT_Set t fr)
  then show ?case by (cases d) auto
next
  case (CT_Vector t n)
  then show ?case by (cases d) auto
qed auto

lemma column_thaw_invariant:
  "column_known (column_thaw c) = column_known c" "column_udt_free (column_thaw c) = column_udt_free c"
  by (induction c) (auto simp: list_all_iff)

text \<open>
  The data type built for a column is never a wildcard: it names all its sub-types
  and contains no custom type, so comparing with it in either role neither panics nor skips a check.
\<close>

lemma get_column_type_fully_typed:
  assumes "column_known c"
  shows "is_fully_typed (get_column_type c) \<and> custom_free (get_column_type c)"
  using assms
proof (induction c)
  case (CT_UserDefinedType fs ks n fr)
  have "is_fully_typed (get_column_type (snd f)) \<and> custom_free (get_column_type (snd f))"
    if "f \<in> set fs" for f
    using CT_UserDefinedType that by (cases f) (fastforce simp: list_all_iff)
  with CT_UserDefinedType.prems show ?case by (auto simp: list_all_iff)
qed (auto simp: list_all_iff)

text \<open>
  The type check tells column types without user defined types apart: the data types
  of two columns compare equal exactly when the column types differ at most in frozenness.
\<close>

lemma typecheck_distinguishes_columns:
  assumes "column_known c" "column_udt_free c" "column_known d" "column_udt_free d"
  shows "typecheck_equals (get_column_type c) (get_column_type d) =
         Some (column_thaw c = column_thaw d)"
  using assms get_column_type_inject [of "column_thaw c" "column_thaw d"]
  by (auto simp: typecheck_equals_exact_form get_column_type_exact get_column_type_form
      column_thaw_invariant)

end
