(* ===== verification/Cass_Data_Type_Api.thy ===== *)
theory Cass_Data_Type_Api
  imports Cass_Data_Type
begin

text \<open>
  The C functions of \<open>cql_types/data_type.rs\<close> on top of \<open>CassDataTypeInner\<close>.

  A function that mutates its data type takes the pointer and returns the error code together with
  what the pointer refers to afterwards.  A function with output parameters returns the error code
  and, when it stores something through them, what it stores.
\<close>

subsection \<open>Construction\<close>

definition cass_data_type_new :: "CassValueType \<Rightarrow> CassDataType c_ptr" where
  "cass_data_type_new value_type =
     (if value_type = CASS_VALUE_TYPE_LIST then Some (DT_List None False)
      else if value_type = CASS_VALUE_TYPE_SET then Some (DT_Set None False)
      else if value_type = CASS_VALUE_TYPE_TUPLE then Some (DT_Tuple [])
      else if value_type = CASS_VALUE_TYPE_MAP then Some (DT_Map MT_Untyped False)
      else if value_type = CASS_VALUE_TYPE_UDT then Some (DT_Udt UdtDataType_new)
      else if value_type = CASS_VALUE_TYPE_CUSTOM then Some (DT_Custom [])
      else if value_type = CASS_VALUE_TYPE_VECTOR then None
      else if value_type = CASS_VALUE_TYPE_UNKNOWN then None
      else if value_type < CASS_VALUE_TYPE_LAST_ENTRY then Some (DT_Value value_type)
      else None)"

text \<open>The clone of the outermost constructor shares its sub-types (\<open>Cass_Type_Heap\<close>), which a tree does not show.\<close>

definition cass_data_type_new_from_existing :: "CassDataType c_ptr \<Rightarrow> CassDataType c_ptr" where
  "cass_data_type_new_from_existing data_type =
     (case data_type of None \<Rightarrow> None | Some dt \<Rightarrow> Some dt)"

definition cass_data_type_new_tuple :: "nat \<Rightarrow> CassDataType c_ptr" where
  "cass_data_type_new_tuple item_count = Some (DT_Tuple [])"

definition cass_data_type_new_udt :: "nat \<Rightarrow> CassDataType c_ptr" where
  "cass_data_type_new_udt field_count = Some (DT_Udt (UdtDataType_with_capacity field_count))"

definition cass_data_type_new_vector :: "CassDataType c_ptr \<Rightarrow> u16 \<Rightarrow> CassDataType c_ptr" where
  "cass_data_type_new_vector element_type dimensions =
     (case element_type of
        None \<Rightarrow> None
      | Some element_type \<Rightarrow>
          (if \<not> is_fully_typed element_type then None
           else if dimensions = 0 then None
           else Some (DT_Vector element_type dimensions)))"

subsection \<open>Inspection\<close>

definition cass_data_type_vector_dimensions ::
    "CassDataType c_ptr \<Rightarrow> CassError \<times> u16 option" where
  "cass_data_type_vector_dimensions data_type =
     (case data_type of
        None \<Rightarrow> (CASS_ERROR_LIB_BAD_PARAMS, None)
      | Some (DT_Vector _ d) \<Rightarrow> (CASS_OK, Some d)
      | Some _ \<Rightarrow> (CASS_ERROR_LIB_INVALID_VALUE_TYPE, None))"

definition cass_data_type_type :: "CassDataType c_ptr \<Rightarrow> CassValueType" where
  "cass_data_type_type data_type =
     (case data_type of None \<Rightarrow> CASS_VALUE_TYPE_UNKNOWN | Some dt \<Rightarrow> get_value_type dt)"

definition cass_data_type_is_frozen :: "CassDataType c_ptr \<Rightarrow> bool" where
  "cass_data_type_is_frozen data_type =
     (case data_type of
        None \<Rightarrow> False
      | Some (DT_Udt udt) \<Rightarrow> udt_frozen udt
      | Some (DT_List _ fr) \<Rightarrow> fr
      | Some (DT_Set _ fr) \<Rightarrow> fr
      | Some (DT_Map _ fr) \<Rightarrow> fr
      | Some _ \<Rightarrow> False)"

definition cass_data_type_type_name ::
    "CassDataType c_ptr \<Rightarrow> CassError \<times> (string \<times> nat) option" where
  "cass_data_type_type_name data_type =
     (case data_type of
        None \<Rightarrow> (CASS_ERROR_LIB_BAD_PARAMS, None)
      | Some (DT_Udt udt) \<Rightarrow> (CASS_OK, Some (write_str_to_c (udt_name udt)))
      | Some _ \<Rightarrow> (CASS_ERROR_LIB_INVALID_VALUE_TYPE, None))"

text \<open>The pattern of the source binds \<open>name\<close>, not \<open>keyspace\<close>.\<close>

definition cass_data_type_keyspace ::
    "CassDataType c_ptr \<Rightarrow> CassError \<times> (string \<times> nat) option" where
  "cass_data_type_keyspace data_type =
     (case data_type of
        None \<Rightarrow> (CASS_ERROR_LIB_BAD_PARAMS, None)
      | Some (DT_Udt udt) \<Rightarrow> (CASS_OK, Some (write_str_to_c (udt_name udt)))
      | Some _ \<Rightarrow> (CASS_ERROR_LIB_INVALID_VALUE_TYPE, None))"

definition cass_data_type_class_name ::
    "CassDataType c_ptr \<Rightarrow> CassError \<times> (string \<times> nat) option" where
  "cass_data_type_class_name data_type =
     (case data_type of
        None \<Rightarrow> (CASS_ERROR_LIB_BAD_PARAMS, None)
      | Some (DT_Custom name) \<Rightarrow> (CASS_OK, Some (write_str_to_c name))
      | Some _ \<Rightarrow> (CASS_ERROR_LIB_INVALID_VALUE_TYPE, None))"

definition cass_data_type_sub_type_count :: "CassDataType c_ptr \<Rightarrow> nat" where
  "cass_data_type_sub_type_count data_type =
     (case data_type of
        None \<Rightarrow> 0
      | Some (DT_Value _) \<Rightarrow> 0
      | Some (DT_Udt udt) \<Rightarrow> length (field_types udt)
      | Some (DT_List typ _) \<Rightarrow> (if typ \<noteq> None then 1 else 0)
      | Some (DT_Set typ _) \<Rightarrow> (if typ \<noteq> None then 1 else 0)
      | Some (DT_Map typ _) \<Rightarrow>
          (case typ of MT_Untyped \<Rightarrow> 0 | MT_Key _ \<Rightarrow> 1 | MT_KeyAndValue _ _ \<Rightarrow> 2)
      | Some (DT_Tuple v) \<Rightarrow> length v
      | Some (DT_Vector _ _) \<Rightarrow> 1
      | Some (DT_Custom _) \<Rightarrow> 0)"

definition cass_data_sub_type_count :: "CassDataType c_ptr \<Rightarrow> nat" where
  "cass_data_sub_type_count data_type = cass_data_type_sub_type_count data_type"

definition cass_data_type_sub_data_type :: "CassDataType c_ptr \<Rightarrow> nat \<Rightarrow> CassDataType c_ptr" where
  "cass_data_type_sub_data_type data_type index =
     (case data_type of None \<Rightarrow> None | Some dt \<Rightarrow> get_sub_data_type dt index)"

definition cass_data_type_sub_data_type_by_name_n ::
    "CassDataType c_ptr \<Rightarrow> c_chars \<Rightarrow> nat \<Rightarrow> CassDataType c_ptr" where
  "cass_data_type_sub_data_type_by_name_n data_type name name_length =
     (case data_type of
        None \<Rightarrow> None
      | Some dt \<Rightarrow>
          (case CassStrLenDelimited_to_str name name_length of
             Inl _ \<Rightarrow> None
           | Inr name_str \<Rightarrow>
               (case dt of DT_Udt udt \<Rightarrow> get_field_by_name udt name_str | _ \<Rightarrow> None)))"

definition cass_data_type_sub_data_type_by_name ::
    "CassDataType c_ptr \<Rightarrow> c_chars \<Rightarrow> CassDataType c_ptr" where
  "cass_data_type_sub_data_type_by_name data_type name =
     (let (name, name_length) = as_len_delimited name
      in cass_data_type_sub_data_type_by_name_n data_type name name_length)"

definition cass_data_type_sub_type_name ::
    "CassDataType c_ptr \<Rightarrow> nat \<Rightarrow> CassError \<times> (string \<times> nat) option" where
  "cass_data_type_sub_type_name data_type index =
     (case data_type of
        None \<Rightarrow> (CASS_ERROR_LIB_BAD_PARAMS, None)
      | Some (DT_Udt udt) \<Rightarrow>
          (case list_get (field_types udt) index of
             None \<Rightarrow> (CASS_ERROR_LIB_INDEX_OUT_OF_BOUNDS, None)
           | Some (field_name, _) \<Rightarrow> (CASS_OK, Some (write_str_to_c field_name)))
      | Some _ \<Rightarrow> (CASS_ERROR_LIB_INVALID_VALUE_TYPE, None))"

subsection \<open>Mutation\<close>

definition cass_data_type_set_type_name_n ::
    "CassDataType c_ptr \<Rightarrow> c_chars \<Rightarrow> nat \<Rightarrow> CassError \<times> CassDataType c_ptr" where
  "cass_data_type_set_type_name_n data_type type_name type_name_length =
     (case data_type of
        None \<Rightarrow> (CASS_ERROR_LIB_BAD_PARAMS, data_type)
      | Some dt \<Rightarrow>
          (case CassStrLenDelimited_to_str type_name type_name_length of
             Inl _ \<Rightarrow> (CASS_ERROR_LIB_BAD_PARAMS, data_type)
           | Inr s \<Rightarrow>
               (case dt of
                  DT_Udt (UdtDataType fs ks _ fr) \<Rightarrow>
                    (CASS_OK, Some (DT_Udt (UdtDataType fs ks s fr)))
                | _ \<Rightarrow> (CASS_ERROR_LIB_INVALID_VALUE_TYPE, data_type))))"

definition cass_data_type_set_type_name ::
    "CassDataType c_ptr \<Rightarrow> c_chars \<Rightarrow> CassError \<times> CassDataType c_ptr" where
  "cass_data_type_set_type_name data_type type_name =
     (let (type_name, type_name_length) = as_len_delimited type_name
      in cass_data_type_set_type_name_n data_type type_name type_name_length)"

definition cass_data_type_set_keyspace_n ::
    "CassDataType c_ptr \<Rightarrow> c_chars \<Rightarrow> nat \<Rightarrow> CassError \<times> CassDataType c_ptr" where
  "cass_data_type_set_keyspace_n data_type keyspace keyspace_length =
     (case data_type of
        None \<Rightarrow> (CASS_ERROR_LIB_BAD_PARAMS, data_type)
      | Some dt \<Rightarrow>
          (case CassStrLenDelimited_to_str keyspace keyspace_length of
             Inl _ \<Rightarrow> (CASS_ERROR_LIB_BAD_PARAMS, data_type)
           | Inr s \<Rightarrow>
               (case dt of
                  DT_Udt (UdtDataType fs _ n fr) \<Rightarrow>
                    (CASS_OK, Some (DT_Udt (UdtDataType fs s n fr)))
                | _ \<Rightarrow> (CASS_ERROR_LIB_INVALID_VALUE_TYPE, data_type))))"

definition cass_data_type_set_keyspace ::
    "CassDataType c_ptr \<Rightarrow> c_chars \<Rightarrow> CassError \<times> CassDataType c_ptr" where
  "cass_data_type_set_keyspace data_type keyspace =
     (let (keyspace, keyspace_length) = as_len_delimited keyspace
      in cass_data_type_set_keyspace_n data_type keyspace keyspace_length)"

definition cass_data_type_set_class_name_n ::
    "CassDataType c_ptr \<Rightarrow> c_chars \<Rightarrow> nat \<Rightarrow> CassError \<times> CassDataType c_ptr" where
  "cass_data_type_set_class_name_n data_type class_name class_name_length =
     (case data_type of
        None \<Rightarrow> (CASS_ERROR_LIB_BAD_PARAMS, data_type)
      | Some dt \<Rightarrow>
          (case CassStrLenDelimited_to_str class_name class_name_length of
             Inl _ \<Rightarrow> (CASS_ERROR_LIB_BAD_PARAMS, data_type)
           | Inr s \<Rightarrow>
               (case dt of
                  DT_Custom _ \<Rightarrow> (CASS_OK, Some (DT_Custom s))
                | _ \<Rightarrow> (CASS_ERROR_LIB_INVALID_VALUE_TYPE, data_type))))"

definition cass_data_type_set_class_name ::
    "CassDataType c_ptr \<Rightarrow> c_chars \<Rightarrow> CassError \<times> CassDataType c_ptr" where
  "cass_data_type_set_class_name data_type class_name =
     (let (class_name, class_name_length) = as_len_delimited class_name
      in cass_data_type_set_class_name_n data_type class_name class_name_length)"

definition cass_data_type_add_sub_type ::
    "CassDataType c_ptr \<Rightarrow> CassDataType c_ptr \<Rightarrow> CassError \<times> CassDataType c_ptr" where
  "cass_data_type_add_sub_type data_type sub_data_type =
     (case data_type of
        None \<Rightarrow> (CASS_ERROR_LIB_BAD_PARAMS, data_type)
      | Some dt \<Rightarrow>
          (case sub_data_type of
             None \<Rightarrow> (CASS_ERROR_LIB_BAD_PARAMS, data_type)
           | Some sub \<Rightarrow>
               (case add_sub_data_type dt sub of
                  Inr dt' \<Rightarrow> (CASS_OK, Some dt')
                | Inl e \<Rightarrow> (e, data_type))))"

definition cass_data_type_add_sub_type_by_name_n ::
    "CassDataType c_ptr \<Rightarrow> c_chars \<Rightarrow> nat \<Rightarrow> CassDataType c_ptr \<Rightarrow>
     CassError \<times> CassDataType c_ptr" where
  "cass_data_type_add_sub_type_by_name_n data_type name name_length sub_data_type =
     (case data_type of
        None \<Rightarrow> (CASS_ERROR_LIB_BAD_PARAMS, data_type)
      | Some dt \<Rightarrow>
          (case sub_data_type of
             None \<Rightarrow> (CASS_ERROR_LIB_BAD_PARAMS, data_type)
           | Some sub \<Rightarrow>
               (case CassStrLenDelimited_to_str name name_length of
                  Inl _ \<Rightarrow> (CASS_ERROR_LIB_BAD_PARAMS, data_type)
                | Inr name_string \<Rightarrow>
                    (case dt of
                       DT_Udt (UdtDataType fs ks n fr) \<Rightarrow>
                         (CASS_OK, Some (DT_Udt (UdtDataType (fs @ [(name_string, sub)]) ks n fr)))
                     | _ \<Rightarrow> (CASS_ERROR_LIB_INVALID_VALUE_TYPE, data_type)))))"

definition cass_data_type_add_sub_type_by_name ::
    "CassDataType c_ptr \<Rightarrow> c_chars \<Rightarrow> CassDataType c_ptr \<Rightarrow> CassError \<times> CassDataType c_ptr" where
  "cass_data_type_add_sub_type_by_name data_type name sub_data_type =
     (let (name, name_length) = as_len_delimited name
      in cass_data_type_add_sub_type_by_name_n data_type name name_length sub_data_type)"

definition cass_data_type_add_sub_value_type ::
    "CassDataType c_ptr \<Rightarrow> CassValueType \<Rightarrow> CassError \<times> CassDataType c_ptr" where
  "cass_data_type_add_sub_value_type data_type sub_value_type =
     cass_data_type_add_sub_type data_type (Some (DT_Value sub_value_type))"

definition cass_data_type_add_sub_value_type_by_name ::
    "CassDataType c_ptr \<Rightarrow> c_chars \<Rightarrow> CassValueType \<Rightarrow> CassError \<times> CassDataType c_ptr" where
  "cass_data_type_add_sub_value_type_by_name data_type name sub_value_type =
     cass_data_type_add_sub_type_by_name data_type name (Some (DT_Value sub_value_type))"

definition cass_data_type_add_sub_value_type_by_name_n ::
    "CassDataType c_ptr \<Rightarrow> c_chars \<Rightarrow> nat \<Rightarrow> CassValueType \<Rightarrow>
     CassError \<times> CassDataType c_ptr" where
  "cass_data_type_add_sub_value_type_by_name_n data_type name name_length sub_value_type =
     cass_data_type_add_sub_type_by_name_n data_type name name_length
       (Some (DT_Value sub_value_type))"

datatype BatchType = Batch_Logged | Batch_Unlogged | Batch_Counter

definition make_batch_type :: "CassBatchType \<Rightarrow> unit + BatchType" where
  "make_batch_type typ =
     (if typ = CASS_BATCH_TYPE_LOGGED then Inr Batch_Logged
      else if typ = CASS_BATCH_TYPE_UNLOGGED then Inr Batch_Unlogged
      else if typ = CASS_BATCH_TYPE_COUNTER then Inr Batch_Counter
      else Inl ())"

subsection \<open>Laws\<close>

text \<open>The sub-types of a data type as the list a client can enumerate.\<close>

definition sub_types :: "CassDataType \<Rightarrow> CassDataType list" where
  "sub_types dt =
     map (\<lambda>i. the (get_sub_data_type dt i)) [0..<cass_data_type_sub_type_count (Some dt)]"

lemma the_list_get_map [simp]: "map (\<lambda>i. the (list_get v i)) [0..<length v] = v"
  by (rule nth_equalityI) (auto simp: list_get_def)

lemma sub_types_eqs:
  "sub_types (DT_List t fr) = (case t of None \<Rightarrow> [] | Some t \<Rightarrow> [t])"
  "sub_types (DT_Set t fr) = (case t of None \<Rightarrow> [] | Some t \<Rightarrow> [t])"
  "sub_types (DT_Map MT_Untyped fr) = []"
  "sub_types (DT_Map (MT_Key k) fr) = [k]"
  "sub_types (DT_Map (MT_KeyAndValue k v) fr) = [k, v]"
  "sub_types (DT_Tuple ts) = ts"
  by (auto simp: sub_types_def cass_data_type_sub_type_count_def numeral_2_eq_2 split: option.split)

lemma get_sub_data_type_in_range:
  "get_sub_data_type dt i \<noteq> None \<longleftrightarrow> i < cass_data_type_sub_type_count (Some dt)"
  by (cases "(dt, i)" rule: get_sub_data_type.cases)
    (auto simp: cass_data_type_sub_type_count_def list_get_def split: option.split)

text \<open>
  Adding a sub-type either succeeds and appends exactly the given type to the list
  of sub-types, leaving the kind of the type and its frozenness alone, or fails with an error code
  and leaves the data type unchanged.  It succeeds exactly on untyped lists and sets, on maps with
  fewer than two sub-types and on tuples.
\<close>

lemma add_sub_type_appends_or_fails:
  "let r = cass_data_type_add_sub_type (Some dt) (Some sub) in
     (if fst r = CASS_OK
      then \<exists>dt'. snd r = Some dt' \<and> sub_types dt' = sub_types dt @ [sub] \<and>
             get_value_type dt' = get_value_type dt \<and>
             cass_data_type_is_frozen (Some dt') = cass_data_type_is_frozen (Some dt)
      else snd r = Some dt) \<and>
     (fst r = CASS_OK \<longleftrightarrow>
        (case dt of DT_List t _ \<Rightarrow> t = None | DT_Set t _ \<Rightarrow> t = None
                  | DT_Map t _ \<Rightarrow> (\<forall>k v. t \<noteq> MT_KeyAndValue k v) | DT_Tuple _ \<Rightarrow> True
                  | _ \<Rightarrow> False))"
  by (cases "(dt, sub)" rule: add_sub_data_type.cases)
    (auto simp: cass_data_type_add_sub_type_def sub_types_eqs cass_data_type_is_frozen_def
      split: option.split)

text \<open>
  The count of sub-types and the lookup by index agree: an index is answered with a
  data type exactly when it is below the count, and for a user defined type exactly those indices
  also have a name.
\<close>

lemma sub_type_lookup_agrees_with_count:
  "(cass_data_type_sub_data_type p i \<noteq> None \<longleftrightarrow> i < cass_data_type_sub_type_count p) \<and>
   (fst (cass_data_type_sub_type_name (Some (DT_Udt u)) i) = CASS_OK \<longleftrightarrow>
      cass_data_type_sub_data_type (Some (DT_Udt u)) i \<noteq> None)"
proof -
  have "fst (cass_data_type_sub_type_name (Some (DT_Udt u)) i) = CASS_OK \<longleftrightarrow>
      i < length (field_types u)"
    by (auto simp: cass_data_type_sub_type_name_def list_get_def split: prod.split)
  moreover have "cass_data_type_sub_data_type (Some (DT_Udt u)) i \<noteq> None \<longleftrightarrow>
      i < length (field_types u)"
    by (simp add: cass_data_type_sub_data_type_def list_get_def)
  moreover have "cass_data_type_sub_data_type p i \<noteq> None \<longleftrightarrow> i < cass_data_type_sub_type_count p"
    using get_sub_data_type_in_range
    by (cases p) (simp_all add: cass_data_type_sub_data_type_def cass_data_type_sub_type_count_def)
  ultimately show ?thesis by simp
qed

lemma find_append_new:
  "find P (xs @ [x]) = (case find P xs of None \<Rightarrow> if P x then Some x else None | Some y \<Rightarrow> Some y)"
  by (induction xs) auto

text \<open>
  A field added to a user defined type by name is found under that name, unless a
  field of that name was there before, in which case lookup keeps returning the earlier one; all
  other names are looked up as before.
\<close>

lemma add_field_then_lookup:
  assumes "utf8_valid name" and "utf8_valid other"
    and "cass_data_type_add_sub_type_by_name_n (Some (DT_Udt u)) (Some name) (length name) (Some t) =
         (rc, dt')"
  shows "rc = CASS_OK \<and>
    cass_data_type_sub_data_type_by_name_n dt' (Some other) (length other) =
      (case get_field_by_name u other of
         Some t' \<Rightarrow> Some t'
       | None \<Rightarrow> if other = name then Some t else None)"
  using assms
  by (cases u) (auto simp: cass_data_type_add_sub_type_by_name_n_def find_append_new
      cass_data_type_sub_data_type_by_name_n_def CassStrLenDelimited_to_str_def get_field_by_name_def
      split: option.split)

text \<open>
  What the C API calls the keyspace of a user defined type is its type name: after
  a keyspace was set successfully, the getter still answers with the name of the type.
\<close>

lemma keyspace_getter_returns_type_name:
  assumes "utf8_valid ks"
  shows "\<exists>u'. cass_data_type_set_keyspace_n (Some (DT_Udt u)) (Some ks) (length ks) =
           (CASS_OK, Some (DT_Udt u')) \<and> udt_keyspace u' = ks \<and>
         cass_data_type_keyspace (Some (DT_Udt u')) = (CASS_OK, Some (udt_name u, length (udt_name u)))"
  using assms
  by (cases u) (auto simp: cass_data_type_set_keyspace_n_def cass_data_type_keyspace_def
      CassStrLenDelimited_to_str_def write_str_to_c_def)

text \<open>
  A vector type can only be created over a fully typed element type, but being
  fully typed does not exclude wildcards: a tuple to which \<open>list\<close> was added as a plain value type
  counts as fully typed, a vector of it is created, and that vector passes the type check against
  a vector of tuples of lists of any element type.
\<close>

lemma fully_typed_vector_with_wildcard:
  assumes "cass_data_type_add_sub_value_type (cass_data_type_new_tuple n) CASS_VALUE_TYPE_LIST = (rc, tup)"
    and "d \<noteq> 0"
  shows "rc = CASS_OK \<and>
    (\<exists>v. cass_data_type_new_vector tup d = Some v \<and> is_fully_typed v \<and>
         (\<forall>t fr. typecheck_equals v (DT_Vector (DT_Tuple [DT_List t fr]) d) = Some True))"
  using assms
  by (auto simp: cass_data_type_add_sub_value_type_def cass_data_type_new_tuple_def
      cass_data_type_add_sub_type_def cass_data_type_new_vector_def)

text \<open>
  The value types \<open>cass_data_type_new\<close> accepts are not only those the header
  names: every number below the last entry that is not a collection, vector or unknown type gives
  a scalar data type, so 0x0016, which no constant of the header denotes, is accepted.
\<close>

lemma data_type_new_accepts_unnamed_value_types:
  "cass_data_type_new 0x0016 = Some (DT_Value 0x0016) \<and>
   NativeType_try_from 0x0016 = Inl () \<and>
   (scalar_value_type v \<longrightarrow>
      cass_data_type_new v = (if v < CASS_VALUE_TYPE_LAST_ENTRY then Some (DT_Value v) else None))"
  by (simp add: cass_data_type_new_def NativeType_try_from_def scalar_value_type_def)

end
