(* ===== verification/Cass_Cql_Value.thy ===== *)
theory Cass_Cql_Value
  imports Cass_Data_Type
begin

text \<open>
  \<open>cql_types/value.rs\<close>, first part: the values the C API can bind and the check whether a value
  may be bound to a data type.

  Numbers are kept at the width of the Rust type; \<open>f32\<close> and \<open>f64\<close> are their bit patterns.
  \<open>CqlDate\<close>, \<open>CqlDuration\<close>, \<open>CqlDecimal\<close>, \<open>Uuid\<close> and \<open>IpAddr\<close> come from libraries and are
  represented by the data the source puts into them.
\<close>

datatype IpAddr = IpAddr_V4 "u8 list" | IpAddr_V6 "u8 list"

datatype CassCqlValue =
    CV_TinyInt u8
  | CV_SmallInt u16
  | CV_Int u32
  | CV_BigInt u64
  | CV_Float u32
  | CV_Double u64
  | CV_Boolean bool
  | CV_Text string
  | CV_Blob "u8 list"
  | CV_Uuid u128
  | CV_Date u32
  | CV_Inet IpAddr
  | CV_Duration u32 u32 u64
  | CV_Decimal "u8 list" u32
  | CV_Tuple "CassDataType option" "CassCqlValue option list"
  | CV_List "CassDataType option" "CassCqlValue list"
  | CV_Map "CassDataType option" "(CassCqlValue \<times> CassCqlValue) list"
  | CV_Set "CassDataType option" "CassCqlValue list"
  | CV_Vector CassDataType CassDataType "CassCqlValue option list"
  | CV_UserDefinedType CassDataType "(string \<times> CassCqlValue option) list"

fun CassCqlValue_is_type_compatible :: "CassCqlValue \<Rightarrow> CassDataType \<Rightarrow> bool panics" where
  "CassCqlValue_is_type_compatible (CV_TinyInt _) typ =
     Some (get_value_type typ = CASS_VALUE_TYPE_TINY_INT)"
| "CassCqlValue_is_type_compatible (CV_SmallInt _) typ =
     Some (get_value_type typ = CASS_VALUE_TYPE_SMALL_INT)"
| "CassCqlValue_is_type_compatible (CV_Int _) typ =
     Some (get_value_type typ = CASS_VALUE_TYPE_INT)"
| "CassCqlValue_is_type_compatible (CV_BigInt _) typ =
     Some (get_value_type typ = CASS_VALUE_TYPE_BIGINT \<or>
           get_value_type typ = CASS_VALUE_TYPE_COUNTER \<or>
           get_value_type typ = CASS_VALUE_TYPE_TIMESTAMP \<or>
           get_value_type typ = CASS_VALUE_TYPE_TIME)"
| "CassCqlValue_is_type_compatible (CV_Float _) typ =
     Some (get_value_type typ = CASS_VALUE_TYPE_FLOAT)"
| "CassCqlValue_is_type_compatible (CV_Double _) typ =
     Some (get_value_type typ = CASS_VALUE_TYPE_DOUBLE)"
| "CassCqlValue_is_type_compatible (CV_Boolean _) typ =
     Some (get_value_type typ = CASS_VALUE_TYPE_BOOLEAN)"
| "CassCqlValue_is_type_compatible (CV_Text _) typ =
     Some (get_value_type typ = CASS_VALUE_TYPE_TEXT \<or>
           get_value_type typ = CASS_VALUE_TYPE_VARCHAR \<or>
           get_value_type typ = CASS_VALUE_TYPE_ASCII \<or>
           get_value_type typ = CASS_VALUE_TYPE_BLOB \<or>
           get_value_type typ = CASS_VALUE_TYPE_VARINT)"
| "CassCqlValue_is_type_compatible (CV_Blob _) typ =
     Some (get_value_type typ = CASS_VALUE_TYPE_BLOB \<or>
           get_value_type typ = CASS_VALUE_TYPE_VARINT)"
| "CassCqlValue_is_type_compatible (CV_Uuid _) typ =
     Some (get_value_type typ = CASS_VALUE_TYPE_UUID \<or>
           get_value_type typ = CASS_VALUE_TYPE_TIMEUUID)"
| "CassCqlValue_is_type_compatible (CV_Date _) typ =
     Some (get_value_type typ = CASS_VALUE_TYPE_DATE)"
| "CassCqlValue_is_type_compatible (CV_Inet _) typ =
     Some (get_value_type typ = CASS_VALUE_TYPE_INET)"
| "CassCqlValue_is_type_compatible (CV_Duration _ _ _) typ =
     Some (get_value_type typ = CASS_VALUE_TYPE_DURATION)"
| "CassCqlValue_is_type_compatible (CV_Decimal _ _) typ =
     Some (get_value_type typ = CASS_VALUE_TYPE_DECIMAL)"
| "CassCqlValue_is_type_compatible (CV_Tuple data_type _) typ =
     (case data_type of
        Some dt \<Rightarrow> typecheck_equals dt typ
      | None \<Rightarrow> Some (get_value_type typ = CASS_VALUE_TYPE_TUPLE))"
| "CassCqlValue_is_type_compatible (CV_List data_type _) typ =
     (case data_type of
        Some dt \<Rightarrow> typecheck_equals dt typ
      | None \<Rightarrow> Some (get_value_type typ = CASS_VALUE_TYPE_LIST))"
| "CassCqlValue_is_type_compatible (CV_Map data_type _) typ =
     (case data_type of
        Some dt \<Rightarrow> typecheck_equals dt typ
      | None \<Rightarrow> Some (get_value_type typ = CASS_VALUE_TYPE_MAP))"
| "CassCqlValue_is_type_compatible (CV_Set data_type _) typ =
     (case data_type of
        Some dt \<Rightarrow> typecheck_equals dt typ
      | None \<Rightarrow> Some (get_value_type typ = CASS_VALUE_TYPE_SET))"
| "CassCqlValue_is_type_compatible (CV_Vector data_type _ _) typ = typecheck_equals data_type typ"
| "CassCqlValue_is_type_compatible (CV_UserDefinedType data_type _) typ =
     typecheck_equals data_type typ"

definition is_type_compatible :: "CassCqlValue option \<Rightarrow> CassDataType \<Rightarrow> bool panics" where
  "is_type_compatible value typ =
     (case value of Some v \<Rightarrow> CassCqlValue_is_type_compatible v typ | None \<Rightarrow> Some True)"

subsection \<open>Deep typing\<close>

text \<open>
  \<open>has_type v t\<close>: the value is, all the way down, a value of the type: every element of a list or
  set has the element type, every entry of a map the key and value type, every field of a tuple
  that is set the type of its position, and a vector has exactly its number of dimensions.
  Scalars have the types \<open>is_type_compatible\<close> lists for them.
\<close>

fun scalar_value :: "CassCqlValue \<Rightarrow> bool" where
  "scalar_value (CV_Tuple _ _) = False"
| "scalar_value (CV_List _ _) = False"
| "scalar_value (CV_Map _ _) = False"
| "scalar_value (CV_Set _ _) = False"
| "scalar_value (CV_Vector _ _ _) = False"
| "scalar_value (CV_UserDefinedType _ _) = False"
| "scalar_value _ = True"

inductive has_type :: "CassCqlValue \<Rightarrow> CassDataType \<Rightarrow> bool" where
  HT_Scalar: "scalar_value v \<Longrightarrow> CassCqlValue_is_type_compatible v (DT_Value vt) = Some True \<Longrightarrow>
     has_type v (DT_Value vt)"
| HT_List: "\<forall>x \<in> set xs. has_type x t \<Longrightarrow> has_type (CV_List dt xs) (DT_List (Some t) fr)"
| HT_Set: "\<forall>x \<in> set xs. has_type x t \<Longrightarrow> has_type (CV_Set dt xs) (DT_Set (Some t) fr)"
| HT_Map: "\<forall>p \<in> set ps. has_type (fst p) k \<and> has_type (snd p) v \<Longrightarrow>
     has_type (CV_Map dt ps) (DT_Map (MT_KeyAndValue k v) fr)"
| HT_Tuple: "length xs = length ts \<Longrightarrow>
     \<forall>i < length xs. \<forall>x. xs ! i = Some x \<longrightarrow> has_type x (ts ! i) \<Longrightarrow>
     has_type (CV_Tuple dt xs) (DT_Tuple ts)"
| HT_Vector: "length xs = unat d \<Longrightarrow> \<forall>x. Some x \<in> set xs \<longrightarrow> has_type x t \<Longrightarrow>
     has_type (CV_Vector dt et xs) (DT_Vector t d)"

text \<open>
  \<open>well_built v\<close>: what the container operations maintain for containers that were created with a
  data type: the data type names all its sub-types, each item is compatible with the sub-type of
  its position, and tuples and vectors have the number of places their type has.
\<close>

inductive well_built :: "CassCqlValue \<Rightarrow> bool" where
  WB_Scalar: "scalar_value v \<Longrightarrow> well_built v"
| WB_List: "exact_type t \<Longrightarrow>
     \<forall>x \<in> set xs. well_built x \<and> CassCqlValue_is_type_compatible x t = Some True \<Longrightarrow>
     well_built (CV_List (Some (DT_List (Some t) fr)) xs)"
| WB_Set: "exact_type t \<Longrightarrow>
     \<forall>x \<in> set xs. well_built x \<and> CassCqlValue_is_type_compatible x t = Some True \<Longrightarrow>
     well_built (CV_Set (Some (DT_Set (Some t) fr)) xs)"
| WB_Map: "exact_type k \<Longrightarrow> exact_type v \<Longrightarrow>
     \<forall>p \<in> set ps. well_built (fst p) \<and> CassCqlValue_is_type_compatible (fst p) k = Some True \<and>
        well_built (snd p) \<and> CassCqlValue_is_type_compatible (snd p) v = Some True \<Longrightarrow>
     well_built (CV_Map (Some (DT_Map (MT_KeyAndValue k v) fr)) ps)"
| WB_Tuple: "exact_type (DT_Tuple ts) \<Longrightarrow> length xs = length ts \<Longrightarrow>
     \<forall>i < length xs. \<forall>x. xs ! i = Some x \<longrightarrow>
        well_built x \<and> CassCqlValue_is_type_compatible x (ts ! i) = Some True \<Longrightarrow>
     well_built (CV_Tuple (Some (DT_Tuple ts)) xs)"
| WB_Vector: "exact_type t \<Longrightarrow> length xs = unat d \<Longrightarrow>
     \<forall>x. Some x \<in> set xs \<longrightarrow> well_built x \<and> CassCqlValue_is_type_compatible x t = Some True \<Longrightarrow>
     well_built (CV_Vector (DT_Vector t d) t xs)"

text \<open>Compatibility depends only on the normal form of the type.\<close>

lemma scalar_compatible_form:
  assumes "scalar_value v" and "exact_type t" and "exact_type u"
    and "typecheck_form t = typecheck_form u" and "CassCqlValue_is_type_compatible v t = Some True"
  shows "\<exists>vt. u = DT_Value vt \<and> CassCqlValue_is_type_compatible v u = Some True"
proof -
  obtain w where t: "t = DT_Value w"
    using assms(2,1,5) by (cases t rule: exact_type_cases) (cases v; auto)+
  with assms(3,4) obtain vt where u: "u = DT_Value vt"
    by (cases u rule: exact_type_cases) auto
  show ?thesis
    using assms(1,4,5) t u by (cases v) (auto split: if_split_asm)
qed

lemma container_compatible:
  assumes "well_built v" and "\<not> scalar_value v"
  shows "\<exists>dt. exact_type dt \<and> (\<forall>t. CassCqlValue_is_type_compatible v t = typecheck_equals dt t)"
  using assms
proof (cases v rule: well_built.cases)
    case (WB_List t xs fr)
    then show ?thesis by (intro exI [of _ "DT_List (Some t) fr"]) simp
  next
    case (WB_Set t xs fr)
    then show ?thesis by (intro exI [of _ "DT_Set (Some t) fr"]) simp
  next
    case (WB_Map k w ps fr)
    then show ?thesis by (intro exI [of _ "DT_Map (MT_KeyAndValue k w) fr"]) simp
  next
    case (WB_Tuple ts xs)
    then show ?thesis by (intro exI [of _ "DT_Tuple ts"]) simp
  next
    case (WB_Vector t xs d)
    then show ?thesis by (intro exI [of _ "DT_Vector t d"]) simp
qed simp

lemma compatible_form:
  assumes "well_built v" "exact_type t" "exact_type u" "typecheck_form t = typecheck_form u"
    and "CassCqlValue_is_type_compatible v t = Some True"
  shows "CassCqlValue_is_type_compatible v u = Some True"
proof (cases "scalar_value v")
  case True
  with assms show ?thesis using scalar_compatible_form by blast
next
  case False
  obtain dt where "exact_type dt"
      "\<And>t. CassCqlValue_is_type_compatible v t = typecheck_equals dt t"
    using container_compatible [OF assms(1) False] by blast
  with assms show ?thesis by (simp add: typecheck_equals_exact_form)
qed

lemma exact_typecheck_form:
  assumes "exact_type a" "exact_type b" "typecheck_equals a b = Some True"
  shows "typecheck_form a = typecheck_form b"
  using assms by (simp add: typecheck_equals_exact_form)

text \<open>A complete type that compares equal to a container type is a container of the same kind.\<close>

lemma exact_list_inv:
  assumes "exact_type u" "exact_type e" "typecheck_equals (DT_List (Some e) fr) u = Some True"
  obtains e' fr' where "u = DT_List (Some e') fr'" "exact_type e'" "typecheck_form e = typecheck_form e'"
  using assms(1) exact_typecheck_form [OF _ assms(1,3)] assms(2)
  by (cases u rule: exact_type_cases) auto

lemma exact_set_inv:
  assumes "exact_type u" "exact_type e" "typecheck_equals (DT_Set (Some e) fr) u = Some True"
  obtains e' fr' where "u = DT_Set (Some e') fr'" "exact_type e'" "typecheck_form e = typecheck_form e'"
  using assms(1) exact_typecheck_form [OF _ assms(1,3)] assms(2)
  by (cases u rule: exact_type_cases) auto

lemma exact_map_inv:
  assumes "exact_type u" "exact_type k" "exact_type w"
    and "typecheck_equals (DT_Map (MT_KeyAndValue k w) fr) u = Some True"
  obtains k' w' fr' where "u = DT_Map (MT_KeyAndValue k' w') fr'" "exact_type k'" "exact_type w'"
    "typecheck_form k = typecheck_form k'" "typecheck_form w = typecheck_form w'"
  using assms(1) exact_typecheck_form [OF _ assms(1,4)] assms(2,3)
  by (cases u rule: exact_type_cases) auto

lemma exact_tuple_inv:
  assumes "exact_type u" "exact_type (DT_Tuple ts)" "typecheck_equals (DT_Tuple ts) u = Some True"
  obtains us where "u = DT_Tuple us" "length us = length ts"
    "\<And>i. i < length ts \<Longrightarrow>
       exact_type (ts ! i) \<and> exact_type (us ! i) \<and> typecheck_form (ts ! i) = typecheck_form (us ! i)"
proof -
  have "typecheck_form (DT_Tuple ts) = typecheck_form u"
    by (rule exact_typecheck_form) (fact assms)+
  with assms(1) obtain us where u: "u = DT_Tuple us"
      and us: "\<And>v. v \<in> set us \<Longrightarrow> exact_type v"
      and forms: "map typecheck_form ts = map typecheck_form us"
    by (cases u rule: exact_type_cases) auto
  from forms have len: "length us = length ts"
    by (metis length_map)
  have "typecheck_form (ts ! i) = typecheck_form (us ! i)" if "i < length ts" for i
    using forms len that by (metis nth_map)
  with us assms(2) len show ?thesis
    by (intro that [OF u]) (auto simp: list_all_iff)
qed

lemma exact_vector_inv:
  assumes "exact_type u" "exact_type e" "typecheck_equals (DT_Vector e d) u = Some True"
  obtains e' where "u = DT_Vector e' d" "exact_type e'" "typecheck_form e = typecheck_form e'"
  using assms(1) exact_typecheck_form [OF _ assms(1,3)] assms(2)
  by (cases u rule: exact_type_cases) auto

lemma well_built_has_type:
  assumes "well_built v" and "exact_type t" and "CassCqlValue_is_type_compatible v t = Some True"
  shows "has_type v t"
  using assms
proof (induction v arbitrary: t rule: well_built.induct)
  case (WB_Scalar v)
  then show ?case
    using scalar_compatible_form [of v t t] HT_Scalar by auto
next
  case (WB_List e xs fr)
  obtain e' fr' where "t = DT_List (Some e') fr'" "exact_type e'"
      "typecheck_form e = typecheck_form e'"
    by (rule exact_list_inv [of t e fr]) (use WB_List in \<open>simp_all del: typecheck_equals.simps\<close>)
  with WB_List compatible_form [of _ e e'] show ?case by (auto intro!: HT_List)
next
  case (WB_Set e xs fr)
  obtain e' fr' where "t = DT_Set (Some e') fr'" "exact_type e'"
      "typecheck_form e = typecheck_form e'"
    by (rule exact_set_inv [of t e fr]) (use WB_Set in \<open>simp_all del: typecheck_equals.simps\<close>)
  with WB_Set compatible_form [of _ e e'] show ?case by (auto intro!: HT_Set)
next
  case (WB_Map k w ps fr)
  obtain k' w' fr' where "t = DT_Map (MT_KeyAndValue k' w') fr'"
      "exact_type k'" "exact_type w'"
      "typecheck_form k = typecheck_form k'" "typecheck_form w = typecheck_form w'"
    by (rule exact_map_inv [of t k w fr]) (use WB_Map in \<open>simp_all del: typecheck_equals.simps\<close>)
  with WB_Map compatible_form [of _ k k'] compatible_form [of _ w w'] show ?case
    by (auto intro!: HT_Map)
next
  case (WB_Tuple ts xs)
  obtain us where t: "t = DT_Tuple us" and len: "length us = length ts"
      and types: "\<And>i. i < length ts \<Longrightarrow>
      exact_type (ts ! i) \<and> exact_type (us ! i) \<and> typecheck_form (ts ! i) = typecheck_form (us ! i)"
    by (rule exact_tuple_inv [of t ts]) (use WB_Tuple in \<open>simp_all del: typecheck_equals.simps\<close>)
  have "has_type x (us ! i)" if "i < length xs" "xs ! i = Some x" for i x
    using that WB_Tuple.IH WB_Tuple.hyps(2) types [of i] compatible_form [of x "ts ! i" "us ! i"] by auto
  with WB_Tuple.hyps(2) t len show ?case by (simp add: HT_Tuple)
next
  case (WB_Vector e xs d)
  obtain e' where "t = DT_Vector e' d" "exact_type e'"
      "typecheck_form e = typecheck_form e'"
    by (rule exact_vector_inv [of t e d]) (use WB_Vector in \<open>simp_all del: typecheck_equals.simps\<close>)
  with WB_Vector compatible_form [of _ e e'] show ?case by (auto intro!: HT_Vector)
qed



end
