(* ===== verification/Cass_Vint.thy ===== *)
theory Cass_Vint
  imports Cass_Prelude
begin

text \<open>
  \<open>unsigned_vint_encode\<close> of \<open>cql_types/value.rs\<close>: the variable-length encoding of unsigned 64-bit
  numbers that prefixes the elements of a vector, with a reader for it and the proof that reading
  undoes writing.
\<close>

subsection \<open>The encoder\<close>

fun bit_length :: "nat \<Rightarrow> nat" where
  "bit_length n = (if n = 0 then 0 else Suc (bit_length (n div 2)))"

declare bit_length.simps [simp del]

text \<open>\<open>u64::leading_zeros\<close>.\<close>

definition leading_zeros :: "u64 \<Rightarrow> nat" where
  "leading_zeros v = 64 - bit_length (unat v)"

definition to_be_bytes :: "u64 \<Rightarrow> u8 list" where
  "to_be_bytes v = be_bytes 8 (unat v)"

definition unsigned_vint_encode :: "u64 \<Rightarrow> u8 list" where
  "unsigned_vint_encode v =
     (let number_of_bytes = (639 - 9 * leading_zeros v) div 2 ^ 6 in
      if number_of_bytes \<le> 1 then [ucast v]
      else if number_of_bytes \<noteq> 9 then
        (let extra_bytes = number_of_bytes - 1;
             length_bits = NOT (drop_bit extra_bytes (0xff :: u8));
             v = v OR push_bit (8 * extra_bytes) (ucast length_bits)
         in drop (8 - number_of_bytes) (to_be_bytes v))
      else 0xff # drop (8 - (number_of_bytes - 1)) (to_be_bytes v))"

subsection \<open>A reader\<close>

fun leading_ones :: "nat \<Rightarrow> u8 \<Rightarrow> nat" where
  "leading_ones 0 b = 0"
| "leading_ones (Suc n) b = (if bit b n then Suc (leading_ones n b) else 0)"

text \<open>
  The first byte starts with as many one bits as bytes follow it; the remaining bits of it are the
  most significant bits of the number.
\<close>

definition unsigned_vint_decode :: "u8 list \<Rightarrow> (nat \<times> u8 list) option" where
  "unsigned_vint_decode bs =
     (case bs of
        [] \<Rightarrow> None
      | b # rest \<Rightarrow>
          (let extra = leading_ones 8 b in
           if length rest < extra then None
           else Some (unat (take_bit (8 - extra) b) * 256 ^ extra + of_be_bytes (take extra rest),
                      drop extra rest)))"

subsection \<open>Length\<close>

lemma bit_length_le: "n < 2 ^ k \<Longrightarrow> bit_length n \<le> k"
proof (induction n arbitrary: k rule: bit_length.induct)
  case (1 n)
  show ?case
  proof (cases "n = 0")
    case True
    then show ?thesis by (simp add: bit_length.simps)
  next
    case False
    then obtain j where k: "k = Suc j" using 1(2) by (cases k) auto
    with 1(2) have "n div 2 < 2 ^ j" by auto
    with 1(1) False k show ?thesis by (subst bit_length.simps) simp
  qed
qed

lemma bit_length_ge: "2 ^ k \<le> n \<Longrightarrow> k < bit_length n"
proof (induction n arbitrary: k rule: bit_length.induct)
  case (1 n)
  then have "n \<noteq> 0" by (metis le_zero_eq power_eq_0_iff zero_neq_numeral)
  show ?case
  proof (cases k)
    case 0
    with \<open>n \<noteq> 0\<close> show ?thesis by (subst bit_length.simps) simp
  next
    case (Suc j)
    with 1(2) have "2 ^ j \<le> n div 2" by auto
    with 1(1) \<open>n \<noteq> 0\<close> Suc show ?thesis by (subst bit_length.simps) simp
  qed
qed

lemma unat_u64_less: "unat (v :: u64) < 2 ^ 64"
  using unsigned_less [where ?'a = nat, of v] by simp

definition vint_size :: "u64 \<Rightarrow> nat" where
  "vint_size v = (63 + 9 * bit_length (unat v)) div 64"

lemma vint_size_eq: "(639 - 9 * leading_zeros v) div 2 ^ 6 = vint_size v"
proof -
  have "unat v < 2 ^ 64" by (rule unat_u64_less)
  then have "bit_length (unat v) \<le> 64" by (rule bit_length_le)
  then show ?thesis by (simp add: leading_zeros_def vint_size_def)
qed

lemma vint_size_le9: "vint_size v \<le> 9"
proof -
  have "unat v < 2 ^ 64" by (rule unat_u64_less)
  then have "bit_length (unat v) \<le> 64" by (rule bit_length_le)
  then show ?thesis by (simp add: vint_size_def)
qed

lemma vint_size_bounds:
  "64 * vint_size v \<le> 63 + 9 * bit_length (unat v)" "9 * bit_length (unat v) \<le> 64 * vint_size v"
proof -
  define x where "x = 63 + 9 * bit_length (unat v)"
  have "64 * (x div 64) + x mod 64 = x" "x mod 64 < 64" by simp_all
  then show "64 * vint_size v \<le> 63 + 9 * bit_length (unat v)"
    and "9 * bit_length (unat v) \<le> 64 * vint_size v"
    unfolding vint_size_def x_def [symmetric] by (simp_all add: x_def)
qed

lemma vint_size_bound: "vint_size v \<le> n \<Longrightarrow> n \<le> 8 \<Longrightarrow> unat v < 2 ^ (7 * n)"
  using vint_size_bounds(2) [of v] bit_length_ge [of "7 * n" "unat v"] by linarith

lemma vint_size_minimal: "unat v < 2 ^ (7 * n) \<Longrightarrow> 1 \<le> n \<Longrightarrow> vint_size v \<le> n"
  using vint_size_bounds(1) [of v] bit_length_le [of "unat v" "7 * n"] by linarith

subsection \<open>Reading undoes writing\<close>

lemma be_bytes_Cons: "be_bytes (Suc n) v = word_of_nat (v div 256 ^ n mod 256) # be_bytes n v"
proof (induction n arbitrary: v)
  case (Suc n)
  have "be_bytes (Suc (Suc n)) v = be_bytes (Suc n) (v div 256) @ [word_of_nat (v mod 256)]"
    by simp
  also have "\<dots> = word_of_nat (v div 256 ^ Suc n mod 256) # be_bytes (Suc n) v"
    by (subst Suc.IH) (simp add: div_mult2_eq)
  finally show ?case .
qed simp

lemma drop_be_bytes: "k \<le> n \<Longrightarrow> drop (n - k) (be_bytes n v) = be_bytes k v"
proof (induction n)
  case (Suc n)
  show ?case
  proof (cases "k = Suc n")
    case False
    with Suc have "Suc n - k = Suc (n - k)" "k \<le> n" by auto
    with Suc.IH show ?thesis by (simp only: be_bytes_Cons drop_Suc_Cons)
  qed (simp del: be_bytes.simps)
qed simp

lemma bit_of_small_nat: "n < 2 ^ k \<Longrightarrow> bit n i \<Longrightarrow> i < k" for n :: nat
  by (metis bit_take_bit_iff take_bit_nat_eq_self)

lemma bit_of_small: "unat v < 2 ^ k \<Longrightarrow> bit (v :: u64) i \<Longrightarrow> i < k"
  by (rule bit_of_small_nat [of "unat v"]) (auto simp: bit_unsigned_iff bit_imp_le_length)

lemma first_byte_bits:
  fixes h :: nat
  assumes "e \<le> 7" and "h < 2 ^ (7 - e)"
  shows "bit (256 - 2 ^ (8 - e) + h) j \<longleftrightarrow> (if 8 - e \<le> j then j < 8 else bit h j)"
proof -
  have high: "256 - 2 ^ (8 - e) = (push_bit (8 - e) (mask e) :: nat)"
    using assms(1)
    by (simp add: push_bit_eq_mult mask_eq_exp_minus_1 diff_mult_distrib flip: power_add)
  have small: "bit h i \<Longrightarrow> i < 7 - e" for i
    using bit_of_small_nat [OF assms(2)] .
  have "push_bit (8 - e) (mask e) AND h = 0"
    by (auto simp: bit_eq_iff bit_and_iff bit_push_bit_iff dest: small)
  then have "256 - 2 ^ (8 - e) + h = push_bit (8 - e) (mask e) OR h"
    by (simp add: high disjunctive_add_eq_or)
  with assms(1) show ?thesis
    by (auto simp: bit_or_iff bit_push_bit_iff bit_mask_iff dest: small)
qed

lemma leading_ones_eq:
  assumes "e \<le> n" "\<And>j. n - e \<le> j \<Longrightarrow> j < n \<Longrightarrow> bit b j" "e < n \<Longrightarrow> \<not> bit b (n - e - 1)"
  shows "leading_ones n b = e"
  using assms
proof (induction n arbitrary: e)
  case (Suc n)
  show ?case
  proof (cases e)
    case (Suc d)
    with Suc.prems have "leading_ones n b = d"
      by (intro Suc.IH) auto
    with Suc Suc.prems(2) [of n] show ?thesis by simp
  qed (use Suc.prems(3) in auto)
qed simp

lemma bit_byte_of_nat: "bit (word_of_nat n :: u8) j \<longleftrightarrow> j < 8 \<and> bit n j"
proof -
  have "bit (word_of_nat n :: u8) j \<longleftrightarrow> bit (unat (word_of_nat n :: u8)) j"
    by (simp add: bit_unsigned_iff del: unsigned_of_nat)
  then show ?thesis by (simp add: unsigned_of_nat bit_take_bit_iff)
qed

lemma first_byte:
  assumes "1 \<le> e" "e \<le> 7" and "h < 2 ^ (7 - e)"
  shows "leading_ones 8 (word_of_nat (256 - 2 ^ (8 - e) + h)) = e"
    and "unat (take_bit (8 - e) (word_of_nat (256 - 2 ^ (8 - e) + h) :: u8)) = h"
proof -
  let ?b = "word_of_nat (256 - 2 ^ (8 - e) + h) :: u8"
  have b: "bit ?b j \<longleftrightarrow> j < 8 \<and> (if 8 - e \<le> j then j < 8 else bit h j)" for j
    using first_byte_bits [OF assms(2,3), of j] by (simp add: bit_byte_of_nat del: of_nat_add)
  have small: "bit h i \<Longrightarrow> i < 7 - e" for i
    using bit_of_small_nat [OF assms(3)] .
  show "leading_ones 8 ?b = e"
    using assms(2) by (intro leading_ones_eq) (auto simp: b simp del: of_nat_add dest: small)
  have "bit (unat (take_bit (8 - e) ?b)) j = bit h j" for j
    using assms(2) by (auto simp: bit_unsigned_iff bit_take_bit_iff b simp del: of_nat_add dest: small)
  then show "unat (take_bit (8 - e) ?b) = h" by (simp add: bit_eq_iff)
qed

lemma length_bits_value:
  assumes "1 \<le> e" "e \<le> 7"
  shows "unat (push_bit (8 * e) (ucast (NOT (drop_bit e (0xff :: u8)))) :: u64) =
     (256 - 2 ^ (8 - e)) * 256 ^ e"
proof -
  have "list_all (\<lambda>e. unat (push_bit (8 * e) (ucast (NOT (drop_bit e (0xff :: u8)))) :: u64) =
     (256 - 2 ^ (8 - e)) * 256 ^ e) [1,2,3,4,5,6,7]"
    by simp
  moreover have "e \<in> set [1,2,3,4,5,6,7]" using assms by auto
  ultimately show ?thesis unfolding list_all_iff by blast
qed

lemma length_bits_bit:
  assumes "bit (push_bit (8 * e) (ucast (NOT (drop_bit e (0xff :: u8)))) :: u64) i"
  shows "7 * e + 8 \<le> i"
proof -
  from assms have i: "8 * e \<le> i" and "bit (NOT (drop_bit e (0xff :: u8))) (i - 8 * e)"
    by (auto simp: bit_push_bit_iff bit_unsigned_iff)
  then have "\<not> bit (0xff :: u8) (e + (i - 8 * e))"
    by (auto simp: bit_not_iff bit_drop_bit_eq)
  moreover have "bit (0xff :: u8) j" if "j < 8" for j
    using that by (auto simp: numeral_eq_Suc less_Suc_eq)
  ultimately have "8 \<le> e + (i - 8 * e)" by (meson not_le)
  with i show ?thesis by simp
qed

lemma length_bits_add:
  assumes "1 \<le> e" "e \<le> 7" and "unat (v :: u64) < 2 ^ (7 * Suc e)"
  shows "unat (v OR push_bit (8 * e) (ucast (NOT (drop_bit e (0xff :: u8))))) =
         (256 - 2 ^ (8 - e)) * 256 ^ e + unat v"
proof -
  let ?c = "push_bit (8 * e) (ucast (NOT (drop_bit e (0xff :: u8)))) :: u64"
  have "\<not> (bit v i \<and> bit ?c i)" for i
    using bit_of_small [OF assms(3), of i] length_bits_bit [of e i] by auto
  then have "unat v AND unat ?c = 0"
    by (auto simp: bit_eq_iff bit_and_iff bit_unsigned_iff)
  then have "unat v OR unat ?c = unat v + unat ?c"
    by (simp add: disjunctive_add_eq_or)
  then show ?thesis using length_bits_value [OF assms(1,2)] by (simp add: unsigned_or_eq)
qed

lemma be_bytes_high: "be_bytes n (c * 256 ^ n + v) = be_bytes n v"
proof (induction n arbitrary: v)
  case (Suc n)
  have "c * 256 ^ Suc n + v = v + (c * 256 ^ n) * 256" by simp
  then have "(c * 256 ^ Suc n + v) div 256 = c * 256 ^ n + v div 256"
    and "(c * 256 ^ Suc n + v) mod 256 = v mod 256"
    by (simp_all only: div_mult_self3 mod_mult_self1)
  then show ?case by (simp only: be_bytes.simps Suc.IH)
qed simp

lemma vint_many_bytes:
  assumes e: "1 \<le> e" "e \<le> 7" "vint_size v = Suc e"
  shows "unsigned_vint_encode v =
    word_of_nat (256 - 2 ^ (8 - e) + unat v div 256 ^ e) # be_bytes e (unat v)"
proof -
  have v: "unat v < 2 ^ (7 * Suc e)"
    using vint_size_bound [of v "Suc e"] e by simp
  let ?w = "v OR push_bit (8 * e) (ucast (NOT (drop_bit e (0xff :: u8))))"
  have w: "unat ?w = (256 - 2 ^ (8 - e)) * 256 ^ e + unat v"
    by (rule length_bits_add) (fact e v)+
  have "unsigned_vint_encode v = drop (8 - Suc e) (to_be_bytes ?w)"
    using e unfolding unsigned_vint_encode_def vint_size_eq Let_def by simp
  also have "\<dots> = be_bytes (Suc e) (unat ?w)"
    unfolding to_be_bytes_def using e by (intro drop_be_bytes) simp
  also have "\<dots> = word_of_nat (unat ?w div 256 ^ e mod 256) # be_bytes e (unat v)"
    by (simp only: be_bytes_Cons w be_bytes_high)
  also have "unat ?w div 256 ^ e = 256 - 2 ^ (8 - e) + unat v div 256 ^ e"
    by (simp add: w)
  also have "word_of_nat (\<dots> mod 256) = (word_of_nat (256 - 2 ^ (8 - e) + unat v div 256 ^ e) :: u8)"
    by (simp add: word_of_nat_eq_iff take_bit_eq_mod del: of_nat_add)
  finally show ?thesis .
qed

lemma decode_first:
  assumes "leading_ones 8 b = e" "unat (take_bit (8 - e) b) = h"
  shows "unsigned_vint_decode (b # be_bytes e v @ rest) = Some (h * 256 ^ e + v mod 256 ^ e, rest)"
  using assms by (simp add: unsigned_vint_decode_def Let_def of_be_bytes_be_bytes)

lemma vint_decode_encode:
  "unsigned_vint_decode (unsigned_vint_encode v @ rest) = Some (unat v, rest)"
proof -
  consider "vint_size v \<le> 1" | "2 \<le> vint_size v" "vint_size v \<le> 8" | "vint_size v = 9"
    using vint_size_le9 [of v] by linarith
  then show ?thesis
  proof cases
    case 1
    then have v: "unat v < 2 ^ 7" using vint_size_bound [of v 1] by simp
    have b: "unat (ucast v :: u8) = unat v"
      using v by (simp add: unsigned_ucast_eq take_bit_nat_eq_self)
    have "\<not> bit (ucast v :: u8) 7"
      using bit_of_small_nat [OF v, of 7] b by (metis bit_unsigned_iff less_irrefl possible_bit_nat bit_imp_possible_bit)
    then have "leading_ones 8 (ucast v :: u8) = 0"
      by (intro leading_ones_eq) auto
    moreover have "take_bit 8 (ucast v :: u8) = ucast v"
      using take_bit_length_eq [of "ucast v :: u8"] by simp
    ultimately show ?thesis using 1 b
        decode_first [of "ucast v" 0 "unat v" 0 rest]
      unfolding unsigned_vint_encode_def vint_size_eq Let_def
      by simp
  next
    case 2
    define e where "e = vint_size v - 1"
    have e: "1 \<le> e" "e \<le> 7" "vint_size v = Suc e" using 2 by (auto simp: e_def)
    have "unat v < 2 ^ (7 * Suc e)" using vint_size_bound [of v "Suc e"] e by simp
    also have "7 * Suc e = 7 - e + 8 * e" using e(2) by simp
    also have "(2 :: nat) ^ \<dots> = 2 ^ (7 - e) * 256 ^ e" by (simp add: power_add power_mult)
    finally have "unat v div 256 ^ e < 2 ^ (7 - e)" by (simp add: div_less_iff_less_mult)
    from first_byte [OF e(1,2) this] show ?thesis
      by (simp add: vint_many_bytes [OF e] decode_first div_mult_mod_eq del: of_nat_add)
  next
    case 3
    have "leading_ones 8 (0xff :: u8) = 8"
      by (intro leading_ones_eq) (auto simp: numeral_eq_Suc less_Suc_eq)
    then show ?thesis
      using 3 decode_first [of "0xff" 8 0 "unat v" rest] unat_u64_less [of v]
      unfolding unsigned_vint_encode_def vint_size_eq Let_def to_be_bytes_def by simp
  qed
qed

lemma length_vint_encode: "length (unsigned_vint_encode v) = max 1 (vint_size v)"
proof -
  consider "vint_size v \<le> 1" | "2 \<le> vint_size v" "vint_size v \<le> 8" | "vint_size v = 9"
    using vint_size_le9 [of v] by linarith
  then show ?thesis
  proof cases
    case 2
    then show ?thesis using vint_many_bytes [of "vint_size v - 1" v] by simp
  qed (simp_all add: unsigned_vint_encode_def vint_size_eq Let_def to_be_bytes_def
        del: power_Suc power_numeral)
qed

text \<open>
  Property C23.  The unsigned vint encoding of every 64-bit number is read back exactly, whatever
  follows it, and it is as short as the format allows: it takes at most \<open>n\<close> of up to eight bytes
  exactly when the number has at most \<open>7 * n\<close> bits, and never more than nine.
\<close>

theorem vint_round_trip_and_size:
  "unsigned_vint_decode (unsigned_vint_encode v @ rest) = Some (unat v, rest) \<and>
   length (unsigned_vint_encode v) \<le> 9 \<and>
   (\<forall>n \<in> {1..8}. length (unsigned_vint_encode v) \<le> n \<longleftrightarrow> unat v < 2 ^ (7 * n))"
  using vint_decode_encode [of v rest] vint_size_le9 [of v] vint_size_bound [of v]
    vint_size_minimal [of v]
  by (auto simp: length_vint_encode)

theorem vint_round_trip_and_size_witness:
  "unsigned_vint_decode (unsigned_vint_encode 300 @ [7]) = Some (300, [7]) \<and>
   length (unsigned_vint_encode 300) \<le> 2"
  using vint_round_trip_and_size [of 300 "[7]"] by auto

end
