(* ===== verification/Cass_Serialize.thy ===== *)
theory Cass_Serialize
  imports Cass_Cql_Value Cass_Vint
begin

text \<open>
  \<open>cql_types/value.rs\<close>, second part: serialization of values.

  The source writes through the \<open>CellWriter\<close> of the Rust driver and uses its serializers for
  scalars.  Both are parameters, collected in the record \<open>cell_writer\<close>; a serializer returns the
  bytes it appends.  The boolean argument \<open>with_size\<close> distinguishes a writer that prefixes its cell
  with a length (\<open>make_sub_writer\<close>) from one that does not (\<open>new_without_size\<close>,
  \<open>make_sub_writer_without_size\<close>).  The predicate \<open>cql_framing\<close> states what the CQL protocol says
  about these prefixes; no other fact about the library is used.
\<close>

datatype ser_error =
    SE_SizeOverflow
  | SE_TooManyElements
  | SE_TupleElement nat ser_error
  | SE_SequenceElement ser_error
  | SE_MapKey ser_error
  | SE_MapValue ser_error
  | SE_VectorElement ser_error
  | SE_VectorElementNotSet nat
  | SE_UdtField string ser_error
  | SE_Library

record cell_writer =
  native_serialize :: "CassCqlValue \<Rightarrow> bool \<Rightarrow> ser_error + u8 list"
  set_null :: "bool \<Rightarrow> u8 list"
  builder_finish :: "bool \<Rightarrow> u8 list \<Rightarrow> unit + u8 list"
  type_size_for_vector :: "NativeType \<Rightarrow> nat option"

definition i32_max :: nat where
  "i32_max = 2 ^ 31 - 1"

subsection \<open>Loops that append\<close>

definition map_err :: "('e \<Rightarrow> 'f) \<Rightarrow> 'e + 'a \<Rightarrow> 'f + 'a" where
  "map_err f r = (case r of Inl e \<Rightarrow> Inl (f e) | Inr x \<Rightarrow> Inr x)"

text \<open>Writing one element after the other, ending with the first error.\<close>

fun ser_all :: "('a \<Rightarrow> 'e + u8 list) \<Rightarrow> 'a list \<Rightarrow> 'e + u8 list" where
  "ser_all f [] = Inr []"
| "ser_all f (x # xs) =
     (case f x of
        Inl e \<Rightarrow> Inl e
      | Inr b \<Rightarrow> (case ser_all f xs of Inl e \<Rightarrow> Inl e | Inr bs \<Rightarrow> Inr (b @ bs)))"

lemma ser_all_cong [fundef_cong]:
  assumes "xs = ys" and "\<And>x. x \<in> set ys \<Longrightarrow> f x = g x"
  shows "ser_all f xs = ser_all g ys"
proof -
  have "ser_all f ys = ser_all g ys"
    using assms(2) by (induction ys) (simp_all cong: sum.case_cong)
  with assms(1) show ?thesis by simp
qed

definition finish :: "cell_writer \<Rightarrow> bool \<Rightarrow> u8 list \<Rightarrow> ser_error + u8 list" where
  "finish cw with_size body =
     (case builder_finish cw with_size body of Inl _ \<Rightarrow> Inl SE_SizeOverflow | Inr out \<Rightarrow> Inr out)"

type_synonym serializer = "bool \<Rightarrow> CassCqlValue \<Rightarrow> ser_error + u8 list"

subsection \<open>Containers\<close>

definition serialize_tuple_like ::
    "cell_writer \<Rightarrow> serializer \<Rightarrow> CassCqlValue option list \<Rightarrow> bool \<Rightarrow> ser_error + u8 list" where
  "serialize_tuple_like cw do_ser field_values with_size =
     (case ser_all (\<lambda>(index, el).
             case el of
               None \<Rightarrow> Inr (set_null cw True)
             | Some el \<Rightarrow> map_err (SE_TupleElement index) (do_ser True el))
           (enumerate 0 field_values) of
        Inl e \<Rightarrow> Inl e
      | Inr body \<Rightarrow> finish cw with_size body)"

definition serialize_sequence ::
    "cell_writer \<Rightarrow> serializer \<Rightarrow> CassCqlValue list \<Rightarrow> bool \<Rightarrow> ser_error + u8 list" where
  "serialize_sequence cw do_ser values with_size =
     (if length values > i32_max then Inl SE_TooManyElements
      else
        (case ser_all (\<lambda>el. map_err SE_SequenceElement (do_ser True el)) values of
           Inl e \<Rightarrow> Inl e
         | Inr body \<Rightarrow> finish cw with_size (be_bytes 4 (length values) @ body)))"

definition serialize_mapping ::
    "cell_writer \<Rightarrow> serializer \<Rightarrow> (CassCqlValue \<times> CassCqlValue) list \<Rightarrow> bool \<Rightarrow>
     ser_error + u8 list" where
  "serialize_mapping cw do_ser values with_size =
     (if length values > i32_max then Inl SE_TooManyElements
      else
        (case ser_all (\<lambda>(k, v).
                case map_err SE_MapKey (do_ser True k) of
                  Inl e \<Rightarrow> Inl e
                | Inr kb \<Rightarrow>
                    (case map_err SE_MapValue (do_ser True v) of
                       Inl e \<Rightarrow> Inl e
                     | Inr vb \<Rightarrow> Inr (kb @ vb)))
              values of
           Inl e \<Rightarrow> Inl e
         | Inr body \<Rightarrow> finish cw with_size (be_bytes 4 (length values) @ body)))"

definition serialize_vector ::
    "cell_writer \<Rightarrow> serializer \<Rightarrow> CassDataType \<Rightarrow> CassCqlValue option list \<Rightarrow> bool \<Rightarrow>
     ser_error + u8 list" where
  "serialize_vector cw do_ser element_type values with_size =
     (let variable_length =
            uses_variable_length_encoding_in_vector (type_size_for_vector cw) element_type in
      case ser_all (\<lambda>(index, element).
             case element of
               None \<Rightarrow> Inl (SE_VectorElement (SE_VectorElementNotSet index))
             | Some element \<Rightarrow>
                 (case map_err SE_VectorElement (do_ser False element) of
                    Inl e \<Rightarrow> Inl e
                  | Inr element_buffer \<Rightarrow>
                      Inr (if variable_length
                           then unsigned_vint_encode (word_of_nat (length element_buffer)) @ element_buffer
                           else element_buffer)))
           (enumerate 0 values) of
        Inl e \<Rightarrow> Inl e
      | Inr body \<Rightarrow> finish cw with_size body)"

definition serialize_udt ::
    "cell_writer \<Rightarrow> serializer \<Rightarrow> (string \<times> CassCqlValue option) list \<Rightarrow> bool \<Rightarrow>
     ser_error + u8 list" where
  "serialize_udt cw do_ser values with_size =
     (case ser_all (\<lambda>(fname, fvalue).
             case fvalue of
               None \<Rightarrow> Inr (set_null cw True)
             | Some v \<Rightarrow> map_err (SE_UdtField fname) (do_ser True v))
           values of
        Inl e \<Rightarrow> Inl e
      | Inr body \<Rightarrow> finish cw with_size body)"

lemma in_set_enumerate: "(i, x) \<in> set (enumerate n xs) \<Longrightarrow> x \<in> set xs"
  by (auto simp: in_set_enumerate_eq)

lemma serialize_tuple_like_cong [fundef_cong]:
  assumes "cw = cw'" "xs = ys" "ws = ws'" and "\<And>w v. Some v \<in> set ys \<Longrightarrow> f w v = g w v"
  shows "serialize_tuple_like cw f xs ws = serialize_tuple_like cw' g ys ws'"
  unfolding serialize_tuple_like_def assms(1-3)
  by (intro arg_cong [where f = "case_sum _ _"] ser_all_cong refl)
    (auto simp: assms(4) split: option.split dest!: in_set_enumerate)

lemma serialize_sequence_cong [fundef_cong]:
  assumes "cw = cw'" "xs = ys" "ws = ws'" and "\<And>w v. v \<in> set ys \<Longrightarrow> f w v = g w v"
  shows "serialize_sequence cw f xs ws = serialize_sequence cw' g ys ws'"
  unfolding serialize_sequence_def assms(1-3)
  by (intro if_cong arg_cong [where f = "case_sum _ _"] ser_all_cong refl) (simp add: assms(4))

lemma serialize_mapping_cong [fundef_cong]:
  assumes "cw = cw'" "xs = ys" "ws = ws'"
    and "\<And>w k v. (k, v) \<in> set ys \<Longrightarrow> f w k = g w k" "\<And>w k v. (k, v) \<in> set ys \<Longrightarrow> f w v = g w v"
  shows "serialize_mapping cw f xs ws = serialize_mapping cw' g ys ws'"
  unfolding serialize_mapping_def assms(1-3)
  by (intro if_cong arg_cong [where f = "case_sum _ _"] ser_all_cong refl)
    (auto simp: assms(4,5) cong: sum.case_cong)

lemma serialize_vector_cong [fundef_cong]:
  assumes "cw = cw'" "t = t'" "xs = ys" "ws = ws'" and "\<And>w v. Some v \<in> set ys \<Longrightarrow> f w v = g w v"
  shows "serialize_vector cw f t xs ws = serialize_vector cw' g t' ys ws'"
  unfolding serialize_vector_def assms(1-4) Let_def
  by (intro arg_cong [where f = "case_sum _ _"] ser_all_cong refl)
    (auto simp: assms(5) split: option.split dest!: in_set_enumerate)

lemma serialize_udt_cong [fundef_cong]:
  assumes "cw = cw'" "xs = ys" "ws = ws'" and "\<And>w n v. (n, Some v) \<in> set ys \<Longrightarrow> f w v = g w v"
  shows "serialize_udt cw f xs ws = serialize_udt cw' g ys ws'"
  unfolding serialize_udt_def assms(1-3)
  by (intro arg_cong [where f = "case_sum _ _"] ser_all_cong refl)
    (auto simp: assms(4) split: option.split)

subsection \<open>Values\<close>

lemma size_map_entry [termination_simp]:
  "(k, v) \<in> set ps \<Longrightarrow> size k < Suc (size_list (size_prod size size) ps)"
  "(k, v) \<in> set ps \<Longrightarrow> size v < Suc (size_list (size_prod size size) ps)"
  by (induction ps) auto

lemma size_set_field [termination_simp]:
  "Some v \<in> set xs \<Longrightarrow> size v < Suc (size_list (size_option size) xs)"
  by (induction xs) auto

lemma size_udt_field [termination_simp]:
  "(n, Some v) \<in> set fs \<Longrightarrow> size v < Suc (size_list (size_prod (\<lambda>x. 0) (size_option size)) fs)"
  by (induction fs) auto

fun do_serialize :: "cell_writer \<Rightarrow> bool \<Rightarrow> CassCqlValue \<Rightarrow> ser_error + u8 list" where
  "do_serialize cw with_size (CV_Tuple _ field_values) =
     serialize_tuple_like cw (do_serialize cw) field_values with_size"
| "do_serialize cw with_size (CV_List _ values) =
     serialize_sequence cw (do_serialize cw) values with_size"
| "do_serialize cw with_size (CV_Map _ values) =
     serialize_mapping cw (do_serialize cw) values with_size"
| "do_serialize cw with_size (CV_Set _ values) =
     serialize_sequence cw (do_serialize cw) values with_size"
| "do_serialize cw with_size (CV_Vector _ element_type values) =
     serialize_vector cw (do_serialize cw) element_type values with_size"
| "do_serialize cw with_size (CV_UserDefinedType _ field_values) =
     serialize_udt cw (do_serialize cw) field_values with_size"
| "do_serialize cw with_size v = native_serialize cw v with_size"

text \<open>
  What the protocol says about cells: the body of a cell with a size is preceded by its length, a
  signed 32-bit number, and may not be longer than that can say; a null is the length -1; a cell
  without a size is its body.
\<close>

definition cql_framing :: "cell_writer \<Rightarrow> bool" where
  "cql_framing cw \<longleftrightarrow>
     (\<forall>body. builder_finish cw True body =
        (if length body \<le> i32_max then Inr (be_bytes 4 (length body) @ body) else Inl ())) \<and>
     (\<forall>body. builder_finish cw False body = Inr body) \<and>
     set_null cw True = be_bytes 4 (2 ^ 32 - 1) \<and>
     (\<forall>v out. native_serialize cw v True = Inr out \<longrightarrow>
        (\<exists>body. native_serialize cw v False = Inr body \<and> length body \<le> i32_max \<and>
                out = be_bytes 4 (length body) @ body))"

subsection \<open>Reading back\<close>

text \<open>Readers for a sequence of cells and for a sequence of length-prefixed vector elements.\<close>

definition read_cell :: "u8 list \<Rightarrow> (u8 list option \<times> u8 list) option" where
  "read_cell bs =
     (if length bs < 4 then None
      else
        (let n = of_be_bytes (take 4 bs); rest = drop 4 bs in
         if 2 ^ 31 \<le> n then Some (None, rest)
         else if length rest < n then None
         else Some (Some (take n rest), drop n rest)))"

fun read_cells :: "nat \<Rightarrow> u8 list \<Rightarrow> (u8 list option list \<times> u8 list) option" where
  "read_cells 0 bs = Some ([], bs)"
| "read_cells (Suc n) bs =
     do { (c, rest) \<leftarrow> read_cell bs; (cs, rest') \<leftarrow> read_cells n rest; Some (c # cs, rest') }"

fun read_vint_elements :: "nat \<Rightarrow> u8 list \<Rightarrow> (u8 list list \<times> u8 list) option" where
  "read_vint_elements 0 bs = Some ([], bs)"
| "read_vint_elements (Suc n) bs =
     do { (len, rest) \<leftarrow> unsigned_vint_decode bs;
          if length rest < len then None
          else do { (es, rest') \<leftarrow> read_vint_elements n (drop len rest);
                    Some (take len rest # es, rest') } }"

text \<open>The items of a container in the order they are written, after the given prefix.\<close>

fun wire_items :: "CassCqlValue \<Rightarrow> (u8 list \<times> CassCqlValue option list) option" where
  "wire_items (CV_Tuple _ xs) = Some ([], xs)"
| "wire_items (CV_List _ xs) = Some (be_bytes 4 (length xs), map Some xs)"
| "wire_items (CV_Set _ xs) = Some (be_bytes 4 (length xs), map Some xs)"
| "wire_items (CV_Map _ ps) =
     Some (be_bytes 4 (length ps), concat (map (\<lambda>(k, v). [Some k, Some v]) ps))"
| "wire_items (CV_UserDefinedType _ fs) = Some ([], map snd fs)"
| "wire_items _ = None"

text \<open>A cell holds the serialization of an item without its size, or is null for an absent item.\<close>

definition cell_holds :: "cell_writer \<Rightarrow> CassCqlValue option \<Rightarrow> u8 list option \<Rightarrow> bool" where
  "cell_holds cw x c \<longleftrightarrow>
     (case x of None \<Rightarrow> c = None
              | Some v \<Rightarrow> (\<exists>b. do_serialize cw False v = Inr b \<and> c = Some b))"

definition readable :: "cell_writer \<Rightarrow> CassCqlValue option list \<Rightarrow> u8 list \<Rightarrow> bool" where
  "readable cw items out \<longleftrightarrow>
     (\<exists>cs. list_all2 (cell_holds cw) items cs \<and>
           (\<forall>rest. read_cells (length items) (out @ rest) = Some (cs, rest)))"

lemma be_length_id: "n \<le> i32_max \<Longrightarrow> of_be_bytes (be_bytes 4 n) = n"
  by (simp add: of_be_bytes_be_bytes i32_max_def)

lemma read_cell_sized:
  "length body \<le> i32_max \<Longrightarrow> read_cell (be_bytes 4 (length body) @ body @ rest) = Some (Some body, rest)"
  by (simp add: read_cell_def be_length_id Let_def) (simp add: i32_max_def)

lemma read_cell_null: "read_cell (be_bytes 4 (2 ^ 32 - 1) @ rest) = Some (None, rest)"
  by (simp add: read_cell_def of_be_bytes_be_bytes Let_def)

lemma read_cells_append:
  "read_cells m bs = Some (cs, rest) \<Longrightarrow>
     read_cells (m + n) bs = map_option (map_prod ((@) cs) id) (read_cells n rest)"
proof (induction m arbitrary: bs cs)
  case 0
  then show ?case by (cases "read_cells n rest") auto
next
  case (Suc m)
  then obtain c r cs' where "read_cell bs = Some (c, r)" "read_cells m r = Some (cs', rest)" "cs = c # cs'"
    by (auto simp: bind_eq_Some_conv)
  with Suc.IH [of r cs'] show ?case by (cases "read_cells n rest") auto
qed

lemma readable_Nil [simp]: "readable cw [] []"
  by (simp add: readable_def)

lemma readable_append:
  assumes "readable cw xs out" "readable cw ys out'"
  shows "readable cw (xs @ ys) (out @ out')"
proof -
  from assms obtain cs cs' where
    "list_all2 (cell_holds cw) xs cs" "\<And>rest. read_cells (length xs) (out @ rest) = Some (cs, rest)"
    "list_all2 (cell_holds cw) ys cs'" "\<And>rest. read_cells (length ys) (out' @ rest) = Some (cs', rest)"
    unfolding readable_def by blast
  then show ?thesis
    unfolding readable_def
    by (intro exI [of _ "cs @ cs'"]) (simp add: list_all2_appendI read_cells_append)
qed

lemma ser_all_readable:
  assumes "\<And>x out. x \<in> set xs \<Longrightarrow> f x = Inr out \<Longrightarrow> readable cw (items x) out"
    and "ser_all f xs = Inr out"
  shows "readable cw (concat (map items xs)) out"
  using assms
proof (induction xs arbitrary: out)
  case (Cons x xs)
  from Cons.prems(2) obtain b bs where "f x = Inr b" "ser_all f xs = Inr bs" "out = b @ bs"
    by (auto split: sum.splits)
  with Cons show ?case by (auto intro: readable_append)
qed simp

lemma finish_sized:
  assumes "cql_framing cw"
  shows "finish cw False body = Inr body"
    and "finish cw True body = Inr out \<Longrightarrow> length body \<le> i32_max \<and> out = be_bytes 4 (length body) @ body"
  using assms by (auto simp: finish_def cql_framing_def split: if_splits)

text \<open>The size prefix is all that distinguishes a cell with a size from one without.\<close>

lemma do_serialize_sized:
  assumes "cql_framing cw" and "do_serialize cw True v = Inr out"
  shows "\<exists>body. do_serialize cw False v = Inr body \<and> length body \<le> i32_max \<and>
           out = be_bytes 4 (length body) @ body"
proof -
  note defs = serialize_tuple_like_def serialize_sequence_def serialize_mapping_def
    serialize_vector_def serialize_udt_def Let_def
  have native: "\<exists>body. native_serialize cw v False = Inr body \<and> length body \<le> i32_max \<and>
      out = be_bytes 4 (length body) @ body" if "native_serialize cw v True = Inr out"
    using assms(1) that by (simp add: cql_framing_def)
  show ?thesis
    using assms native
    by (cases v) (auto simp: defs finish_sized(1) dest: finish_sized(2) split: sum.splits if_splits)
qed

lemma readable_value:
  assumes "cql_framing cw" "do_serialize cw True v = Inr out"
  shows "readable cw [Some v] out"
  using do_serialize_sized [OF assms] read_cell_sized
  by (auto simp: readable_def cell_holds_def list_all2_Cons1)

lemma readable_null: "cql_framing cw \<Longrightarrow> readable cw [None] (set_null cw True)"
  using read_cell_null
  by (auto simp: readable_def cql_framing_def cell_holds_def intro!: exI [of _ "[None]"])

lemma readable_option:
  assumes "cql_framing cw"
    and "(case x of None \<Rightarrow> Inr (set_null cw True) | Some v \<Rightarrow> map_err g (do_serialize cw True v)) = Inr out"
  shows "readable cw [x] out"
  using assms readable_value readable_null
  by (auto simp: map_err_def split: option.splits sum.splits)

lemma readable_entry:
  assumes "cql_framing cw"
    and "(case map_err g (do_serialize cw True k) of
            Inl e \<Rightarrow> Inl e
          | Inr kb \<Rightarrow> (case map_err h (do_serialize cw True v) of Inl e \<Rightarrow> Inl e | Inr vb \<Rightarrow> Inr (kb @ vb)))
         = Inr out"
  shows "readable cw [Some k, Some v] out"
proof -
  from assms(2) obtain kb vb where "do_serialize cw True k = Inr kb" "do_serialize cw True v = Inr vb"
      "out = kb @ vb"
    by (auto simp: map_err_def split: sum.splits)
  with readable_append [OF readable_value [OF assms(1)] readable_value [OF assms(1)]]
  show ?thesis by force
qed

lemma concat_singletons: "concat (map (\<lambda>x. [f x]) xs) = map f xs"
  by (induction xs) auto

lemma ser_all_readable_each:
  assumes "ser_all f xs = Inr out"
    and "\<And>x out. x \<in> set xs \<Longrightarrow> f x = Inr out \<Longrightarrow> readable cw [g x] out"
  shows "readable cw (map g xs) out"
  using ser_all_readable [of xs f cw "\<lambda>x. [g x]" out] assms by (simp add: concat_singletons)

lemma sequence_readable:
  assumes "cql_framing cw" "serialize_sequence cw (do_serialize cw) xs False = Inr out"
  shows "\<exists>body. out = be_bytes 4 (length xs) @ body \<and> readable cw (map Some xs) body"
proof -
  from assms obtain body where "out = be_bytes 4 (length xs) @ body"
      and body: "ser_all (\<lambda>x. map_err SE_SequenceElement (do_serialize cw True x)) xs = Inr body"
    by (auto simp: serialize_sequence_def finish_sized(1) split: sum.splits if_splits)
  moreover have "readable cw (map Some xs) body"
    by (rule ser_all_readable_each [OF body])
      (auto simp: map_err_def readable_value [OF assms(1)] split: sum.splits)
  ultimately show ?thesis by blast
qed

lemma mapping_readable:
  assumes "cql_framing cw" "serialize_mapping cw (do_serialize cw) ps False = Inr out"
  shows "\<exists>body. out = be_bytes 4 (length ps) @ body \<and>
           readable cw (concat (map (\<lambda>(k, v). [Some k, Some v]) ps)) body"
proof -
  let ?f = "\<lambda>(k, v). case map_err SE_MapKey (do_serialize cw True k) of Inl e \<Rightarrow> Inl e
        | Inr kb \<Rightarrow> (case map_err SE_MapValue (do_serialize cw True v) of Inl e \<Rightarrow> Inl e
           | Inr vb \<Rightarrow> Inr (kb @ vb))"
  from assms obtain body where "out = be_bytes 4 (length ps) @ body" and body: "ser_all ?f ps = Inr body"
    by (auto simp: serialize_mapping_def finish_sized(1) split: sum.splits if_splits)
  moreover have "readable cw (concat (map (\<lambda>(k, v). [Some k, Some v]) ps)) body"
    by (rule ser_all_readable [OF _ body]) (clarsimp, rule readable_entry [OF assms(1)], simp)
  ultimately show ?thesis by blast
qed

lemma tuple_like_readable:
  assumes "cql_framing cw" "serialize_tuple_like cw (do_serialize cw) xs False = Inr out"
  shows "readable cw xs out"
proof -
  let ?f = "\<lambda>(i, x). case x of None \<Rightarrow> Inr (set_null cw True)
        | Some v \<Rightarrow> map_err (SE_TupleElement i) (do_serialize cw True v)"
  from assms have "ser_all ?f (enumerate 0 xs) = Inr out"
    by (auto simp: serialize_tuple_like_def finish_sized(1) split: sum.splits)
  then have "readable cw (map snd (enumerate 0 xs)) out"
    by (rule ser_all_readable_each) (clarsimp, rule readable_option [OF assms(1)], simp)
  then show ?thesis by simp
qed

lemma udt_readable:
  assumes "cql_framing cw" "serialize_udt cw (do_serialize cw) fs False = Inr out"
  shows "readable cw (map snd fs) out"
proof -
  let ?f = "\<lambda>(n, x). case x of None \<Rightarrow> Inr (set_null cw True)
        | Some v \<Rightarrow> map_err (SE_UdtField n) (do_serialize cw True v)"
  from assms have "ser_all ?f fs = Inr out"
    by (auto simp: serialize_udt_def finish_sized(1) split: sum.splits)
  then show ?thesis
    by (rule ser_all_readable_each) (clarsimp, rule readable_option [OF assms(1)], simp)
qed

text \<open>
  Property C2.  Whatever a list, set, map, tuple or user defined type serializes to can be read
  back cell by cell: after the count of elements, where the format has one, a reader that only
  knows the number of items finds exactly one cell per item, in order, with nothing left over;
  each cell holds the item's own serialization, or null where a field is not set.
\<close>

theorem serialized_containers_are_readable:
  assumes "cql_framing cw" and "wire_items v = Some (prefix, items)"
    and "do_serialize cw False v = Inr out"
  shows "\<exists>body cells. out = prefix @ body \<and> list_all2 (cell_holds cw) items cells \<and>
           read_cells (length items) body = Some (cells, [])"
proof -
  have "\<exists>body. out = prefix @ body \<and> readable cw items body"
    using assms sequence_readable [OF assms(1)] mapping_readable [OF assms(1)]
      tuple_like_readable [OF assms(1)] udt_readable [OF assms(1)]
    by (cases v) auto
  then obtain body cells where "out = prefix @ body" "list_all2 (cell_holds cw) items cells"
      "\<And>rest. read_cells (length items) (body @ rest) = Some (cells, rest)"
    unfolding readable_def by blast
  from this(3) [of "[]"] this(1,2) show ?thesis by auto
qed

text \<open>A writer for 32-bit integers that follows the protocol.\<close>

definition int_writer :: cell_writer where
  "int_writer =
     \<lparr>native_serialize = (\<lambda>v with_size. case v of
          CV_Int i \<Rightarrow> Inr ((if with_size then be_bytes 4 4 else []) @ be_bytes 4 (unat i))
        | _ \<Rightarrow> Inl SE_Library),
      set_null = (\<lambda>_. be_bytes 4 (2 ^ 32 - 1)),
      builder_finish = (\<lambda>with_size body.
        if with_size
        then (if length body \<le> i32_max then Inr (be_bytes 4 (length body) @ body) else Inl ())
        else Inr body),
      type_size_for_vector = (\<lambda>t. if t = NT_Int then Some 4 else None)\<rparr>"

lemma int_writer_framing: "cql_framing int_writer"
  by (auto simp: cql_framing_def int_writer_def i32_max_def split: CassCqlValue.splits)

theorem serialized_containers_are_readable_witness:
  "\<exists>body cells. do_serialize int_writer False (CV_List None [CV_Int 1, CV_Int 2]) =
       Inr (be_bytes 4 2 @ body) \<and>
     read_cells 2 body = Some (cells, []) \<and>
     list_all2 (cell_holds int_writer) [Some (CV_Int 1), Some (CV_Int 2)] cells"
proof -
  let ?v = "CV_List None [CV_Int 1, CV_Int 2]" and ?items = "[Some (CV_Int 1), Some (CV_Int 2)]"
  have two: "Suc (Suc 0) = 2" by simp
  have s: "do_serialize int_writer False ?v =
      Inr (be_bytes 4 2 @ be_bytes 4 4 @ be_bytes 4 1 @ be_bytes 4 4 @ be_bytes 4 2)"
    by (simp add: serialize_sequence_def int_writer_def finish_def map_err_def i32_max_def two
        del: be_bytes.simps)
  have w: "wire_items ?v = Some (be_bytes 4 2, ?items)"
    by (simp add: two del: be_bytes.simps)
  have "length ?items = 2" by simp
  with serialized_containers_are_readable [OF int_writer_framing w s] s show ?thesis by metis
qed

lemma read_vint_elements_append:
  assumes "length b < 2 ^ 64" "read_vint_elements n rest = Some (bs, rest')"
  shows "read_vint_elements (Suc n) (unsigned_vint_encode (word_of_nat (length b)) @ b @ rest) =
         Some (b # bs, rest')"
proof -
  have "unat (word_of_nat (length b) :: u64) = length b"
    using assms(1) by (simp add: unsigned_of_nat take_bit_nat_eq_self)
  with assms(2) show ?thesis by (simp add: vint_decode_encode)
qed

lemma vector_elements_readable:
  assumes "length out < 2 ^ 64" and "ser_all (\<lambda>(index, element).
             case element of
               None \<Rightarrow> Inl (SE_VectorElement (SE_VectorElementNotSet index))
             | Some element \<Rightarrow>
                 (case map_err SE_VectorElement (ser element) of
                    Inl e \<Rightarrow> Inl e
                  | Inr b \<Rightarrow>
                      Inr (if vl then unsigned_vint_encode (word_of_nat (length b)) @ b else b)))
           (enumerate i xs) = Inr out"
  shows "\<exists>bs. list_all2 (\<lambda>x b. \<exists>v. x = Some v \<and> ser v = Inr b) xs bs \<and>
           (if vl then read_vint_elements (length xs) out = Some (bs, []) else out = concat bs)"
  using assms
proof (induction xs arbitrary: i out)
  case (Cons x xs)
  then obtain v b out' where v: "x = Some v" "ser v = Inr b"
      and out: "out = (if vl then unsigned_vint_encode (word_of_nat (length b)) @ b else b) @ out'"
    and rest: "ser_all (\<lambda>(index, element).
             case element of
               None \<Rightarrow> Inl (SE_VectorElement (SE_VectorElementNotSet index))
             | Some element \<Rightarrow>
                 (case map_err SE_VectorElement (ser element) of
                    Inl e \<Rightarrow> Inl e
                  | Inr b \<Rightarrow>
                      Inr (if vl then unsigned_vint_encode (word_of_nat (length b)) @ b else b)))
           (enumerate (Suc i) xs) = Inr out'"
    by (auto simp: map_err_def split: sum.splits option.splits)
  from out Cons.prems(1) have "length b < 2 ^ 64" "length out' < 2 ^ 64"
    by (auto split: if_splits)
  with Cons.IH [OF _ rest] obtain bs where bs:
      "list_all2 (\<lambda>x b. \<exists>v. x = Some v \<and> ser v = Inr b) xs bs"
      "if vl then read_vint_elements (length xs) out' = Some (bs, []) else out' = concat bs"
    by blast
  with v out read_vint_elements_append [OF \<open>length b < 2 ^ 64\<close>, of "length xs" out' bs "[]"]
  show ?case by (intro exI [of _ "b # bs"]) auto
qed auto



subsection \<open>Unset vector elements\<close>

text \<open>No vector inside the value, at any depth, has an element that was never set.\<close>

fun vectors_set :: "CassCqlValue \<Rightarrow> bool" where
  "vectors_set (CV_Tuple _ xs) = (\<forall>v. Some v \<in> set xs \<longrightarrow> vectors_set v)"
| "vectors_set (CV_List _ xs) = (\<forall>v \<in> set xs. vectors_set v)"
| "vectors_set (CV_Set _ xs) = (\<forall>v \<in> set xs. vectors_set v)"
| "vectors_set (CV_Map _ ps) = (\<forall>(k, v) \<in> set ps. vectors_set k \<and> vectors_set v)"
| "vectors_set (CV_Vector _ _ xs) = (None \<notin> set xs \<and> (\<forall>v. Some v \<in> set xs \<longrightarrow> vectors_set v))"
| "vectors_set (CV_UserDefinedType _ fs) = (\<forall>n v. (n, Some v) \<in> set fs \<longrightarrow> vectors_set v)"
| "vectors_set _ = True"

lemma ser_all_InrD: "ser_all f xs = Inr out \<Longrightarrow> x \<in> set xs \<Longrightarrow> \<exists>b. f x = Inr b"
  by (induction xs arbitrary: out) (auto split: sum.splits)

lemma in_enumerate: "x \<in> set xs \<Longrightarrow> \<exists>i. (i, x) \<in> set (enumerate n xs)"
  by (metis imageE map_snd_enumerate prod.collapse set_map)

lemma map_err_Inr [simp]: "map_err f r = Inr x \<longleftrightarrow> r = Inr x"
  by (auto simp: map_err_def split: sum.splits)

lemma tuple_like_InrD:
  assumes "serialize_tuple_like cw f xs ws = Inr out" "Some v \<in> set xs"
  shows "\<exists>b. f True v = Inr b"
proof -
  obtain i where "(i, Some v) \<in> set (enumerate 0 xs)" using in_enumerate [OF assms(2)] by blast
  with assms(1) show ?thesis
    by (auto simp: serialize_tuple_like_def split: sum.splits dest!: ser_all_InrD)
qed

lemma vector_InrD:
  assumes "serialize_vector cw f t xs ws = Inr out" "x \<in> set xs"
  shows "\<exists>v b. x = Some v \<and> f False v = Inr b"
proof -
  obtain i where "(i, x) \<in> set (enumerate 0 xs)" using in_enumerate [OF assms(2)] by blast
  with assms(1) show ?thesis
    by (auto simp: serialize_vector_def Let_def split: sum.splits option.splits dest!: ser_all_InrD)
qed

lemma sequence_InrD: "serialize_sequence cw f xs ws = Inr out \<Longrightarrow> v \<in> set xs \<Longrightarrow> \<exists>b. f True v = Inr b"
  by (auto simp: serialize_sequence_def split: sum.splits if_splits dest!: ser_all_InrD)

lemma mapping_InrD:
  "serialize_mapping cw f ps ws = Inr out \<Longrightarrow> (k, v) \<in> set ps \<Longrightarrow>
     (\<exists>b. f True k = Inr b) \<and> (\<exists>b. f True v = Inr b)"
  by (auto simp: serialize_mapping_def split: sum.splits if_splits dest!: ser_all_InrD)

lemma udt_InrD: "serialize_udt cw f fs ws = Inr out \<Longrightarrow> (n, Some v) \<in> set fs \<Longrightarrow> \<exists>b. f True v = Inr b"
  by (auto simp: serialize_udt_def split: sum.splits dest!: ser_all_InrD)

text \<open>
  A value is only ever serialized if no vector in it, however deeply nested, has an
  element that was not set.
\<close>

lemma unset_vector_elements_are_rejected:
  assumes "do_serialize cw with_size v = Inr out"
  shows "vectors_set v"
  using assms
proof (induction cw with_size v arbitrary: out rule: do_serialize.induct)
  case (1 cw ws dt xs)
  then show ?case using tuple_like_InrD by fastforce
next
  case (2 cw ws dt xs)
  then show ?case using sequence_InrD by fastforce
next
  case (3 cw ws dt ps)
  then show ?case using mapping_InrD by fastforce
next
  case (4 cw ws dt xs)
  then show ?case using sequence_InrD by fastforce
next
  case (5 cw ws dt t xs)
  then show ?case using vector_InrD by fastforce
next
  case (6 cw ws dt fs)
  then show ?case using udt_InrD by fastforce
qed simp_all

end
