(* ===== verification/Cass_Containers.thy ===== *)
theory Cass_Containers
  imports Cass_Data_Type_Api Cass_Cql_Value
begin

text \<open>
  \<open>cql_types/collection.rs\<close>, \<open>tuple.rs\<close>, \<open>user_type.rs\<close> and \<open>vector.rs\<close>: the objects a client
  fills with values before binding them.  An operation returns the error code and the object
  afterwards, and panics where an \<open>unwrap\<close>, an index or a comparison of custom types does.
  Capacities are allocation hints and are left out.
\<close>

subsection \<open>Collections\<close>

datatype CollectionType = CollectionType_List | CollectionType_Set | CollectionType_Map

definition CollectionType_try_from :: "CassCollectionType \<Rightarrow> unit + CollectionType" where
  "CollectionType_try_from value =
     (if value = CASS_COLLECTION_TYPE_LIST then Inr CollectionType_List
      else if value = CASS_COLLECTION_TYPE_SET then Inr CollectionType_Set
      else if value = CASS_COLLECTION_TYPE_MAP then Inr CollectionType_Map
      else Inl ())"

fun CassCollectionType_from :: "CollectionType \<Rightarrow> CassCollectionType" where
  "CassCollectionType_from CollectionType_List = CASS_COLLECTION_TYPE_LIST"
| "CassCollectionType_from CollectionType_Set = CASS_COLLECTION_TYPE_SET"
| "CassCollectionType_from CollectionType_Map = CASS_COLLECTION_TYPE_MAP"

record CassCollection =
  collection_type :: CollectionType
  collection_data_type :: "CassDataType option"
  collection_items :: "CassCqlValue list"

definition UNTYPED_LIST_TYPE :: CassDataType where
  "UNTYPED_LIST_TYPE = DT_List None False"

definition UNTYPED_SET_TYPE :: CassDataType where
  "UNTYPED_SET_TYPE = DT_Set None False"

definition UNTYPED_MAP_TYPE :: CassDataType where
  "UNTYPED_MAP_TYPE = DT_Map MT_Untyped False"

text \<open>\<open>check\<close> is the pattern \<open>if !is_type_compatible(value, typ) return INVALID_VALUE_TYPE\<close>.\<close>

definition check :: "CassCqlValue option \<Rightarrow> CassDataType \<Rightarrow> CassError panics" where
  "check value typ =
     do { ok \<leftarrow> is_type_compatible value typ;
          Some (if ok then CASS_OK else CASS_ERROR_LIB_INVALID_VALUE_TYPE) }"

definition typecheck_on_append ::
    "CassCollection \<Rightarrow> CassCqlValue option \<Rightarrow> CassError panics" where
  "typecheck_on_append self value =
     (let index = length (collection_items self) in
      case collection_data_type self of
        None \<Rightarrow> Some CASS_OK
      | Some data_type \<Rightarrow>
          (case data_type of
             DT_List subtype _ \<Rightarrow>
               (case subtype of None \<Rightarrow> Some CASS_OK | Some subtype \<Rightarrow> check value subtype)
           | DT_Set subtype _ \<Rightarrow>
               (case subtype of None \<Rightarrow> Some CASS_OK | Some subtype \<Rightarrow> check value subtype)
           | DT_Map (MT_Key k_typ) _ \<Rightarrow>
               (if even index then check value k_typ else Some CASS_OK)
           | DT_Map (MT_KeyAndValue k_typ v_typ) _ \<Rightarrow>
               (if even index then check value k_typ else check value v_typ)
           | DT_Map MT_Untyped _ \<Rightarrow> Some CASS_OK
           | _ \<Rightarrow> Some CASS_ERROR_LIB_INVALID_VALUE_TYPE))"

definition append_cql_value ::
    "CassCollection \<Rightarrow> CassCqlValue option \<Rightarrow> (CassError \<times> CassCollection) panics" where
  "append_cql_value self value =
     do { err \<leftarrow> typecheck_on_append self value;
          if err \<noteq> CASS_OK then Some (err, self)
          else do { v \<leftarrow> value;
                    Some (CASS_OK, self\<lparr>collection_items := collection_items self @ [v]\<rparr>) } }"

text \<open>\<open>as_chunks::<2>\<close>: consecutive pairs, and what is left over.\<close>

fun as_chunks2 :: "'a list \<Rightarrow> ('a \<times> 'a) list \<times> 'a list" where
  "as_chunks2 (x # y # xs) = (let (pairs, remainder) = as_chunks2 xs in ((x, y) # pairs, remainder))"
| "as_chunks2 xs = ([], xs)"

definition CassCqlValue_try_from_collection :: "CassCollection \<Rightarrow> CassError + CassCqlValue" where
  "CassCqlValue_try_from_collection collection =
     (let data_type = collection_data_type collection in
      case collection_type collection of
        CollectionType_List \<Rightarrow> Inr (CV_List data_type (collection_items collection))
      | CollectionType_Map \<Rightarrow>
          (let (pairs, remainder) = as_chunks2 (collection_items collection) in
           if remainder \<noteq> [] then Inl CASS_ERROR_LIB_INVALID_ITEM_COUNT
           else Inr (CV_Map data_type pairs))
      | CollectionType_Set \<Rightarrow> Inr (CV_Set data_type (collection_items collection)))"

definition cass_collection_new :: "CassCollectionType \<Rightarrow> nat \<Rightarrow> CassCollection c_ptr" where
  "cass_collection_new ctype item_count =
     (case CollectionType_try_from ctype of
        Inl _ \<Rightarrow> None
      | Inr t \<Rightarrow> Some \<lparr>collection_type = t, collection_data_type = None, collection_items = []\<rparr>)"

definition cass_collection_new_from_data_type ::
    "CassDataType c_ptr \<Rightarrow> nat \<Rightarrow> CassCollection c_ptr" where
  "cass_collection_new_from_data_type data_type item_count =
     do { dt \<leftarrow> data_type;
          t \<leftarrow> (case dt of DT_List _ _ \<Rightarrow> Some CollectionType_List
                         | DT_Set _ _ \<Rightarrow> Some CollectionType_Set
                         | DT_Map _ _ \<Rightarrow> Some CollectionType_Map
                         | _ \<Rightarrow> None);
          Some \<lparr>collection_type = t, collection_data_type = Some dt, collection_items = []\<rparr> }"

definition cass_collection_data_type :: "CassCollection c_ptr \<Rightarrow> CassDataType c_ptr" where
  "cass_collection_data_type collection =
     (case collection of
        None \<Rightarrow> None
      | Some c \<Rightarrow>
          (case collection_data_type c of
             Some dt \<Rightarrow> Some dt
           | None \<Rightarrow>
               (case collection_type c of
                  CollectionType_List \<Rightarrow> Some UNTYPED_LIST_TYPE
                | CollectionType_Set \<Rightarrow> Some UNTYPED_SET_TYPE
                | CollectionType_Map \<Rightarrow> Some UNTYPED_MAP_TYPE)))"

subsection \<open>Tuples\<close>

record CassTuple =
  tuple_data_type :: "CassDataType option"
  tuple_items :: "CassCqlValue option list"

definition UNTYPED_TUPLE_TYPE :: CassDataType where
  "UNTYPED_TUPLE_TYPE = DT_Tuple []"

text \<open>The types of the places; \<open>unreachable!\<close> for a data type that is not a tuple.\<close>

definition get_types :: "CassTuple \<Rightarrow> CassDataType list option panics" where
  "get_types self =
     (case tuple_data_type self of
        Some (DT_Tuple v) \<Rightarrow> Some (Some v)
      | Some _ \<Rightarrow> None
      | None \<Rightarrow> Some None)"

definition CassTuple_bind_value ::
    "CassTuple \<Rightarrow> nat \<Rightarrow> CassCqlValue option \<Rightarrow> (CassError \<times> CassTuple) panics" where
  "CassTuple_bind_value self index v =
     (if length (tuple_items self) \<le> index then Some (CASS_ERROR_LIB_INDEX_OUT_OF_BOUNDS, self)
      else
        do { types \<leftarrow> get_types self;
             err \<leftarrow> (case types of
                        None \<Rightarrow> Some CASS_OK
                      | Some inner_types \<Rightarrow>
                          do { t \<leftarrow> list_get inner_types index; check v t });
             if err \<noteq> CASS_OK then Some (err, self)
             else Some (CASS_OK, self\<lparr>tuple_items := (tuple_items self)[index := v]\<rparr>) })"

definition CassCqlValue_from_tuple :: "CassTuple \<Rightarrow> CassCqlValue" where
  "CassCqlValue_from_tuple tuple = CV_Tuple (tuple_data_type tuple) (tuple_items tuple)"

definition cass_tuple_new :: "nat \<Rightarrow> CassTuple c_ptr" where
  "cass_tuple_new item_count =
     Some \<lparr>tuple_data_type = None, tuple_items = replicate item_count None\<rparr>"

definition cass_tuple_new_from_data_type :: "CassDataType c_ptr \<Rightarrow> CassTuple c_ptr" where
  "cass_tuple_new_from_data_type data_type =
     (case data_type of
        Some (DT_Tuple v) \<Rightarrow>
          Some \<lparr>tuple_data_type = Some (DT_Tuple v), tuple_items = replicate (length v) None\<rparr>
      | _ \<Rightarrow> None)"

definition cass_tuple_data_type :: "CassTuple c_ptr \<Rightarrow> CassDataType c_ptr" where
  "cass_tuple_data_type tuple =
     (case tuple of
        None \<Rightarrow> None
      | Some t \<Rightarrow> (case tuple_data_type t of Some dt \<Rightarrow> Some dt | None \<Rightarrow> Some UNTYPED_TUPLE_TYPE))"

subsection \<open>User defined types\<close>

record CassUserType =
  udt_data_type :: CassDataType
  field_values :: "CassCqlValue option list"

definition set_field_by_index ::
    "CassUserType \<Rightarrow> nat \<Rightarrow> CassCqlValue option \<Rightarrow> (CassError \<times> CassUserType) panics" where
  "set_field_by_index self index value =
     (if length (field_values self) \<le> index then Some (CASS_ERROR_LIB_INDEX_OUT_OF_BOUNDS, self)
      else
        do { udt \<leftarrow> get_udt_type (udt_data_type self);
             field \<leftarrow> list_get (field_types udt) index;
             err \<leftarrow> check value (snd field);
             if err \<noteq> CASS_OK then Some (err, self)
             else Some (CASS_OK, self\<lparr>field_values := (field_values self)[index := value]\<rparr>) })"

text \<open>
  The loop over the fields with their indices.  An error ends it; what earlier fields of the same
  name received stays.
\<close>

fun set_field_by_name_loop ::
    "(nat \<times> string \<times> CassDataType) list \<Rightarrow> string \<Rightarrow> CassCqlValue option \<Rightarrow> bool \<Rightarrow>
     CassCqlValue option list \<Rightarrow> (CassError \<times> CassCqlValue option list) panics" where
  "set_field_by_name_loop [] name value found_field values =
     Some (if found_field then CASS_OK else CASS_ERROR_LIB_NAME_DOES_NOT_EXIST, values)"
| "set_field_by_name_loop ((index, field_name, field_type) # rest) name value found_field values =
     (if field_name = name then
        (if length values \<le> index then Some (CASS_ERROR_LIB_INDEX_OUT_OF_BOUNDS, values)
         else
           do { err \<leftarrow> check value field_type;
                if err \<noteq> CASS_OK then Some (err, values)
                else set_field_by_name_loop rest name value True (values[index := value]) })
      else set_field_by_name_loop rest name value found_field values)"

definition set_field_by_name ::
    "CassUserType \<Rightarrow> string \<Rightarrow> CassCqlValue option \<Rightarrow> (CassError \<times> CassUserType) panics" where
  "set_field_by_name self name value =
     do { udt \<leftarrow> get_udt_type (udt_data_type self);
          (err, values) \<leftarrow> set_field_by_name_loop (enumerate 0 (field_types udt)) name value False
                             (field_values self);
          Some (err, self\<lparr>field_values := values\<rparr>) }"

definition CassCqlValue_from_user_type :: "CassUserType \<Rightarrow> CassCqlValue panics" where
  "CassCqlValue_from_user_type user_type =
     do { udt \<leftarrow> get_udt_type (udt_data_type user_type);
          Some (CV_UserDefinedType (udt_data_type user_type)
            (map (\<lambda>(v, name, _). (name, v)) (zip (field_values user_type) (field_types udt)))) }"

definition cass_user_type_new_from_data_type :: "CassDataType c_ptr \<Rightarrow> CassUserType c_ptr" where
  "cass_user_type_new_from_data_type data_type =
     (case data_type of
        Some (DT_Udt udt) \<Rightarrow>
          Some \<lparr>udt_data_type = DT_Udt udt, field_values = replicate (length (field_types udt)) None\<rparr>
      | _ \<Rightarrow> None)"

definition cass_user_type_data_type :: "CassUserType c_ptr \<Rightarrow> CassDataType c_ptr" where
  "cass_user_type_data_type user_type = map_option udt_data_type user_type"

subsection \<open>Vectors\<close>

record CassVector =
  vector_data_type :: CassDataType
  vector_element_type :: CassDataType
  vector_items :: "CassCqlValue option list"

definition CassVector_bind_value ::
    "CassVector \<Rightarrow> nat \<Rightarrow> CassCqlValue \<Rightarrow> (CassError \<times> CassVector) panics" where
  "CassVector_bind_value self index v =
     (if length (vector_items self) \<le> index then Some (CASS_ERROR_LIB_INDEX_OUT_OF_BOUNDS, self)
      else
        do { ok \<leftarrow> CassCqlValue_is_type_compatible v (vector_element_type self);
             if \<not> ok then Some (CASS_ERROR_LIB_INVALID_VALUE_TYPE, self)
             else Some (CASS_OK, self\<lparr>vector_items := (vector_items self)[index := Some v]\<rparr>) })"

text \<open>The function the setters of a vector are generated with.\<close>

definition vector_consume ::
    "CassVector \<Rightarrow> nat \<Rightarrow> CassCqlValue option \<Rightarrow> (CassError \<times> CassVector) panics" where
  "vector_consume vector index v =
     (case v of
        Some v \<Rightarrow> CassVector_bind_value vector index v
      | None \<Rightarrow> Some (CASS_ERROR_LIB_BAD_PARAMS, vector))"

definition CassCqlValue_from_vector :: "CassVector \<Rightarrow> CassCqlValue" where
  "CassCqlValue_from_vector vector =
     CV_Vector (vector_data_type vector) (vector_element_type vector) (vector_items vector)"

definition cass_vector_new_from_data_type :: "CassDataType c_ptr \<Rightarrow> CassVector c_ptr" where
  "cass_vector_new_from_data_type data_type =
     (case data_type of
        Some (DT_Vector typ dimensions) \<Rightarrow>
          Some \<lparr>vector_data_type = DT_Vector typ dimensions, vector_element_type = typ,
                vector_items = replicate (unat dimensions) None\<rparr>
      | _ \<Rightarrow> None)"

definition cass_vector_new :: "CassValueType \<Rightarrow> u16 \<Rightarrow> CassVector c_ptr" where
  "cass_vector_new element_type dimensions =
     (case cass_data_type_new element_type of
        Some (DT_Value v) \<Rightarrow>
          cass_vector_new_from_data_type (cass_data_type_new_vector (Some (DT_Value v)) dimensions)
      | _ \<Rightarrow> None)"

definition cass_vector_data_type :: "CassVector c_ptr \<Rightarrow> CassDataType c_ptr" where
  "cass_vector_data_type vector = map_option vector_data_type vector"

subsection \<open>Containers with fixed places\<close>

text \<open>
  A sequence of writes to a container, with the error code of each; and the array such a sequence
  of writes stands for, in which only the accepted ones take effect.
\<close>

fun bind_seq ::
    "('s \<Rightarrow> 'i \<Rightarrow> 'v \<Rightarrow> (CassError \<times> 's) panics) \<Rightarrow> ('i \<times> 'v) list \<Rightarrow> 's \<Rightarrow>
     (CassError list \<times> 's) panics" where
  "bind_seq f [] s = Some ([], s)"
| "bind_seq f ((i, v) # ops) s =
     do { (e, s1) \<leftarrow> f s i v; (es, s2) \<leftarrow> bind_seq f ops s1; Some (e # es, s2) }"

fun accepted_writes :: "CassError list \<Rightarrow> (nat \<times> 'v) list \<Rightarrow> 'v list \<Rightarrow> 'v list" where
  "accepted_writes (e # es) ((i, v) # ops) xs =
     accepted_writes es ops (if e = CASS_OK then xs[i := v] else xs)"
| "accepted_writes _ _ xs = xs"

text \<open>
  What the setters of tuples, user defined types and vectors have in common: the verdict on a
  write depends only on the place and the value, an accepted write is within bounds and changes
  that place only, and nothing an accepted write does changes a later verdict.
\<close>

locale positional =
  fixes put :: "'s \<Rightarrow> nat \<Rightarrow> 'v \<Rightarrow> (CassError \<times> 's) panics"
    and slots :: "'s \<Rightarrow> 'v list"
    and verdict :: "'s \<Rightarrow> nat \<Rightarrow> 'v \<Rightarrow> CassError panics"
    and place :: "'s \<Rightarrow> nat \<Rightarrow> 'v \<Rightarrow> 's"
  assumes put_eq: "put s i v =
      do { err \<leftarrow> verdict s i v; Some (err, if err = CASS_OK then place s i v else s) }"
    and verdict_in_range: "verdict s i v = Some CASS_OK \<Longrightarrow> i < length (slots s)"
    and slots_place: "slots (place s i v) = (slots s)[i := v]"
    and verdict_place: "verdict (place s i v) j w = verdict s j w"
begin

lemma put_cases:
  assumes "put s i v = Some (e, s')"
  shows "verdict s i v = Some e \<and> s' = (if e = CASS_OK then place s i v else s)"
  using assms by (auto simp: put_eq bind_eq_Some_conv)

lemma seq_is_array:
  assumes "bind_seq put ops s = Some (es, s')"
  shows "slots s' = accepted_writes es ops (slots s) \<and>
         map Some es = map (\<lambda>(i, v). verdict s i v) ops"
  using assms
proof (induction ops arbitrary: s es)
  case (Cons op ops)
  obtain i v where op: "op = (i, v)" by (cases op)
  with Cons.prems obtain e s1 es1 where e: "put s i v = Some (e, s1)"
      and rest: "bind_seq put ops s1 = Some (es1, s')" "es = e # es1"
    by (auto simp: bind_eq_Some_conv)
  note w = put_cases [OF e]
  have "verdict s1 = verdict s" using w verdict_place by (auto simp: fun_eq_iff)
  with Cons.IH [OF rest(1)] w op rest(2) show ?case by (simp add: slots_place)
qed simp

lemma seq_invariant:
  assumes "bind_seq put ops s = Some (es, s')" and "I s"
    and "\<And>s i v. (i, v) \<in> set ops \<Longrightarrow> I s \<Longrightarrow> verdict s i v = Some CASS_OK \<Longrightarrow> I (place s i v)"
  shows "I s'"
  using assms
proof (induction ops arbitrary: s es)
  case (Cons op ops)
  obtain i v where op: "op = (i, v)" by (cases op)
  with Cons.prems obtain e s1 es1 where e: "put s i v = Some (e, s1)"
      and rest: "bind_seq put ops s1 = Some (es1, s')"
    by (auto simp: bind_eq_Some_conv)
  have "I s1" using put_cases [OF e] Cons.prems op by (auto split: if_splits)
  with Cons.IH [OF rest] Cons.prems(3) show ?case by auto
qed simp

lemma put_other_place:
  assumes "put s i v = Some (e, s')" and "j \<noteq> i"
  shows "slots s' ! j = slots s ! j" and "length (slots s') = length (slots s)"
  using put_cases [OF assms(1)] assms(2) slots_place by (auto split: if_splits)

end

definition tuple_verdict :: "CassTuple \<Rightarrow> nat \<Rightarrow> CassCqlValue option \<Rightarrow> CassError panics" where
  "tuple_verdict t i v =
     (if length (tuple_items t) \<le> i then Some CASS_ERROR_LIB_INDEX_OUT_OF_BOUNDS
      else do { types \<leftarrow> get_types t;
                case types of None \<Rightarrow> Some CASS_OK
                            | Some ts \<Rightarrow> do { ty \<leftarrow> list_get ts i; check v ty } })"

definition udt_verdict :: "CassUserType \<Rightarrow> nat \<Rightarrow> CassCqlValue option \<Rightarrow> CassError panics" where
  "udt_verdict u i v =
     (if length (field_values u) \<le> i then Some CASS_ERROR_LIB_INDEX_OUT_OF_BOUNDS
      else do { udt \<leftarrow> get_udt_type (udt_data_type u);
                f \<leftarrow> list_get (field_types udt) i;
                check v (snd f) })"

definition vector_verdict :: "CassVector \<Rightarrow> nat \<Rightarrow> CassCqlValue option \<Rightarrow> CassError panics" where
  "vector_verdict x i v =
     (case v of
        None \<Rightarrow> Some CASS_ERROR_LIB_BAD_PARAMS
      | Some _ \<Rightarrow>
          (if length (vector_items x) \<le> i then Some CASS_ERROR_LIB_INDEX_OUT_OF_BOUNDS
           else check v (vector_element_type x)))"

interpretation tup: positional CassTuple_bind_value tuple_items tuple_verdict
  "\<lambda>t i v. t\<lparr>tuple_items := (tuple_items t)[i := v]\<rparr>"
  by unfold_locales
    (auto simp: CassTuple_bind_value_def tuple_verdict_def get_types_def split: if_splits bind_splits)

interpretation udt: positional set_field_by_index field_values udt_verdict
  "\<lambda>u i v. u\<lparr>field_values := (field_values u)[i := v]\<rparr>"
  by unfold_locales
    (auto simp: set_field_by_index_def udt_verdict_def split: if_splits bind_splits)

interpretation vec: positional vector_consume vector_items vector_verdict
  "\<lambda>x i v. x\<lparr>vector_items := (vector_items x)[i := v]\<rparr>"
  by unfold_locales
    (auto simp: vector_consume_def CassVector_bind_value_def vector_verdict_def check_def
      is_type_compatible_def split: if_splits bind_splits option.splits)

text \<open>
  Property C24.  Tuples, user defined types and vectors are arrays with typed places: after any
  sequence of writes by index, the contents are those of an array that received exactly the
  accepted writes in order, and whether a write is accepted, and with which error it is refused,
  depends on the place, the value and the type of the container only, never on earlier writes.
\<close>

theorem positional_containers_are_typed_arrays:
  "(bind_seq CassTuple_bind_value ops t = Some (es, t') \<longrightarrow>
      tuple_items t' = accepted_writes es ops (tuple_items t) \<and>
      map Some es = map (\<lambda>(i, v). tuple_verdict t i v) ops) \<and>
   (bind_seq set_field_by_index ops u = Some (es, u') \<longrightarrow>
      field_values u' = accepted_writes es ops (field_values u) \<and>
      map Some es = map (\<lambda>(i, v). udt_verdict u i v) ops) \<and>
   (bind_seq vector_consume ops x = Some (es, x') \<longrightarrow>
      vector_items x' = accepted_writes es ops (vector_items x) \<and>
      map Some es = map (\<lambda>(i, v). vector_verdict x i v) ops)"
  using tup.seq_is_array udt.seq_is_array vec.seq_is_array by blast

theorem positional_containers_are_typed_arrays_witness:
  "bind_seq CassTuple_bind_value [(0, Some (CV_Int 1)), (5, None), (0, Some (CV_Boolean True))]
     \<lparr>tuple_data_type = Some (DT_Tuple [DT_Value CASS_VALUE_TYPE_INT]), tuple_items = [None]\<rparr> =
   Some ([CASS_OK, CASS_ERROR_LIB_INDEX_OUT_OF_BOUNDS, CASS_ERROR_LIB_INVALID_VALUE_TYPE],
     \<lparr>tuple_data_type = Some (DT_Tuple [DT_Value CASS_VALUE_TYPE_INT]),
      tuple_items = accepted_writes
        [CASS_OK, CASS_ERROR_LIB_INDEX_OUT_OF_BOUNDS, CASS_ERROR_LIB_INVALID_VALUE_TYPE]
        [(0, Some (CV_Int 1)), (5, None), (0, Some (CV_Boolean True))] [None]\<rparr>)"
proof -
  let ?ops = "[(0, Some (CV_Int 1)), (5, None), (0, Some (CV_Boolean True))]"
  let ?es = "[CASS_OK, CASS_ERROR_LIB_INDEX_OUT_OF_BOUNDS, CASS_ERROR_LIB_INVALID_VALUE_TYPE]"
  let ?t = "\<lparr>tuple_data_type = Some (DT_Tuple [DT_Value CASS_VALUE_TYPE_INT]), tuple_items = [None]\<rparr>"
  let ?t' = "\<lparr>tuple_data_type = Some (DT_Tuple [DT_Value CASS_VALUE_TYPE_INT]),
      tuple_items = [Some (CV_Int 1)]\<rparr>"
  have run: "bind_seq CassTuple_bind_value ?ops ?t = Some (?es, ?t')"
    by (simp add: CassTuple_bind_value_def get_types_def check_def is_type_compatible_def)
  with positional_containers_are_typed_arrays [of ?ops ?t ?es ?t'] show ?thesis by simp
qed

subsection \<open>Typed containers stay well built\<close>

lemma check_ok_Some:
  "check (Some x) t = Some CASS_OK \<Longrightarrow> CassCqlValue_is_type_compatible x t = Some True"
  by (auto simp: check_def is_type_compatible_def bind_eq_Some_conv split: if_splits)

definition tuple_typed :: "CassDataType list \<Rightarrow> CassTuple \<Rightarrow> bool" where
  "tuple_typed ts t \<longleftrightarrow> tuple_data_type t = Some (DT_Tuple ts) \<and> length (tuple_items t) = length ts \<and>
     (\<forall>i < length ts. \<forall>x. tuple_items t ! i = Some x \<longrightarrow>
        well_built x \<and> CassCqlValue_is_type_compatible x (ts ! i) = Some True)"

definition vector_typed :: "CassDataType \<Rightarrow> u16 \<Rightarrow> CassVector \<Rightarrow> bool" where
  "vector_typed e d x \<longleftrightarrow> vector_data_type x = DT_Vector e d \<and> vector_element_type x = e \<and>
     length (vector_items x) = unat d \<and>
     (\<forall>y. Some y \<in> set (vector_items x) \<longrightarrow>
        well_built y \<and> CassCqlValue_is_type_compatible y e = Some True)"

lemma tuple_typed_place:
  assumes "tuple_typed ts t" "tuple_verdict t i v = Some CASS_OK" "\<And>x. v = Some x \<Longrightarrow> well_built x"
  shows "tuple_typed ts (t\<lparr>tuple_items := (tuple_items t)[i := v]\<rparr>)"
proof -
  have "check v (ts ! i) = Some CASS_OK" "i < length ts"
    using assms(1,2)
    by (auto simp: tuple_typed_def tuple_verdict_def get_types_def list_get_def split: if_splits)
  with assms(1,3) check_ok_Some show ?thesis
    by (auto simp: tuple_typed_def nth_list_update)
qed

lemma vector_typed_place:
  assumes "vector_typed e d x" "vector_verdict x i v = Some CASS_OK" "\<And>y. v = Some y \<Longrightarrow> well_built y"
  shows "vector_typed e d (x\<lparr>vector_items := (vector_items x)[i := v]\<rparr>)"
proof -
  from assms(2) obtain y where v: "v = Some y" and "check v (vector_element_type x) = Some CASS_OK"
    by (auto simp: vector_verdict_def split: option.splits if_splits)
  then have "CassCqlValue_is_type_compatible y e = Some True"
    using assms(1) check_ok_Some by (simp add: vector_typed_def)
  moreover have "z = y \<or> Some z \<in> set (vector_items x)"
    if "Some z \<in> set ((vector_items x)[i := v])" for z
    using that v set_update_subset_insert [of "vector_items x" i v] by auto
  ultimately show ?thesis
    using assms(1,3) v by (auto simp: vector_typed_def)
qed

text \<open>
  Property C25.  A tuple or a vector created from a complete data type and filled, in any order and
  with any refusals on the way, with values that are themselves well built is a well built value.
\<close>

theorem positional_containers_stay_well_built:
  "(exact_type (DT_Tuple ts) \<longrightarrow> cass_tuple_new_from_data_type (Some (DT_Tuple ts)) = Some t \<longrightarrow>
      bind_seq CassTuple_bind_value ops t = Some (es, t') \<longrightarrow>
      (\<forall>i x. (i, Some x) \<in> set ops \<longrightarrow> well_built x) \<longrightarrow> well_built (CassCqlValue_from_tuple t')) \<and>
   (exact_type e \<longrightarrow> cass_vector_new_from_data_type (Some (DT_Vector e d)) = Some w \<longrightarrow>
      bind_seq vector_consume ops w = Some (es, w') \<longrightarrow>
      (\<forall>i x. (i, Some x) \<in> set ops \<longrightarrow> well_built x) \<longrightarrow> well_built (CassCqlValue_from_vector w'))"
proof (intro conjI impI)
  assume ts: "exact_type (DT_Tuple ts)" and t: "cass_tuple_new_from_data_type (Some (DT_Tuple ts)) = Some t"
    and run: "bind_seq CassTuple_bind_value ops t = Some (es, t')"
    and wb: "\<forall>i x. (i, Some x) \<in> set ops \<longrightarrow> well_built x"
  have "tuple_typed ts t" using t by (auto simp: cass_tuple_new_from_data_type_def tuple_typed_def)
  then have "tuple_typed ts t'"
    by (rule tup.seq_invariant [OF run]) (use wb tuple_typed_place in blast)
  then show "well_built (CassCqlValue_from_tuple t')"
    using WB_Tuple [OF ts, of "tuple_items t'"]
    by (simp add: CassCqlValue_from_tuple_def tuple_typed_def)
next
  assume e: "exact_type e" and w: "cass_vector_new_from_data_type (Some (DT_Vector e d)) = Some w"
    and run: "bind_seq vector_consume ops w = Some (es, w')"
    and wb: "\<forall>i x. (i, Some x) \<in> set ops \<longrightarrow> well_built x"
  have "vector_typed e d w" using w by (auto simp: cass_vector_new_from_data_type_def vector_typed_def)
  then have "vector_typed e d w'"
    by (rule vec.seq_invariant [OF run]) (use wb vector_typed_place in blast)
  then show "well_built (CassCqlValue_from_vector w')"
    using WB_Vector [OF e, of "vector_items w'" d]
    by (simp add: CassCqlValue_from_vector_def vector_typed_def)
qed

theorem positional_containers_stay_well_built_witness:
  "well_built (CassCqlValue_from_tuple
     \<lparr>tuple_data_type = Some (DT_Tuple [DT_Value CASS_VALUE_TYPE_INT]), tuple_items = [Some (CV_Int 1)]\<rparr>)"
proof -
  let ?ts = "[DT_Value CASS_VALUE_TYPE_INT]" and ?ops = "[(0, Some (CV_Int 1))]"
  let ?t = "\<lparr>tuple_data_type = Some (DT_Tuple ?ts), tuple_items = [None]\<rparr>"
  let ?t' = "\<lparr>tuple_data_type = Some (DT_Tuple ?ts), tuple_items = [Some (CV_Int 1)]\<rparr>"
  have "exact_type (DT_Tuple ?ts)" by (simp add: scalar_value_type_def)
  moreover have "cass_tuple_new_from_data_type (Some (DT_Tuple ?ts)) = Some ?t"
    by (simp add: cass_tuple_new_from_data_type_def)
  moreover have "bind_seq CassTuple_bind_value ?ops ?t = Some ([CASS_OK], ?t')"
    by (simp add: CassTuple_bind_value_def get_types_def check_def is_type_compatible_def)
  moreover have "\<forall>i x. (i, Some x) \<in> set ?ops \<longrightarrow> well_built x" by (simp add: WB_Scalar)
  ultimately show ?thesis using positional_containers_stay_well_built [where ops = ?ops] by blast
qed

subsection \<open>Collections\<close>

fun append_seq :: "CassCqlValue list \<Rightarrow> CassCollection \<Rightarrow> (CassError list \<times> CassCollection) panics" where
  "append_seq [] c = Some ([], c)"
| "append_seq (v # vs) c =
     do { (e, c1) \<leftarrow> append_cql_value c (Some v); (es, c2) \<leftarrow> append_seq vs c1; Some (e # es, c2) }"

lemma append_cases:
  assumes "append_cql_value c (Some v) = Some (e, c')"
  shows "typecheck_on_append c (Some v) = Some e \<and>
    c' = (if e = CASS_OK then c\<lparr>collection_items := collection_items c @ [v]\<rparr> else c)"
  using assms by (auto simp: append_cql_value_def bind_eq_Some_conv split: if_splits)

lemma append_seq_invariant:
  assumes "append_seq vs c = Some (es, c')" and "I c"
    and "\<And>c v. v \<in> set vs \<Longrightarrow> I c \<Longrightarrow> typecheck_on_append c (Some v) = Some CASS_OK \<Longrightarrow>
           I (c\<lparr>collection_items := collection_items c @ [v]\<rparr>)"
  shows "I c'"
  using assms
proof (induction vs arbitrary: c es)
  case (Cons v vs)
  then obtain e c1 es1 where e: "append_cql_value c (Some v) = Some (e, c1)"
      and rest: "append_seq vs c1 = Some (es1, c')"
    by (auto simp: bind_eq_Some_conv)
  have "I c1" using append_cases [OF e] Cons.prems by (auto split: if_splits)
  with Cons.IH [OF rest] Cons.prems(3) show ?case by auto
qed simp

lemma as_chunks2_spec:
  "as_chunks2 xs = (pairs, remainder) \<Longrightarrow>
     xs = concat (map (\<lambda>(a, b). [a, b]) pairs) @ remainder \<and> length remainder < 2"
  by (induction xs arbitrary: pairs rule: as_chunks2.induct) (auto split: prod.splits)

lemma nth_pairs:
  "i < length pairs \<Longrightarrow>
     concat (map (\<lambda>(a, b). [a, b]) pairs) ! (2 * i) = fst (pairs ! i) \<and>
     concat (map (\<lambda>(a, b). [a, b]) pairs) ! (2 * i + 1) = snd (pairs ! i)"
  by (induction pairs arbitrary: i) (auto simp: nth_Cons' less_Suc_eq_0_disj split: prod.splits)

lemma length_pairs: "length (concat (map (\<lambda>(a, b). [a, b]) pairs)) = 2 * length pairs"
  by (induction pairs) auto

text \<open>The type of the item at an index of a collection with a complete type.\<close>

fun item_type :: "CassDataType \<Rightarrow> nat \<Rightarrow> CassDataType option" where
  "item_type (DT_List (Some t) _) i = Some t"
| "item_type (DT_Set (Some t) _) i = Some t"
| "item_type (DT_Map (MT_KeyAndValue k v) _) i = Some (if even i then k else v)"
| "item_type _ i = None"

definition collection_typed :: "CassDataType \<Rightarrow> CassCollection \<Rightarrow> bool" where
  "collection_typed dt c \<longleftrightarrow> collection_data_type c = Some dt \<and>
     (case dt of DT_List _ _ \<Rightarrow> collection_type c = CollectionType_List
               | DT_Set _ _ \<Rightarrow> collection_type c = CollectionType_Set
               | DT_Map _ _ \<Rightarrow> collection_type c = CollectionType_Map
               | _ \<Rightarrow> False) \<and>
     (\<forall>i < length (collection_items c). \<exists>t. item_type dt i = Some t \<and>
        well_built (collection_items c ! i) \<and>
        CassCqlValue_is_type_compatible (collection_items c ! i) t = Some True)"

lemma typecheck_item_type:
  assumes "exact_type dt" "collection_data_type c = Some dt"
    and "typecheck_on_append c (Some v) = Some CASS_OK"
  shows "\<exists>t. item_type dt (length (collection_items c)) = Some t \<and>
           CassCqlValue_is_type_compatible v t = Some True"
  using assms(1)
proof (cases dt rule: exact_type_cases)
qed (use assms(2,3) in \<open>auto simp: typecheck_on_append_def Let_def check_ok_Some split: if_splits\<close>)

lemma collection_typed_append:
  assumes "exact_type dt" "collection_typed dt c" "well_built v"
    and "typecheck_on_append c (Some v) = Some CASS_OK"
  shows "collection_typed dt (c\<lparr>collection_items := collection_items c @ [v]\<rparr>)"
  using typecheck_item_type [of dt c v] assms
  by (auto simp: collection_typed_def nth_append less_Suc_eq split: CassDataType.splits)

lemma collection_typed_well_built:
  assumes dt: "exact_type dt" and c: "collection_typed dt c"
    and v: "CassCqlValue_try_from_collection c = Inr v"
  shows "well_built v"
  using dt
proof (cases dt rule: exact_type_cases)
  case (2 t fr)
  with c v show ?thesis
    by (auto simp: collection_typed_def CassCqlValue_try_from_collection_def Let_def in_set_conv_nth
        intro!: WB_List)
next
  case (3 t fr)
  with c v show ?thesis
    by (auto simp: collection_typed_def CassCqlValue_try_from_collection_def Let_def in_set_conv_nth
        intro!: WB_Set)
next
  case (4 k w fr)
  with c v obtain pairs where pairs: "as_chunks2 (collection_items c) = (pairs, [])"
      and "v = CV_Map (Some (DT_Map (MT_KeyAndValue k w) fr)) pairs"
    by (auto simp: collection_typed_def CassCqlValue_try_from_collection_def Let_def
        split: prod.splits if_splits)
  moreover have "well_built (fst p) \<and> CassCqlValue_is_type_compatible (fst p) k = Some True \<and>
      well_built (snd p) \<and> CassCqlValue_is_type_compatible (snd p) w = Some True"
    if "p \<in> set pairs" for p
  proof -
    from that obtain i where i: "i < length pairs" "p = pairs ! i" by (auto simp: in_set_conv_nth)
    have items: "collection_items c = concat (map (\<lambda>(a, b). [a, b]) pairs)"
      using as_chunks2_spec [OF pairs] by simp
    then have "length (collection_items c) = 2 * length pairs" by (simp only: length_pairs)
    with c 4 i have "\<And>j. j < 2 * length pairs \<Longrightarrow> well_built (collection_items c ! j) \<and>
        CassCqlValue_is_type_compatible (collection_items c ! j) (if even j then k else w) = Some True"
      by (auto simp: collection_typed_def)
    from this [of "2 * i"] this [of "2 * i + 1"] i nth_pairs [OF i(1)] items show ?thesis by simp
  qed
  ultimately show ?thesis using 4 by (auto intro!: WB_Map)
qed (use c in \<open>auto simp: collection_typed_def CassCqlValue_try_from_collection_def Let_def in_set_conv_nth\<close>)



subsection \<open>Fields by name\<close>

lemma by_name_loop_distinct:
  assumes "name \<notin> fst ` set fs"
  shows "set_field_by_name_loop (enumerate n fs) name value found values =
         Some (if found then CASS_OK else CASS_ERROR_LIB_NAME_DOES_NOT_EXIST, values)"
  using assms by (induction fs arbitrary: n) (auto split: prod.splits)

lemma by_name_loop_unique:
  assumes "distinct (map fst fs)" "i < length fs" "fst (fs ! i) = name"
    and "length values = n + length fs"
  shows "set_field_by_name_loop (enumerate n fs) name value False values =
     do { err \<leftarrow> check value (snd (fs ! i));
          Some (err, if err = CASS_OK then values[n + i := value] else values) }"
  using assms
proof (induction fs arbitrary: n i)
  case (Cons f fs)
  obtain fname ftype where f: "f = (fname, ftype)" by (cases f)
  show ?case
  proof (cases i)
    case 0
    with Cons.prems f have "name \<notin> fst ` set fs" by auto
    then show ?thesis
      using 0 Cons.prems f by (auto simp: by_name_loop_distinct split: bind_splits)
  next
    case (Suc j)
    with Cons.prems have "name \<in> fst ` set fs" by (auto intro!: imageI)
    moreover have "fname \<notin> fst ` set fs" using Cons.prems(1) f by simp
    ultimately have "fname \<noteq> name" by blast
    with Suc Cons.prems Cons.IH [of j "Suc n"] f show ?thesis by (simp cong: if_cong)
  qed
qed simp

text \<open>
  For a user defined type whose field names are distinct, setting a field by name
  is the same as setting it by its index, and an unknown name changes nothing.
\<close>

lemma set_by_name_is_set_by_index:
  assumes "udt_data_type u = DT_Udt (UdtDataType fs ks n fr)" and "distinct (map fst fs)"
    and "length (field_values u) = length fs"
  shows "(i < length fs \<longrightarrow> set_field_by_name u (fst (fs ! i)) value = set_field_by_index u i value) \<and>
         (name \<notin> fst ` set fs \<longrightarrow>
            set_field_by_name u name value = Some (CASS_ERROR_LIB_NAME_DOES_NOT_EXIST, u))"
proof (intro conjI impI)
  assume i: "i < length fs"
  show "set_field_by_name u (fst (fs ! i)) value = set_field_by_index u i value"
    using assms i by_name_loop_unique [OF assms(2) i refl, of "field_values u" 0 "value"]
    by (simp add: set_field_by_name_def set_field_by_index_def list_get_in_range split: bind_splits)
next
  assume "name \<notin> fst ` set fs"
  then show "set_field_by_name u name value = Some (CASS_ERROR_LIB_NAME_DOES_NOT_EXIST, u)"
    using assms by (simp add: set_field_by_name_def by_name_loop_distinct)
qed

end
