(* ===== verification/Cass_Uuid.thy ===== *)
theory Cass_Uuid
  imports Cass_Arg_Conv
begin

text \<open>
  \<open>cql_types/uuid.rs\<close>: UUIDs and the generator of time-based UUIDs.

  Random numbers, readings of the clock and the hash of machine and process are arguments.  An
  atomic operation on \<open>last_timestamp\<close> is a single step; \<open>try_monotonic_timestamp\<close> performs a load
  and then at most one read-modify-write, so it is given the value it loads and the value the
  atomic has at the second operation, which differ when another thread came in between.
\<close>

record CassUuid =
  time_and_version :: u64
  clock_seq_and_node :: u64

record CassUuidGen =
  gen_clock_seq_and_node :: u64
  last_timestamp :: u64

subsection \<open>Fields\<close>

definition TIME_OFFSET_BETWEEN_UTC_AND_EPOCH :: u64 where
  "TIME_OFFSET_BETWEEN_UTC_AND_EPOCH = 0x01B21DD213814000"

definition MIN_CLOCK_SEQ_AND_NODE :: u64 where
  "MIN_CLOCK_SEQ_AND_NODE = 0x8080808080808080"

definition MAX_CLOCK_SEQ_AND_NODE :: u64 where
  "MAX_CLOCK_SEQ_AND_NODE = 0x7f7f7f7f7f7f7f7f"

definition to_milliseconds :: "u64 \<Rightarrow> u64" where
  "to_milliseconds timestamp = timestamp div 10000"

definition from_unix_timestamp :: "u64 \<Rightarrow> u64" where
  "from_unix_timestamp timestamp = timestamp * 10000 + TIME_OFFSET_BETWEEN_UTC_AND_EPOCH"

definition set_version :: "u64 \<Rightarrow> u8 \<Rightarrow> u64" where
  "set_version timestamp version =
     (timestamp AND 0x0FFFFFFFFFFFFFFF) OR push_bit 60 (ucast version)"

definition rand_clock_seq_and_node :: "u64 \<Rightarrow> u64 \<Rightarrow> u64" where
  "rand_clock_seq_and_node clock_seq node =
     (let result = 0;
          result = result OR push_bit 48 (clock_seq AND 0x3FFF);
          result = result OR 0x8000000000000000
      in result OR node)"

definition cass_uuid_version :: "CassUuid \<Rightarrow> u8" where
  "cass_uuid_version uuid = ucast (drop_bit 60 (time_and_version uuid) AND 0x0F)"

definition cass_uuid_timestamp :: "CassUuid \<Rightarrow> u64" where
  "cass_uuid_timestamp uuid =
     (let timestamp = time_and_version uuid AND 0x0FFFFFFFFFFFFFFF
      in to_milliseconds (timestamp - TIME_OFFSET_BETWEEN_UTC_AND_EPOCH))"

definition cass_uuid_min_from_time :: "u64 \<Rightarrow> CassUuid" where
  "cass_uuid_min_from_time timestamp =
     \<lparr>time_and_version = set_version (from_unix_timestamp timestamp) 1,
      clock_seq_and_node = MIN_CLOCK_SEQ_AND_NODE\<rparr>"

definition cass_uuid_max_from_time :: "u64 \<Rightarrow> CassUuid" where
  "cass_uuid_max_from_time timestamp =
     \<lparr>time_and_version = set_version (from_unix_timestamp timestamp) 1,
      clock_seq_and_node = MAX_CLOCK_SEQ_AND_NODE\<rparr>"

subsection \<open>The generator\<close>

text \<open>The result, if any, and the value of the atomic afterwards.\<close>

definition try_monotonic_timestamp :: "u64 \<Rightarrow> u64 \<Rightarrow> u64 \<Rightarrow> u64 option \<times> u64" where
  "try_monotonic_timestamp last_ts current now =
     (if now > last_ts then
        (if current = last_ts then (Some now, now) else (None, current))
      else
        (let last_ms = to_milliseconds last_ts in
         if to_milliseconds now < last_ms then (Some (current + 1), current + 1)
         else
           (let candidate = last_ts + 1 in
            if to_milliseconds candidate = last_ms then
              (if current = last_ts then (Some candidate, candidate) else (None, current))
            else (None, current))))"

text \<open>
  The retry loop of one thread, with no other thread using the generator: the clock is read anew
  in every iteration.  It has not returned when the readings are used up.
\<close>

fun monotonic_timestamp :: "u64 list \<Rightarrow> u64 \<Rightarrow> (u64 \<times> u64) option" where
  "monotonic_timestamp [] last_ts = None"
| "monotonic_timestamp (now_ms # later) last_ts =
     (case try_monotonic_timestamp last_ts last_ts (from_unix_timestamp now_ms) of
        (Some timestamp, last_ts_new) \<Rightarrow> Some (timestamp, last_ts_new)
      | (None, last_ts_new) \<Rightarrow> monotonic_timestamp later last_ts_new)"

definition cass_uuid_gen_new :: "u64 panics \<Rightarrow> u64 \<Rightarrow> CassUuidGen panics" where
  "cass_uuid_gen_new machine_and_process_hash random =
     do { h \<leftarrow> machine_and_process_hash;
          let node = (h AND 0x0000FFFFFFFFFFFF) OR 0x0000010000000000;
          Some \<lparr>gen_clock_seq_and_node = rand_clock_seq_and_node random node, last_timestamp = 0\<rparr> }"

definition cass_uuid_gen_new_with_node :: "u64 \<Rightarrow> u64 \<Rightarrow> CassUuidGen" where
  "cass_uuid_gen_new_with_node random node =
     \<lparr>gen_clock_seq_and_node = rand_clock_seq_and_node random (node AND 0x0000FFFFFFFFFFFF),
      last_timestamp = 0\<rparr>"

text \<open>The UUID is written to the output unless the generator is null.\<close>

definition cass_uuid_gen_time ::
    "u64 list \<Rightarrow> CassUuidGen c_ptr \<Rightarrow> (CassUuid option \<times> CassUuidGen c_ptr) option" where
  "cass_uuid_gen_time clock uuid_gen =
     (case uuid_gen of
        None \<Rightarrow> Some (None, None)
      | Some g \<Rightarrow>
          do { (timestamp, last_ts_new) \<leftarrow> monotonic_timestamp clock (last_timestamp g);
               Some (Some \<lparr>time_and_version = set_version timestamp 1,
                           clock_seq_and_node = gen_clock_seq_and_node g\<rparr>,
                     Some (g\<lparr>last_timestamp := last_ts_new\<rparr>)) })"

definition cass_uuid_gen_random :: "u64 \<Rightarrow> u64 \<Rightarrow> CassUuid" where
  "cass_uuid_gen_random random1 random2 =
     \<lparr>time_and_version = set_version random1 4,
      clock_seq_and_node = (random2 AND 0x3FFFFFFFFFFFFFFF) OR 0x8000000000000000\<rparr>"

definition cass_uuid_gen_from_time :: "CassUuidGen c_ptr \<Rightarrow> u64 \<Rightarrow> CassUuid option" where
  "cass_uuid_gen_from_time uuid_gen timestamp =
     (case uuid_gen of
        None \<Rightarrow> None
      | Some g \<Rightarrow>
          Some \<lparr>time_and_version = set_version (from_unix_timestamp timestamp) 1,
                clock_seq_and_node = gen_clock_seq_and_node g\<rparr>)"

subsection \<open>Conversion and text\<close>

text \<open>A \<open>Uuid\<close> of the library is the 128-bit number it is made from.\<close>

definition Uuid_from :: "CassUuid \<Rightarrow> u128" where
  "Uuid_from uuid =
     (let time_and_version_msb = time_and_version uuid AND 0xFFFFFFFF;
          time_and_version_lsb =
            ucast (word_rotl 16 (ucast (drop_bit 32 (time_and_version uuid AND 0xFFFFFFFF00000000)) :: u32)) :: u64;
          msb = ucast (push_bit 32 time_and_version_msb OR time_and_version_lsb) :: u128;
          lsb = ucast (clock_seq_and_node uuid) :: u128
      in push_bit 64 msb OR lsb)"

definition CassUuid_from :: "u128 \<Rightarrow> CassUuid" where
  "CassUuid_from uuid =
     (let upper_u64 = ucast (drop_bit 64 uuid) :: u64;
          lower_u64 = ucast (uuid AND 0xFFFFFFFFFFFFFFFF) :: u64;
          msb = ucast (word_rotl 16 (ucast (upper_u64 AND 0xFFFFFFFF) :: u32)) :: u64;
          lsb = drop_bit 32 (upper_u64 AND 0xFFFFFFFF00000000)
      in \<lparr>time_and_version = push_bit 32 msb OR lsb, clock_seq_and_node = lower_u64\<rparr>)"

text \<open>
  Formatting and parsing are the library's: \<open>hyphenated\<close> and \<open>parse_str\<close>.  The bytes written to
  the output are the text and a null byte.
\<close>

definition cass_uuid_string :: "(u128 \<Rightarrow> string) \<Rightarrow> CassUuid \<Rightarrow> string" where
  "cass_uuid_string hyphenated uuid = hyphenated (Uuid_from uuid) @ [nul]"

definition cass_uuid_from_string_n ::
    "(string \<Rightarrow> u128 option) \<Rightarrow> c_chars \<Rightarrow> nat \<Rightarrow> CassError \<times> CassUuid option" where
  "cass_uuid_from_string_n parse_str value value_length =
     (case CassStrLenDelimited_to_str value value_length of
        Inl _ \<Rightarrow> (CASS_ERROR_LIB_BAD_PARAMS, None)
      | Inr value_str \<Rightarrow>
          (case parse_str value_str of
             None \<Rightarrow> (CASS_ERROR_LIB_BAD_PARAMS, None)
           | Some parsed_uuid \<Rightarrow> (CASS_OK, Some (CassUuid_from parsed_uuid))))"

definition cass_uuid_from_string ::
    "(string \<Rightarrow> u128 option) \<Rightarrow> c_chars \<Rightarrow> CassError \<times> CassUuid option" where
  "cass_uuid_from_string parse_str value =
     (let (value, value_length) = as_len_delimited value
      in cass_uuid_from_string_n parse_str value value_length)"

subsection \<open>The conversion is a bijection\<close>

lemma mask_consts: "(0xFFFFFFFF :: u64) = mask 32" "(0xFFFFFFFF00000000 :: u64) = push_bit 32 (mask 32)"
     "(0xFFFFFFFFFFFFFFFF :: u128) = mask 64" "(0x0FFFFFFFFFFFFFFF :: u64) = mask 60"
     "(0x0F :: u64) = mask 4"
  by (simp_all add: mask_eq_exp_minus_1 push_bit_eq_mult)

lemma bit_rotl_16: "bit (word_rotl 16 (w :: u32)) n \<longleftrightarrow> n < 32 \<and> bit w ((n + 16) mod 32)"
  by (simp add: bit_word_rotl_iff)

lemmas uuid_bits = Let_def mask_consts bit_or_iff bit_and_iff bit_push_bit_iff
  bit_drop_bit_eq bit_unsigned_iff bit_mask_iff bit_rotl_16

lemma bit_u64_high: "\<not> n < 64 \<Longrightarrow> \<not> bit (w :: u64) n"
  using bit_imp_le_length [of w n] by auto

lemma bit_Uuid_from:
  "bit (Uuid_from u) n \<longleftrightarrow>
     (if n < 64 then bit (clock_seq_and_node u) n
      else if n < 96 then bit (time_and_version u) (32 + (n - 64 + 16) mod 32)
      else n < 128 \<and> bit (time_and_version u) (n - 96))"
proof -
  have "k mod 32 < 64" for k :: nat by (rule less_trans [of _ 32]) simp_all
  then show ?thesis
    unfolding Uuid_from_def
    by (cases "n < 64"; cases "n < 96"; simp add: uuid_bits bit_u64_high; fastforce)
qed

lemma bit_CassUuid_from_time:
  "n < 64 \<Longrightarrow> bit (time_and_version (CassUuid_from w)) n \<longleftrightarrow>
     (if n < 32 then bit w (n + 96) else bit w (64 + (n - 32 + 16) mod 32))"
proof -
  have "k mod 32 < 64" for k :: nat by (rule less_trans [of _ 32]) simp_all
  then show "n < 64 \<Longrightarrow> ?thesis"
    unfolding CassUuid_from_def
    by (cases "n < 32"; simp add: uuid_bits bit_u64_high; auto simp: add.commute)
qed

lemma bit_CassUuid_from_node:
  "n < 64 \<Longrightarrow> bit (clock_seq_and_node (CassUuid_from w)) n \<longleftrightarrow> bit w n"
  unfolding CassUuid_from_def by (simp add: uuid_bits)

lemma half_turn_twice: "k < 32 \<Longrightarrow> ((k + 16) mod 32 + 16) mod 32 = k" for k :: nat
  by (simp add: mod_add_left_eq)

lemma CassUuid_Uuid: "CassUuid_from (Uuid_from u) = u"
proof -
  have "time_and_version (CassUuid_from (Uuid_from u)) = time_and_version u"
  proof (rule bit_word_eqI)
    fix n assume n: "n < LENGTH(64)"
    have "(n - 32 + 16) mod 32 < 32" by simp
    with n half_turn_twice [of "n - 32"] show "bit (time_and_version (CassUuid_from (Uuid_from u))) n \<longleftrightarrow> bit (time_and_version u) n"
      by (auto simp: bit_CassUuid_from_time bit_Uuid_from)
  qed
  moreover have "clock_seq_and_node (CassUuid_from (Uuid_from u)) = clock_seq_and_node u"
    by (rule bit_word_eqI) (simp add: bit_CassUuid_from_node bit_Uuid_from)
  ultimately show ?thesis by (intro CassUuid.equality) (simp_all)
qed

lemma Uuid_CassUuid: "Uuid_from (CassUuid_from w) = w"
proof (rule bit_word_eqI)
  fix n assume n: "n < LENGTH(128)"
  show "bit (Uuid_from (CassUuid_from w)) n \<longleftrightarrow> bit w n"
    using n half_turn_twice [of "n - 64"] less_trans [of "(n - 64 + 16) mod 32" 32 64]
    by (auto simp: bit_Uuid_from bit_CassUuid_from_time bit_CassUuid_from_node)
qed

text \<open>
  The unusual layout of \<open>CassUuid\<close> loses nothing: converting to the standard
  128-bit form and back gives the same UUID, in both directions.
\<close>

lemma uuid_conversion_round_trip:
  "CassUuid_from (Uuid_from u) = u \<and> Uuid_from (CassUuid_from w) = w"
  by (simp add: CassUuid_Uuid Uuid_CassUuid)

text \<open>
  A UUID written as text and parsed again is the same UUID, for a formatter and
  parser that are inverse to each other and a text without null bytes in valid UTF-8.
\<close>

lemma uuid_text_round_trip:
  assumes "\<And>w. parse_str (hyphenated w) = Some w"
    and "\<And>w. nul \<notin> set (hyphenated w)" and "\<And>w. utf8_valid (hyphenated w)"
  shows "cass_uuid_from_string parse_str (Some (cass_uuid_string hyphenated u)) = (CASS_OK, Some u)"
proof -
  have "cstr_content (hyphenated w @ [nul]) = hyphenated w" for w
    using cstr_content_append_nul [OF assms(2), of w 0] by simp
  with assms show ?thesis
    by (simp add: cass_uuid_from_string_def cass_uuid_string_def as_len_delimited_def strlen_def
        cass_uuid_from_string_n_def CassStrLenDelimited_to_str_def CassUuid_Uuid)
qed

text \<open>A text form of bits, least significant first, for the instance below.\<close>

definition bits_text :: "u128 \<Rightarrow> string" where
  "bits_text w = map (\<lambda>n. if bit w n then CHR ''1'' else CHR ''0'') [0..<128]"

definition text_bits :: "string \<Rightarrow> u128" where
  "text_bits s = horner_sum of_bool 2 (map (\<lambda>c. c = CHR ''1'') s)"

lemma text_bits_text: "text_bits (bits_text w) = w"
proof -
  have "map (\<lambda>c. c = CHR ''1'') (bits_text w) = map (bit w) [0..<128]"
    by (simp add: bits_text_def comp_def)
  then have "text_bits (bits_text w) = take_bit 128 w"
    by (simp only: text_bits_def horner_sum_bit_eq_take_bit)
  also have "\<dots> = w" using take_bit_length_eq [of w] by simp
  finally show ?thesis .
qed

lemma bits_text_ascii: "nul \<notin> set (bits_text w)" "utf8_valid (bits_text w)"
  by (auto simp: bits_text_def list_all_iff intro!: utf8_valid_ascii)

subsection \<open>Fields of generated UUIDs\<close>

lemma bit_set_version:
  "bit (set_version t v) n \<longleftrightarrow> (if n < 60 then bit t n else n < 64 \<and> bit v (n - 60))"
  using bit_imp_le_length [of v "n - 60"]
  by (auto simp: set_version_def mask_consts bit_or_iff bit_and_iff bit_mask_iff bit_push_bit_iff
      bit_unsigned_iff)

lemma version_set_version:
  assumes "unat v < 16"
  shows "cass_uuid_version \<lparr>time_and_version = set_version t v, clock_seq_and_node = c\<rparr> = v"
proof (rule bit_word_eqI)
  fix n assume "n < LENGTH(8)"
  have "bit v n \<Longrightarrow> n < 4"
  proof -
    assume "bit v n"
    then have "bit (unat v) n" by (simp add: bit_unsigned_iff bit_imp_le_length)
    moreover have "take_bit 4 (unat v) = unat v" using assms by (simp add: take_bit_nat_eq_self)
    ultimately show "n < 4" by (metis bit_take_bit_iff)
  qed
  then show "bit (cass_uuid_version \<lparr>time_and_version = set_version t v,
      clock_seq_and_node = c\<rparr>) n \<longleftrightarrow> bit v n"
    by (auto simp: cass_uuid_version_def bit_unsigned_iff bit_and_iff mask_consts bit_mask_iff
        bit_drop_bit_eq bit_set_version)
qed

lemma timestamp_bits: "set_version t v AND 0x0FFFFFFFFFFFFFFF = take_bit 60 t"
  by (rule bit_word_eqI)
    (auto simp: bit_set_version bit_and_iff mask_consts bit_mask_iff bit_take_bit_iff)

lemma take_bit_small: "unat t < 2 ^ k \<Longrightarrow> take_bit k t = t" for t :: u64
  by (metis take_bit_nat_eq_self unsigned_take_bit_eq unsigned_word_eqI)

lemma unat_from_unix:
  assumes "unat ts * 10000 + 0x01B21DD213814000 < 2 ^ 60"
  shows "unat (ts * 10000) = unat ts * 10000"
    and "unat (from_unix_timestamp ts) = unat ts * 10000 + 0x01B21DD213814000"
proof -
  show m: "unat (ts * 10000) = unat ts * 10000"
    using assms by (subst unat_mult_lem [THEN iffD1]) simp_all
  show "unat (from_unix_timestamp ts) = unat ts * 10000 + 0x01B21DD213814000"
    using assms m unfolding from_unix_timestamp_def TIME_OFFSET_BETWEEN_UTC_AND_EPOCH_def
    by (subst unat_add_lem [THEN iffD1]) simp_all
qed

text \<open>
  The smallest and the largest UUID of a time carry that time and version 1, for
  every time whose tick count fits the 60 bits of the timestamp (until the year 5236).
\<close>

lemma uuid_from_time_round_trip:
  assumes "unat ts * 10000 + 0x01B21DD213814000 < 2 ^ 60"
  shows "cass_uuid_timestamp (cass_uuid_min_from_time ts) = ts \<and>
         cass_uuid_timestamp (cass_uuid_max_from_time ts) = ts \<and>
         cass_uuid_version (cass_uuid_min_from_time ts) = 1 \<and>
         cass_uuid_version (cass_uuid_max_from_time ts) = 1"
proof -
  have "take_bit 60 (from_unix_timestamp ts) = from_unix_timestamp ts"
    using assms by (intro take_bit_small) (simp add: unat_from_unix)
  moreover have "to_milliseconds (from_unix_timestamp ts - TIME_OFFSET_BETWEEN_UTC_AND_EPOCH) = ts"
    using unat_from_unix(1) [OF assms]
    by (simp add: to_milliseconds_def from_unix_timestamp_def word_unat_eq_iff unat_div)
  moreover have "unat (1 :: u8) < 16" by simp
  ultimately show ?thesis
    by (simp add: cass_uuid_timestamp_def cass_uuid_min_from_time_def cass_uuid_max_from_time_def
        timestamp_bits version_set_version)
qed

subsection \<open>Concurrent generation\<close>

text \<open>
  Threads that draw timestamps from one generator.  A thread reads the clock, loads the atomic,
  and performs the read-modify-write; it then starts over, having issued a timestamp or not.  The
  clock readings are arbitrary: they may stand still or go back.
\<close>

datatype uuid_thread = Idle | Sampled u64 | Loaded u64 u64

record uuid_system =
  shared :: u64
  threads :: "nat \<Rightarrow> uuid_thread"
  issued :: "u64 list"

inductive uuid_step :: "uuid_system \<Rightarrow> uuid_system \<Rightarrow> bool" where
  Sample: "threads s i = Idle \<Longrightarrow> uuid_step s (s\<lparr>threads := (threads s)(i := Sampled now)\<rparr>)"
| Load: "threads s i = Sampled now \<Longrightarrow>
     uuid_step s (s\<lparr>threads := (threads s)(i := Loaded now (shared s))\<rparr>)"
| Update: "threads s i = Loaded now last_ts \<Longrightarrow>
     try_monotonic_timestamp last_ts (shared s) now = (r, current) \<Longrightarrow>
     uuid_step s (s\<lparr>shared := current, threads := (threads s)(i := Idle),
                   issued := issued s @ (case r of None \<Rightarrow> [] | Some t \<Rightarrow> [t])\<rparr>)"

definition uuid_initial :: uuid_system where
  "uuid_initial = \<lparr>shared = 0, threads = (\<lambda>_. Idle), issued = []\<rparr>"

lemma try_monotonic_cases:
  assumes "try_monotonic_timestamp last_ts current now = (r, current')"
  shows "(case r of None \<Rightarrow> current' = current | Some t \<Rightarrow> current' = t \<and> (t = 0 \<or> current < t))"
proof -
  have "current + 1 = 0 \<or> current < current + 1"
    using unatSuc [of current] by (cases "1 + current = 0") (auto simp: word_less_nat_alt add.commute)
  with assms show ?thesis
    by (auto simp: try_monotonic_timestamp_def Let_def split: if_splits)
qed

lemma issued_increasing:
  assumes "uuid_step\<^sup>*\<^sup>* uuid_initial s" and "0 \<notin> set (issued s)"
  shows "sorted_wrt (<) (issued s) \<and> (\<forall>t \<in> set (issued s). t \<le> shared s)"
  using assms
proof (induction rule: rtranclp_induct)
  case base
  then show ?case by (simp add: uuid_initial_def)
next
  case (step s s')
  from step.hyps(2) show ?case
  proof cases
    case (Update i now last_ts r current)
    then have "0 \<notin> set (issued s)" using step.prems by auto
    with step.IH have IH: "sorted_wrt (<) (issued s)" "\<And>t. t \<in> set (issued s) \<Longrightarrow> t \<le> shared s"
      by auto
    show ?thesis
    proof (cases r)
      case None
      with Update try_monotonic_cases IH show ?thesis by fastforce
    next
      case (Some t)
      with Update try_monotonic_cases [OF Update(3)] step.prems
      have "current = t" "shared s < t" by auto
      with Update Some IH show ?thesis
        by (auto simp: sorted_wrt_append intro: le_less_trans less_imp_le)
    qed
  qed (use step in auto)
qed

lemma set_version_inject:
  assumes "unat t < 2 ^ 60" "unat u < 2 ^ 60" "set_version t v = set_version u v"
  shows "t = u"
proof -
  have "take_bit 60 t = take_bit 60 u"
    using timestamp_bits [of t v] timestamp_bits [of u v] assms(3) by argo
  then show ?thesis
    using take_bit_small [OF assms(1)] take_bit_small [OF assms(2)] by argo
qed

text \<open>
  Property C7.  However threads interleave and whatever the clock shows, the timestamps a
  generator issues increase strictly in the order in which they are issued, and the time-based
  UUIDs made from them are pairwise different, as long as the counter has not wrapped around to
  zero and stays within the 60 bits of a timestamp.
\<close>

theorem concurrent_uuids_are_unique:
  assumes "uuid_step\<^sup>*\<^sup>* uuid_initial s" and "0 \<notin> set (issued s)"
    and "\<forall>t \<in> set (issued s). unat t < 2 ^ 60"
  shows "sorted_wrt (<) (issued s) \<and>
    distinct (map (\<lambda>t. \<lparr>time_and_version = set_version t 1, clock_seq_and_node = c\<rparr>) (issued s))"
proof -
  have sorted: "sorted_wrt (<) (issued s)" using issued_increasing assms(1,2) by blast
  then have "distinct (issued s)" by (simp add: strict_sorted_iff)
  moreover have "inj_on (\<lambda>t. \<lparr>time_and_version = set_version t 1, clock_seq_and_node = c\<rparr>)
      (set (issued s))"
  proof (rule inj_onI)
    fix t u
    assume "t \<in> set (issued s)" "u \<in> set (issued s)"
      and "\<lparr>time_and_version = set_version t 1, clock_seq_and_node = c\<rparr> =
           \<lparr>time_and_version = set_version u 1, clock_seq_and_node = c\<rparr>"
    then show "t = u" using assms(3) set_version_inject by (metis CassUuid.select_convs(1))
  qed
  ultimately show ?thesis using sorted by (simp add: distinct_map)
qed

text \<open>Two threads that load the same value: the second one fails to exchange and issues nothing.\<close>

theorem concurrent_uuids_are_unique_witness:
  "distinct (map (\<lambda>t. \<lparr>time_and_version = set_version t 1, clock_seq_and_node = 7\<rparr>)
     (issued \<lparr>shared = 20000, threads = (\<lambda>_. Idle)(0 := Idle, 1 := Idle), issued = [20000]\<rparr>))"
proof -
  let ?s0 = uuid_initial
  let ?s1 = "?s0\<lparr>threads := (threads ?s0)(0 := Sampled 20000)\<rparr>"
  let ?s2 = "?s1\<lparr>threads := (threads ?s1)(1 := Sampled 30000)\<rparr>"
  let ?s3 = "?s2\<lparr>threads := (threads ?s2)(0 := Loaded 20000 (shared ?s2))\<rparr>"
  let ?s4 = "?s3\<lparr>threads := (threads ?s3)(1 := Loaded 30000 (shared ?s3))\<rparr>"
  let ?s5 = "?s4\<lparr>shared := 20000, threads := (threads ?s4)(0 := Idle), issued := issued ?s4 @ [20000]\<rparr>"
  let ?s6 = "?s5\<lparr>shared := 20000, threads := (threads ?s5)(1 := Idle), issued := issued ?s5 @ []\<rparr>"
  have s1: "uuid_step ?s0 ?s1" by (rule Sample) (simp add: uuid_initial_def)
  have s2: "uuid_step ?s1 ?s2" by (rule Sample) (simp add: uuid_initial_def)
  have s3: "uuid_step ?s2 ?s3" by (rule Load) (simp add: uuid_initial_def)
  have s4: "uuid_step ?s3 ?s4" by (rule Load) (simp add: uuid_initial_def)
  have s5: "uuid_step ?s4 ?s5"
    using Update [of ?s4 0 20000 0 "Some 20000" 20000]
    by (simp add: uuid_initial_def try_monotonic_timestamp_def)
  have s6: "uuid_step ?s5 ?s6"
    using Update [of ?s5 1 30000 0 None 20000]
    by (simp add: uuid_initial_def try_monotonic_timestamp_def)
  have "uuid_step\<^sup>*\<^sup>* ?s0 ?s6"
    by (rule converse_rtranclp_into_rtranclp [where r = uuid_step, OF s1] converse_rtranclp_into_rtranclp [where r = uuid_step, OF s2]
        converse_rtranclp_into_rtranclp [where r = uuid_step, OF s3] converse_rtranclp_into_rtranclp [where r = uuid_step, OF s4]
        converse_rtranclp_into_rtranclp [where r = uuid_step, OF s5] r_into_rtranclp [where r = uuid_step, OF s6])+
  from concurrent_uuids_are_unique [OF this, of 7] show ?thesis
    by (simp add: uuid_initial_def)
qed



lemma bit_node_mask: "bit (0x0000FFFFFFFFFFFF :: u64) n \<longleftrightarrow> n < 48"
proof -
  have "(0x0000FFFFFFFFFFFF :: u64) = mask 48" by (simp add: mask_eq_exp_minus_1)
  then show ?thesis by (simp only: bit_mask_iff) auto
qed

text \<open>
  A generator made for a node carries that node in the low 48 bits of every UUID it
  produces, and the variant bits of RFC 4122 above it, whatever the random clock sequence.
\<close>

lemma generator_keeps_node_and_variant:
  "let c = gen_clock_seq_and_node (cass_uuid_gen_new_with_node random node)
   in c AND 0x0000FFFFFFFFFFFF = node AND 0x0000FFFFFFFFFFFF \<and> drop_bit 62 c = 2"
proof -
  have m: "(0x3FFF :: u64) = mask 14" "(0x8000000000000000 :: u64) = push_bit 63 1"
    by (simp_all add: mask_eq_exp_minus_1)
  have variant: "bit (0x8000000000000000 :: u64) n \<longleftrightarrow> n = 63" for n
    unfolding m by (simp only: bit_push_bit_iff bit_1_iff) auto
  have seq: "bit (0x3FFF :: u64) n \<longleftrightarrow> n < 14" for n
    unfolding m by (simp only: bit_mask_iff) auto
  let ?c = "gen_clock_seq_and_node (cass_uuid_gen_new_with_node random node)"
  have c: "bit ?c n \<longleftrightarrow> n < 48 \<and> bit node n \<or> 48 \<le> n \<and> n < 62 \<and> bit random (n - 48) \<or> n = 63" for n
    by (simp only: cass_uuid_gen_new_with_node_def CassUuidGen.select_convs rand_clock_seq_and_node_def
        Let_def or.left_neutral bit_or_iff bit_and_iff bit_push_bit_iff bit_node_mask variant seq)
      (auto dest: bit_imp_le_length)
  have "?c AND 0x0000FFFFFFFFFFFF = node AND 0x0000FFFFFFFFFFFF"
    by (rule bit_word_eqI) (simp only: bit_and_iff c bit_node_mask, auto)
  moreover have "drop_bit 62 ?c = 2"
  proof (rule bit_word_eqI)
    fix n assume "n < LENGTH(64)"
    have "bit (2 :: u64) n \<longleftrightarrow> n = 1" by (auto simp: bit_2_iff)
    then show "bit (drop_bit 62 ?c) n \<longleftrightarrow> bit (2 :: u64) n" 
      by (simp only: bit_drop_bit_eq comp_def c) auto
  qed
  ultimately show ?thesis by (simp add: Let_def)
qed

end
