(* ===== verification/Cass_Inet_Date.thy ===== *)
theory Cass_Inet_Date
  imports Cass_Cql_Value "HOL-Library.Signed_Division"
begin

text \<open>
  \<open>cql_types/inet.rs\<close> and \<open>cql_types/date_time.rs\<close>: internet addresses and the conversions
  between dates, times of day and seconds since the epoch.

  A \<open>CassInet\<close> has an array of 16 bytes, of which a v4 address uses the first four.  Arithmetic on
  \<open>i64\<close> and \<open>u64\<close> panics on overflow in a debug build and wraps in a release build; the flag
  \<open>overflow_checks\<close> selects the build.
\<close>

subsection \<open>Internet addresses\<close>

record CassInet =
  address :: "u8 list"
  address_length :: u8

datatype CassInetLength = CASS_INET_V4 | CASS_INET_V6

definition inet_length :: "CassInetLength \<Rightarrow> nat" where
  "inet_length l = (case l of CASS_INET_V4 \<Rightarrow> 4 | CASS_INET_V6 \<Rightarrow> 16)"

definition CassInetLength_from_u64 :: "u64 \<Rightarrow> CassInetLength option" where
  "CassInetLength_from_u64 n =
     (if n = 4 then Some CASS_INET_V4 else if n = 16 then Some CASS_INET_V6 else None)"

definition CassInetLength_from_i64 :: "u64 \<Rightarrow> CassInetLength option" where
  "CassInetLength_from_i64 n =
     (if sint n = 4 then Some CASS_INET_V4 else if sint n = 16 then Some CASS_INET_V6 else None)"

text \<open>The address argument has at least as many bytes as the length says.\<close>

definition cass_inet_init :: "u8 list \<Rightarrow> CassInetLength \<Rightarrow> CassInet" where
  "cass_inet_init addr len =
     \<lparr>address = take (inet_length len) addr @ replicate (16 - inet_length len) 0,
      address_length = word_of_nat (inet_length len)\<rparr>"

definition cass_inet_init_v4 :: "u8 list \<Rightarrow> CassInet" where
  "cass_inet_init_v4 addr = cass_inet_init addr CASS_INET_V4"

definition cass_inet_init_v6 :: "u8 list \<Rightarrow> CassInet" where
  "cass_inet_init_v6 addr = cass_inet_init addr CASS_INET_V6"

text \<open>\<open>FromPrimitive::from_u8\<close> goes through \<open>from_u64\<close>.\<close>

definition IpAddr_try_from :: "CassInet \<Rightarrow> unit + IpAddr" where
  "IpAddr_try_from inet =
     (case CassInetLength_from_u64 (ucast (address_length inet)) of
        Some CASS_INET_V4 \<Rightarrow> Inr (IpAddr_V4 (take 4 (address inet)))
      | Some CASS_INET_V6 \<Rightarrow> Inr (IpAddr_V6 (take 16 (address inet)))
      | None \<Rightarrow> Inl ())"

fun CassInet_from :: "IpAddr \<Rightarrow> CassInet" where
  "CassInet_from (IpAddr_V4 octets) =
     \<lparr>address = octets @ replicate (16 - length octets) 0, address_length = 4\<rparr>"
| "CassInet_from (IpAddr_V6 octets) =
     \<lparr>address = octets @ replicate (16 - length octets) 0, address_length = 16\<rparr>"

text \<open>Text is written and read by the standard library; nothing is written for an invalid length.\<close>

definition cass_inet_string :: "(IpAddr \<Rightarrow> string) \<Rightarrow> CassInet \<Rightarrow> string option" where
  "cass_inet_string to_string inet =
     (case IpAddr_try_from inet of
        Inl _ \<Rightarrow> None
      | Inr ip_addr \<Rightarrow> Some (to_string ip_addr @ [nul]))"

definition cass_inet_from_string_n ::
    "(string \<Rightarrow> IpAddr option) \<Rightarrow> c_chars \<Rightarrow> nat \<Rightarrow> CassError \<times> CassInet option" where
  "cass_inet_from_string_n from_str input input_length =
     (case CassStrLenDelimited_to_str input input_length of
        Inl _ \<Rightarrow> (CASS_ERROR_LIB_BAD_PARAMS, None)
      | Inr input_str \<Rightarrow>
          (case from_str input_str of
             None \<Rightarrow> (CASS_ERROR_LIB_BAD_PARAMS, None)
           | Some ip_addr \<Rightarrow> (CASS_OK, Some (CassInet_from ip_addr))))"

definition cass_inet_from_string ::
    "(string \<Rightarrow> IpAddr option) \<Rightarrow> c_chars \<Rightarrow> CassError \<times> CassInet option" where
  "cass_inet_from_string from_str input =
     (let (input, input_length) = as_len_delimited input
      in cass_inet_from_string_n from_str input input_length)"

fun octets_ok :: "IpAddr \<Rightarrow> bool" where
  "octets_ok (IpAddr_V4 octets) = (length octets = 4)"
| "octets_ok (IpAddr_V6 octets) = (length octets = 16)"

text \<open>
  Addresses survive the way through \<open>CassInet\<close>: converting an address of the
  standard library and back gives the same address, an address initialised from four or sixteen
  bytes converts to exactly these bytes, and every other length is rejected.
\<close>

lemma inet_round_trip:
  assumes "octets_ok ip" and "length v4 = 4" and "length v6 = 16"
    and "address_length bad \<noteq> 4" and "address_length bad \<noteq> 16"
  shows "IpAddr_try_from (CassInet_from ip) = Inr ip \<and>
         IpAddr_try_from (cass_inet_init_v4 v4) = Inr (IpAddr_V4 v4) \<and>
         IpAddr_try_from (cass_inet_init_v6 v6) = Inr (IpAddr_V6 v6) \<and>
         IpAddr_try_from bad = Inl ()"
proof -
  have "ucast n \<noteq> (4 :: u64)" "ucast n \<noteq> (16 :: u64)" if "n \<noteq> 4" "n \<noteq> 16" for n :: u8
  proof -
    have "unat n < 2 ^ 8" using unsigned_less [where ?'a = nat, of n] by simp
    then have "take_bit 64 (unat n) = unat n" by (simp add: take_bit_nat_eq_self)
    with that show "ucast n \<noteq> (4 :: u64)" "ucast n \<noteq> (16 :: u64)"
      by (simp_all add: word_unat_eq_iff unsigned_ucast_eq)
  qed
  then have "IpAddr_try_from bad = Inl ()"
    using assms(4,5) by (simp add: IpAddr_try_from_def CassInetLength_from_u64_def)
  with assms(1-3) show ?thesis
    by (cases ip) (simp_all add: IpAddr_try_from_def CassInetLength_from_u64_def
        cass_inet_init_v4_def cass_inet_init_v6_def cass_inet_init_def inet_length_def)
qed

subsection \<open>Dates and times\<close>

definition NUM_SECONDS_PER_DAY :: int where
  "NUM_SECONDS_PER_DAY = 24 * 60 * 60"

definition CASS_DATE_EPOCH :: int where
  "CASS_DATE_EPOCH = 2147483648"

definition CASS_TIME_NANOSECONDS_PER_SECOND :: int where
  "CASS_TIME_NANOSECONDS_PER_SECOND = 1000000000"

text \<open>The result of an operation on \<open>u64\<close> whose mathematical value is given.\<close>

definition u64_arith :: "bool \<Rightarrow> int \<Rightarrow> u64 panics" where
  "u64_arith overflow_checks r =
     (if overflow_checks \<and> \<not> (0 \<le> r \<and> r < 2 ^ 64) then None else Some (word_of_int r))"

text \<open>Neither operation on \<open>i64\<close> below can overflow: a quotient or remainder is added or scaled.\<close>

definition cass_date_from_epoch :: "u64 \<Rightarrow> u32" where
  "cass_date_from_epoch epoch_secs =
     word_of_int (sint epoch_secs sdiv NUM_SECONDS_PER_DAY + CASS_DATE_EPOCH)"

definition cass_time_from_epoch :: "u64 \<Rightarrow> u64" where
  "cass_time_from_epoch epoch_secs =
     word_of_int (CASS_TIME_NANOSECONDS_PER_SECOND * (sint epoch_secs smod NUM_SECONDS_PER_DAY))"

definition cass_date_time_to_epoch :: "bool \<Rightarrow> u32 \<Rightarrow> u64 \<Rightarrow> u64 panics" where
  "cass_date_time_to_epoch overflow_checks date time =
     do { days \<leftarrow> u64_arith overflow_checks (uint date - CASS_DATE_EPOCH);
          secs \<leftarrow> u64_arith overflow_checks (uint days * NUM_SECONDS_PER_DAY);
          u64_arith overflow_checks
            (uint secs + uint (word_of_int (sint time sdiv CASS_TIME_NANOSECONDS_PER_SECOND) :: u64)) }"

lemmas date_defs = cass_date_from_epoch_def cass_time_from_epoch_def cass_date_time_to_epoch_def
  NUM_SECONDS_PER_DAY_def CASS_DATE_EPOCH_def CASS_TIME_NANOSECONDS_PER_SECOND_def u64_arith_def

text \<open>Truncating division as the source's \<open>/\<close> and \<open>%\<close> on signed integers.\<close>

lemma smod_bound: "\<bar>e smod 86400\<bar> < (86400 :: int)"
  by (cases e "0 :: int" rule: linorder_cases) (simp_all add: signed_modulo_int_def)

lemma sdiv_smod_sign:
  "0 \<le> (e :: int) \<Longrightarrow> 0 \<le> e sdiv 86400 \<and> 0 \<le> e smod 86400"
  "(e :: int) < 0 \<Longrightarrow> e sdiv 86400 \<le> 0 \<and> e smod 86400 \<le> 0"
  by (simp_all add: signed_divide_int_def signed_modulo_int_def sgn_if pos_imp_zdiv_nonneg_iff)

lemma sdiv_nanos: "(1000000000 * r) sdiv 1000000000 = (r :: int)"
  by (simp add: signed_divide_int_def sgn_mult abs_mult) (simp add: mult_sgn_abs)

lemma uint_date:
  assumes "- (2 ^ 31) \<le> sint e sdiv 86400" "sint e sdiv 86400 < 2 ^ 31"
  shows "uint (cass_date_from_epoch e) = sint e sdiv 86400 + 2147483648"
  using assms by (simp add: date_defs unsigned_of_int take_bit_int_eq_self del: of_int_add)

lemma sint_time: "sint (cass_time_from_epoch e) sdiv 1000000000 = sint e smod 86400"
proof -
  have "sint (cass_time_from_epoch e) = 1000000000 * (sint e smod 86400)"
    using smod_bound [of "sint e"]
    by (simp add: date_defs signed_of_int signed_take_bit_int_eq_self del: of_int_mult)
  then show ?thesis by (simp add: sdiv_nanos)
qed

text \<open>
  Property C30.  Splitting seconds since the epoch into a date and a time of day and combining
  them again gives the same number of seconds, for every date the 32-bit date can hold, before
  and after the epoch; with overflow checks, though, combining panics for every date before the
  epoch.
\<close>

theorem date_time_round_trip:
  assumes "- (2 ^ 31) \<le> sint e sdiv 86400" and "sint e sdiv 86400 < 2 ^ 31"
  shows "cass_date_time_to_epoch overflow_checks (cass_date_from_epoch e) (cass_time_from_epoch e) =
           (if overflow_checks \<and> sint e sdiv 86400 < 0 then None else Some e)"
proof -
  define q r where "q = sint e sdiv 86400" and "r = sint e smod 86400"
  have e: "q * 86400 + r = sint e" unfolding q_def r_def by (rule sdiv_mult_smod_eq)
  have r: "\<bar>r\<bar> < 86400" unfolding r_def by (rule smod_bound)
  have date: "uint (cass_date_from_epoch e) = q + 2147483648"
    unfolding q_def by (rule uint_date) (fact assms)+
  have time: "sint (cass_time_from_epoch e) sdiv 1000000000 = r"
    unfolding r_def by (rule sint_time)
  have sum: "word_of_int q * 86400 + word_of_int r = e"
    using arg_cong [OF e, of "word_of_int :: int \<Rightarrow> u64"] by simp
  show ?thesis
  proof (cases "overflow_checks \<and> \<not> q < 0")
    case True
    then have q: "uint (word_of_int q :: u64) = q" "uint (word_of_int (q * 86400) :: u64) = q * 86400"
      using assms by (auto simp: unsigned_of_int take_bit_int_eq_self q_def simp del: of_int_mult)
    have range: "q * 86400 + uint (word_of_int r :: u64) < 2 ^ 64"
    proof (cases "q = 0")
      case True
      then show ?thesis using unsigned_less [of "word_of_int r :: u64", where ?'a = int] by simp
    next
      case False
      with True have "0 \<le> r" using sdiv_smod_sign [of "sint e"]
        by (cases "0 \<le> sint e") (auto simp: q_def r_def)
      then have "uint (word_of_int r :: u64) = r"
        using r by (simp add: unsigned_of_int take_bit_int_eq_self)
      then show ?thesis using assms(2) r by (simp add: q_def [symmetric])
    qed
    have "0 \<le> uint (word_of_int r :: u64)" by simp
    with True q range date time sum assms(2) show ?thesis
      by (auto simp: cass_date_time_to_epoch_def NUM_SECONDS_PER_DAY_def CASS_DATE_EPOCH_def
          CASS_TIME_NANOSECONDS_PER_SECOND_def u64_arith_def q_def [symmetric])
  next
    case False
    with date time sum show ?thesis
      by (auto simp: cass_date_time_to_epoch_def NUM_SECONDS_PER_DAY_def CASS_DATE_EPOCH_def
          CASS_TIME_NANOSECONDS_PER_SECOND_def u64_arith_def q_def)
  qed
qed

theorem date_time_round_trip_witness:
  "cass_date_time_to_epoch False (cass_date_from_epoch (- 100000)) (cass_time_from_epoch (- 100000)) =
     Some (- 100000) \<and>
   cass_date_time_to_epoch True (cass_date_from_epoch (- 100000)) (cass_time_from_epoch (- 100000)) =
     None"
proof -
  have "sint (- 100000 :: u64) = - 100000" by simp
  moreover have "(- 100000 :: int) sdiv 86400 = - 1" by (simp add: signed_divide_int_def)
  ultimately show ?thesis
    using date_time_round_trip [of "- 100000" False] date_time_round_trip [of "- 100000" True] by simp
qed

end
