(* ===== verification/Cass_Binding.thy ===== *)
theory Cass_Binding
  imports Cass_Containers Cass_Uuid Cass_Inet_Date
begin

text \<open>
  \<open>binding.rs\<close>: the macros that generate the setters of every structure.  A generated function
  checks its pointer, turns its arguments into a value, and passes the value on.

  The variants of \<open>invoke_binder_maker_macro_with_type\<close> are the constructors of \<open>value_arg\<close>, with the
  arguments the generated function has; \<open>bind_arg\<close> adds the variant \<open>null\<close>, which collections and
  vectors do not offer.  A byte pointer is null or points to the bytes from there on.
\<close>

datatype value_arg =
    A_Int8 u8
  | A_Int16 u16
  | A_Int32 u32
  | A_Uint32 u32
  | A_Int64 u64
  | A_Float u32
  | A_Double u64
  | A_Bool u32
  | A_String c_chars
  | A_String_n c_chars nat
  | A_Bytes "u8 list c_ptr" nat
  | A_Uuid CassUuid
  | A_Inet CassInet
  | A_Duration u32 u32 u64
  | A_Decimal "u8 list c_ptr" nat u32
  | A_Collection "CassCollection c_ptr"
  | A_Tuple "CassTuple c_ptr"
  | A_User_type "CassUserType c_ptr"
  | A_Vector "CassVector c_ptr"

datatype bind_arg = A_Null | A_Value value_arg

fun convert :: "value_arg \<Rightarrow> (CassError + CassCqlValue option) panics" where
  "convert (A_Int8 v) = Some (Inr (Some (CV_TinyInt v)))"
| "convert (A_Int16 v) = Some (Inr (Some (CV_SmallInt v)))"
| "convert (A_Int32 v) = Some (Inr (Some (CV_Int v)))"
| "convert (A_Uint32 v) = Some (Inr (Some (CV_Date v)))"
| "convert (A_Int64 v) = Some (Inr (Some (CV_BigInt v)))"
| "convert (A_Float v) = Some (Inr (Some (CV_Float v)))"
| "convert (A_Double v) = Some (Inr (Some (CV_Double v)))"
| "convert (A_Bool v) = Some (Inr (Some (CV_Boolean (v \<noteq> 0))))"
| "convert (A_String v) =
     Some (case CassStrNulTerminated_to_str v of
             Inr s \<Rightarrow> Inr (Some (CV_Text s))
           | Inl NullPointer \<Rightarrow> Inr (Some (CV_Text []))
           | Inl InvalidUtf8 \<Rightarrow> Inl CASS_ERROR_LIB_BAD_PARAMS)"
| "convert (A_String_n v n) =
     Some (case CassStrLenDelimited_to_str v n of
             Inr s \<Rightarrow> Inr (Some (CV_Text s))
           | Inl NullPointer \<Rightarrow>
               (if n = 0 then Inr (Some (CV_Text [])) else Inl CASS_ERROR_LIB_BAD_PARAMS)
           | Inl InvalidUtf8 \<Rightarrow> Inl CASS_ERROR_LIB_BAD_PARAMS)"
| "convert (A_Bytes v v_size) =
     Some (case v of
             None \<Rightarrow> if v_size \<noteq> 0 then Inl CASS_ERROR_LIB_BAD_PARAMS else Inr (Some (CV_Blob []))
           | Some mem \<Rightarrow> Inr (Some (CV_Blob (take v_size mem))))"
| "convert (A_Uuid v) = Some (Inr (Some (CV_Uuid (Uuid_from v))))"
| "convert (A_Inet v) =
     Some (case IpAddr_try_from v of
             Inr ip \<Rightarrow> Inr (Some (CV_Inet ip))
           | Inl _ \<Rightarrow> Inl CASS_ERROR_LIB_INVALID_VALUE_TYPE)"
| "convert (A_Duration m d n) = Some (Inr (Some (CV_Duration m d n)))"
| "convert (A_Decimal v v_size scale) =
     Some (case v of
             None \<Rightarrow> if v_size \<noteq> 0 then Inl CASS_ERROR_LIB_BAD_PARAMS
                     else Inr (Some (CV_Decimal [] scale))
           | Some mem \<Rightarrow> Inr (Some (CV_Decimal (take v_size mem) scale)))"
| "convert (A_Collection p) =
     do { c \<leftarrow> p;
          Some (case CassCqlValue_try_from_collection c of Inl e \<Rightarrow> Inl e | Inr v \<Rightarrow> Inr (Some v)) }"
| "convert (A_Tuple p) = do { t \<leftarrow> p; Some (Inr (Some (CassCqlValue_from_tuple t))) }"
| "convert (A_User_type p) =
     do { u \<leftarrow> p; v \<leftarrow> CassCqlValue_from_user_type u; Some (Inr (Some v)) }"
| "convert (A_Vector p) = do { x \<leftarrow> p; Some (Inr (Some (CassCqlValue_from_vector x))) }"

fun convert_arg :: "bind_arg \<Rightarrow> (CassError + CassCqlValue option) panics" where
  "convert_arg A_Null = Some (Inr None)"
| "convert_arg (A_Value a) = convert a"

subsection \<open>The generated functions\<close>

text \<open>Passing the value on, if there is one, to the function the structure provides.\<close>

definition consume_with ::
    "(CassCqlValue option \<Rightarrow> (CassError \<times> 's) panics) \<Rightarrow> 's \<Rightarrow>
     (CassError + CassCqlValue option) panics \<Rightarrow> (CassError \<times> 's c_ptr) panics" where
  "consume_with consume_v this e =
     do { r \<leftarrow> e;
          case r of
            Inr v \<Rightarrow> do { (err, this') \<leftarrow> consume_v v; Some (err, Some this') }
          | Inl err \<Rightarrow> Some (err, Some this) }"

definition make_index_binder ::
    "('s \<Rightarrow> nat \<Rightarrow> CassCqlValue option \<Rightarrow> (CassError \<times> 's) panics) \<Rightarrow> 's c_ptr \<Rightarrow> nat \<Rightarrow>
     (CassError + CassCqlValue option) panics \<Rightarrow> (CassError \<times> 's c_ptr) panics" where
  "make_index_binder consume_v this index e =
     (case this of
        None \<Rightarrow> Some (CASS_ERROR_LIB_BAD_PARAMS, None)
      | Some s \<Rightarrow> consume_with (consume_v s index) s e)"

definition make_name_binder ::
    "('s \<Rightarrow> string \<Rightarrow> CassCqlValue option \<Rightarrow> (CassError \<times> 's) panics) \<Rightarrow> 's c_ptr \<Rightarrow> c_chars \<Rightarrow>
     (CassError + CassCqlValue option) panics \<Rightarrow> (CassError \<times> 's c_ptr) panics" where
  "make_name_binder consume_v this name e =
     (case this of
        None \<Rightarrow> Some (CASS_ERROR_LIB_BAD_PARAMS, None)
      | Some s \<Rightarrow>
          (case CassStrNulTerminated_to_str name of
             Inl _ \<Rightarrow> Some (CASS_ERROR_LIB_BAD_PARAMS, this)
           | Inr n \<Rightarrow>
               (if n = [] then Some (CASS_ERROR_LIB_BAD_PARAMS, this)
                else consume_with (consume_v s n) s e)))"

definition make_name_n_binder ::
    "('s \<Rightarrow> string \<Rightarrow> CassCqlValue option \<Rightarrow> (CassError \<times> 's) panics) \<Rightarrow> 's c_ptr \<Rightarrow> c_chars \<Rightarrow> nat \<Rightarrow>
     (CassError + CassCqlValue option) panics \<Rightarrow> (CassError \<times> 's c_ptr) panics" where
  "make_name_n_binder consume_v this name name_length e =
     (case this of
        None \<Rightarrow> Some (CASS_ERROR_LIB_BAD_PARAMS, None)
      | Some s \<Rightarrow>
          (case CassStrLenDelimited_to_str name name_length of
             Inl _ \<Rightarrow> Some (CASS_ERROR_LIB_BAD_PARAMS, this)
           | Inr n \<Rightarrow>
               (if n = [] then Some (CASS_ERROR_LIB_BAD_PARAMS, this)
                else consume_with (consume_v s n) s e)))"

definition make_appender ::
    "('s \<Rightarrow> CassCqlValue option \<Rightarrow> (CassError \<times> 's) panics) \<Rightarrow> 's c_ptr \<Rightarrow>
     (CassError + CassCqlValue option) panics \<Rightarrow> (CassError \<times> 's c_ptr) panics" where
  "make_appender consume_v this e =
     (case this of
        None \<Rightarrow> Some (CASS_ERROR_LIB_BAD_PARAMS, None)
      | Some s \<Rightarrow> consume_with (consume_v s) s e)"

text \<open>
  The families \<open>cass_collection_append_*\<close>, \<open>cass_tuple_set_*\<close>, \<open>cass_user_type_set_*\<close> with their
  \<open>_by_name\<close> and \<open>_by_name_n\<close> forms, and \<open>cass_vector_set_*\<close>.
\<close>

definition cass_collection_append ::
    "CassCollection c_ptr \<Rightarrow> value_arg \<Rightarrow> (CassError \<times> CassCollection c_ptr) panics" where
  "cass_collection_append this a = make_appender append_cql_value this (convert a)"

definition cass_tuple_set ::
    "CassTuple c_ptr \<Rightarrow> nat \<Rightarrow> bind_arg \<Rightarrow> (CassError \<times> CassTuple c_ptr) panics" where
  "cass_tuple_set this index a = make_index_binder CassTuple_bind_value this index (convert_arg a)"

definition cass_user_type_set ::
    "CassUserType c_ptr \<Rightarrow> nat \<Rightarrow> bind_arg \<Rightarrow> (CassError \<times> CassUserType c_ptr) panics" where
  "cass_user_type_set this index a = make_index_binder set_field_by_index this index (convert_arg a)"

definition cass_user_type_set_by_name ::
    "CassUserType c_ptr \<Rightarrow> c_chars \<Rightarrow> bind_arg \<Rightarrow> (CassError \<times> CassUserType c_ptr) panics" where
  "cass_user_type_set_by_name this name a =
     make_name_binder set_field_by_name this name (convert_arg a)"

definition cass_user_type_set_by_name_n ::
    "CassUserType c_ptr \<Rightarrow> c_chars \<Rightarrow> nat \<Rightarrow> bind_arg \<Rightarrow> (CassError \<times> CassUserType c_ptr) panics" where
  "cass_user_type_set_by_name_n this name name_length a =
     make_name_n_binder set_field_by_name this name name_length (convert_arg a)"

definition cass_vector_set ::
    "CassVector c_ptr \<Rightarrow> nat \<Rightarrow> value_arg \<Rightarrow> (CassError \<times> CassVector c_ptr) panics" where
  "cass_vector_set this index a = make_index_binder vector_consume this index (convert a)"

subsection \<open>Laws\<close>

lemma make_null [null_simps]:
  "make_index_binder f None i e = Some (CASS_ERROR_LIB_BAD_PARAMS, None)"
  "make_name_binder g None n e = Some (CASS_ERROR_LIB_BAD_PARAMS, None)"
  "make_name_n_binder g None n l e = Some (CASS_ERROR_LIB_BAD_PARAMS, None)"
  "make_appender h None e = Some (CASS_ERROR_LIB_BAD_PARAMS, None)"
  by (simp_all add: make_index_binder_def make_name_binder_def make_name_n_binder_def
      make_appender_def)

lemma convert_value:
  assumes "convert a = Some (Inr v)"
  shows "v \<noteq> None"
  using assms
proof (cases a)
  case (A_Collection p)
  with assms show ?thesis
    by (cases "CassCqlValue_try_from_collection (the p)") (auto simp: bind_eq_Some_conv)
qed (auto simp: bind_eq_Some_conv split: sum.splits PtrToStrError.splits if_splits option.splits)

text \<open>A setter by null-terminated name is the one by counted name on the same string.\<close>

lemma name_binder_n:
  "make_name_binder f this name e =
     (let (name, len) = as_len_delimited name in make_name_n_binder f this name len e)"
  using to_str_as_len_delimited [of name]
  by (auto simp: make_name_binder_def make_name_n_binder_def split: prod.splits option.splits)

text \<open>
  Appending to a collection never unwraps an absent value: the only ways an append
  can panic are an argument that is a null container and a type check that meets a custom type.
\<close>

lemma append_panics_only_for_null_or_custom:
  assumes "cass_collection_append this a = None"
  shows "convert a = None \<or>
    (\<exists>c v. this = Some c \<and> convert a = Some (Inr (Some v)) \<and> typecheck_on_append c (Some v) = None)"
proof -
  from assms obtain c where c: "this = Some c"
    by (cases this) (simp_all add: cass_collection_append_def null_simps)
  show ?thesis
  proof (cases "convert a")
    case (Some r)
    with assms c obtain v where "r = Inr v" "append_cql_value c v = None"
      by (auto simp: cass_collection_append_def make_appender_def consume_with_def bind_eq_None_conv
          split: sum.splits prod.splits)
    with Some convert_value [of a v] c show ?thesis
      by (auto simp: append_cql_value_def bind_eq_None_conv split: if_splits)
  qed simp
qed

lemma get_udt_type_None: "get_udt_type dt = None \<longleftrightarrow> (\<forall>udt. dt \<noteq> DT_Udt udt)"
  by (cases dt) auto

text \<open>
  What the setters accept as a container is checked for null only by an \<open>unwrap\<close>:
  converting an argument panics exactly when it is a null collection, tuple, user defined type or
  vector, or a user defined type object whose data type is not one.
\<close>

lemma conversion_panics_exactly_for_null_containers:
  "convert a = None \<longleftrightarrow>
     a = A_Collection None \<or> a = A_Tuple None \<or> a = A_User_type None \<or> a = A_Vector None \<or>
     (\<exists>u. a = A_User_type (Some u) \<and> (\<forall>udt. udt_data_type u \<noteq> DT_Udt udt))"
proof (cases a)
  case (A_User_type p)
  then show ?thesis
    by (cases p) (auto simp: CassCqlValue_from_user_type_def bind_eq_None_conv get_udt_type_None)
qed (auto simp: bind_eq_None_conv split: option.splits)

end
