(* ===== verification/Cass_Config.thy ===== *)
theory Cass_Config
  imports Cass_Enums
begin

text \<open>
  \<open>config_value.rs\<close>, \<open>retry_policy.rs\<close> and \<open>timestamp_generator.rs\<close>: how values of the C API
  become settings, the retry policies, and the timestamp generators.

  The trait \<open>MaybeUnsetConfigValue\<close> is a locale; its four implementations are the interpretations.
  A \<open>Duration\<close> is a number of nanoseconds.
\<close>

subsection \<open>Settings that may be unset\<close>

datatype 'a MaybeUnsetConfig = Cfg_Unset | Cfg_Set 'a

definition from_c_value ::
    "('c \<Rightarrow> bool) \<Rightarrow> ('c \<Rightarrow> ('e + 'a) panics) \<Rightarrow> 'c \<Rightarrow> ('e + 'a MaybeUnsetConfig) panics" where
  "from_c_value is_unset from_set_c_value cvalue =
     (if is_unset cvalue then Some (Inr Cfg_Unset)
      else do { r \<leftarrow> from_set_c_value cvalue;
                case r of Inl e \<Rightarrow> Some (Inl e) | Inr v \<Rightarrow> Some (Inr (Cfg_Set v)) })"

definition Consistency_is_unset :: "CassConsistency \<Rightarrow> bool" where
  "Consistency_is_unset cvalue \<longleftrightarrow> cvalue = CASS_CONSISTENCY_UNKNOWN"

definition Consistency_from_set_c_value :: "CassConsistency \<Rightarrow> (unit + Consistency) panics" where
  "Consistency_from_set_c_value cvalue = Some
     (if cvalue = CASS_CONSISTENCY_ANY then Inr Consistency_Any
      else if cvalue = CASS_CONSISTENCY_ONE then Inr Consistency_One
      else if cvalue = CASS_CONSISTENCY_TWO then Inr Consistency_Two
      else if cvalue = CASS_CONSISTENCY_THREE then Inr Consistency_Three
      else if cvalue = CASS_CONSISTENCY_QUORUM then Inr Consistency_Quorum
      else if cvalue = CASS_CONSISTENCY_ALL then Inr Consistency_All
      else if cvalue = CASS_CONSISTENCY_LOCAL_QUORUM then Inr Consistency_LocalQuorum
      else if cvalue = CASS_CONSISTENCY_EACH_QUORUM then Inr Consistency_EachQuorum
      else if cvalue = CASS_CONSISTENCY_LOCAL_ONE then Inr Consistency_LocalOne
      else if cvalue = CASS_CONSISTENCY_LOCAL_SERIAL then Inr Consistency_LocalSerial
      else if cvalue = CASS_CONSISTENCY_SERIAL then Inr Consistency_Serial
      else Inl ())"

definition SerialConsistency_is_unset :: "CassConsistency \<Rightarrow> bool" where
  "SerialConsistency_is_unset cvalue \<longleftrightarrow> cvalue = CASS_CONSISTENCY_UNKNOWN"

definition SerialConsistency_from_set_c_value ::
    "CassConsistency \<Rightarrow> (unit + SerialConsistency option) panics" where
  "SerialConsistency_from_set_c_value cvalue = Some
     (if cvalue = CASS_CONSISTENCY_ANY then Inr None
      else if cvalue = CASS_CONSISTENCY_LOCAL_SERIAL then Inr (Some SerialConsistency_LocalSerial)
      else if cvalue = CASS_CONSISTENCY_SERIAL then Inr (Some SerialConsistency_Serial)
      else Inl ())"

type_synonym Duration = nat

text \<open>\<open>Duration::MAX\<close>: the largest number of seconds in a \<open>u64\<close>, and 999999999 nanoseconds.\<close>

definition RequestTimeout_INFINITE :: Duration where
  "RequestTimeout_INFINITE = (2 ^ 64 - 1) * 1000000000 + 999999999"

definition Duration_from_millis :: "u64 \<Rightarrow> Duration" where
  "Duration_from_millis ms = unat ms * 1000000"

datatype RequestTimeout = RequestTimeout "Duration option"

definition RequestTimeout_is_unset :: "u64 \<Rightarrow> bool" where
  "RequestTimeout_is_unset cvalue \<longleftrightarrow> cvalue = - 1"

definition RequestTimeout_from_set_c_value :: "u64 \<Rightarrow> (unit + RequestTimeout) panics" where
  "RequestTimeout_from_set_c_value cvalue =
     Some (Inr (RequestTimeout (if cvalue \<noteq> 0 then Some (Duration_from_millis cvalue) else None)))"

subsection \<open>Retry policies\<close>

datatype CassRetryPolicy =
    RP_Default
  | RP_Fallthrough
  | RP_DowngradingConsistency
  | RP_Logging CassRetryPolicy

definition RetryPolicy_is_unset :: "CassRetryPolicy c_ptr \<Rightarrow> bool" where
  "RetryPolicy_is_unset cvalue \<longleftrightarrow> cvalue = None"

definition RetryPolicy_from_set_c_value ::
    "CassRetryPolicy c_ptr \<Rightarrow> (unit + CassRetryPolicy) panics" where
  "RetryPolicy_from_set_c_value cvalue = do { rp \<leftarrow> cvalue; Some (Inr rp) }"

definition cass_retry_policy_default_new :: "CassRetryPolicy c_ptr" where
  "cass_retry_policy_default_new = Some RP_Default"

definition cass_retry_policy_downgrading_consistency_new :: "CassRetryPolicy c_ptr" where
  "cass_retry_policy_downgrading_consistency_new = Some RP_DowngradingConsistency"

definition cass_retry_policy_fallthrough_new :: "CassRetryPolicy c_ptr" where
  "cass_retry_policy_fallthrough_new = Some RP_Fallthrough"

definition cass_retry_policy_logging_new :: "CassRetryPolicy c_ptr \<Rightarrow> CassRetryPolicy c_ptr" where
  "cass_retry_policy_logging_new child_policy = map_option RP_Logging child_policy"

text \<open>
  The three basic policies are the Rust driver's: a function that opens a session, one that
  decides, and one that resets, over sessions of any type \<open>'st\<close>.  The decisions are the variants
  the source distinguishes when it logs.
\<close>

datatype RetryDecision =
    RetrySameTarget "Consistency option"
  | RetryNextTarget "Consistency option"
  | IgnoreWriteError
  | DontRetry
  | RetryDecision_Other

record ('st, 'req) base_policies =
  base_new_session :: "CassRetryPolicy \<Rightarrow> 'st"
  base_decide :: "'st \<Rightarrow> 'req \<Rightarrow> RetryDecision \<times> 'st"
  base_reset :: "'st \<Rightarrow> 'st"

datatype 'st RetrySession = RS_Base 'st | RS_Logging "'st RetrySession"

fun new_session :: "('st, 'req) base_policies \<Rightarrow> CassRetryPolicy \<Rightarrow> 'st RetrySession" where
  "new_session b (RP_Logging child_policy) = RS_Logging (new_session b child_policy)"
| "new_session b policy = RS_Base (base_new_session b policy)"

text \<open>The decision, the session afterwards, and the decisions that were logged.\<close>

fun decide_should_retry ::
    "('st, 'req) base_policies \<Rightarrow> 'st RetrySession \<Rightarrow> 'req \<Rightarrow>
     RetryDecision \<times> 'st RetrySession \<times> RetryDecision list" where
  "decide_should_retry b (RS_Base s) request_info =
     (let (decision, s') = base_decide b s request_info in (decision, RS_Base s', []))"
| "decide_should_retry b (RS_Logging child_session) request_info =
     (let (decision, child_session', logged) = decide_should_retry b child_session request_info
      in (decision, RS_Logging child_session',
          logged @ (case decision of
                      RetrySameTarget _ \<Rightarrow> [decision]
                    | RetryNextTarget _ \<Rightarrow> [decision]
                    | IgnoreWriteError \<Rightarrow> [decision]
                    | _ \<Rightarrow> [])))"

fun session_reset :: "('st, 'req) base_policies \<Rightarrow> 'st RetrySession \<Rightarrow> 'st RetrySession" where
  "session_reset b (RS_Base s) = RS_Base (base_reset b s)"
| "session_reset b (RS_Logging child_session) = RS_Logging (session_reset b child_session)"

subsection \<open>Timestamp generators\<close>

datatype warning_settings = Warn_Default | Warn_Never | Warn_Times Duration Duration

datatype CassTimestampGen = TG_ServerSide | TG_Monotonic warning_settings

definition cass_timestamp_gen_server_side_new :: "CassTimestampGen c_ptr" where
  "cass_timestamp_gen_server_side_new = Some TG_ServerSide"

definition cass_timestamp_gen_monotonic_new :: "CassTimestampGen c_ptr" where
  "cass_timestamp_gen_monotonic_new = Some (TG_Monotonic Warn_Default)"

definition cass_timestamp_gen_monotonic_new_with_settings ::
    "u64 \<Rightarrow> u64 \<Rightarrow> CassTimestampGen c_ptr" where
  "cass_timestamp_gen_monotonic_new_with_settings warning_threshold_us warning_interval_ms =
     Some (TG_Monotonic
       (if sint warning_threshold_us \<le> 0 then Warn_Never
        else
          (let warning_threshold = unat warning_threshold_us * 1000;
               warning_interval =
                 (if sint warning_interval_ms \<le> 0 then 1000000
                  else Duration_from_millis warning_interval_ms)
           in Warn_Times warning_threshold warning_interval)))"

subsection \<open>Laws\<close>

locale maybe_unset_config =
  fixes is_unset :: "'c \<Rightarrow> bool"
    and from_set_c_value :: "'c \<Rightarrow> ('e + 'a) panics"
  assumes set_returns: "\<not> is_unset c \<Longrightarrow> from_set_c_value c \<noteq> None"
begin

text \<open>The conversion never reaches the conversion of set values with an unset one.\<close>

lemma from_c_value_returns: "from_c_value is_unset from_set_c_value c \<noteq> None"
  using set_returns [of c] by (auto simp: from_c_value_def split: sum.splits)

lemma from_c_value_unset:
  "from_c_value is_unset from_set_c_value c = Some (Inr Cfg_Unset) \<longleftrightarrow> is_unset c"
  using set_returns [of c] by (auto simp: from_c_value_def split: sum.splits)

lemma from_c_value_set:
  "\<not> is_unset c \<Longrightarrow> from_set_c_value c = Some (Inr v) \<Longrightarrow>
     from_c_value is_unset from_set_c_value c = Some (Inr (Cfg_Set v))"
  by (simp add: from_c_value_def)

end

interpretation cons: maybe_unset_config Consistency_is_unset Consistency_from_set_c_value
  by unfold_locales (simp add: Consistency_from_set_c_value_def)

interpretation serial: maybe_unset_config SerialConsistency_is_unset SerialConsistency_from_set_c_value
  by unfold_locales (simp add: SerialConsistency_from_set_c_value_def)

interpretation timeout: maybe_unset_config RequestTimeout_is_unset RequestTimeout_from_set_c_value
  by unfold_locales (simp add: RequestTimeout_from_set_c_value_def)

interpretation retry: maybe_unset_config RetryPolicy_is_unset RetryPolicy_from_set_c_value
  by unfold_locales (auto simp: RetryPolicy_is_unset_def RetryPolicy_from_set_c_value_def)

end
