(* ===== verification/Cass_Statement.thy ===== *)
theory Cass_Statement
  imports Cass_Binding Cass_Config
begin

text \<open>
  \<open>statements/statement.rs\<close> and \<open>statements/prepared.rs\<close>: simple and prepared statements, binding
  their parameters by index and by name, their settings, and the cache of result metadata of a
  prepared statement.

  The Rust driver's \<open>Statement\<close> and \<open>PreparedStatement\<close> are library types: what the source stores in
  them through their setters is the record \<open>StatementConfig\<close>, their initial settings are an argument
  of the functions that create them, and the columns of a prepared statement are data of the model.
  \<open>Arc::make_mut\<close> makes the settings of a prepared statement private to the bound statement, so that
  plain values model them.  A \<open>HashMap\<close> is an association list with distinct keys.
\<close>

subsection \<open>Library types\<close>

datatype 'a MaybeUnset = MU_Unset | MU_Set 'a

type_synonym bound_value = "CassCqlValue option MaybeUnset"

record ColumnSpec =
  col_name :: string
  col_typ :: ColumnType

type_synonym node_ref = nat

datatype NodeIdentifier = NodeAddress IpAddr u16 | NodeId node_ref

record StatementConfig =
  cfg_consistency :: "Consistency option"
  cfg_serial_consistency :: "SerialConsistency option MaybeUnsetConfig"
  cfg_page_size :: u32
  cfg_is_idempotent :: bool
  cfg_tracing :: bool
  cfg_single_target :: "NodeIdentifier option"
  cfg_retry_policy :: "CassRetryPolicy option"
  cfg_timestamp :: "u64 option"
  cfg_request_timeout :: "Duration option"

record Statement =
  query_contents :: string
  query_config :: StatementConfig

record PreparedStatement =
  variable_col_specs :: "ColumnSpec list"
  prepared_config :: StatementConfig
  use_cached_result_metadata :: bool

type_synonym profile_handle = nat

datatype PerStatementExecProfile = Profile_Unresolved string | Profile_Resolved profile_handle

subsection \<open>Prepared statements\<close>

record CassPrepared =
  variable_col_data_types :: "CassDataType list"
  prepared_statement :: PreparedStatement

definition CassPrepared_new_from_prepared_statement :: "PreparedStatement \<Rightarrow> CassPrepared" where
  "CassPrepared_new_from_prepared_statement statement =
     (let statement = statement\<lparr>use_cached_result_metadata := True\<rparr> in
      \<lparr>variable_col_data_types =
         map (\<lambda>col_spec. get_column_type (col_typ col_spec)) (variable_col_specs statement),
       prepared_statement = statement\<rparr>)"

fun position :: "('a \<Rightarrow> bool) \<Rightarrow> 'a list \<Rightarrow> nat option" where
  "position p [] = None"
| "position p (x # xs) = (if p x then Some 0 else map_option Suc (position p xs))"

definition get_variable_data_type_by_name ::
    "CassPrepared \<Rightarrow> string \<Rightarrow> CassDataType option panics" where
  "get_variable_data_type_by_name self name =
     (case position (\<lambda>col_spec. col_name col_spec = name)
             (variable_col_specs (prepared_statement self)) of
        None \<Rightarrow> Some None
      | Some index \<Rightarrow>
          (case list_get (variable_col_data_types self) index of
             Some dt \<Rightarrow> Some (Some dt)
           | None \<Rightarrow> None))"

record BoundPreparedStatement =
  bp_statement :: CassPrepared
  bp_bound_values :: "bound_value list"

definition BoundPreparedStatement_bind_cql_value ::
    "BoundPreparedStatement \<Rightarrow> nat \<Rightarrow> CassCqlValue option \<Rightarrow>
     (CassError \<times> BoundPreparedStatement) panics" where
  "BoundPreparedStatement_bind_cql_value self index value =
     (case (list_get (bp_bound_values self) index,
            list_get (variable_col_data_types (bp_statement self)) index) of
        (Some _, Some dt) \<Rightarrow>
          do { ok \<leftarrow> is_type_compatible value dt;
               if \<not> ok then Some (CASS_ERROR_LIB_INVALID_VALUE_TYPE, self)
               else Some (CASS_OK,
                 self\<lparr>bp_bound_values := (bp_bound_values self)[index := MU_Set value]\<rparr>) }
      | (None, None) \<Rightarrow> Some (CASS_ERROR_LIB_INDEX_OUT_OF_BOUNDS, self)
      | _ \<Rightarrow> Some (CASS_ERROR_LIB_INDEX_OUT_OF_BOUNDS, self))"

fun bind_multiple_values_by_name ::
    "BoundPreparedStatement \<Rightarrow> nat list \<Rightarrow> CassCqlValue option \<Rightarrow>
     (CassError \<times> BoundPreparedStatement) panics" where
  "bind_multiple_values_by_name self [] value = Some (CASS_OK, self)"
| "bind_multiple_values_by_name self (i # indices) value =
     do { (bind_status, self') \<leftarrow> BoundPreparedStatement_bind_cql_value self i value;
          if bind_status \<noteq> CASS_OK then Some (bind_status, self')
          else bind_multiple_values_by_name self' indices value }"

definition to_ascii_lowercase :: "char \<Rightarrow> char" where
  "to_ascii_lowercase c =
     (if 65 \<le> (of_char c :: nat) \<and> (of_char c :: nat) \<le> 90
      then char_of ((of_char c :: nat) + 32) else c)"

definition eq_ignore_ascii_case :: "string \<Rightarrow> string \<Rightarrow> bool" where
  "eq_ignore_ascii_case s t \<longleftrightarrow> map to_ascii_lowercase s = map to_ascii_lowercase t"

definition column_matches :: "string \<Rightarrow> bool \<Rightarrow> ColumnSpec \<Rightarrow> bool" where
  "column_matches name is_case_sensitive col \<longleftrightarrow>
     (is_case_sensitive \<and> col_name col = name) \<or>
     (\<not> is_case_sensitive \<and> eq_ignore_ascii_case (col_name col) name)"

definition BoundPreparedStatement_bind_cql_value_by_name ::
    "BoundPreparedStatement \<Rightarrow> string \<Rightarrow> bool \<Rightarrow> CassCqlValue option \<Rightarrow>
     (CassError \<times> BoundPreparedStatement) panics" where
  "BoundPreparedStatement_bind_cql_value_by_name self name is_case_sensitive value =
     (let indices = map fst
            (filter (\<lambda>(_, col). column_matches name is_case_sensitive col)
               (enumerate 0 (variable_col_specs (prepared_statement (bp_statement self)))))
      in if indices = [] then Some (CASS_ERROR_LIB_NAME_DOES_NOT_EXIST, self)
         else bind_multiple_values_by_name self indices value)"

subsection \<open>Simple statements\<close>

record BoundSimpleStatement =
  bs_query :: Statement
  bs_bound_values :: "bound_value list"
  name_to_bound_index :: "(string \<times> nat) list"

definition BoundSimpleStatement_bind_cql_value ::
    "BoundSimpleStatement \<Rightarrow> nat \<Rightarrow> CassCqlValue option \<Rightarrow> CassError \<times> BoundSimpleStatement" where
  "BoundSimpleStatement_bind_cql_value self index value =
     (case list_get (bs_bound_values self) index of
        Some _ \<Rightarrow>
          (CASS_OK, self\<lparr>bs_bound_values := (bs_bound_values self)[index := MU_Set value]\<rparr>)
      | None \<Rightarrow> (CASS_ERROR_LIB_INDEX_OUT_OF_BOUNDS, self))"

definition BoundSimpleStatement_bind_cql_value_by_name ::
    "BoundSimpleStatement \<Rightarrow> string \<Rightarrow> CassCqlValue option \<Rightarrow> CassError \<times> BoundSimpleStatement" where
  "BoundSimpleStatement_bind_cql_value_by_name self name value =
     (case map_of (name_to_bound_index self) name of
        Some idx \<Rightarrow> BoundSimpleStatement_bind_cql_value self idx value
      | None \<Rightarrow>
          (let free_index = length (name_to_bound_index self) in
           if free_index \<ge> length (bs_bound_values self)
           then (CASS_ERROR_LIB_NAME_DOES_NOT_EXIST, self)
           else BoundSimpleStatement_bind_cql_value
             (self\<lparr>name_to_bound_index := (name, free_index) # name_to_bound_index self\<rparr>)
             free_index value))"

text \<open>
  The row serializer of simple statements.  Writing one cell, and writing a plain vector of values,
  are the library's: \<open>cell\<close> and \<open>vec_row\<close>.  Indexing \<open>bound_values\<close> out of range is a panic.
\<close>

datatype 'e row_error = RE_UnknownNamedParameter string | RE_Library 'e

record SimpleQueryRowSerializer =
  rs_bound_values :: "bound_value list"
  rs_name_to_bound_index :: "(string \<times> nat) list"

fun serialize_columns ::
    "(bound_value \<Rightarrow> ColumnType \<Rightarrow> 'e + u8 list) \<Rightarrow> SimpleQueryRowSerializer \<Rightarrow> ColumnSpec list \<Rightarrow>
     ('e row_error + u8 list) panics" where
  "serialize_columns cell self [] = Some (Inr [])"
| "serialize_columns cell self (col_spec # cols) =
     (case map_of (rs_name_to_bound_index self) (col_name col_spec) of
        None \<Rightarrow> Some (Inl (RE_UnknownNamedParameter (col_name col_spec)))
      | Some bound_values_idx \<Rightarrow>
          do { val \<leftarrow> list_get (rs_bound_values self) bound_values_idx;
               case cell val (col_typ col_spec) of
                 Inl e \<Rightarrow> Some (Inl (RE_Library e))
               | Inr bytes \<Rightarrow>
                   do { r \<leftarrow> serialize_columns cell self cols;
                        case r of Inl e \<Rightarrow> Some (Inl e) | Inr rest \<Rightarrow> Some (Inr (bytes @ rest)) } })"

definition SimpleQueryRowSerializer_serialize ::
    "(bound_value list \<Rightarrow> ColumnSpec list \<Rightarrow> 'e + u8 list) \<Rightarrow>
     (bound_value \<Rightarrow> ColumnType \<Rightarrow> 'e + u8 list) \<Rightarrow> SimpleQueryRowSerializer \<Rightarrow> ColumnSpec list \<Rightarrow>
     ('e row_error + u8 list) panics" where
  "SimpleQueryRowSerializer_serialize vec_row cell self columns =
     (if rs_name_to_bound_index self = []
      then (case vec_row (rs_bound_values self) columns of
              Inl e \<Rightarrow> Some (Inl (RE_Library e)) | Inr bytes \<Rightarrow> Some (Inr bytes))
      else serialize_columns cell self columns)"

definition SimpleQueryRowSerializer_is_empty :: "SimpleQueryRowSerializer \<Rightarrow> bool" where
  "SimpleQueryRowSerializer_is_empty self \<longleftrightarrow> rs_bound_values self = []"

subsection \<open>Statements\<close>

datatype BoundStatement = BS_Simple BoundSimpleStatement | BS_Prepared BoundPreparedStatement

type_synonym PagingState = "string option"

record CassStatement =
  bound_statement :: BoundStatement
  paging_state :: PagingState
  paging_enabled :: bool
  exec_profile :: "PerStatementExecProfile option"

definition CassStatement_new :: "BoundStatement \<Rightarrow> CassStatement" where
  "CassStatement_new statement =
     \<lparr>bound_statement = statement, paging_state = None, paging_enabled = False,
      exec_profile = None\<rparr>"

definition CassStatement_bind_cql_value ::
    "CassStatement \<Rightarrow> nat \<Rightarrow> CassCqlValue option \<Rightarrow> (CassError \<times> CassStatement) panics" where
  "CassStatement_bind_cql_value self index value =
     (case bound_statement self of
        BS_Simple simple \<Rightarrow>
          (let (err, simple') = BoundSimpleStatement_bind_cql_value simple index value
           in Some (err, self\<lparr>bound_statement := BS_Simple simple'\<rparr>))
      | BS_Prepared prepared \<Rightarrow>
          do { (err, prepared') \<leftarrow> BoundPreparedStatement_bind_cql_value prepared index value;
               Some (err, self\<lparr>bound_statement := BS_Prepared prepared'\<rparr>) })"

text \<open>\<open>strip_prefix\<close> and then \<open>strip_suffix\<close> of a double quote.\<close>

definition strip_quotes :: "string \<Rightarrow> string option" where
  "strip_quotes name =
     (case name of
        [] \<Rightarrow> None
      | c # s \<Rightarrow> if c = CHR 0x22 \<and> s \<noteq> [] \<and> last s = CHR 0x22 then Some (butlast s) else None)"

definition CassStatement_bind_cql_value_by_name ::
    "CassStatement \<Rightarrow> string \<Rightarrow> CassCqlValue option \<Rightarrow> (CassError \<times> CassStatement) panics" where
  "CassStatement_bind_cql_value_by_name self name value =
     (let (name_unquoted, is_case_sensitive) =
            (case strip_quotes name of
               Some name_unquoted \<Rightarrow> (name_unquoted, True)
             | None \<Rightarrow> (name, False))
      in case bound_statement self of
           BS_Simple simple \<Rightarrow>
             (let (err, simple') =
                    BoundSimpleStatement_bind_cql_value_by_name simple name_unquoted value
              in Some (err, self\<lparr>bound_statement := BS_Simple simple'\<rparr>))
         | BS_Prepared prepared \<Rightarrow>
             do { (err, prepared') \<leftarrow> BoundPreparedStatement_bind_cql_value_by_name prepared
                    name_unquoted is_case_sensitive value;
                  Some (err, self\<lparr>bound_statement := BS_Prepared prepared'\<rparr>) })"

definition reset_bound_values :: "CassStatement \<Rightarrow> nat \<Rightarrow> CassStatement" where
  "reset_bound_values self count =
     (case bound_statement self of
        BS_Simple simple \<Rightarrow>
          self\<lparr>bound_statement := BS_Simple (simple\<lparr>bs_bound_values := replicate count MU_Unset,
                                                   name_to_bound_index := []\<rparr>)\<rparr>
      | BS_Prepared prepared \<Rightarrow>
          self\<lparr>bound_statement := BS_Prepared (prepared\<lparr>bp_bound_values := replicate count MU_Unset\<rparr>)\<rparr>)"

end
