(* ===== verification/Cass_Metadata_Cache.thy ===== *)
theory Cass_Metadata_Cache
  imports Cass_Statement
begin

text \<open>
  The cache of result metadata of a prepared statement (\<open>statements/prepared.rs\<close>,
  \<open>CassResultMetadataCache\<close>), with \<open>CassResultMetadata::from_column_specs\<close> of \<open>query_result.rs\<close>.

  A \<open>ColumnSpecsGuard\<close> keeps a slice of column specifications of the Rust driver alive.  The cache
  compares slices by their address only, so the memory is part of the model: a slice is its address,
  and the heap gives the specifications stored there.  Memory that no guard, no running request and
  not the cache refers to may be freed and used for other specifications at any time.
\<close>

subsection \<open>Operations\<close>

record CassColumnSpec =
  spec_name :: string
  spec_data_type :: CassDataType

type_synonym CassResultMetadata = "CassColumnSpec list"

definition from_column_specs :: "ColumnSpec list \<Rightarrow> CassResultMetadata" where
  "from_column_specs col_specs =
     map (\<lambda>col_spec. \<lparr>spec_name = col_name col_spec,
                      spec_data_type = get_column_type (col_typ col_spec)\<rparr>) col_specs"

type_synonym address = nat
type_synonym heap = "address \<Rightarrow> ColumnSpec list"

record CassResultMetadataCacheInner =
  cache_guard :: address
  cass_result_metadata :: CassResultMetadata

definition CassResultMetadataCache_new :: "heap \<Rightarrow> address \<Rightarrow> CassResultMetadataCacheInner" where
  "CassResultMetadataCache_new h guard =
     \<lparr>cache_guard = guard, cass_result_metadata = from_column_specs (h guard)\<rparr>"

text \<open>
  The second half of \<open>update_if_necessary\<close>, after \<open>inner_guard\<close> was loaded: what is stored, if anything.
\<close>

definition update_store ::
    "heap \<Rightarrow> CassResultMetadataCacheInner \<Rightarrow> address \<Rightarrow> CassResultMetadataCacheInner option" where
  "update_store h inner_guard new_guard =
     (if cache_guard inner_guard \<noteq> new_guard
      then Some \<lparr>cache_guard = new_guard, cass_result_metadata = from_column_specs (h new_guard)\<rparr>
      else None)"

definition update_if_necessary ::
    "heap \<Rightarrow> CassResultMetadataCacheInner \<Rightarrow> address \<Rightarrow> CassResultMetadataCacheInner" where
  "update_if_necessary h inner new_guard =
     (case update_store h inner new_guard of Some inner' \<Rightarrow> inner' | None \<Rightarrow> inner)"

definition get_metadata_unless_stale ::
    "CassResultMetadataCacheInner \<Rightarrow> address \<Rightarrow> CassResultMetadata option" where
  "get_metadata_unless_stale inner result_column_specs =
     (if cache_guard inner = result_column_specs then Some (cass_result_metadata inner) else None)"

definition try_update_and_get_result_metadata ::
    "heap \<Rightarrow> CassResultMetadataCacheInner \<Rightarrow> address \<Rightarrow> address \<Rightarrow>
     CassResultMetadata option \<times> CassResultMetadataCacheInner" where
  "try_update_and_get_result_metadata h inner current_specs result_column_specs =
     (let inner' = update_if_necessary h inner current_specs
      in (get_metadata_unless_stale inner' result_column_specs, inner'))"

subsection \<open>Concurrent requests\<close>

text \<open>
  A request that finished with rows at address \<open>r\<close> runs \<open>try_update_and_get_result_metadata\<close> in these
  steps; every access to the shared cell is atomic (\<open>ArcSwap\<close>).
\<close>

datatype cache_thread =
    CT_Idle
  | CT_Update address address
  | CT_Loaded address address CassResultMetadataCacheInner
  | CT_Read address
  | CT_Done address "CassResultMetadata option"

record cache_system =
  cs_heap :: heap
  cs_inner :: CassResultMetadataCacheInner
  cs_threads :: "nat \<Rightarrow> cache_thread"

fun thread_live :: "cache_thread \<Rightarrow> address set" where
  "thread_live CT_Idle = {}"
| "thread_live (CT_Update r g) = {r, g}"
| "thread_live (CT_Loaded r g i) = {r, g, cache_guard i}"
| "thread_live (CT_Read r) = {r}"
| "thread_live (CT_Done r _) = {r}"

definition live :: "cache_system \<Rightarrow> address set" where
  "live s = insert (cache_guard (cs_inner s)) (\<Union>t. thread_live (cs_threads s t))"

inductive cache_step :: "cache_system \<Rightarrow> cache_system \<Rightarrow> bool" where
  CS_Begin: "cs_threads s t = CT_Idle \<Longrightarrow>
     cache_step s (s\<lparr>cs_threads := (cs_threads s)(t := CT_Update r g)\<rparr>)"
| CS_Load: "cs_threads s t = CT_Update r g \<Longrightarrow>
     cache_step s (s\<lparr>cs_threads := (cs_threads s)(t := CT_Loaded r g (cs_inner s))\<rparr>)"
| CS_Store: "cs_threads s t = CT_Loaded r g i \<Longrightarrow>
     cache_step s (s\<lparr>cs_inner := (case update_store (cs_heap s) i g of Some i' \<Rightarrow> i' | None \<Rightarrow> cs_inner s),
                     cs_threads := (cs_threads s)(t := CT_Read r)\<rparr>)"
| CS_Get: "cs_threads s t = CT_Read r \<Longrightarrow>
     cache_step s (s\<lparr>cs_threads :=
       (cs_threads s)(t := CT_Done r (get_metadata_unless_stale (cs_inner s) r))\<rparr>)"
| CS_Finish: "cs_threads s t = CT_Done r m \<Longrightarrow>
     cache_step s (s\<lparr>cs_threads := (cs_threads s)(t := CT_Idle)\<rparr>)"
| CS_Reuse: "a \<notin> live s \<Longrightarrow> cache_step s (s\<lparr>cs_heap := (cs_heap s)(a := specs)\<rparr>)"

definition cache_initial :: "heap \<Rightarrow> address \<Rightarrow> cache_system" where
  "cache_initial h guard =
     \<lparr>cs_heap = h, cs_inner = CassResultMetadataCache_new h guard, cs_threads = (\<lambda>_. CT_Idle)\<rparr>"

subsection \<open>The cache never answers with metadata of other columns\<close>

definition inner_ok :: "heap \<Rightarrow> CassResultMetadataCacheInner \<Rightarrow> bool" where
  "inner_ok h i \<longleftrightarrow> cass_result_metadata i = from_column_specs (h (cache_guard i))"

fun thread_ok :: "heap \<Rightarrow> cache_thread \<Rightarrow> bool" where
  "thread_ok h (CT_Loaded r g i) = inner_ok h i"
| "thread_ok h (CT_Done r (Some m)) = (m = from_column_specs (h r))"
| "thread_ok h _ = True"

definition cache_inv :: "cache_system \<Rightarrow> bool" where
  "cache_inv s \<longleftrightarrow> inner_ok (cs_heap s) (cs_inner s) \<and> (\<forall>t. thread_ok (cs_heap s) (cs_threads s t))"

lemma inner_ok_update [inv_intros]:
  "inner_ok h i \<Longrightarrow> update_store h j g = Some i' \<Longrightarrow> inner_ok h i'"
  by (auto simp: update_store_def inner_ok_def split: if_splits)

lemma thread_ok_reuse:
  "thread_ok h th \<Longrightarrow> a \<notin> thread_live th \<Longrightarrow> thread_ok (h(a := specs)) th"
  by (cases "(h, th)" rule: thread_ok.cases) (auto simp: inner_ok_def)

lemma cache_inv_step [inv_intros]:
  assumes "cache_step s s'" and "cache_inv s"
  shows "cache_inv s'"
  using assms
proof (cases rule: cache_step.cases)
  case (CS_Store t r g i)
  with assms(2) show ?thesis
    by (auto simp: cache_inv_def split: option.split intro: inner_ok_update)
next
  case (CS_Get t r)
  with assms(2) show ?thesis
    by (auto simp: cache_inv_def get_metadata_unless_stale_def inner_ok_def)
next
  case (CS_Reuse a specs)
  then have "cache_guard (cs_inner s) \<noteq> a" "\<And>t. a \<notin> thread_live (cs_threads s t)"
    by (auto simp: live_def)
  with assms(2) CS_Reuse show ?thesis
    by (auto simp: cache_inv_def inner_ok_def intro: thread_ok_reuse)
qed (auto simp: cache_inv_def)

lemma cache_inv_reachable: "cache_step\<^sup>*\<^sup>* (cache_initial h guard) s \<Longrightarrow> cache_inv s"
proof (induction rule: rtranclp_induct)
  case base
  show ?case
    by (simp add: cache_inv_def cache_initial_def CassResultMetadataCache_new_def inner_ok_def)
qed (rule cache_inv_step)

text \<open>
  Property C20.  Comparing slices of column specifications by address is sound: under any
  interleaving of requests that update and read the cache, and although memory that nothing refers
  to is reused, whenever a request gets metadata from the cache, it is exactly the metadata of the
  columns of its own result.
\<close>

theorem cached_metadata_describes_the_result:
  assumes "cache_step\<^sup>*\<^sup>* (cache_initial h guard) s"
    and "cs_threads s t = CT_Done r (Some metadata)"
  shows "metadata = from_column_specs (cs_heap s r)"
proof -
  have "thread_ok (cs_heap s) (cs_threads s t)"
    using cache_inv_reachable [OF assms(1)] by (simp add: cache_inv_def)
  with assms(2) show ?thesis by simp
qed

theorem cached_metadata_describes_the_result_witness:
  "\<exists>s. cache_step\<^sup>*\<^sup>* (cache_initial (\<lambda>a. if a = 5 then [\<lparr>col_name = ''x'', col_typ = CT_Native NT_Int\<rparr>] else []) 4) s \<and>
     cs_threads s 0 = CT_Done 5 (Some (from_column_specs (cs_heap s 5))) \<and>
     from_column_specs (cs_heap s 5) = [\<lparr>spec_name = ''x'', spec_data_type = DT_Value CASS_VALUE_TYPE_INT\<rparr>]"
proof -
  let ?h = "\<lambda>a. if a = 5 then [\<lparr>col_name = ''x'', col_typ = CT_Native NT_Int\<rparr>] else []"
  let ?s0 = "cache_initial ?h 4"
  let ?i0 = "CassResultMetadataCache_new ?h 4"
  let ?i1 = "CassResultMetadataCache_new ?h 5"
  define st where "st i th = ?s0\<lparr>cs_inner := i, cs_threads := (cs_threads ?s0)(0 := th)\<rparr>" for i th
  have s1: "cache_step ?s0 (st ?i0 (CT_Update 5 5))"
    using CS_Begin [of ?s0 0 5 5] by (simp add: st_def cache_initial_def)
  have s2: "cache_step (st ?i0 (CT_Update 5 5)) (st ?i0 (CT_Loaded 5 5 ?i0))"
    using CS_Load [of "st ?i0 (CT_Update 5 5)" 0 5 5] by (simp add: st_def cache_initial_def)
  have s3: "cache_step (st ?i0 (CT_Loaded 5 5 ?i0)) (st ?i1 (CT_Read 5))"
    using CS_Store [of "st ?i0 (CT_Loaded 5 5 ?i0)" 0 5 5 ?i0]
    by (simp add: st_def cache_initial_def update_store_def CassResultMetadataCache_new_def)
  have s4: "cache_step (st ?i1 (CT_Read 5)) (st ?i1 (CT_Done 5 (Some (from_column_specs (?h 5)))))"
    using CS_Get [of "st ?i1 (CT_Read 5)" 0 5]
    by (simp add: st_def cache_initial_def get_metadata_unless_stale_def CassResultMetadataCache_new_def)
  have "cache_step\<^sup>*\<^sup>* ?s0 (st ?i1 (CT_Done 5 (Some (from_column_specs (?h 5)))))"
    by (rule converse_rtranclp_into_rtranclp, rule s1, rule converse_rtranclp_into_rtranclp, rule s2,
        rule converse_rtranclp_into_rtranclp, rule s3, rule r_into_rtranclp, rule s4)
  note r = this cached_metadata_describes_the_result [OF this, of 0 5 "from_column_specs (?h 5)"]
  show ?thesis
    by (rule exI [of _ "st ?i1 (CT_Done 5 (Some (from_column_specs (?h 5))))"])
      (use r in \<open>simp add: st_def cache_initial_def from_column_specs_def\<close>)
qed

end
