(* ===== verification/Cass_Statement_Api.thy ===== *)
theory Cass_Statement_Api
  imports Cass_Statement
begin

text \<open>
  The C functions of \<open>statements/statement.rs\<close> and \<open>statements/prepared.rs\<close>: creating statements,
  their settings, the families of binders that the macro \<open>make_binders!\<close> generates, the queries on
  prepared statements, and the two functions of \<open>exec_profile.rs\<close> that choose the execution profile of
  a statement.  A function that changes a statement returns the error code and the statement.
\<close>

subsection \<open>Creation\<close>

definition cass_statement_new_n ::
    "StatementConfig \<Rightarrow> c_chars \<Rightarrow> nat \<Rightarrow> nat \<Rightarrow> CassStatement c_ptr" where
  "cass_statement_new_n statement_default query query_length parameter_count =
     (case CassStrLenDelimited_to_str query query_length of
        Inl _ \<Rightarrow> None
      | Inr query_str \<Rightarrow>
          (let query = \<lparr>query_contents = query_str, query_config = statement_default\<rparr>;
               simple_query = \<lparr>bs_query = query,
                               bs_bound_values = replicate parameter_count MU_Unset,
                               name_to_bound_index = []\<rparr>
           in Some (CassStatement_new (BS_Simple simple_query))))"

definition cass_statement_new ::
    "StatementConfig \<Rightarrow> c_chars \<Rightarrow> nat \<Rightarrow> CassStatement c_ptr" where
  "cass_statement_new statement_default query parameter_count =
     (let (query, query_length) = as_len_delimited query
      in cass_statement_new_n statement_default query query_length parameter_count)"

definition cass_prepared_bind :: "CassPrepared c_ptr \<Rightarrow> CassStatement c_ptr" where
  "cass_prepared_bind prepared_raw =
     (case prepared_raw of
        None \<Rightarrow> None
      | Some prepared \<Rightarrow>
          (let bound_values_size = length (variable_col_specs (prepared_statement prepared));
               statement = \<lparr>bp_statement = prepared,
                            bp_bound_values = replicate bound_values_size MU_Unset\<rparr>
           in Some (CassStatement_new (BS_Prepared statement))))"

subsection \<open>Settings\<close>

text \<open>
  What every setter does with the library's statement: the query of a simple statement, or the
  bound statement's own copy of the prepared one (\<open>Arc::make_mut\<close>).
\<close>

definition modify_config ::
    "(StatementConfig \<Rightarrow> StatementConfig) \<Rightarrow> CassStatement \<Rightarrow> CassStatement" where
  "modify_config f statement =
     statement\<lparr>bound_statement :=
       (case bound_statement statement of
          BS_Simple inner \<Rightarrow>
            BS_Simple (inner\<lparr>bs_query := (bs_query inner)\<lparr>query_config := f (query_config (bs_query inner))\<rparr>\<rparr>)
        | BS_Prepared inner \<Rightarrow>
            (let cass_prepared = bp_statement inner; ps = prepared_statement cass_prepared in
             BS_Prepared (inner\<lparr>bp_statement := cass_prepared\<lparr>prepared_statement :=
               ps\<lparr>prepared_config := f (prepared_config ps)\<rparr>\<rparr>\<rparr>)))\<rparr>"

definition with_statement ::
    "CassStatement c_ptr \<Rightarrow> (CassStatement \<Rightarrow> (CassError \<times> CassStatement) panics) \<Rightarrow>
     (CassError \<times> CassStatement c_ptr) panics" where
  "with_statement statement f =
     (case statement of
        None \<Rightarrow> Some (CASS_ERROR_LIB_BAD_PARAMS, None)
      | Some s \<Rightarrow> do { (err, s') \<leftarrow> f s; Some (err, Some s') })"

definition cass_statement_set_consistency ::
    "CassStatement c_ptr \<Rightarrow> CassConsistency \<Rightarrow> (CassError \<times> CassStatement c_ptr) panics" where
  "cass_statement_set_consistency statement consistency =
     with_statement statement (\<lambda>statement.
       do { r \<leftarrow> from_c_value Consistency_is_unset Consistency_from_set_c_value consistency;
            case r of
              Inl _ \<Rightarrow> Some (CASS_ERROR_LIB_BAD_PARAMS, statement)
            | Inr Cfg_Unset \<Rightarrow>
                Some (CASS_OK, modify_config (\<lambda>c. c\<lparr>cfg_consistency := None\<rparr>) statement)
            | Inr (Cfg_Set consistency) \<Rightarrow>
                Some (CASS_OK,
                  modify_config (\<lambda>c. c\<lparr>cfg_consistency := Some consistency\<rparr>) statement) })"

definition cass_statement_set_paging_size ::
    "CassStatement c_ptr \<Rightarrow> u32 \<Rightarrow> (CassError \<times> CassStatement c_ptr) panics" where
  "cass_statement_set_paging_size statement_raw page_size =
     with_statement statement_raw (\<lambda>statement. Some (CASS_OK,
       if sint page_size \<le> 0 then statement\<lparr>paging_enabled := False\<rparr>
       else modify_config (\<lambda>c. c\<lparr>cfg_page_size := page_size\<rparr>) (statement\<lparr>paging_enabled := True\<rparr>)))"

datatype PagingStateResponse = HasMorePages PagingState | NoMorePages

text \<open>The result a page comes from is represented by its paging state response.\<close>

definition cass_statement_set_paging_state ::
    "CassStatement c_ptr \<Rightarrow> PagingStateResponse c_ptr \<Rightarrow> (CassError \<times> CassStatement c_ptr) panics" where
  "cass_statement_set_paging_state statement result =
     with_statement statement (\<lambda>statement.
       case result of
         None \<Rightarrow> Some (CASS_ERROR_LIB_BAD_PARAMS, statement)
       | Some (HasMorePages state) \<Rightarrow> Some (CASS_OK, statement\<lparr>paging_state := state\<rparr>)
       | Some NoMorePages \<Rightarrow> Some (CASS_OK, statement\<lparr>paging_state := None\<rparr>))"

definition cass_statement_set_paging_state_token ::
    "CassStatement c_ptr \<Rightarrow> string c_ptr \<Rightarrow> nat \<Rightarrow> (CassError \<times> CassStatement c_ptr) panics" where
  "cass_statement_set_paging_state_token statement token paging_state_size =
     with_statement statement (\<lambda>statement. Some (CASS_OK,
       statement\<lparr>paging_state :=
         (case token of
            None \<Rightarrow> None
          | Some bytes \<Rightarrow>
              if paging_state_size = 0 then None else Some (take paging_state_size bytes))\<rparr>))"

definition cass_statement_set_is_idempotent ::
    "CassStatement c_ptr \<Rightarrow> u32 \<Rightarrow> (CassError \<times> CassStatement c_ptr) panics" where
  "cass_statement_set_is_idempotent statement_raw is_idempotent =
     with_statement statement_raw (\<lambda>statement. Some (CASS_OK,
       modify_config (\<lambda>c. c\<lparr>cfg_is_idempotent := (is_idempotent \<noteq> 0)\<rparr>) statement))"

definition cass_statement_set_tracing ::
    "CassStatement c_ptr \<Rightarrow> u32 \<Rightarrow> (CassError \<times> CassStatement c_ptr) panics" where
  "cass_statement_set_tracing statement_raw enabled =
     with_statement statement_raw (\<lambda>statement. Some (CASS_OK,
       modify_config (\<lambda>c. c\<lparr>cfg_tracing := (enabled \<noteq> 0)\<rparr>) statement))"

text \<open>\<open>u16::try_from\<close> on a C \<open>int\<close>.\<close>

definition port_try_into :: "u32 \<Rightarrow> u16 option" where
  "port_try_into port =
     (if 0 \<le> sint port \<and> sint port \<le> 65535 then Some (ucast port) else None)"

definition set_single_target :: "NodeIdentifier \<Rightarrow> CassStatement \<Rightarrow> CassStatement" where
  "set_single_target target = modify_config (\<lambda>c. c\<lparr>cfg_single_target := Some target\<rparr>)"

text \<open>\<open>IpAddr::from_str\<close> is a parameter, as in the conversions of \<open>inet.rs\<close>.\<close>

definition cass_statement_set_host_n ::
    "(string \<Rightarrow> IpAddr option) \<Rightarrow> CassStatement c_ptr \<Rightarrow> c_chars \<Rightarrow> nat \<Rightarrow> u32 \<Rightarrow>
     (CassError \<times> CassStatement c_ptr) panics" where
  "cass_statement_set_host_n from_str statement_raw host host_length port =
     with_statement statement_raw (\<lambda>statement.
       case CassStrLenDelimited_to_str host host_length of
         Inl _ \<Rightarrow> Some (CASS_ERROR_LIB_BAD_PARAMS, statement)
       | Inr host \<Rightarrow>
           (case port_try_into port of
              None \<Rightarrow> Some (CASS_ERROR_LIB_BAD_PARAMS, statement)
            | Some port \<Rightarrow>
                (case from_str host of
                   None \<Rightarrow> Some (CASS_ERROR_LIB_BAD_PARAMS, statement)
                 | Some ip_addr \<Rightarrow>
                     Some (CASS_OK, set_single_target (NodeAddress ip_addr port) statement))))"

definition cass_statement_set_host ::
    "(string \<Rightarrow> IpAddr option) \<Rightarrow> CassStatement c_ptr \<Rightarrow> c_chars \<Rightarrow> u32 \<Rightarrow>
     (CassError \<times> CassStatement c_ptr) panics" where
  "cass_statement_set_host from_str statement_raw host port =
     (let (host, host_length) = as_len_delimited host
      in cass_statement_set_host_n from_str statement_raw host host_length port)"

definition cass_statement_set_host_inet ::
    "CassStatement c_ptr \<Rightarrow> CassInet c_ptr \<Rightarrow> u32 \<Rightarrow> (CassError \<times> CassStatement c_ptr) panics" where
  "cass_statement_set_host_inet statement_raw host port =
     with_statement statement_raw (\<lambda>statement.
       case host of
         None \<Rightarrow> Some (CASS_ERROR_LIB_BAD_PARAMS, statement)
       | Some host \<Rightarrow>
           (case IpAddr_try_from host of
              Inl _ \<Rightarrow> Some (CASS_ERROR_LIB_BAD_PARAMS, statement)
            | Inr ip_addr \<Rightarrow>
                (case port_try_into port of
                   None \<Rightarrow> Some (CASS_ERROR_LIB_BAD_PARAMS, statement)
                 | Some port \<Rightarrow>
                     Some (CASS_OK, set_single_target (NodeAddress ip_addr port) statement))))"

definition cass_statement_set_node ::
    "CassStatement c_ptr \<Rightarrow> node_ref c_ptr \<Rightarrow> (CassError \<times> CassStatement c_ptr) panics" where
  "cass_statement_set_node statement_raw node_raw =
     with_statement statement_raw (\<lambda>statement.
       case node_raw of
         None \<Rightarrow> Some (CASS_ERROR_LIB_BAD_PARAMS, statement)
       | Some node \<Rightarrow> Some (CASS_OK, set_single_target (NodeId node) statement))"

text \<open>
  \<open>from_c_value_infallible\<close>: the conversion whose error type is empty, so that an error cannot be
  the result.
\<close>

definition retry_policy_opt :: "CassRetryPolicy c_ptr \<Rightarrow> CassRetryPolicy option panics" where
  "retry_policy_opt cass_retry_policy =
     do { r \<leftarrow> from_c_value RetryPolicy_is_unset RetryPolicy_from_set_c_value cass_retry_policy;
          case r of Inr (Cfg_Set retry_policy) \<Rightarrow> Some (Some retry_policy) | _ \<Rightarrow> Some None }"

definition cass_statement_set_retry_policy ::
    "CassStatement c_ptr \<Rightarrow> CassRetryPolicy c_ptr \<Rightarrow> (CassError \<times> CassStatement c_ptr) panics" where
  "cass_statement_set_retry_policy statement cass_retry_policy =
     with_statement statement (\<lambda>statement.
       do { rp \<leftarrow> retry_policy_opt cass_retry_policy;
            Some (CASS_OK, modify_config (\<lambda>c. c\<lparr>cfg_retry_policy := rp\<rparr>) statement) })"

definition cass_statement_set_serial_consistency ::
    "CassStatement c_ptr \<Rightarrow> CassConsistency \<Rightarrow> (CassError \<times> CassStatement c_ptr) panics" where
  "cass_statement_set_serial_consistency statement serial_consistency =
     with_statement statement (\<lambda>statement.
       do { r \<leftarrow> from_c_value SerialConsistency_is_unset SerialConsistency_from_set_c_value
                   serial_consistency;
            case r of
              Inl _ \<Rightarrow> Some (CASS_ERROR_LIB_BAD_PARAMS, statement)
            | Inr m \<Rightarrow>
                Some (CASS_OK, modify_config (\<lambda>c. c\<lparr>cfg_serial_consistency := m\<rparr>) statement) })"

definition cass_statement_set_timestamp ::
    "CassStatement c_ptr \<Rightarrow> u64 \<Rightarrow> (CassError \<times> CassStatement c_ptr) panics" where
  "cass_statement_set_timestamp statement timestamp =
     with_statement statement (\<lambda>statement. Some (CASS_OK,
       modify_config (\<lambda>c. c\<lparr>cfg_timestamp := Some timestamp\<rparr>) statement))"

definition request_timeout_opt :: "u64 \<Rightarrow> Duration option panics" where
  "request_timeout_opt timeout_ms =
     do { r \<leftarrow> from_c_value RequestTimeout_is_unset RequestTimeout_from_set_c_value timeout_ms;
          case r of
            Inr (Cfg_Set (RequestTimeout timeout)) \<Rightarrow>
              Some (Some (case timeout of Some t \<Rightarrow> t | None \<Rightarrow> RequestTimeout_INFINITE))
          | _ \<Rightarrow> Some None }"

definition cass_statement_set_request_timeout ::
    "CassStatement c_ptr \<Rightarrow> u64 \<Rightarrow> (CassError \<times> CassStatement c_ptr) panics" where
  "cass_statement_set_request_timeout statement_raw timeout_ms =
     with_statement statement_raw (\<lambda>statement.
       do { timeout \<leftarrow> request_timeout_opt timeout_ms;
            Some (CASS_OK, modify_config (\<lambda>c. c\<lparr>cfg_request_timeout := timeout\<rparr>) statement) })"

definition cass_statement_reset_parameters ::
    "CassStatement c_ptr \<Rightarrow> nat \<Rightarrow> (CassError \<times> CassStatement c_ptr) panics" where
  "cass_statement_reset_parameters statement_raw count =
     with_statement statement_raw (\<lambda>statement. Some (CASS_OK, reset_bound_values statement count))"

definition exec_profile_name :: "c_chars \<Rightarrow> nat \<Rightarrow> unit + string option" where
  "exec_profile_name name name_length =
     (case CassStrLenDelimited_to_str name name_length of
        Inr name \<Rightarrow> Inr (if name = [] then None else Some name)
      | Inl NullPointer \<Rightarrow> Inr None
      | Inl InvalidUtf8 \<Rightarrow> Inl ())"

definition cass_statement_set_execution_profile_n ::
    "CassStatement c_ptr \<Rightarrow> c_chars \<Rightarrow> nat \<Rightarrow> (CassError \<times> CassStatement c_ptr) panics" where
  "cass_statement_set_execution_profile_n statement name name_length =
     with_statement statement (\<lambda>statement.
       case exec_profile_name name name_length of
         Inl _ \<Rightarrow> Some (CASS_ERROR_LIB_BAD_PARAMS, statement)
       | Inr name \<Rightarrow>
           Some (CASS_OK, statement\<lparr>exec_profile := map_option Profile_Unresolved name\<rparr>))"

definition cass_statement_set_execution_profile ::
    "CassStatement c_ptr \<Rightarrow> c_chars \<Rightarrow> (CassError \<times> CassStatement c_ptr) panics" where
  "cass_statement_set_execution_profile statement name =
     (let (name, name_length) = as_len_delimited name
      in cass_statement_set_execution_profile_n statement name name_length)"

subsection \<open>Binders\<close>

definition cass_statement_bind ::
    "CassStatement c_ptr \<Rightarrow> nat \<Rightarrow> bind_arg \<Rightarrow> (CassError \<times> CassStatement c_ptr) panics" where
  "cass_statement_bind this index a =
     make_index_binder CassStatement_bind_cql_value this index (convert_arg a)"

definition cass_statement_bind_by_name ::
    "CassStatement c_ptr \<Rightarrow> c_chars \<Rightarrow> bind_arg \<Rightarrow> (CassError \<times> CassStatement c_ptr) panics" where
  "cass_statement_bind_by_name this name a =
     make_name_binder CassStatement_bind_cql_value_by_name this name (convert_arg a)"

definition cass_statement_bind_by_name_n ::
    "CassStatement c_ptr \<Rightarrow> c_chars \<Rightarrow> nat \<Rightarrow> bind_arg \<Rightarrow> (CassError \<times> CassStatement c_ptr) panics" where
  "cass_statement_bind_by_name_n this name name_length a =
     make_name_n_binder CassStatement_bind_cql_value_by_name this name name_length (convert_arg a)"

subsection \<open>Queries on prepared statements\<close>

definition cass_prepared_parameter_name ::
    "CassPrepared c_ptr \<Rightarrow> nat \<Rightarrow> CassError \<times> (string \<times> nat) option" where
  "cass_prepared_parameter_name prepared_raw index =
     (case prepared_raw of
        None \<Rightarrow> (CASS_ERROR_LIB_BAD_PARAMS, None)
      | Some prepared \<Rightarrow>
          (case list_get (variable_col_specs (prepared_statement prepared)) index of
             None \<Rightarrow> (CASS_ERROR_LIB_INDEX_OUT_OF_BOUNDS, None)
           | Some col_spec \<Rightarrow> (CASS_OK, Some (write_str_to_c (col_name col_spec)))))"

definition cass_prepared_parameter_data_type ::
    "CassPrepared c_ptr \<Rightarrow> nat \<Rightarrow> CassDataType c_ptr" where
  "cass_prepared_parameter_data_type prepared_raw index =
     (case prepared_raw of
        None \<Rightarrow> None
      | Some prepared \<Rightarrow> list_get (variable_col_data_types prepared) index)"

definition cass_prepared_parameter_data_type_by_name_n ::
    "CassPrepared c_ptr \<Rightarrow> c_chars \<Rightarrow> nat \<Rightarrow> CassDataType c_ptr panics" where
  "cass_prepared_parameter_data_type_by_name_n prepared_raw name name_length =
     (case prepared_raw of
        None \<Rightarrow> Some None
      | Some prepared \<Rightarrow>
          (case CassStrLenDelimited_to_str name name_length of
             Inl _ \<Rightarrow> Some None
           | Inr parameter_name \<Rightarrow> get_variable_data_type_by_name prepared parameter_name))"

definition cass_prepared_parameter_data_type_by_name ::
    "CassPrepared c_ptr \<Rightarrow> c_chars \<Rightarrow> CassDataType c_ptr panics" where
  "cass_prepared_parameter_data_type_by_name prepared_raw name =
     (let (name, name_length) = as_len_delimited name
      in cass_prepared_parameter_data_type_by_name_n prepared_raw name name_length)"

end
