(* ===== verification/Cass_Statement_Props.thy ===== *)
theory Cass_Statement_Props
  imports Cass_Statement_Api
begin

text \<open>
  What binding parameters guarantees.  For a simple statement, binding by name implements a map
  from names to values with a bounded number of entries, and the row serializer writes the values
  of that map in the order of the columns.  For a prepared statement, every bound value has the type
  of its column.
\<close>

subsection \<open>The name map of a simple statement\<close>

text \<open>
  The names have the indices \<open>0, 1, \<dots>\<close> in the order in which they first occurred, and there are no
  more names than parameters.
\<close>

definition names_ok :: "BoundSimpleStatement \<Rightarrow> bool" where
  "names_ok s \<longleftrightarrow>
     map snd (name_to_bound_index s) = rev [0..<length (name_to_bound_index s)] \<and>
     distinct (map fst (name_to_bound_index s)) \<and>
     length (name_to_bound_index s) \<le> length (bs_bound_values s)"

lemma names_ok_index:
  assumes "names_ok s" and "map_of (name_to_bound_index s) k = Some i"
  shows "i < length (name_to_bound_index s) \<and> i < length (bs_bound_values s)"
proof -
  have "i \<in> snd ` set (name_to_bound_index s)"
    using map_of_SomeD [OF assms(2)] by force
  then have "i \<in> set (map snd (name_to_bound_index s))" by simp
  with assms(1) show ?thesis by (simp add: names_ok_def)
qed

lemma names_ok_inj:
  assumes "names_ok s" and "map_of (name_to_bound_index s) k = Some i"
    and "map_of (name_to_bound_index s) l = Some i"
  shows "k = l"
proof -
  have "distinct (map snd (name_to_bound_index s))" using assms(1) by (simp add: names_ok_def)
  then have "inj_on snd (set (name_to_bound_index s))" by (simp add: distinct_map)
  from inj_onD [OF this, of "(k, i)" "(l, i)"] show ?thesis
    using assms(2,3) by (simp add: map_of_SomeD)
qed

lemma names_ok_bind [inv_intros]:
  assumes "names_ok s"
  shows "names_ok (snd (BoundSimpleStatement_bind_cql_value s i v))"
  using assms by (auto simp: names_ok_def BoundSimpleStatement_bind_cql_value_def split: option.split)

lemma names_ok_insert:
  assumes "names_ok s" and "map_of (name_to_bound_index s) k = None"
    and "length (name_to_bound_index s) < length (bs_bound_values s)"
  shows "names_ok (s\<lparr>name_to_bound_index :=
           (k, length (name_to_bound_index s)) # name_to_bound_index s\<rparr>)"
  using assms by (auto simp: names_ok_def map_of_eq_None_iff)

lemma names_ok_bind_by_name [inv_intros]:
  assumes "names_ok s"
  shows "names_ok (snd (BoundSimpleStatement_bind_cql_value_by_name s k v))"
  using assms names_ok_insert [OF assms, of k]
  by (auto simp: BoundSimpleStatement_bind_cql_value_by_name_def Let_def
      split: option.split intro!: names_ok_bind)

lemma names_ok_fresh [inv_intros]:
  "names_ok (s\<lparr>bs_bound_values := vs, name_to_bound_index := []\<rparr>)"
  by (simp add: names_ok_def)

text \<open>The serializer that \<open>cass_session_execute\<close> makes of a simple statement.\<close>

definition row_serializer :: "BoundSimpleStatement \<Rightarrow> SimpleQueryRowSerializer" where
  "row_serializer query =
     \<lparr>rs_bound_values = bs_bound_values query, rs_name_to_bound_index = name_to_bound_index query\<rparr>"

lemma serialize_columns_returns:
  assumes "names_ok s"
  shows "serialize_columns cell (row_serializer s) cols \<noteq> None"
proof (induction cols)
  case (Cons c cols)
  then obtain r where "serialize_columns cell (row_serializer s) cols = Some r" by auto
  then show ?case
    using names_ok_index [OF assms, of "col_name c"]
    by (auto simp: row_serializer_def list_get_in_range split: option.split sum.split)
qed simp

subsection \<open>Any sequence of operations\<close>

datatype statement_op =
    SO_Bind nat "CassCqlValue option"
  | SO_Bind_by_name string "CassCqlValue option"
  | SO_Reset nat

fun apply_op :: "statement_op \<Rightarrow> CassStatement \<Rightarrow> CassStatement panics" where
  "apply_op (SO_Bind i v) st = map_option snd (CassStatement_bind_cql_value st i v)"
| "apply_op (SO_Bind_by_name k v) st = map_option snd (CassStatement_bind_cql_value_by_name st k v)"
| "apply_op (SO_Reset n) st = Some (reset_bound_values st n)"

fun run_ops :: "statement_op list \<Rightarrow> CassStatement \<Rightarrow> CassStatement panics" where
  "run_ops [] st = Some st"
| "run_ops (op # ops) st = do { st' \<leftarrow> apply_op op st; run_ops ops st' }"

lemma apply_op_simple:
  assumes "names_ok s"
  shows "\<exists>s'. names_ok s' \<and>
     apply_op op (st\<lparr>bound_statement := BS_Simple s\<rparr>) = Some (st\<lparr>bound_statement := BS_Simple s'\<rparr>)"
proof (cases op)
  case (SO_Bind i v)
  with names_ok_bind [OF assms, of i v] show ?thesis
    by (auto simp: CassStatement_bind_cql_value_def split: prod.split)
next
  case (SO_Bind_by_name k v)
  with names_ok_bind_by_name [OF assms] show ?thesis
    by (auto simp: CassStatement_bind_cql_value_by_name_def split: prod.split option.split)
      (metis snd_conv)+
next
  case (SO_Reset n)
  then show ?thesis
    by (auto simp: reset_bound_values_def intro!: exI names_ok_fresh)
qed

lemma run_ops_simple:
  assumes "names_ok s"
  shows "\<exists>s'. names_ok s' \<and>
     run_ops ops (st\<lparr>bound_statement := BS_Simple s\<rparr>) = Some (st\<lparr>bound_statement := BS_Simple s'\<rparr>)"
  using assms
proof (induction ops arbitrary: s)
  case (Cons op ops)
  obtain s1 where "names_ok s1"
    "apply_op op (st\<lparr>bound_statement := BS_Simple s\<rparr>) = Some (st\<lparr>bound_statement := BS_Simple s1\<rparr>)"
    using apply_op_simple [OF Cons.prems] by blast
  with Cons.IH show ?case by simp
qed auto

lemma new_statement_simple:
  assumes "cass_statement_new_n cfg query len n = Some st"
  shows "\<exists>s. st = CassStatement_new (BS_Simple s) \<and> names_ok s \<and> name_to_bound_index s = [] \<and>
     bs_bound_values s = replicate n MU_Unset"
  using assms by (auto simp: cass_statement_new_n_def names_ok_def Let_def split: sum.splits)

text \<open>
  Property C16.  Whatever sequence of bindings by index, bindings by name and resets a simple
  statement goes through, no operation panics, and serializing its parameters for any columns never
  indexes the vector of bound values out of range.
\<close>

theorem bound_indices_stay_in_range:
  assumes "cass_statement_new_n cfg query len n = Some st"
  shows "\<exists>s. run_ops ops st = Some (st\<lparr>bound_statement := BS_Simple s\<rparr>) \<and>
     SimpleQueryRowSerializer_serialize vec_row cell (row_serializer s) cols \<noteq> None"
proof -
  obtain s0 where s0: "st = CassStatement_new (BS_Simple s0)" "names_ok s0"
    using new_statement_simple [OF assms] by blast
  then have st: "st\<lparr>bound_statement := BS_Simple s0\<rparr> = st" by (simp add: CassStatement_new_def)
  obtain s where "names_ok s" "run_ops ops st = Some (st\<lparr>bound_statement := BS_Simple s\<rparr>)"
    using run_ops_simple [OF s0(2), of ops st] st by auto
  with serialize_columns_returns [of s cell cols] show ?thesis
    by (intro exI [of _ s]) (simp add: SimpleQueryRowSerializer_serialize_def split: sum.split)
qed

text \<open>Settings and a statement with two parameters for the examples.\<close>

definition plain_config :: StatementConfig where
  "plain_config =
     \<lparr>cfg_consistency = None, cfg_serial_consistency = Cfg_Unset, cfg_page_size = 5000,
      cfg_is_idempotent = False, cfg_tracing = False, cfg_single_target = None,
      cfg_retry_policy = None, cfg_timestamp = None, cfg_request_timeout = None\<rparr>"

definition two_parameters :: CassStatement where
  "two_parameters =
     CassStatement_new (BS_Simple \<lparr>bs_query = \<lparr>query_contents = ''q'', query_config = plain_config\<rparr>,
       bs_bound_values = [MU_Unset, MU_Unset], name_to_bound_index = []\<rparr>)"

lemma new_two_parameters: "cass_statement_new_n plain_config (Some ''q'') 1 2 = Some two_parameters"
  by (simp add: cass_statement_new_n_def CassStrLenDelimited_to_str_def utf8_valid_ascii
      numeral_2_eq_2 two_parameters_def)

theorem bound_indices_stay_in_range_witness:
  "\<exists>s. run_ops [SO_Bind_by_name ''a'' None, SO_Bind 1 (Some (CV_Int 5)), SO_Reset 1,
               SO_Bind_by_name ''b'' None]
         two_parameters =
       Some (two_parameters
            \<lparr>bound_statement := BS_Simple s\<rparr>) \<and>
     SimpleQueryRowSerializer_serialize (\<lambda>_ _. Inr []) (\<lambda>_ _. Inl ()) (row_serializer s)
       [\<lparr>col_name = ''b'', col_typ = CT_Native NT_Int\<rparr>] \<noteq> None"
  by (rule bound_indices_stay_in_range [OF new_two_parameters])

subsection \<open>Binding by name is a map\<close>

text \<open>
  The specification: a map from names to values that takes at most \<open>n\<close> names, and the row that a
  list of columns gets from it.  A name in double quotes stands for the quoted text.
\<close>

definition unquote :: "string \<Rightarrow> string" where
  "unquote name = (case strip_quotes name of Some name_unquoted \<Rightarrow> name_unquoted | None \<Rightarrow> name)"

fun spec_binds ::
    "nat \<Rightarrow> (string \<times> 'v) list \<Rightarrow> (string \<rightharpoonup> 'v) \<Rightarrow> CassError list \<times> (string \<rightharpoonup> 'v)" where
  "spec_binds n [] m = ([], m)"
| "spec_binds n ((k, v) # ops) m =
     (if m (unquote k) \<noteq> None \<or> card (dom m) < n
      then (let (es, m') = spec_binds n ops (m(unquote k \<mapsto> v)) in (CASS_OK # es, m'))
      else (let (es, m') = spec_binds n ops m in (CASS_ERROR_LIB_NAME_DOES_NOT_EXIST # es, m')))"

fun spec_row ::
    "(bound_value \<Rightarrow> ColumnType \<Rightarrow> 'e + u8 list) \<Rightarrow> (string \<rightharpoonup> CassCqlValue option) \<Rightarrow>
     ColumnSpec list \<Rightarrow> 'e row_error + u8 list" where
  "spec_row cell m [] = Inr []"
| "spec_row cell m (c # cols) =
     (case m (col_name c) of
        None \<Rightarrow> Inl (RE_UnknownNamedParameter (col_name c))
      | Some v \<Rightarrow>
          (case cell (MU_Set v) (col_typ c) of
             Inl e \<Rightarrow> Inl (RE_Library e)
           | Inr bytes \<Rightarrow>
               (case spec_row cell m cols of Inl e \<Rightarrow> Inl e | Inr rest \<Rightarrow> Inr (bytes @ rest))))"

text \<open>The statement \<open>s\<close> represents the map \<open>m\<close>.\<close>

definition represents :: "BoundSimpleStatement \<Rightarrow> (string \<rightharpoonup> CassCqlValue option) \<Rightarrow> bool" where
  "represents s m \<longleftrightarrow> names_ok s \<and> dom m = fst ` set (name_to_bound_index s) \<and>
     (\<forall>k i. map_of (name_to_bound_index s) k = Some i \<longrightarrow>
        (\<exists>v. m k = Some v \<and> bs_bound_values s ! i = MU_Set v))"

lemma represents_card: "represents s m \<Longrightarrow> card (dom m) = length (name_to_bound_index s)"
  by (simp add: represents_def names_ok_def card_image distinct_map)
    (metis distinct_card distinct_map length_map set_map)

lemma represents_None: "represents s m \<Longrightarrow> m k = None \<longleftrightarrow> map_of (name_to_bound_index s) k = None"
  by (auto simp: represents_def map_of_eq_None_iff)

lemma represents_row:
  assumes "represents s m"
  shows "serialize_columns cell (row_serializer s) cols = Some (spec_row cell m cols)"
proof (induction cols)
  case (Cons c cols)
  show ?case
  proof (cases "map_of (name_to_bound_index s) (col_name c)")
    case None
    with represents_None [OF assms, of "col_name c"] show ?thesis by (simp add: row_serializer_def)
  next
    case (Some i)
    with assms obtain v where "m (col_name c) = Some v" "bs_bound_values s ! i = MU_Set v"
      unfolding represents_def by blast
    moreover have "i < length (bs_bound_values s)"
      using assms Some names_ok_index unfolding represents_def by blast
    ultimately show ?thesis
      using Some Cons.IH by (simp add: row_serializer_def list_get_in_range split: sum.split)
  qed
qed simp

lemma represents_overwrite:
  assumes "represents s m" and "map_of (name_to_bound_index s) k = Some i"
  shows "represents (s\<lparr>bs_bound_values := (bs_bound_values s)[i := MU_Set v]\<rparr>) (m(k \<mapsto> v))"
proof -
  have ok: "names_ok s" and dom: "dom m = fst ` set (name_to_bound_index s)"
    and val: "map_of (name_to_bound_index s) l = Some j \<Longrightarrow>
       \<exists>w. m l = Some w \<and> bs_bound_values s ! j = MU_Set w" for l j
    using assms(1) by (auto simp: represents_def)
  have "k \<in> dom m" using map_of_SomeD [OF assms(2)] dom by force
  moreover have "\<exists>w. (m(k \<mapsto> v)) l = Some w \<and> (bs_bound_values s)[i := MU_Set v] ! j = MU_Set w"
    if l: "map_of (name_to_bound_index s) l = Some j" for l j
  proof (cases "l = k")
    case True
    with assms(2) l names_ok_index [OF ok assms(2)] show ?thesis by simp
  next
    case False
    with names_ok_inj [OF ok l, of k] assms(2) have "j \<noteq> i" by auto
    with val [OF l] False show ?thesis by simp
  qed
  ultimately show ?thesis
    using ok dom unfolding represents_def names_ok_def by (simp add: insert_absorb)
qed

lemma represents_new_name:
  assumes "represents s m" and "map_of (name_to_bound_index s) k = None"
    and "length (name_to_bound_index s) < length (bs_bound_values s)"
  shows "represents
     (s\<lparr>name_to_bound_index := (k, length (name_to_bound_index s)) # name_to_bound_index s,
        bs_bound_values := (bs_bound_values s)[length (name_to_bound_index s) := MU_Set v]\<rparr>)
     (m(k \<mapsto> v))"
proof -
  have ok: "names_ok s" and dom: "dom m = fst ` set (name_to_bound_index s)"
    and val: "map_of (name_to_bound_index s) l = Some j \<Longrightarrow>
       \<exists>w. m l = Some w \<and> bs_bound_values s ! j = MU_Set w" for l j
    using assms(1) by (auto simp: represents_def)
  have "\<exists>w. m l = Some w \<and>
      (bs_bound_values s)[length (name_to_bound_index s) := MU_Set v] ! j = MU_Set w"
    if l: "map_of (name_to_bound_index s) l = Some j" for l j
    using val [OF l] names_ok_index [OF ok l] by simp
  with dom names_ok_insert [OF ok assms(2,3)] assms(2,3) show ?thesis
    unfolding represents_def by (simp add: names_ok_def)
qed

lemma represents_bind:
  assumes "represents s m"
  shows "\<exists>e s'. BoundSimpleStatement_bind_cql_value_by_name s k v = (e, s') \<and>
     length (bs_bound_values s') = length (bs_bound_values s) \<and>
     (if m k \<noteq> None \<or> card (dom m) < length (bs_bound_values s)
      then e = CASS_OK \<and> represents s' (m(k \<mapsto> v))
      else e = CASS_ERROR_LIB_NAME_DOES_NOT_EXIST \<and> s' = s)"
proof (cases "map_of (name_to_bound_index s) k")
  case (Some i)
  moreover have "i < length (bs_bound_values s)"
    using names_ok_index Some assms unfolding represents_def by blast
  ultimately show ?thesis
    using represents_overwrite [OF assms Some, of v] represents_None [OF assms, of k]
    by (simp add: BoundSimpleStatement_bind_cql_value_by_name_def
        BoundSimpleStatement_bind_cql_value_def list_get_in_range)
next
  case None
  then show ?thesis
    using represents_new_name [OF assms None, of v] represents_None [OF assms, of k]
      represents_card [OF assms]
    by (cases "length (name_to_bound_index s) < length (bs_bound_values s)")
      (simp_all add: BoundSimpleStatement_bind_cql_value_by_name_def
        BoundSimpleStatement_bind_cql_value_def list_get_in_range Let_def)
qed

lemma bind_by_name_simple:
  "CassStatement_bind_cql_value_by_name (st\<lparr>bound_statement := BS_Simple s\<rparr>) k v =
     (let (e, s') = BoundSimpleStatement_bind_cql_value_by_name s (unquote k) v
      in Some (e, st\<lparr>bound_statement := BS_Simple s'\<rparr>))"
  by (simp add: CassStatement_bind_cql_value_by_name_def unquote_def split: option.split prod.split)

lemma bind_names_refines:
  assumes "represents s m" and "length (bs_bound_values s) = n"
  shows "\<exists>s'. bind_seq CassStatement_bind_cql_value_by_name ops (st\<lparr>bound_statement := BS_Simple s\<rparr>) =
       Some (fst (spec_binds n ops m), st\<lparr>bound_statement := BS_Simple s'\<rparr>) \<and>
     represents s' (snd (spec_binds n ops m))"
  using assms
proof (induction ops arbitrary: s m)
  case (Cons op ops)
  obtain k v where op: "op = (k, v)" by (cases op)
  obtain e s1 where b: "BoundSimpleStatement_bind_cql_value_by_name s (unquote k) v = (e, s1)"
      "length (bs_bound_values s1) = n"
      "if m (unquote k) \<noteq> None \<or> card (dom m) < n
       then e = CASS_OK \<and> represents s1 (m(unquote k \<mapsto> v))
       else e = CASS_ERROR_LIB_NAME_DOES_NOT_EXIST \<and> s1 = s"
    using represents_bind [OF Cons.prems(1), of "unquote k" v] Cons.prems(2) by auto
  show ?case
  proof (cases "m (unquote k) \<noteq> None \<or> card (dom m) < n")
    case True
    with b have "represents s1 (m(unquote k \<mapsto> v))" and e: "e = CASS_OK" by (simp_all split: if_splits)
    with Cons.IH b(2) obtain s' where
      "bind_seq CassStatement_bind_cql_value_by_name ops (st\<lparr>bound_statement := BS_Simple s1\<rparr>) =
         Some (fst (spec_binds n ops (m(unquote k \<mapsto> v))), st\<lparr>bound_statement := BS_Simple s'\<rparr>)"
      "represents s' (snd (spec_binds n ops (m(unquote k \<mapsto> v))))" by blast
    with b(1) e op True show ?thesis
      by (intro exI [of _ s']) (auto simp: bind_by_name_simple split: prod.split)
  next
    case False
    with b have e: "e = CASS_ERROR_LIB_NAME_DOES_NOT_EXIST" "s1 = s" by (simp_all split: if_splits)
    from Cons.IH [OF Cons.prems] obtain s' where
      "bind_seq CassStatement_bind_cql_value_by_name ops (st\<lparr>bound_statement := BS_Simple s\<rparr>) =
         Some (fst (spec_binds n ops m), st\<lparr>bound_statement := BS_Simple s'\<rparr>)"
      "represents s' (snd (spec_binds n ops m))" by blast
    with b(1) e op False show ?thesis
      by (intro exI [of _ s']) (auto simp: bind_by_name_simple split: prod.split)
  qed
qed auto

text \<open>
  Property C4.  Binding the parameters of a new simple statement by name implements a map from names
  to values: a name that is already bound is overwritten, a new one is accepted as long as fewer than
  \<open>parameter_count\<close> names are bound and refused with \<open>NAME_DOES_NOT_EXIST\<close> otherwise; and executing
  the statement writes, for each column in the order of the server's metadata, the value last bound
  to the name of the column, or fails at the first column whose name is not bound.
\<close>

theorem named_binding_refines_a_map:
  assumes "cass_statement_new_n cfg query len n = Some st"
    and "spec_binds n ops Map.empty = (es, m)"
  shows "\<exists>s. bind_seq CassStatement_bind_cql_value_by_name ops st =
       Some (es, st\<lparr>bound_statement := BS_Simple s\<rparr>) \<and>
     (m \<noteq> Map.empty \<longrightarrow>
        SimpleQueryRowSerializer_serialize vec_row cell (row_serializer s) cols =
        Some (spec_row cell m cols))"
proof -
  obtain s0 where s0: "st = CassStatement_new (BS_Simple s0)" "names_ok s0"
      "name_to_bound_index s0 = []" "bs_bound_values s0 = replicate n MU_Unset"
    using new_statement_simple [OF assms(1)] by blast
  then have st: "st\<lparr>bound_statement := BS_Simple s0\<rparr> = st" and r0: "represents s0 Map.empty"
    by (simp_all add: CassStatement_new_def represents_def)
  obtain s where s: "bind_seq CassStatement_bind_cql_value_by_name ops st =
       Some (es, st\<lparr>bound_statement := BS_Simple s\<rparr>)" and r: "represents s m"
    using bind_names_refines [OF r0, of n ops st] s0(4) st assms(2) by auto
  have "m \<noteq> Map.empty \<Longrightarrow> name_to_bound_index s \<noteq> []"
    using r by (auto simp: represents_def)
  with s represents_row [OF r, of cell cols] show ?thesis
    by (intro exI [of _ s]) (auto simp: SimpleQueryRowSerializer_serialize_def row_serializer_def)
qed

theorem named_binding_refines_a_map_witness:
  "\<exists>s. bind_seq CassStatement_bind_cql_value_by_name
         [(''b'', Some (CV_Int 1)), (''a'', None), (''c'', None), (''b'', Some (CV_Int 2))]
         two_parameters =
       Some ([CASS_OK, CASS_OK, CASS_ERROR_LIB_NAME_DOES_NOT_EXIST, CASS_OK],
         two_parameters
            \<lparr>bound_statement := BS_Simple s\<rparr>) \<and>
     ([''b'' \<mapsto> Some (CV_Int 2), ''a'' \<mapsto> None] \<noteq> Map.empty \<longrightarrow>
        SimpleQueryRowSerializer_serialize (\<lambda>_ _. Inl ())
          (\<lambda>v _. Inr (if v = MU_Set None then [0] else [1])) (row_serializer s)
          [\<lparr>col_name = ''a'', col_typ = CT_Native NT_Int\<rparr>, \<lparr>col_name = ''b'', col_typ = CT_Native NT_Int\<rparr>] =
        Some (spec_row (\<lambda>v _. Inr (if v = MU_Set None then [0] else [1]))
          [''b'' \<mapsto> Some (CV_Int 2), ''a'' \<mapsto> None]
          [\<lparr>col_name = ''a'', col_typ = CT_Native NT_Int\<rparr>, \<lparr>col_name = ''b'', col_typ = CT_Native NT_Int\<rparr>]))"
  by (rule named_binding_refines_a_map [OF new_two_parameters])
    (simp add: unquote_def strip_quotes_def fun_upd_twist [of "''a''" "''b''"])

subsection \<open>Prepared statements\<close>

text \<open>Every bound value was accepted by the type of its column.\<close>

definition prepared_typed :: "CassPrepared \<Rightarrow> BoundPreparedStatement \<Rightarrow> bool" where
  "prepared_typed cp p \<longleftrightarrow> bp_statement p = cp \<and>
     (\<forall>i v. i < length (bp_bound_values p) \<and> bp_bound_values p ! i = MU_Set v \<longrightarrow>
        i < length (variable_col_data_types cp) \<and>
        is_type_compatible v (variable_col_data_types cp ! i) = Some True)"

lemma prepared_typed_unset [inv_intros]:
  "bp_statement p = cp \<Longrightarrow> prepared_typed cp (p\<lparr>bp_bound_values := replicate n MU_Unset\<rparr>)"
  by (auto simp: prepared_typed_def)

lemma prepared_typed_bind [inv_intros]:
  assumes "prepared_typed cp p"
    and "BoundPreparedStatement_bind_cql_value p i v = Some (e, p')"
  shows "prepared_typed cp p'"
  using assms
  by (auto simp: BoundPreparedStatement_bind_cql_value_def prepared_typed_def nth_list_update
      bind_eq_Some_conv split: option.splits if_splits)

lemma prepared_typed_bind_multiple [inv_intros]:
  assumes "prepared_typed cp p" and "bind_multiple_values_by_name p is v = Some (e, p')"
  shows "prepared_typed cp p'"
  using assms
proof (induction "is" arbitrary: p)
  case (Cons i "is")
  then obtain e1 p1 where "BoundPreparedStatement_bind_cql_value p i v = Some (e1, p1)"
      "p' = p1 \<or> bind_multiple_values_by_name p1 is v = Some (e, p')"
    by (auto simp: bind_eq_Some_conv split: if_splits)
  with Cons.IH prepared_typed_bind [OF Cons.prems(1)] show ?case by blast
qed simp

lemma prepared_typed_bind_by_name [inv_intros]:
  assumes "prepared_typed cp p"
    and "BoundPreparedStatement_bind_cql_value_by_name p k cs v = Some (e, p')"
  shows "prepared_typed cp p'"
  using assms
  by (auto simp: BoundPreparedStatement_bind_cql_value_by_name_def Let_def split: if_splits
      intro: prepared_typed_bind_multiple)

lemma apply_op_prepared:
  assumes "prepared_typed cp p" and "bound_statement st = BS_Prepared p"
    and "apply_op op st = Some st'"
  shows "\<exists>p'. bound_statement st' = BS_Prepared p' \<and> prepared_typed cp p'"
proof (cases op)
  case (SO_Bind i v)
  with assms show ?thesis
    by (auto simp: CassStatement_bind_cql_value_def bind_eq_Some_conv intro: prepared_typed_bind)
next
  case (SO_Bind_by_name k v)
  with assms show ?thesis
    by (auto simp: CassStatement_bind_cql_value_by_name_def bind_eq_Some_conv
        split: option.splits intro: prepared_typed_bind_by_name)
next
  case (SO_Reset n)
  with assms show ?thesis
    by (auto simp: reset_bound_values_def prepared_typed_def)
qed

lemma run_ops_prepared:
  assumes "prepared_typed cp p" and "bound_statement st = BS_Prepared p"
    and "run_ops ops st = Some st'"
  shows "\<exists>p'. bound_statement st' = BS_Prepared p' \<and> prepared_typed cp p'"
  using assms
proof (induction ops arbitrary: st p)
  case (Cons op ops)
  then obtain st1 where "apply_op op st = Some st1" "run_ops ops st1 = Some st'"
    by (auto simp: bind_eq_Some_conv)
  with Cons.IH apply_op_prepared [OF Cons.prems(1,2)] show ?case by blast
qed auto

text \<open>
  Property C17.  The values bound to a prepared statement always fit its columns: after any sequence
  of bindings by index and by name and of resets to any number of parameters, a bound non-null value
  stands at the index of a column whose type accepts it; and a value whose containers were built with
  complete data types then has, at every depth, the type that the server announced for the column.
\<close>

theorem prepared_values_fit_their_columns:
  assumes "cass_prepared_bind (Some (CassPrepared_new_from_prepared_statement ps)) = Some st"
    and "run_ops ops st = Some st'"
  shows "\<exists>p. bound_statement st' = BS_Prepared p \<and>
     (\<forall>i < length (bp_bound_values p). \<forall>v. bp_bound_values p ! i = MU_Set (Some v) \<longrightarrow>
        i < length (variable_col_specs ps) \<and>
        (let column = col_typ (variable_col_specs ps ! i) in
         CassCqlValue_is_type_compatible v (get_column_type column) = Some True \<and>
         (well_built v \<and> column_known column \<and> column_udt_free column \<longrightarrow>
            has_type v (get_column_type column))))"
proof -
  let ?cp = "CassPrepared_new_from_prepared_statement ps"
  have "prepared_typed ?cp
      \<lparr>bp_statement = ?cp, bp_bound_values = replicate (length (variable_col_specs ps)) MU_Unset\<rparr>"
    by (auto simp: prepared_typed_def)
  moreover have "bound_statement st = BS_Prepared
      \<lparr>bp_statement = ?cp, bp_bound_values = replicate (length (variable_col_specs ps)) MU_Unset\<rparr>"
    using assms(1) by (auto simp: cass_prepared_bind_def CassStatement_new_def Let_def
        CassPrepared_new_from_prepared_statement_def)
  ultimately obtain p where p: "bound_statement st' = BS_Prepared p" "prepared_typed ?cp p"
    using run_ops_prepared assms(2) by blast
  have "length (variable_col_data_types ?cp) = length (variable_col_specs ps)"
    and "\<And>i. i < length (variable_col_specs ps) \<Longrightarrow>
       variable_col_data_types ?cp ! i = get_column_type (col_typ (variable_col_specs ps ! i))"
    by (simp_all add: CassPrepared_new_from_prepared_statement_def Let_def)
  with p have "i < length (variable_col_specs ps) \<and>
      CassCqlValue_is_type_compatible v (get_column_type (col_typ (variable_col_specs ps ! i))) = Some True"
    if "i < length (bp_bound_values p)" "bp_bound_values p ! i = MU_Set (Some v)" for i v
    using that by (fastforce simp: prepared_typed_def is_type_compatible_def)
  with p(1) show ?thesis
    by (auto simp: Let_def intro!: well_built_has_type get_column_type_exact)
qed

text \<open>A prepared statement with two columns, for the examples.\<close>

definition two_columns :: PreparedStatement where
  "two_columns =
     \<lparr>variable_col_specs = [\<lparr>col_name = ''id'', col_typ = CT_Native NT_Int\<rparr>,
                            \<lparr>col_name = ''Id'', col_typ = CT_Native NT_Int\<rparr>],
      prepared_config = plain_config, use_cached_result_metadata = False\<rparr>"

theorem prepared_values_fit_their_columns_witness:
  "run_ops [SO_Bind_by_name ''ID'' (Some (CV_Int 7)), SO_Bind 0 (Some (CV_Boolean True))]
     (CassStatement_new (BS_Prepared
        \<lparr>bp_statement = CassPrepared_new_from_prepared_statement two_columns,
         bp_bound_values = [MU_Unset, MU_Unset]\<rparr>)) =
   Some (CassStatement_new (BS_Prepared
        \<lparr>bp_statement = CassPrepared_new_from_prepared_statement two_columns,
         bp_bound_values = [MU_Set (Some (CV_Int 7)), MU_Set (Some (CV_Int 7))]\<rparr>)) \<and>
   CassCqlValue_is_type_compatible (CV_Int 7) (get_column_type (CT_Native NT_Int)) = Some True"
proof -
  let ?st = "CassStatement_new (BS_Prepared
        \<lparr>bp_statement = CassPrepared_new_from_prepared_statement two_columns,
         bp_bound_values = [MU_Unset, MU_Unset]\<rparr>)"
  let ?st' = "CassStatement_new (BS_Prepared
        \<lparr>bp_statement = CassPrepared_new_from_prepared_statement two_columns,
         bp_bound_values = [MU_Set (Some (CV_Int 7)), MU_Set (Some (CV_Int 7))]\<rparr>)"
  let ?ops = "[SO_Bind_by_name ''ID'' (Some (CV_Int 7)), SO_Bind 0 (Some (CV_Boolean True))]"
  have b: "cass_prepared_bind (Some (CassPrepared_new_from_prepared_statement two_columns)) = Some ?st"
    by (simp add: cass_prepared_bind_def two_columns_def CassPrepared_new_from_prepared_statement_def)
  have r: "run_ops ?ops ?st = Some ?st'"
    by (simp add: two_columns_def CassPrepared_new_from_prepared_statement_def CassStatement_new_def
        CassStatement_bind_cql_value_by_name_def CassStatement_bind_cql_value_def strip_quotes_def
        BoundPreparedStatement_bind_cql_value_by_name_def BoundPreparedStatement_bind_cql_value_def
        column_matches_def eq_ignore_ascii_case_def to_ascii_lowercase_def is_type_compatible_def
        list_get_def char_of_def bit_Suc_0_iff)
  from prepared_values_fit_their_columns [OF b r] r show ?thesis
    by (auto simp: CassStatement_new_def two_columns_def)
qed

lemma bind_multiple_writes:
  assumes "\<forall>i \<in> set is. i < length (bp_bound_values p) \<and>
      i < length (variable_col_data_types (bp_statement p)) \<and>
      is_type_compatible v (variable_col_data_types (bp_statement p) ! i) = Some True"
  shows "bind_multiple_values_by_name p is v = Some (CASS_OK,
     p\<lparr>bp_bound_values := foldl (\<lambda>b i. b[i := MU_Set v]) (bp_bound_values p) is\<rparr>)"
  using assms
  by (induction "is" arbitrary: p)
    (simp_all add: BoundPreparedStatement_bind_cql_value_def list_get_in_range)

lemma length_foldl_update [simp]: "length (foldl (\<lambda>b i. b[i := x]) b is) = length b"
  by (induction "is" arbitrary: b) simp_all

lemma nth_foldl_update:
  "j < length b \<Longrightarrow> foldl (\<lambda>b i. b[i := x]) b is ! j = (if j \<in> set is then x else b ! j)"
  by (induction "is" arbitrary: b) (auto simp: nth_list_update)

lemma matching_indices:
  "set (map fst (filter (\<lambda>(_, col). P col) (enumerate 0 cols))) = {i. i < length cols \<and> P (cols ! i)}"
  by (auto simp: in_set_enumerate_eq image_iff)

text \<open>
  Binding a prepared statement by name binds every column of that name, and only
  those: when the types of all matching columns accept the value, exactly the matching places are
  overwritten; when no column matches, the statement does not change and the error says so.  Without
  quotes, names are compared without regard to the case of ASCII letters.
\<close>

lemma prepared_bind_by_name_binds_all_matches:
  fixes name cs v p
  defines "cols \<equiv> variable_col_specs (prepared_statement (bp_statement p))"
    and "types \<equiv> variable_col_data_types (bp_statement p)"
  assumes "length (bp_bound_values p) = length cols" and "length types = length cols"
    and "\<forall>i < length cols. column_matches name cs (cols ! i) \<longrightarrow>
       is_type_compatible v (types ! i) = Some True"
  shows "BoundPreparedStatement_bind_cql_value_by_name p name cs v =
    (if \<exists>col \<in> set cols. column_matches name cs col
     then Some (CASS_OK, p\<lparr>bp_bound_values :=
       map2 (\<lambda>col old. if column_matches name cs col then MU_Set v else old) cols (bp_bound_values p)\<rparr>)
     else Some (CASS_ERROR_LIB_NAME_DOES_NOT_EXIST, p))"
proof -
  let ?is = "map fst (filter (\<lambda>(_, col). column_matches name cs col) (enumerate 0 cols))"
  have set: "set ?is = {i. i < length cols \<and> column_matches name cs (cols ! i)}"
    by (rule matching_indices)
  have nonempty: "?is \<noteq> [] \<longleftrightarrow> (\<exists>col \<in> set cols. column_matches name cs col)"
    using set by (metis (mono_tags, lifting) empty_set in_set_conv_nth mem_Collect_eq
        all_not_in_conv set_empty)
  have "foldl (\<lambda>b i. b[i := MU_Set v]) (bp_bound_values p) ?is =
      map2 (\<lambda>col old. if column_matches name cs col then MU_Set v else old) cols (bp_bound_values p)"
  proof (rule nth_equalityI)
    fix j assume "j < length (foldl (\<lambda>b i. b[i := MU_Set v]) (bp_bound_values p) ?is)"
    then have j: "j < length (bp_bound_values p)" by (simp only: length_foldl_update)
    show "foldl (\<lambda>b i. b[i := MU_Set v]) (bp_bound_values p) ?is ! j =
      map2 (\<lambda>col old. if column_matches name cs col then MU_Set v else old) cols (bp_bound_values p) ! j"
      unfolding nth_foldl_update [OF j] set using j assms(3) by simp
  qed (simp add: assms(3))
  moreover have "bind_multiple_values_by_name p ?is v = Some (CASS_OK,
     p\<lparr>bp_bound_values := foldl (\<lambda>b i. b[i := MU_Set v]) (bp_bound_values p) ?is\<rparr>)"
    by (rule bind_multiple_writes) (use assms(3-5) set in \<open>auto simp: types_def\<close>)
  ultimately show ?thesis
    using nonempty unfolding BoundPreparedStatement_bind_cql_value_by_name_def Let_def cols_def
    by auto
qed

end
