(* ===== verification/Cass_Batch.thy ===== *)
theory Cass_Batch
  imports Cass_Statement_Props
begin

text \<open>
  \<open>statements/batch.rs\<close>: batches, their settings, and adding statements to them; with the two functions
  of \<open>exec_profile.rs\<close> that choose the execution profile of a batch.  The initial settings of the Rust
  driver's \<open>Batch\<close> are an argument of \<open>cass_batch_new\<close>.  \<open>Arc::make_mut\<close> gives a batch its own copy of
  the shared state before every change, so that plain values model it.
\<close>

datatype BatchStatement = Batch_Query Statement | Batch_Prepared PreparedStatement

record Batch =
  batch_type :: BatchType
  batch_statements :: "BatchStatement list"
  batch_config :: StatementConfig

record CassBatchState =
  state_batch :: Batch
  state_bound_values :: "bound_value list list"

record CassBatch =
  batch_state :: CassBatchState
  batch_exec_profile :: "PerStatementExecProfile option"

definition cass_batch_new :: "StatementConfig \<Rightarrow> CassBatchType \<Rightarrow> CassBatch c_ptr" where
  "cass_batch_new batch_default typ =
     (case make_batch_type typ of
        Inl _ \<Rightarrow> None
      | Inr bt \<Rightarrow>
          Some \<lparr>batch_state = \<lparr>state_batch = \<lparr>batch_type = bt, batch_statements = [],
                                             batch_config = batch_default\<rparr>,
                               state_bound_values = []\<rparr>,
                batch_exec_profile = None\<rparr>)"

subsection \<open>Settings\<close>

definition modify_batch_config ::
    "(StatementConfig \<Rightarrow> StatementConfig) \<Rightarrow> CassBatch \<Rightarrow> CassBatch" where
  "modify_batch_config f b =
     (let state = batch_state b; inner = state_batch state in
      b\<lparr>batch_state := state\<lparr>state_batch := inner\<lparr>batch_config := f (batch_config inner)\<rparr>\<rparr>\<rparr>)"

definition with_batch ::
    "CassBatch c_ptr \<Rightarrow> (CassBatch \<Rightarrow> (CassError \<times> CassBatch) panics) \<Rightarrow>
     (CassError \<times> CassBatch c_ptr) panics" where
  "with_batch b f =
     (case b of
        None \<Rightarrow> Some (CASS_ERROR_LIB_BAD_PARAMS, None)
      | Some b \<Rightarrow> do { (err, b') \<leftarrow> f b; Some (err, Some b') })"

definition cass_batch_set_consistency ::
    "CassBatch c_ptr \<Rightarrow> CassConsistency \<Rightarrow> (CassError \<times> CassBatch c_ptr) panics" where
  "cass_batch_set_consistency batch consistency =
     with_batch batch (\<lambda>batch.
       do { r \<leftarrow> from_c_value Consistency_is_unset Consistency_from_set_c_value consistency;
            case r of
              Inl _ \<Rightarrow> Some (CASS_ERROR_LIB_BAD_PARAMS, batch)
            | Inr Cfg_Unset \<Rightarrow>
                Some (CASS_OK, modify_batch_config (\<lambda>c. c\<lparr>cfg_consistency := None\<rparr>) batch)
            | Inr (Cfg_Set consistency) \<Rightarrow>
                Some (CASS_OK,
                  modify_batch_config (\<lambda>c. c\<lparr>cfg_consistency := Some consistency\<rparr>) batch) })"

definition cass_batch_set_serial_consistency ::
    "CassBatch c_ptr \<Rightarrow> CassConsistency \<Rightarrow> (CassError \<times> CassBatch c_ptr) panics" where
  "cass_batch_set_serial_consistency batch serial_consistency =
     with_batch batch (\<lambda>batch.
       do { r \<leftarrow> from_c_value SerialConsistency_is_unset SerialConsistency_from_set_c_value
                   serial_consistency;
            case r of
              Inl _ \<Rightarrow> Some (CASS_ERROR_LIB_BAD_PARAMS, batch)
            | Inr m \<Rightarrow>
                Some (CASS_OK, modify_batch_config (\<lambda>c. c\<lparr>cfg_serial_consistency := m\<rparr>) batch) })"

definition cass_batch_set_retry_policy ::
    "CassBatch c_ptr \<Rightarrow> CassRetryPolicy c_ptr \<Rightarrow> (CassError \<times> CassBatch c_ptr) panics" where
  "cass_batch_set_retry_policy batch cass_retry_policy =
     with_batch batch (\<lambda>batch.
       do { rp \<leftarrow> retry_policy_opt cass_retry_policy;
            Some (CASS_OK, modify_batch_config (\<lambda>c. c\<lparr>cfg_retry_policy := rp\<rparr>) batch) })"

definition cass_batch_set_timestamp ::
    "CassBatch c_ptr \<Rightarrow> u64 \<Rightarrow> (CassError \<times> CassBatch c_ptr) panics" where
  "cass_batch_set_timestamp batch timestamp =
     with_batch batch (\<lambda>batch. Some (CASS_OK,
       modify_batch_config (\<lambda>c. c\<lparr>cfg_timestamp := Some timestamp\<rparr>) batch))"

definition cass_batch_set_request_timeout ::
    "CassBatch c_ptr \<Rightarrow> u64 \<Rightarrow> (CassError \<times> CassBatch c_ptr) panics" where
  "cass_batch_set_request_timeout batch timeout_ms =
     with_batch batch (\<lambda>batch.
       do { timeout \<leftarrow> request_timeout_opt timeout_ms;
            Some (CASS_OK, modify_batch_config (\<lambda>c. c\<lparr>cfg_request_timeout := timeout\<rparr>) batch) })"

definition cass_batch_set_is_idempotent ::
    "CassBatch c_ptr \<Rightarrow> u32 \<Rightarrow> (CassError \<times> CassBatch c_ptr) panics" where
  "cass_batch_set_is_idempotent batch is_idempotent =
     with_batch batch (\<lambda>batch. Some (CASS_OK,
       modify_batch_config (\<lambda>c. c\<lparr>cfg_is_idempotent := (is_idempotent \<noteq> 0)\<rparr>) batch))"

definition cass_batch_set_tracing ::
    "CassBatch c_ptr \<Rightarrow> u32 \<Rightarrow> (CassError \<times> CassBatch c_ptr) panics" where
  "cass_batch_set_tracing batch enabled =
     with_batch batch (\<lambda>batch. Some (CASS_OK,
       modify_batch_config (\<lambda>c. c\<lparr>cfg_tracing := (enabled \<noteq> 0)\<rparr>) batch))"

definition cass_batch_set_execution_profile_n ::
    "CassBatch c_ptr \<Rightarrow> c_chars \<Rightarrow> nat \<Rightarrow> (CassError \<times> CassBatch c_ptr) panics" where
  "cass_batch_set_execution_profile_n batch name name_length =
     with_batch batch (\<lambda>batch.
       case exec_profile_name name name_length of
         Inl _ \<Rightarrow> Some (CASS_ERROR_LIB_BAD_PARAMS, batch)
       | Inr name \<Rightarrow>
           Some (CASS_OK, batch\<lparr>batch_exec_profile := map_option Profile_Unresolved name\<rparr>))"

definition cass_batch_set_execution_profile ::
    "CassBatch c_ptr \<Rightarrow> c_chars \<Rightarrow> (CassError \<times> CassBatch c_ptr) panics" where
  "cass_batch_set_execution_profile batch name =
     (let (name, name_length) = as_len_delimited name
      in cass_batch_set_execution_profile_n batch name name_length)"

subsection \<open>Statements\<close>

definition cass_batch_add_statement ::
    "CassBatch c_ptr \<Rightarrow> CassStatement c_ptr \<Rightarrow> CassError \<times> CassBatch c_ptr" where
  "cass_batch_add_statement batch statement =
     (case batch of
        None \<Rightarrow> (CASS_ERROR_LIB_BAD_PARAMS, None)
      | Some b \<Rightarrow>
          (case statement of
             None \<Rightarrow> (CASS_ERROR_LIB_BAD_PARAMS, batch)
           | Some statement \<Rightarrow>
               (let state = batch_state b; inner = state_batch state;
                    (appended, values) =
                      (case bound_statement statement of
                         BS_Simple q \<Rightarrow> (Batch_Query (bs_query q), bs_bound_values q)
                       | BS_Prepared p \<Rightarrow>
                           (Batch_Prepared (prepared_statement (bp_statement p)), bp_bound_values p))
                in (CASS_OK, Some (b\<lparr>batch_state := state
                     \<lparr>state_batch := inner\<lparr>batch_statements := batch_statements inner @ [appended]\<rparr>,
                      state_bound_values := state_bound_values state @ [values]\<rparr>\<rparr>)))))"

subsection \<open>Laws\<close>

text \<open>What the driver sends for the batch: each statement with its row of values.\<close>

definition batch_contents :: "CassBatch \<Rightarrow> BatchStatement list \<times> bound_value list list" where
  "batch_contents b =
     (batch_statements (state_batch (batch_state b)), state_bound_values (batch_state b))"

definition batch_entry :: "CassStatement \<Rightarrow> BatchStatement \<times> bound_value list" where
  "batch_entry st =
     (case bound_statement st of
        BS_Simple q \<Rightarrow> (Batch_Query (bs_query q), bs_bound_values q)
      | BS_Prepared p \<Rightarrow> (Batch_Prepared (prepared_statement (bp_statement p)), bp_bound_values p))"

datatype batch_op =
    BO_Add "CassStatement c_ptr"
  | BO_Consistency CassConsistency
  | BO_Serial_consistency CassConsistency
  | BO_Retry_policy "CassRetryPolicy c_ptr"
  | BO_Timestamp u64
  | BO_Request_timeout u64
  | BO_Is_idempotent u32
  | BO_Tracing u32
  | BO_Execution_profile c_chars

fun batch_apply :: "batch_op \<Rightarrow> CassBatch c_ptr \<Rightarrow> (CassError \<times> CassBatch c_ptr) panics" where
  "batch_apply (BO_Add st) b = Some (cass_batch_add_statement b st)"
| "batch_apply (BO_Consistency c) b = cass_batch_set_consistency b c"
| "batch_apply (BO_Serial_consistency c) b = cass_batch_set_serial_consistency b c"
| "batch_apply (BO_Retry_policy p) b = cass_batch_set_retry_policy b p"
| "batch_apply (BO_Timestamp t) b = cass_batch_set_timestamp b t"
| "batch_apply (BO_Request_timeout t) b = cass_batch_set_request_timeout b t"
| "batch_apply (BO_Is_idempotent i) b = cass_batch_set_is_idempotent b i"
| "batch_apply (BO_Tracing e) b = cass_batch_set_tracing b e"
| "batch_apply (BO_Execution_profile n) b = cass_batch_set_execution_profile b n"

fun batch_run :: "batch_op list \<Rightarrow> CassBatch c_ptr \<Rightarrow> CassBatch c_ptr panics" where
  "batch_run [] b = Some b"
| "batch_run (op # ops) b = do { (_, b') \<leftarrow> batch_apply op b; batch_run ops b' }"

fun added :: "batch_op list \<Rightarrow> CassStatement list" where
  "added (BO_Add (Some st) # ops) = st # added ops"
| "added (_ # ops) = added ops"
| "added [] = []"

lemma batch_contents_modify [simp]: "batch_contents (modify_batch_config f b) = batch_contents b"
  by (simp add: batch_contents_def modify_batch_config_def Let_def)

lemma batch_contents_profile [simp]: "batch_contents (b\<lparr>batch_exec_profile := p\<rparr>) = batch_contents b"
  by (simp add: batch_contents_def)

lemma add_statement_contents:
  "\<exists>b'. cass_batch_add_statement (Some b) st = (case st of None \<Rightarrow> CASS_ERROR_LIB_BAD_PARAMS | Some _ \<Rightarrow> CASS_OK, Some b') \<and>
     batch_contents b' =
       (fst (batch_contents b) @ map (fst \<circ> batch_entry) (case st of None \<Rightarrow> [] | Some st \<Rightarrow> [st]),
        snd (batch_contents b) @ map (snd \<circ> batch_entry) (case st of None \<Rightarrow> [] | Some st \<Rightarrow> [st]))"
  by (auto simp: cass_batch_add_statement_def batch_contents_def batch_entry_def Let_def
      split: option.split BoundStatement.split)

lemmas batch_setter_defs =
  cass_batch_set_consistency_def cass_batch_set_serial_consistency_def
  cass_batch_set_retry_policy_def cass_batch_set_timestamp_def cass_batch_set_request_timeout_def
  cass_batch_set_is_idempotent_def cass_batch_set_tracing_def
  cass_batch_set_execution_profile_def cass_batch_set_execution_profile_n_def

lemma retry_policy_opt_returns: "retry_policy_opt p \<noteq> None"
  using retry.from_c_value_returns [of p]
  by (auto simp: retry_policy_opt_def split: sum.splits MaybeUnsetConfig.splits)

lemma request_timeout_opt_returns: "request_timeout_opt t \<noteq> None"
  using timeout.from_c_value_returns [of t]
  by (auto simp: request_timeout_opt_def
      split: sum.splits MaybeUnsetConfig.splits RequestTimeout.splits)

lemma batch_apply_contents:
  "\<exists>e b'. batch_apply op (Some b) = Some (e, Some b') \<and>
     batch_contents b' =
       (fst (batch_contents b) @ map (fst \<circ> batch_entry) (added [op]),
        snd (batch_contents b) @ map (snd \<circ> batch_entry) (added [op]))"
proof (cases op)
  case (BO_Add st)
  then show ?thesis
    using add_statement_contents [of b st] by (cases st) auto
next
  case (BO_Consistency c)
  then show ?thesis
    using cons.from_c_value_returns [of c]
    by (auto simp: batch_setter_defs with_batch_def split: sum.split MaybeUnsetConfig.split)
next
  case (BO_Serial_consistency c)
  then show ?thesis
    using serial.from_c_value_returns [of c]
    by (auto simp: batch_setter_defs with_batch_def split: sum.split)
next
  case (BO_Retry_policy p)
  then show ?thesis
    using retry_policy_opt_returns [of p] by (auto simp: batch_setter_defs with_batch_def)
next
  case (BO_Request_timeout t)
  then show ?thesis
    using request_timeout_opt_returns [of t] by (auto simp: batch_setter_defs with_batch_def)
qed (auto simp: batch_setter_defs with_batch_def split: sum.split prod.split)

lemma added_Cons: "added (op # ops) = added [op] @ added ops"
  by (cases "op # ops" rule: added.cases) auto

lemma batch_run_contents:
  "\<exists>b'. batch_run ops (Some b) = Some (Some b') \<and>
     batch_contents b' =
       (fst (batch_contents b) @ map (fst \<circ> batch_entry) (added ops),
        snd (batch_contents b) @ map (snd \<circ> batch_entry) (added ops))"
proof (induction ops arbitrary: b)
  case (Cons op ops)
  obtain e b1 where b1: "batch_apply op (Some b) = Some (e, Some b1)"
      "batch_contents b1 = (fst (batch_contents b) @ map (fst \<circ> batch_entry) (added [op]),
        snd (batch_contents b) @ map (snd \<circ> batch_entry) (added [op]))"
    using batch_apply_contents by blast
  with Cons.IH [of b1] show ?case by (auto simp: added_Cons [of op ops] simp del: added.simps)
qed (simp add: prod_eq_iff)

text \<open>
  Property C31.  A batch sends what was added to it: after any sequence of calls on a new batch, no
  call panicked, and the batch holds the added statements in their order, each paired with the values
  it had when it was added; settings and refused calls change neither.
\<close>

theorem batch_pairs_statements_with_their_values:
  assumes "cass_batch_new cfg typ = Some b"
  shows "\<exists>b'. batch_run ops (Some b) = Some (Some b') \<and>
     batch_contents b' = (map (fst \<circ> batch_entry) (added ops), map (snd \<circ> batch_entry) (added ops))"
proof -
  have "batch_contents b = ([], [])"
    using assms by (auto simp: cass_batch_new_def batch_contents_def split: sum.splits)
  with batch_run_contents [of ops b] show ?thesis by simp
qed

theorem batch_pairs_statements_with_their_values_witness:
  "\<exists>b'. batch_run [BO_Add (Some two_parameters), BO_Add None, BO_Consistency 99,
                   BO_Add (Some two_parameters)]
         (Some \<lparr>batch_state = \<lparr>state_batch = \<lparr>batch_type = Batch_Logged, batch_statements = [],
                   batch_config = plain_config\<rparr>, state_bound_values = []\<rparr>,
                batch_exec_profile = None\<rparr>) = Some (Some b') \<and>
     batch_contents b' =
       (map (fst \<circ> batch_entry) (added [BO_Add (Some two_parameters), BO_Add None, BO_Consistency 99,
                   BO_Add (Some two_parameters)]),
        map (snd \<circ> batch_entry) (added [BO_Add (Some two_parameters), BO_Add None, BO_Consistency 99,
                   BO_Add (Some two_parameters)]))"
  by (rule batch_pairs_statements_with_their_values [of plain_config CASS_BATCH_TYPE_LOGGED])
    (simp add: cass_batch_new_def make_batch_type_def)


text \<open>For the example: cells are one byte, and a row is written cell by cell.\<close>

definition byte_cell :: "bound_value \<Rightarrow> ColumnType \<Rightarrow> unit + u8 list" where
  "byte_cell v t = (case v of MU_Set (Some (CV_TinyInt n)) \<Rightarrow> Inr [n] | _ \<Rightarrow> Inl ())"

fun byte_row :: "bound_value list \<Rightarrow> ColumnSpec list \<Rightarrow> unit + u8 list" where
  "byte_row (v # vs) (c # cs) =
     (case byte_cell v (col_typ c) of
        Inl e \<Rightarrow> Inl e
      | Inr b \<Rightarrow> (case byte_row vs cs of Inl e \<Rightarrow> Inl e | Inr r \<Rightarrow> Inr (b @ r)))"
| "byte_row _ _ = Inr []"

lemma byte_row_positional:
  assumes "length vs = length cols" "length cells = length cols"
    "\<forall>i < length cols. byte_cell (vs ! i) (col_typ (cols ! i)) = Inr (cells ! i)"
  shows "byte_row vs cols = Inr (concat cells)"
  using assms
proof (induction vs cols arbitrary: cells rule: list_induct2')
  case (4 v vs c cs)
  then obtain x cells' where "cells = x # cells'" by (cases cells) auto
  with 4 show ?case by (auto simp: All_less_Suc2)
qed auto


end
