(* ===== verification/Cass_Error.thy ===== *)
theory Cass_Error
  imports Cass_Arg_Conv
begin

text \<open>
  \<open>cass_error.rs\<close>: how errors of the Rust driver become error codes of the C API, and the functions
  that inspect an error result.

  The error types are the Rust driver's.  A datatype here has the variants that the source
  distinguishes, with the fields it reads, and one more constructor (\<open>_Unknown\<close>) where the source has a
  wildcard arm because the type is non-exhaustive.
\<close>

subsection \<open>Errors of the Rust driver\<close>

datatype SerializationError = Ser_UnknownNamedParameter string | Ser_Other

datatype DbError =
    Db_ServerError
  | Db_ProtocolError
  | Db_AuthenticationError
  | Db_Unavailable Consistency u32 u32
  | Db_Overloaded
  | Db_IsBootstrapping
  | Db_TruncateError
  | Db_WriteTimeout Consistency u32 u32 WriteType
  | Db_ReadTimeout Consistency u32 u32 bool
  | Db_ReadFailure Consistency u32 u32 u32 bool
  | Db_FunctionFailure string string "string list"
  | Db_WriteFailure Consistency u32 u32 u32 WriteType
  | Db_SyntaxError
  | Db_Unauthorized
  | Db_Invalid
  | Db_ConfigError
  | Db_AlreadyExists string string
  | Db_Unprepared
  | Db_Other u32
  | Db_RateLimitReached
  | Db_Unknown

datatype RequestAttemptError =
    RA_SerializationError SerializationError
  | RA_CqlRequestSerialization
  | RA_UnableToAllocStreamId
  | RA_BrokenConnectionError
  | RA_BodyExtensionsParseError
  | RA_CqlResultParseError
  | RA_CqlErrorParseError
  | RA_DbError DbError
  | RA_UnexpectedResponse
  | RA_RepreparedIdChanged
  | RA_RepreparedIdMissingInBatch
  | RA_NonfinishedPagingState
  | RA_Unknown

datatype PrepareError =
    PE_ConnectionPoolError
  | PE_AllAttemptsFailed RequestAttemptError
  | PE_PreparedStatementIdsMismatch
  | PE_Unknown

datatype BadQuery =
    BQ_ValuesTooLongForKey
  | BQ_PartitionKeyExtraction
  | BQ_SerializationError SerializationError
  | BQ_TooManyQueriesInBatchStatement
  | BQ_Unknown

datatype RequestError =
    RE_EmptyPlan
  | RE_ConnectionPoolError
  | RE_RequestTimeout
  | RE_LastAttemptError RequestAttemptError
  | RE_Unknown

datatype NextPageError =
    NP_PartitionKeyError
  | NP_RequestFailure RequestError
  | NP_ResultMetadataParseError
  | NP_Unknown

datatype NextRowError =
    NR_NextPageError NextPageError
  | NR_RowDeserializationError
  | NR_Unknown

datatype MetadataFetchErrorKind =
    MF_InvalidColumnType
  | MF_PrepareError PrepareError
  | MF_SerializationError SerializationError
  | MF_NextRowError NextRowError
  | MF_Unknown

datatype MetadataError =
    ME_ConnectionPoolError
  | ME_FetchError MetadataFetchErrorKind
  | ME_Keyspaces
  | ME_Peers
  | ME_Tables
  | ME_Udts
  | ME_Unknown

datatype ExecutionError =
    EE_BadQuery BadQuery
  | EE_RequestTimeout
  | EE_EmptyPlan
  | EE_MetadataError MetadataError
  | EE_ConnectionPoolError
  | EE_PrepareError PrepareError
  | EE_LastAttemptError RequestAttemptError
  | EE_UseKeyspaceError
  | EE_SchemaAgreementError
  | EE_Unknown

datatype NewSessionError =
    NS_FailedToResolveAnyHostname
  | NS_EmptyKnownNodesList
  | NS_MetadataError MetadataError
  | NS_UseKeyspaceError
  | NS_Unknown

datatype BadKeyspaceName = BK_Empty | BK_TooLong | BK_IllegalCharacter | BK_Unknown

datatype CassErrorResult =
    CER_Execution ExecutionError
  | CER_ResultMetadataLazyDeserialization
  | CER_Deserialization

subsection \<open>Error codes\<close>

fun SerializationError_to_cass_error :: "SerializationError \<Rightarrow> CassError" where
  "SerializationError_to_cass_error (Ser_UnknownNamedParameter _) = CASS_ERROR_LIB_NAME_DOES_NOT_EXIST"
| "SerializationError_to_cass_error Ser_Other = CASS_ERROR_LIB_INVALID_DATA"

fun DbError_to_cass_error :: "DbError \<Rightarrow> CassError" where
  "DbError_to_cass_error Db_ServerError = CASS_ERROR_SERVER_SERVER_ERROR"
| "DbError_to_cass_error Db_ProtocolError = CASS_ERROR_SERVER_PROTOCOL_ERROR"
| "DbError_to_cass_error Db_AuthenticationError = CASS_ERROR_SERVER_BAD_CREDENTIALS"
| "DbError_to_cass_error (Db_Unavailable _ _ _) = CASS_ERROR_SERVER_UNAVAILABLE"
| "DbError_to_cass_error Db_Overloaded = CASS_ERROR_SERVER_OVERLOADED"
| "DbError_to_cass_error Db_IsBootstrapping = CASS_ERROR_SERVER_IS_BOOTSTRAPPING"
| "DbError_to_cass_error Db_TruncateError = CASS_ERROR_SERVER_TRUNCATE_ERROR"
| "DbError_to_cass_error (Db_WriteTimeout _ _ _ _) = CASS_ERROR_SERVER_WRITE_TIMEOUT"
| "DbError_to_cass_error (Db_ReadTimeout _ _ _ _) = CASS_ERROR_SERVER_READ_TIMEOUT"
| "DbError_to_cass_error (Db_ReadFailure _ _ _ _ _) = CASS_ERROR_SERVER_READ_FAILURE"
| "DbError_to_cass_error (Db_FunctionFailure _ _ _) = CASS_ERROR_SERVER_FUNCTION_FAILURE"
| "DbError_to_cass_error (Db_WriteFailure _ _ _ _ _) = CASS_ERROR_SERVER_WRITE_FAILURE"
| "DbError_to_cass_error Db_SyntaxError = CASS_ERROR_SERVER_SYNTAX_ERROR"
| "DbError_to_cass_error Db_Unauthorized = CASS_ERROR_SERVER_UNAUTHORIZED"
| "DbError_to_cass_error Db_Invalid = CASS_ERROR_SERVER_INVALID_QUERY"
| "DbError_to_cass_error Db_ConfigError = CASS_ERROR_SERVER_CONFIG_ERROR"
| "DbError_to_cass_error (Db_AlreadyExists _ _) = CASS_ERROR_SERVER_ALREADY_EXISTS"
| "DbError_to_cass_error Db_Unprepared = CASS_ERROR_SERVER_UNPREPARED"
| "DbError_to_cass_error (Db_Other num) = push_bit 24 CASS_ERROR_SOURCE_SERVER OR num"
| "DbError_to_cass_error Db_RateLimitReached = CASS_ERROR_SERVER_UNAVAILABLE"
| "DbError_to_cass_error Db_Unknown = CASS_ERROR_LAST_ENTRY"

fun RequestAttemptError_to_cass_error :: "RequestAttemptError \<Rightarrow> CassError" where
  "RequestAttemptError_to_cass_error (RA_SerializationError e) = SerializationError_to_cass_error e"
| "RequestAttemptError_to_cass_error RA_CqlRequestSerialization = CASS_ERROR_LIB_MESSAGE_ENCODE"
| "RequestAttemptError_to_cass_error RA_UnableToAllocStreamId = CASS_ERROR_LIB_NO_STREAMS"
| "RequestAttemptError_to_cass_error RA_BrokenConnectionError = CASS_ERROR_LIB_NO_HOSTS_AVAILABLE"
| "RequestAttemptError_to_cass_error RA_BodyExtensionsParseError = CASS_ERROR_LIB_INVALID_DATA"
| "RequestAttemptError_to_cass_error RA_CqlResultParseError = CASS_ERROR_LIB_INVALID_DATA"
| "RequestAttemptError_to_cass_error RA_CqlErrorParseError = CASS_ERROR_LIB_INVALID_DATA"
| "RequestAttemptError_to_cass_error (RA_DbError db_error) = DbError_to_cass_error db_error"
| "RequestAttemptError_to_cass_error RA_UnexpectedResponse = CASS_ERROR_LIB_UNEXPECTED_RESPONSE"
| "RequestAttemptError_to_cass_error RA_RepreparedIdChanged = CASS_ERROR_LIB_INVALID_STATE"
| "RequestAttemptError_to_cass_error RA_RepreparedIdMissingInBatch = CASS_ERROR_LIB_INVALID_STATE"
| "RequestAttemptError_to_cass_error RA_NonfinishedPagingState = CASS_ERROR_LIB_INVALID_STATE"
| "RequestAttemptError_to_cass_error RA_Unknown = CASS_ERROR_LAST_ENTRY"

definition ConnectionPoolError_to_cass_error :: CassError where
  "ConnectionPoolError_to_cass_error = CASS_ERROR_LIB_NO_HOSTS_AVAILABLE"

fun PrepareError_to_cass_error :: "PrepareError \<Rightarrow> CassError" where
  "PrepareError_to_cass_error PE_ConnectionPoolError = ConnectionPoolError_to_cass_error"
| "PrepareError_to_cass_error (PE_AllAttemptsFailed first_attempt) =
     RequestAttemptError_to_cass_error first_attempt"
| "PrepareError_to_cass_error PE_PreparedStatementIdsMismatch = CASS_ERROR_SERVER_PROTOCOL_ERROR"
| "PrepareError_to_cass_error PE_Unknown = CASS_ERROR_LAST_ENTRY"

fun BadQuery_to_cass_error :: "BadQuery \<Rightarrow> CassError" where
  "BadQuery_to_cass_error BQ_ValuesTooLongForKey = CASS_ERROR_LIB_MESSAGE_ENCODE"
| "BadQuery_to_cass_error BQ_PartitionKeyExtraction = CASS_ERROR_LIB_MESSAGE_ENCODE"
| "BadQuery_to_cass_error (BQ_SerializationError e) = SerializationError_to_cass_error e"
| "BadQuery_to_cass_error BQ_TooManyQueriesInBatchStatement = CASS_ERROR_LIB_MESSAGE_ENCODE"
| "BadQuery_to_cass_error BQ_Unknown = CASS_ERROR_LAST_ENTRY"

fun MetadataError_to_cass_error :: "MetadataError \<Rightarrow> CassError" where
  "MetadataError_to_cass_error ME_ConnectionPoolError = ConnectionPoolError_to_cass_error"
| "MetadataError_to_cass_error (ME_FetchError kind) =
     (case kind of
        MF_InvalidColumnType \<Rightarrow> CASS_ERROR_LIB_UNEXPECTED_RESPONSE
      | MF_PrepareError e \<Rightarrow> PrepareError_to_cass_error e
      | MF_SerializationError e \<Rightarrow> SerializationError_to_cass_error e
      | MF_NextRowError e \<Rightarrow>
          (case e of
             NR_NextPageError next_page_error \<Rightarrow>
               (case next_page_error of
                  NP_PartitionKeyError \<Rightarrow> CASS_ERROR_LIB_MESSAGE_ENCODE
                | NP_RequestFailure e \<Rightarrow>
                    (case e of
                       RE_EmptyPlan \<Rightarrow> CASS_ERROR_LIB_NO_HOSTS_AVAILABLE
                     | RE_ConnectionPoolError \<Rightarrow> ConnectionPoolError_to_cass_error
                     | RE_RequestTimeout \<Rightarrow> CASS_ERROR_LIB_REQUEST_TIMED_OUT
                     | RE_LastAttemptError e \<Rightarrow> RequestAttemptError_to_cass_error e
                     | RE_Unknown \<Rightarrow> CASS_ERROR_LAST_ENTRY)
                | NP_ResultMetadataParseError \<Rightarrow> CASS_ERROR_LIB_INVALID_DATA
                | NP_Unknown \<Rightarrow> CASS_ERROR_LAST_ENTRY)
           | NR_RowDeserializationError \<Rightarrow> CASS_ERROR_LIB_INVALID_DATA
           | NR_Unknown \<Rightarrow> CASS_ERROR_LAST_ENTRY)
      | MF_Unknown \<Rightarrow> CASS_ERROR_LAST_ENTRY)"
| "MetadataError_to_cass_error ME_Keyspaces = CASS_ERROR_LIB_UNEXPECTED_RESPONSE"
| "MetadataError_to_cass_error ME_Peers = CASS_ERROR_LIB_UNEXPECTED_RESPONSE"
| "MetadataError_to_cass_error ME_Tables = CASS_ERROR_LIB_UNEXPECTED_RESPONSE"
| "MetadataError_to_cass_error ME_Udts = CASS_ERROR_LIB_UNEXPECTED_RESPONSE"
| "MetadataError_to_cass_error ME_Unknown = CASS_ERROR_LAST_ENTRY"

fun ExecutionError_to_cass_error :: "ExecutionError \<Rightarrow> CassError" where
  "ExecutionError_to_cass_error (EE_BadQuery bad_query) = BadQuery_to_cass_error bad_query"
| "ExecutionError_to_cass_error EE_RequestTimeout = CASS_ERROR_LIB_REQUEST_TIMED_OUT"
| "ExecutionError_to_cass_error EE_EmptyPlan = CASS_ERROR_LIB_NO_HOSTS_AVAILABLE"
| "ExecutionError_to_cass_error (EE_MetadataError e) = MetadataError_to_cass_error e"
| "ExecutionError_to_cass_error EE_ConnectionPoolError = ConnectionPoolError_to_cass_error"
| "ExecutionError_to_cass_error (EE_PrepareError e) = PrepareError_to_cass_error e"
| "ExecutionError_to_cass_error (EE_LastAttemptError e) = RequestAttemptError_to_cass_error e"
| "ExecutionError_to_cass_error EE_UseKeyspaceError = CASS_ERROR_LIB_UNABLE_TO_SET_KEYSPACE"
| "ExecutionError_to_cass_error EE_SchemaAgreementError = CASS_ERROR_LIB_INVALID_STATE"
| "ExecutionError_to_cass_error EE_Unknown = CASS_ERROR_LAST_ENTRY"

fun NewSessionError_to_cass_error :: "NewSessionError \<Rightarrow> CassError" where
  "NewSessionError_to_cass_error NS_FailedToResolveAnyHostname = CASS_ERROR_LIB_NO_HOSTS_AVAILABLE"
| "NewSessionError_to_cass_error NS_EmptyKnownNodesList = CASS_ERROR_LIB_NO_HOSTS_AVAILABLE"
| "NewSessionError_to_cass_error (NS_MetadataError e) = MetadataError_to_cass_error e"
| "NewSessionError_to_cass_error NS_UseKeyspaceError = CASS_ERROR_LIB_UNABLE_TO_SET_KEYSPACE"
| "NewSessionError_to_cass_error NS_Unknown = CASS_ERROR_LAST_ENTRY"

fun BadKeyspaceName_to_cass_error :: "BadKeyspaceName \<Rightarrow> CassError" where
  "BadKeyspaceName_to_cass_error BK_Unknown = CASS_ERROR_LAST_ENTRY"
| "BadKeyspaceName_to_cass_error _ = CASS_ERROR_LIB_UNABLE_TO_SET_KEYSPACE"

fun CassErrorResult_to_cass_error :: "CassErrorResult \<Rightarrow> CassError" where
  "CassErrorResult_to_cass_error (CER_Execution execution_error) =
     ExecutionError_to_cass_error execution_error"
| "CassErrorResult_to_cass_error CER_ResultMetadataLazyDeserialization = CASS_ERROR_LIB_INVALID_DATA"
| "CassErrorResult_to_cass_error CER_Deserialization = CASS_ERROR_LIB_INVALID_DATA"

subsection \<open>Inspecting an error result\<close>

definition cass_error_result_code :: "CassErrorResult c_ptr \<Rightarrow> CassError" where
  "cass_error_result_code error_result =
     (case error_result of
        None \<Rightarrow> CASS_ERROR_LIB_BAD_PARAMS
      | Some error_result \<Rightarrow> CassErrorResult_to_cass_error error_result)"

fun cass_error_result_consistency :: "CassErrorResult c_ptr \<Rightarrow> CassConsistency" where
  "cass_error_result_consistency (Some (CER_Execution (EE_LastAttemptError (RA_DbError e)))) =
     (case e of
        Db_Unavailable consistency _ _ \<Rightarrow> CassConsistency_from consistency
      | Db_ReadTimeout consistency _ _ _ \<Rightarrow> CassConsistency_from consistency
      | Db_WriteTimeout consistency _ _ _ \<Rightarrow> CassConsistency_from consistency
      | Db_ReadFailure consistency _ _ _ _ \<Rightarrow> CassConsistency_from consistency
      | Db_WriteFailure consistency _ _ _ _ \<Rightarrow> CassConsistency_from consistency
      | _ \<Rightarrow> CASS_CONSISTENCY_UNKNOWN)"
| "cass_error_result_consistency _ = CASS_CONSISTENCY_UNKNOWN"

fun cass_error_result_responses_received :: "CassErrorResult c_ptr \<Rightarrow> u32" where
  "cass_error_result_responses_received (Some (CER_Execution (EE_LastAttemptError (RA_DbError e)))) =
     (case e of
        Db_Unavailable _ required alive \<Rightarrow> alive
      | Db_ReadTimeout _ received required _ \<Rightarrow> received
      | Db_WriteTimeout _ received required _ \<Rightarrow> received
      | Db_ReadFailure _ received required _ _ \<Rightarrow> received
      | Db_WriteFailure _ received required _ _ \<Rightarrow> received
      | _ \<Rightarrow> - 1)"
| "cass_error_result_responses_received _ = - 1"

fun cass_error_result_responses_required :: "CassErrorResult c_ptr \<Rightarrow> u32" where
  "cass_error_result_responses_required (Some (CER_Execution (EE_LastAttemptError (RA_DbError e)))) =
     (case e of
        Db_Unavailable _ required alive \<Rightarrow> required
      | Db_ReadTimeout _ received required _ \<Rightarrow> required
      | Db_WriteTimeout _ received required _ \<Rightarrow> required
      | Db_ReadFailure _ received required _ _ \<Rightarrow> required
      | Db_WriteFailure _ received required _ _ \<Rightarrow> required
      | _ \<Rightarrow> - 1)"
| "cass_error_result_responses_required _ = - 1"

fun cass_error_result_num_failures :: "CassErrorResult c_ptr \<Rightarrow> u32" where
  "cass_error_result_num_failures (Some (CER_Execution (EE_LastAttemptError (RA_DbError e)))) =
     (case e of
        Db_ReadFailure _ _ _ numfailures _ \<Rightarrow> numfailures
      | Db_WriteFailure _ _ _ numfailures _ \<Rightarrow> numfailures
      | _ \<Rightarrow> - 1)"
| "cass_error_result_num_failures _ = - 1"

fun cass_error_result_data_present :: "CassErrorResult c_ptr \<Rightarrow> bool" where
  "cass_error_result_data_present (Some (CER_Execution (EE_LastAttemptError (RA_DbError e)))) =
     (case e of
        Db_ReadTimeout _ _ _ data_present \<Rightarrow> data_present
      | Db_ReadFailure _ _ _ _ data_present \<Rightarrow> data_present
      | _ \<Rightarrow> False)"
| "cass_error_result_data_present _ = False"

fun cass_error_result_write_type :: "CassErrorResult c_ptr \<Rightarrow> CassWriteType" where
  "cass_error_result_write_type (Some (CER_Execution (EE_LastAttemptError (RA_DbError e)))) =
     (case e of
        Db_WriteTimeout _ _ _ write_type \<Rightarrow> CassWriteType_from write_type
      | Db_WriteFailure _ _ _ _ write_type \<Rightarrow> CassWriteType_from write_type
      | _ \<Rightarrow> CASS_WRITE_TYPE_UNKNOWN)"
| "cass_error_result_write_type _ = CASS_WRITE_TYPE_UNKNOWN"

fun cass_error_result_keyspace :: "CassErrorResult c_ptr \<Rightarrow> CassError \<times> (string \<times> nat) option" where
  "cass_error_result_keyspace None = (CASS_ERROR_LIB_BAD_PARAMS, None)"
| "cass_error_result_keyspace (Some (CER_Execution (EE_LastAttemptError (RA_DbError e)))) =
     (case e of
        Db_AlreadyExists keyspace _ \<Rightarrow> (CASS_OK, Some (write_str_to_c keyspace))
      | Db_FunctionFailure keyspace _ _ \<Rightarrow> (CASS_OK, Some (write_str_to_c keyspace))
      | _ \<Rightarrow> (CASS_ERROR_LIB_INVALID_ERROR_RESULT_TYPE, None))"
| "cass_error_result_keyspace _ = (CASS_ERROR_LIB_INVALID_ERROR_RESULT_TYPE, None)"

fun cass_error_result_table :: "CassErrorResult c_ptr \<Rightarrow> CassError \<times> (string \<times> nat) option" where
  "cass_error_result_table None = (CASS_ERROR_LIB_BAD_PARAMS, None)"
| "cass_error_result_table (Some (CER_Execution (EE_LastAttemptError (RA_DbError e)))) =
     (case e of
        Db_AlreadyExists _ table \<Rightarrow> (CASS_OK, Some (write_str_to_c table))
      | _ \<Rightarrow> (CASS_ERROR_LIB_INVALID_ERROR_RESULT_TYPE, None))"
| "cass_error_result_table _ = (CASS_ERROR_LIB_INVALID_ERROR_RESULT_TYPE, None)"

fun cass_error_result_function :: "CassErrorResult c_ptr \<Rightarrow> CassError \<times> (string \<times> nat) option" where
  "cass_error_result_function None = (CASS_ERROR_LIB_BAD_PARAMS, None)"
| "cass_error_result_function (Some (CER_Execution (EE_LastAttemptError (RA_DbError e)))) =
     (case e of
        Db_FunctionFailure _ fnc _ \<Rightarrow> (CASS_OK, Some (write_str_to_c fnc))
      | _ \<Rightarrow> (CASS_ERROR_LIB_INVALID_ERROR_RESULT_TYPE, None))"
| "cass_error_result_function _ = (CASS_ERROR_LIB_INVALID_ERROR_RESULT_TYPE, None)"

fun cass_error_num_arg_types :: "CassErrorResult c_ptr \<Rightarrow> nat" where
  "cass_error_num_arg_types (Some (CER_Execution (EE_LastAttemptError (RA_DbError e)))) =
     (case e of Db_FunctionFailure _ _ arg_types \<Rightarrow> length arg_types | _ \<Rightarrow> 0)"
| "cass_error_num_arg_types _ = 0"

fun cass_error_result_arg_type ::
    "CassErrorResult c_ptr \<Rightarrow> nat \<Rightarrow> (CassError \<times> (string \<times> nat) option) panics" where
  "cass_error_result_arg_type None index = Some (CASS_ERROR_LIB_BAD_PARAMS, None)"
| "cass_error_result_arg_type (Some (CER_Execution (EE_LastAttemptError (RA_DbError e)))) index =
     (case e of
        Db_FunctionFailure _ _ arg_types \<Rightarrow>
          (if index \<ge> length arg_types then Some (CASS_ERROR_LIB_INDEX_OUT_OF_BOUNDS, None)
           else do { arg \<leftarrow> list_get arg_types index; Some (CASS_OK, Some (write_str_to_c arg)) })
      | _ \<Rightarrow> Some (CASS_ERROR_LIB_INVALID_ERROR_RESULT_TYPE, None))"
| "cass_error_result_arg_type _ index = Some (CASS_ERROR_LIB_INVALID_ERROR_RESULT_TYPE, None)"

subsection \<open>Laws\<close>

text \<open>The error codes of the CQL binary protocol, version 4.\<close>

fun protocol_code :: "DbError \<Rightarrow> u32 option" where
  "protocol_code Db_ServerError = Some 0x0000"
| "protocol_code Db_ProtocolError = Some 0x000A"
| "protocol_code Db_AuthenticationError = Some 0x0100"
| "protocol_code (Db_Unavailable _ _ _) = Some 0x1000"
| "protocol_code Db_Overloaded = Some 0x1001"
| "protocol_code Db_IsBootstrapping = Some 0x1002"
| "protocol_code Db_TruncateError = Some 0x1003"
| "protocol_code (Db_WriteTimeout _ _ _ _) = Some 0x1100"
| "protocol_code (Db_ReadTimeout _ _ _ _) = Some 0x1200"
| "protocol_code (Db_ReadFailure _ _ _ _ _) = Some 0x1300"
| "protocol_code (Db_FunctionFailure _ _ _) = Some 0x1400"
| "protocol_code (Db_WriteFailure _ _ _ _ _) = Some 0x1500"
| "protocol_code Db_SyntaxError = Some 0x2000"
| "protocol_code Db_Unauthorized = Some 0x2100"
| "protocol_code Db_Invalid = Some 0x2200"
| "protocol_code Db_ConfigError = Some 0x2300"
| "protocol_code (Db_AlreadyExists _ _) = Some 0x2400"
| "protocol_code Db_Unprepared = Some 0x2500"
| "protocol_code (Db_Other num) = Some num"
| "protocol_code Db_RateLimitReached = None"
| "protocol_code Db_Unknown = None"

lemma source_of_CASS_ERROR:
  assumes "code < 2 ^ 24"
  shows "drop_bit 24 (CASS_ERROR CASS_ERROR_SOURCE_SERVER code) = CASS_ERROR_SOURCE_SERVER"
proof -
  have "drop_bit 24 code = 0"
    using assms by (simp add: drop_bit_eq_div word_less_nat_alt unat_eq_0 [symmetric] unat_div)
  then show ?thesis by (simp add: CASS_ERROR_def drop_bit_or)
qed

text \<open>
  A server error keeps its number: the code the C API reports for an error that the
  protocol numbers is built, as the header says, from the source \<open>SERVER\<close> and that number; and when the
  number has at most 24 bits the source can be read back from the code.
\<close>

lemma server_error_codes_follow_the_protocol:
  assumes "protocol_code e = Some code"
  shows "DbError_to_cass_error e = CASS_ERROR CASS_ERROR_SOURCE_SERVER code \<and>
     (code < 2 ^ 24 \<longrightarrow> drop_bit 24 (DbError_to_cass_error e) = CASS_ERROR_SOURCE_SERVER)"
proof -
  have eq: "DbError_to_cass_error e = CASS_ERROR CASS_ERROR_SOURCE_SERVER code"
    using assms by (cases e) (auto simp: CASS_ERROR_def)
  then show ?thesis using source_of_CASS_ERROR by simp
qed



lemma error_is_not_ok: "cass_error_result_code p \<noteq> CASS_OK"
proof -
  have other: "push_bit 24 CASS_ERROR_SOURCE_SERVER OR num \<noteq> (0 :: u32)" for num
  proof
    assume "push_bit 24 CASS_ERROR_SOURCE_SERVER OR num = (0 :: u32)"
    then have "bit (push_bit 24 CASS_ERROR_SOURCE_SERVER OR num) 25 = bit (0 :: u32) 25" by simp
    then show False by (simp add: bit_or_iff bit_push_bit_iff)
  qed
  have ser: "SerializationError_to_cass_error e \<noteq> 0" for e by (cases e) auto
  have db: "DbError_to_cass_error e \<noteq> 0" for e
    using other by (cases e) auto
  have ra: "RequestAttemptError_to_cass_error e \<noteq> 0" for e using ser db by (cases e) auto
  have pe: "PrepareError_to_cass_error e \<noteq> 0" for e
    using ra by (cases e) (auto simp: ConnectionPoolError_to_cass_error_def)
  have bq: "BadQuery_to_cass_error e \<noteq> 0" for e using ser by (cases e) auto
  have me: "MetadataError_to_cass_error e \<noteq> 0" for e
    using ra pe ser
    by (cases e) (auto simp: ConnectionPoolError_to_cass_error_def split: MetadataFetchErrorKind.split
        NextRowError.split NextPageError.split RequestError.split)
  have ee: "ExecutionError_to_cass_error e \<noteq> 0" for e
    using ra pe bq me by (cases e) (auto simp: ConnectionPoolError_to_cass_error_def)
  have "CassErrorResult_to_cass_error e \<noteq> 0" for e using ee by (cases e) auto
  then show ?thesis by (auto simp: cass_error_result_code_def split: option.split)
qed

end
