(* ===== verification/Cass_Load_Balancing.thy ===== *)
theory Cass_Load_Balancing
  imports Cass_Config Cass_Cql_Value
begin

text \<open>
  \<open>load_balancing.rs\<close>: the configuration of load balancing, the policy that filters the plans of the
  Rust driver's default policy, and the filter that decides which hosts are connected at all.

  The default policy is the Rust driver's.  What the source configures on its builder is the record
  \<open>DefaultPolicySettings\<close> (\<open>None\<close> where the builder's own default stays); the plans it makes are an
  argument of the functions that filter them.
\<close>

subsection \<open>Configuration\<close>

datatype DcRestriction = DcRestriction_None | DcRestriction_Local string

record FilteringConfig =
  whitelist_hosts :: "IpAddr list"
  blacklist_hosts :: "IpAddr list"
  whitelist_dc :: "string list"
  blacklist_dc :: "string list"
  dc_restriction :: DcRestriction

datatype AllowedDcs = AllowedDcs_All | AllowedDcs_Whitelist "string list"

record FilteringInfo =
  info_whitelist_hosts :: "IpAddr list option"
  info_blacklist_hosts :: "IpAddr list option"
  info_whitelist_dc :: "string list option"
  info_blacklist_dc :: "string list option"
  info_allowed_dcs :: AllowedDcs

definition then_some :: "bool \<Rightarrow> 'a \<Rightarrow> 'a option" where
  "then_some b x = (if b then Some x else None)"

definition into_filtering_info :: "FilteringConfig \<Rightarrow> FilteringInfo" where
  "into_filtering_info self =
     \<lparr>info_whitelist_hosts = then_some (whitelist_hosts self \<noteq> []) (whitelist_hosts self),
      info_blacklist_hosts = then_some (blacklist_hosts self \<noteq> []) (blacklist_hosts self),
      info_whitelist_dc = then_some (whitelist_dc self \<noteq> []) (whitelist_dc self),
      info_blacklist_dc = then_some (blacklist_dc self \<noteq> []) (blacklist_dc self),
      info_allowed_dcs =
        (case dc_restriction self of
           DcRestriction_None \<Rightarrow> AllowedDcs_All
         | DcRestriction_Local local_dc \<Rightarrow> AllowedDcs_Whitelist [local_dc])\<rparr>"

definition is_some_and :: "'a option \<Rightarrow> ('a \<Rightarrow> bool) \<Rightarrow> bool" where
  "is_some_and x p = (case x of None \<Rightarrow> False | Some v \<Rightarrow> p v)"

definition is_host_allowed :: "FilteringInfo \<Rightarrow> IpAddr \<Rightarrow> string option \<Rightarrow> bool" where
  "is_host_allowed self ip dc =
     (let dc = (case dc of None \<Rightarrow> [] | Some dc \<Rightarrow> dc) in
      if (case info_allowed_dcs self of
            AllowedDcs_All \<Rightarrow> False
          | AllowedDcs_Whitelist allowed_dcs \<Rightarrow> dc \<notin> set allowed_dcs) then False
      else if is_some_and (info_whitelist_hosts self) (\<lambda>wl. ip \<notin> set wl) then False
      else if is_some_and (info_blacklist_hosts self) (\<lambda>bl. ip \<in> set bl) then False
      else if is_some_and (info_whitelist_dc self) (\<lambda>wl. dc \<notin> set wl) then False
      else if is_some_and (info_blacklist_dc self) (\<lambda>bl. dc \<in> set bl) then False
      else True)"

record LatencyAwarenessBuilder =
  la_exclusion_threshold :: "u64 option"
  la_scale :: "Duration option"
  la_retry_period :: "Duration option"
  la_update_rate :: "Duration option"
  la_minimum_measurements :: "u64 option"

definition LatencyAwarenessBuilder_new :: LatencyAwarenessBuilder where
  "LatencyAwarenessBuilder_new =
     \<lparr>la_exclusion_threshold = None, la_scale = None, la_retry_period = None,
      la_update_rate = None, la_minimum_measurements = None\<rparr>"

datatype LoadBalancingKind =
    LB_RoundRobin
  | LB_DcAware string bool bool
  | LB_RackAware string string

record LoadBalancingConfig =
  token_awareness_enabled :: bool
  token_aware_shuffling_replicas_enabled :: bool
  load_balancing_kind :: "LoadBalancingKind option"
  latency_awareness_enabled :: bool
  latency_awareness_builder :: LatencyAwarenessBuilder
  filtering :: FilteringConfig

definition LoadBalancingConfig_default :: LoadBalancingConfig where
  "LoadBalancingConfig_default =
     \<lparr>token_awareness_enabled = True,
      token_aware_shuffling_replicas_enabled = True,
      load_balancing_kind = None,
      latency_awareness_enabled = False,
      latency_awareness_builder = LatencyAwarenessBuilder_new,
      filtering = \<lparr>whitelist_hosts = [], blacklist_hosts = [], whitelist_dc = [], blacklist_dc = [],
                   dc_restriction = DcRestriction_None\<rparr>\<rparr>"

subsection \<open>The filtering policy\<close>

datatype DcLocalConsistencyAllowance = AllowAll | DisallowRemotes string

fun is_consistency_local :: "Consistency \<Rightarrow> bool" where
  "is_consistency_local Consistency_LocalQuorum = True"
| "is_consistency_local Consistency_LocalOne = True"
| "is_consistency_local Consistency_LocalSerial = True"
| "is_consistency_local _ = False"

fun is_dc_allowed :: "DcLocalConsistencyAllowance \<Rightarrow> string option \<Rightarrow> Consistency \<Rightarrow> bool" where
  "is_dc_allowed AllowAll dc cl = True"
| "is_dc_allowed (DisallowRemotes local_dc) dc cl =
     (if is_consistency_local cl then is_some_and dc (\<lambda>dc. local_dc = dc) else True)"

datatype node_preference = NP_None | NP_Datacenter string | NP_Datacenter_and_rack string string

record DefaultPolicySettings =
  dp_token_aware :: bool
  dp_enable_shuffling_replicas :: "bool option"
  dp_preference :: node_preference
  dp_permit_dc_failover :: "bool option"
  dp_latency_awareness :: "LatencyAwarenessBuilder option"

record FilteringLoadBalancingPolicy =
  flb_filtering :: FilteringInfo
  flb_dc_local_cl_allowance :: DcLocalConsistencyAllowance
  flb_child_policy :: DefaultPolicySettings

definition LoadBalancingConfig_build :: "LoadBalancingConfig \<Rightarrow> FilteringLoadBalancingPolicy" where
  "LoadBalancingConfig_build self =
     (let kind = (case load_balancing_kind self of Some kind \<Rightarrow> kind | None \<Rightarrow> LB_RoundRobin);
          builder = \<lparr>dp_token_aware = token_awareness_enabled self,
                     dp_enable_shuffling_replicas =
                       then_some (token_awareness_enabled self)
                         (token_aware_shuffling_replicas_enabled self),
                     dp_preference = NP_None, dp_permit_dc_failover = None,
                     dp_latency_awareness = None\<rparr>;
          (builder, dc_local_cl_allowance) =
            (case kind of
               LB_DcAware local_dc permit_dc_failover allow_remote_dcs_for_local_cl \<Rightarrow>
                 (builder\<lparr>dp_preference := NP_Datacenter local_dc,
                          dp_permit_dc_failover := Some permit_dc_failover\<rparr>,
                  if allow_remote_dcs_for_local_cl then AllowAll else DisallowRemotes local_dc)
             | LB_RackAware local_dc local_rack \<Rightarrow>
                 (builder\<lparr>dp_preference := NP_Datacenter_and_rack local_dc local_rack,
                          dp_permit_dc_failover := Some True\<rparr>,
                  AllowAll)
             | LB_RoundRobin \<Rightarrow> (builder, AllowAll));
          builder =
            (if latency_awareness_enabled self
             then builder\<lparr>dp_latency_awareness := Some (latency_awareness_builder self)\<rparr>
             else builder)
      in \<lparr>flb_filtering = into_filtering_info (filtering self),
          flb_dc_local_cl_allowance = dc_local_cl_allowance,
          flb_child_policy = builder\<rparr>)"

record Node =
  node_ip :: IpAddr
  node_datacenter :: "string option"

type_synonym target = "Node \<times> nat option"

text \<open>What both functions ask about a target of the child policy.\<close>

definition target_allowed :: "FilteringLoadBalancingPolicy \<Rightarrow> Consistency \<Rightarrow> target \<Rightarrow> bool" where
  "target_allowed self cl target =
     (let node = fst target; dc = node_datacenter node in
      is_host_allowed (flb_filtering self) (node_ip node) dc \<and>
      is_dc_allowed (flb_dc_local_cl_allowance self) dc cl)"

definition pick ::
    "FilteringLoadBalancingPolicy \<Rightarrow> Consistency \<Rightarrow> target option \<Rightarrow> target option" where
  "pick self cl child_pick =
     (case child_pick of
        None \<Rightarrow> None
      | Some target \<Rightarrow> then_some (target_allowed self cl target) target)"

definition fallback :: "FilteringLoadBalancingPolicy \<Rightarrow> Consistency \<Rightarrow> target list \<Rightarrow> target list" where
  "fallback self cl child_fallback = filter (target_allowed self cl) child_fallback"

subsection \<open>The host filter\<close>

text \<open>\<open>nonempty_union\<close> and \<open>nonempty_intersection\<close> with their loops.\<close>

fun union_loop :: "'a list list \<Rightarrow> 'a list \<Rightarrow> 'a list option" where
  "union_loop [] acc = then_some (acc \<noteq> []) acc"
| "union_loop (values # iter) acc =
     (if values = [] then None
      else union_loop iter (fold (\<lambda>v acc. if v \<in> set acc then acc else acc @ [v]) values acc))"

definition nonempty_union :: "'a list list \<Rightarrow> 'a list option" where
  "nonempty_union iter = union_loop iter []"

definition nonempty_intersection :: "'a list list \<Rightarrow> 'a list option" where
  "nonempty_intersection iter =
     (case iter of
        [] \<Rightarrow> None
      | first # rest \<Rightarrow>
          (let intersection = fold (\<lambda>s acc. filter (\<lambda>item. item \<in> set s) acc) rest first
           in then_some (intersection \<noteq> []) intersection))"

fun allowed_dcs_step :: "AllowedDcs option \<Rightarrow> DcRestriction \<Rightarrow> AllowedDcs option" where
  "allowed_dcs_step None DcRestriction_None = Some AllowedDcs_All"
| "allowed_dcs_step None (DcRestriction_Local local_dc) = Some (AllowedDcs_Whitelist [local_dc])"
| "allowed_dcs_step (Some (AllowedDcs_Whitelist dcs)) (DcRestriction_Local local_dc) =
     Some (AllowedDcs_Whitelist (dcs @ [local_dc]))"
| "allowed_dcs_step (Some AllowedDcs_All) _ = Some AllowedDcs_All"
| "allowed_dcs_step _ DcRestriction_None = Some AllowedDcs_All"

definition new_from_lbp_configs :: "LoadBalancingConfig list \<Rightarrow> FilteringInfo" where
  "new_from_lbp_configs configs =
     (let fs = map filtering configs in
      \<lparr>info_whitelist_hosts = nonempty_union (map whitelist_hosts fs),
       info_blacklist_hosts = nonempty_intersection (map blacklist_hosts fs),
       info_whitelist_dc = nonempty_union (map whitelist_dc fs),
       info_blacklist_dc = nonempty_intersection (map blacklist_dc fs),
       info_allowed_dcs =
         (case foldl allowed_dcs_step None (map dc_restriction fs) of
            Some allowed_dcs \<Rightarrow> allowed_dcs
          | None \<Rightarrow> AllowedDcs_All)\<rparr>)"

definition accept :: "FilteringInfo \<Rightarrow> Node \<Rightarrow> bool" where
  "accept self peer = is_host_allowed self (node_ip peer) (node_datacenter peer)"

subsection \<open>Laws\<close>

lemma then_some_eq [simp]: "then_some b x = Some y \<longleftrightarrow> b \<and> x = y"
  by (auto simp: then_some_def)

lemma is_some_and_iff: "is_some_and x p \<longleftrightarrow> (\<exists>v. x = Some v \<and> p v)"
  by (cases x) (auto simp: is_some_and_def)

text \<open>The five conditions on a host, with an unknown datacenter as the empty name.\<close>

lemma is_host_allowed_iff:
  "is_host_allowed info ip dc \<longleftrightarrow>
     (\<forall>dcs. info_allowed_dcs info = AllowedDcs_Whitelist dcs \<longrightarrow> (case dc of None \<Rightarrow> [] | Some d \<Rightarrow> d) \<in> set dcs) \<and>
     (\<forall>wl. info_whitelist_hosts info = Some wl \<longrightarrow> ip \<in> set wl) \<and>
     (\<forall>bl. info_blacklist_hosts info = Some bl \<longrightarrow> ip \<notin> set bl) \<and>
     (\<forall>wl. info_whitelist_dc info = Some wl \<longrightarrow> (case dc of None \<Rightarrow> [] | Some d \<Rightarrow> d) \<in> set wl) \<and>
     (\<forall>bl. info_blacklist_dc info = Some bl \<longrightarrow> (case dc of None \<Rightarrow> [] | Some d \<Rightarrow> d) \<notin> set bl)"
  by (auto simp: is_host_allowed_def is_some_and_iff Let_def split: AllowedDcs.splits)

lemma set_union_fold:
  "set (fold (\<lambda>v acc. if v \<in> set acc then acc else acc @ [v]) values acc) =
     set values \<union> set acc"
  by (induction "values" arbitrary: acc) auto

lemma union_loop_contains:
  assumes "union_loop iter acc = Some u"
  shows "set u = \<Union> (set ` set iter) \<union> set acc \<and> [] \<notin> set iter"
  using assms
  by (induction iter arbitrary: acc) (auto simp: set_union_fold split: if_splits)

lemma nonempty_union_contains:
  "nonempty_union iter = Some u \<Longrightarrow> xs \<in> set iter \<Longrightarrow> xs \<noteq> [] \<and> set xs \<subseteq> set u"
  unfolding nonempty_union_def by (drule union_loop_contains) auto

lemma set_intersection_fold:
  "set (fold (\<lambda>s acc. filter (\<lambda>item. item \<in> set s) acc) rest acc) =
     {x \<in> set acc. \<forall>s \<in> set rest. x \<in> set s}"
  by (induction rest arbitrary: acc) auto

lemma nonempty_intersection_contained:
  assumes "nonempty_intersection iter = Some u" and "xs \<in> set iter"
  shows "set u \<subseteq> set xs \<and> xs \<noteq> []"
proof -
  obtain first rest where iter: "iter = first # rest" using assms(2) by (cases iter) auto
  with assms(1) have u: "u = fold (\<lambda>s acc. filter (\<lambda>item. item \<in> set s) acc) rest first" "u \<noteq> []"
    by (auto simp: nonempty_intersection_def Let_def)
  then have "set u \<subseteq> set xs"
    using assms(2) iter by (auto simp: set_intersection_fold)
  with u(2) show ?thesis by auto
qed

lemma allowed_dcs_All: "foldl allowed_dcs_step (Some AllowedDcs_All) rs = Some AllowedDcs_All"
  by (induction rs) simp_all

lemma allowed_dcs_foldl:
  assumes "foldl allowed_dcs_step a rs = Some (AllowedDcs_Whitelist dcs)"
  shows "(\<forall>ds. a = Some (AllowedDcs_Whitelist ds) \<longrightarrow> set ds \<subseteq> set dcs) \<and>
     (\<forall>r \<in> set rs. \<exists>d. r = DcRestriction_Local d \<and> d \<in> set dcs)"
  using assms
proof (induction rs arbitrary: a)
  case (Cons r rs)
  have *: "foldl allowed_dcs_step (allowed_dcs_step a r) rs = Some (AllowedDcs_Whitelist dcs)"
    using Cons.prems by simp
  note ih = Cons.IH [OF *]
  show ?case
  proof (cases "(a, r)" rule: allowed_dcs_step.cases)
    case (3 ds d)
    with ih show ?thesis by auto
  qed (use * ih in \<open>auto simp: allowed_dcs_All\<close>)
qed auto

text \<open>
  The host filter never cuts off a host that some policy could use: whatever a filtering
  policy built from one of the configurations plans, picks or falls back to, from any plan of its
  child policy, the filter computed from all configurations accepts.
\<close>

lemma host_filter_accepts_all_planned_hosts:
  assumes "cfg \<in> set configs"
    and "pick (LoadBalancingConfig_build cfg) cl child_pick = Some t \<or>
         t \<in> set (fallback (LoadBalancingConfig_build cfg) cl child_fallback)"
  shows "accept (new_from_lbp_configs configs) (fst t)"
proof -
  let ?f = "filtering cfg" and ?g = "new_from_lbp_configs configs"
  let ?dc = "case node_datacenter (fst t) of None \<Rightarrow> [] | Some d \<Rightarrow> d"
  have "target_allowed (LoadBalancingConfig_build cfg) cl t"
    using assms(2) by (auto simp: pick_def fallback_def split: option.splits)
  then have "is_host_allowed (into_filtering_info ?f) (node_ip (fst t)) (node_datacenter (fst t))"
    by (simp add: target_allowed_def LoadBalancingConfig_build_def Let_def split: prod.splits)
  then have allowed:
      "whitelist_hosts ?f \<noteq> [] \<Longrightarrow> node_ip (fst t) \<in> set (whitelist_hosts ?f)"
      "node_ip (fst t) \<notin> set (blacklist_hosts ?f)"
      "whitelist_dc ?f \<noteq> [] \<Longrightarrow> ?dc \<in> set (whitelist_dc ?f)"
      "?dc \<notin> set (blacklist_dc ?f)"
      "\<And>d. dc_restriction ?f = DcRestriction_Local d \<Longrightarrow> ?dc = d"
    by (auto simp: is_host_allowed_iff into_filtering_info_def)
  have mem: "whitelist_hosts ?f \<in> set (map whitelist_hosts (map filtering configs))"
    "blacklist_hosts ?f \<in> set (map blacklist_hosts (map filtering configs))"
    "whitelist_dc ?f \<in> set (map whitelist_dc (map filtering configs))"
    "blacklist_dc ?f \<in> set (map blacklist_dc (map filtering configs))"
    "dc_restriction ?f \<in> set (map dc_restriction (map filtering configs))"
    using assms(1) by simp_all
  have "?dc \<in> set dcs" if "info_allowed_dcs ?g = AllowedDcs_Whitelist dcs" for dcs
    using that allowed_dcs_foldl [of None "map dc_restriction (map filtering configs)" dcs] mem(5) allowed(5)
    by (fastforce simp: new_from_lbp_configs_def Let_def split: option.splits)
  moreover have "node_ip (fst t) \<in> set wl" if "info_whitelist_hosts ?g = Some wl" for wl
    using nonempty_union_contains [OF _ mem(1)] allowed(1) that
    by (fastforce simp: new_from_lbp_configs_def Let_def)
  moreover have "?dc \<in> set wl" if "info_whitelist_dc ?g = Some wl" for wl
    using nonempty_union_contains [OF _ mem(3)] allowed(3) that
    by (fastforce simp: new_from_lbp_configs_def Let_def)
  moreover have "node_ip (fst t) \<notin> set bl" if "info_blacklist_hosts ?g = Some bl" for bl
    using nonempty_intersection_contained [OF _ mem(2)] allowed(2) that
    by (fastforce simp: new_from_lbp_configs_def Let_def)
  moreover have "?dc \<notin> set bl" if "info_blacklist_dc ?g = Some bl" for bl
    using nonempty_intersection_contained [OF _ mem(4)] allowed(4) that
    by (fastforce simp: new_from_lbp_configs_def Let_def)
  ultimately show ?thesis by (auto simp: accept_def is_host_allowed_iff)
qed

text \<open>Two hosts and configurations for the examples.\<close>

definition host_a :: Node where
  "host_a = \<lparr>node_ip = IpAddr_V4 [10, 0, 0, 1], node_datacenter = Some ''dc1''\<rparr>"

definition host_b :: Node where
  "host_b = \<lparr>node_ip = IpAddr_V4 [10, 0, 0, 2], node_datacenter = Some ''dc2''\<rparr>"

definition only_host_a :: LoadBalancingConfig where
  "only_host_a = LoadBalancingConfig_default\<lparr>filtering :=
     (filtering LoadBalancingConfig_default)\<lparr>whitelist_hosts := [node_ip host_a]\<rparr>\<rparr>"

definition not_dc2 :: LoadBalancingConfig where
  "not_dc2 = LoadBalancingConfig_default\<lparr>filtering :=
     (filtering LoadBalancingConfig_default)\<lparr>blacklist_dc := [''dc2'']\<rparr>\<rparr>"

definition local_dc1 :: LoadBalancingConfig where
  "local_dc1 = LoadBalancingConfig_default\<lparr>load_balancing_kind := Some (LB_DcAware ''dc1'' True False)\<rparr>"

lemmas example_configs = host_a_def host_b_def only_host_a_def not_dc2_def local_dc1_def
  LoadBalancingConfig_default_def



text \<open>
  The converse rule that the comments state, \<open>a host that all policies reject is not
  connected\<close>, does not hold: a host that one policy rejects for its address and another for its
  datacenter is accepted by the filter.
\<close>

lemma host_filter_keeps_hosts_that_all_policies_reject:
  "pick (LoadBalancingConfig_build only_host_a) cl (Some (host_b, shard)) = None \<and>
   pick (LoadBalancingConfig_build not_dc2) cl (Some (host_b, shard)) = None \<and>
   accept (new_from_lbp_configs [only_host_a, not_dc2]) host_b"
  by (simp add: pick_def target_allowed_def LoadBalancingConfig_build_def into_filtering_info_def
      is_host_allowed_def is_some_and_def then_some_def example_configs accept_def
      new_from_lbp_configs_def nonempty_union_def nonempty_intersection_def)

end
