(* ===== verification/Cass_Lb_Settings.thy ===== *)
theory Cass_Lb_Settings
  imports Cass_Load_Balancing
begin

text \<open>
  The parts of \<open>cluster.rs\<close> that clusters and execution profiles share: reading a comma separated
  list from a string, and the two settings of the load balancing kind that take names.

  Strings are their UTF-8 bytes, so \<open>str::trim\<close> works on the encoded characters: \<open>utf8_chars\<close> cuts a
  string into them, and \<open>is_whitespace\<close> is the Unicode property \<open>White_Space\<close> of an encoded character.
\<close>

subsection \<open>Setters on a pointer\<close>

text \<open>Setters answer a null pointer with an error, or with nothing when they return nothing.\<close>

definition on_ptr :: "'a c_ptr \<Rightarrow> ('a \<Rightarrow> CassError \<times> 'a) \<Rightarrow> CassError \<times> 'a c_ptr" where
  "on_ptr p f =
     (case p of
        None \<Rightarrow> (CASS_ERROR_LIB_BAD_PARAMS, None)
      | Some x \<Rightarrow> (let (err, x') = f x in (err, Some x')))"

definition on_ptr_void :: "'a c_ptr \<Rightarrow> ('a \<Rightarrow> 'a) \<Rightarrow> 'a c_ptr" where
  "on_ptr_void p f = map_option f p"

definition on_ptr_p ::
    "'a c_ptr \<Rightarrow> ('a \<Rightarrow> (CassError \<times> 'a) panics) \<Rightarrow> (CassError \<times> 'a c_ptr) panics" where
  "on_ptr_p p f =
     (case p of
        None \<Rightarrow> Some (CASS_ERROR_LIB_BAD_PARAMS, None)
      | Some x \<Rightarrow> do { (err, x') \<leftarrow> f x; Some (err, Some x') })"

lemma on_ptr_simps [simp, null_simps]:
  "on_ptr None f = (CASS_ERROR_LIB_BAD_PARAMS, None)"
  "on_ptr (Some x) f = (fst (f x), Some (snd (f x)))"
  "on_ptr_void None g = None"
  "on_ptr_void (Some x) g = Some (g x)"
  "on_ptr_p None h = Some (CASS_ERROR_LIB_BAD_PARAMS, None)"
  "on_ptr_p (Some x) h = map_option (\<lambda>r. (fst r, Some (snd r))) (h x)"
  by (simp_all add: on_ptr_def on_ptr_void_def on_ptr_p_def split: prod.splits option.splits bind_splits)

subsection \<open>Splitting and trimming\<close>

fun split_on :: "'a \<Rightarrow> 'a list \<Rightarrow> 'a list list" where
  "split_on c [] = [[]]"
| "split_on c (x # xs) =
     (if x = c then [] # split_on c xs
      else (case split_on c xs of y # ys \<Rightarrow> (x # y) # ys | [] \<Rightarrow> [[x]]))"

function utf8_chars :: "string \<Rightarrow> string list" where
  "utf8_chars s = (case utf8_split s of None \<Rightarrow> [] | Some (h, t) \<Rightarrow> h # utf8_chars t)"
  by pat_completeness auto
termination
  by (relation "measure length") (auto simp: utf8_split_shorter)

declare utf8_chars.simps [simp del]

definition is_whitespace :: "string \<Rightarrow> bool" where
  "is_whitespace c \<longleftrightarrow>
     (let bs = map byte_of c in
      bs \<in> set [[0x09], [0x0A], [0x0B], [0x0C], [0x0D], [0x20], [0xC2, 0x85], [0xC2, 0xA0],
               [0xE1, 0x9A, 0x80], [0xE2, 0x80, 0xA8], [0xE2, 0x80, 0xA9], [0xE2, 0x80, 0xAF],
               [0xE2, 0x81, 0x9F], [0xE3, 0x80, 0x80]] \<or>
      (length bs = 3 \<and> bs ! 0 = 0xE2 \<and> bs ! 1 = 0x80 \<and> 0x80 \<le> bs ! 2 \<and> bs ! 2 \<le> 0x8A))"

definition trim_ends :: "('a \<Rightarrow> bool) \<Rightarrow> 'a list \<Rightarrow> 'a list" where
  "trim_ends P xs = rev (dropWhile P (rev (dropWhile P xs)))"

definition trim :: "string \<Rightarrow> string" where
  "trim s = concat (trim_ends is_whitespace (utf8_chars s))"

subsection \<open>Comma separated lists\<close>

definition update_comma_delimited_list ::
    "'t list \<Rightarrow> c_chars \<Rightarrow> nat \<Rightarrow> (string \<Rightarrow> 't option) \<Rightarrow> CassError + 't list" where
  "update_comma_delimited_list list item_ptr item_length convert =
     (case CassStrLenDelimited_to_str item_ptr item_length of
        Inl InvalidUtf8 \<Rightarrow> Inl CASS_ERROR_LIB_BAD_PARAMS
      | Inl NullPointer \<Rightarrow> Inr []
      | Inr item_str \<Rightarrow>
          (if item_str \<noteq> []
           then Inr (list @ List.map_filter convert (map trim (split_on (CHR '','') item_str)))
           else Inr []))"

text \<open>The two conversions that are used: keep what is not empty, and keep what is an address.\<close>

definition nonempty_item :: "string \<Rightarrow> string option" where
  "nonempty_item s = then_some (s \<noteq> []) s"

subsection \<open>Load balancing kinds\<close>

definition set_load_balance_dc_aware_n ::
    "LoadBalancingConfig \<Rightarrow> c_chars \<Rightarrow> nat \<Rightarrow> u32 \<Rightarrow> u32 \<Rightarrow> CassError \<times> LoadBalancingConfig" where
  "set_load_balance_dc_aware_n cfg local_dc_raw local_dc_length used_hosts_per_remote_dc
       allow_remote_dcs_for_local_cl =
     (case CassStrLenDelimited_to_str local_dc_raw local_dc_length of
        Inl _ \<Rightarrow> (CASS_ERROR_LIB_BAD_PARAMS, cfg)
      | Inr local_dc \<Rightarrow>
          (if local_dc_length = 0 then (CASS_ERROR_LIB_BAD_PARAMS, cfg)
           else
             (let permit_dc_failover = (used_hosts_per_remote_dc > 0);
                  allow_remote = (allow_remote_dcs_for_local_cl \<noteq> 0)
              in (CASS_OK,
                  cfg\<lparr>load_balancing_kind := Some (LB_DcAware local_dc permit_dc_failover allow_remote),
                      filtering := (filtering cfg)\<lparr>dc_restriction :=
                        (if permit_dc_failover then DcRestriction_None
                         else DcRestriction_Local local_dc)\<rparr>\<rparr>))))"

definition set_load_balance_rack_aware_n ::
    "LoadBalancingConfig \<Rightarrow> c_chars \<Rightarrow> nat \<Rightarrow> c_chars \<Rightarrow> nat \<Rightarrow> CassError \<times> LoadBalancingConfig" where
  "set_load_balance_rack_aware_n cfg local_dc_raw local_dc_length local_rack_raw local_rack_length =
     (case (CassStrLenDelimited_to_str local_dc_raw local_dc_length,
            CassStrLenDelimited_to_str local_rack_raw local_rack_length) of
        (Inr local_dc, Inr local_rack) \<Rightarrow>
          (if local_dc_length \<noteq> 0 \<and> local_rack_length \<noteq> 0
           then (CASS_OK, cfg\<lparr>load_balancing_kind := Some (LB_RackAware local_dc local_rack)\<rparr>)
           else (CASS_ERROR_LIB_BAD_PARAMS, cfg))
      | _ \<Rightarrow> (CASS_ERROR_LIB_BAD_PARAMS, cfg))"

subsection \<open>Encoded characters\<close>

lemma utf8_chars_Nil [simp]: "utf8_chars [] = []"
  by (subst utf8_chars.simps) (simp add: utf8_split_def)

lemma utf8_chars_split: "utf8_split s = Some (h, t) \<Longrightarrow> utf8_chars s = h # utf8_chars t"
  by (subst utf8_chars.simps) simp

lemma utf8_split_append2:
  "utf8_split s = Some (h, t) \<Longrightarrow> utf8_split (s @ t') = Some (h, t @ t')"
  using utf8_split_SomeD(1) [of s h t] utf8_split_append [of s h t "t @ t'"] by simp

lemma utf8_valid_cases:
  assumes "utf8_valid s"
  obtains "s = []" | h t where "utf8_split s = Some (h, t)" "utf8_valid t" "s = h @ t"
  using assms by (subst (asm) utf8_valid.simps)
    (auto split: if_splits option.splits dest: utf8_split_SomeD(1))

lemma utf8_valid_induct [consumes 1, case_names Nil split]:
  assumes "utf8_valid s"
    and "P []"
    and "\<And>h t. utf8_split (h @ t) = Some (h, t) \<Longrightarrow> utf8_valid t \<Longrightarrow> P t \<Longrightarrow> P (h @ t)"
  shows "P s"
  using assms(1)
proof (induction s rule: length_induct)
  case (1 s)
  from \<open>utf8_valid s\<close> show ?case
  proof (cases rule: utf8_valid_cases)
    case (2 h t)
    then have "length t < length s" using utf8_split_shorter by blast
    with 1 2 show ?thesis using assms(3) [of h t] by simp
  qed (simp add: assms(2))
qed

lemma utf8_valid_append:
  "utf8_valid s \<Longrightarrow> utf8_valid (s @ t) = utf8_valid t"
proof (induction s rule: utf8_valid_induct)
  case (split h u)
  then show ?case using utf8_valid_split utf8_split_append2 by fastforce
qed simp

lemma utf8_chars_append:
  "utf8_valid s \<Longrightarrow> utf8_chars (s @ t) = utf8_chars s @ utf8_chars t"
proof (induction s rule: utf8_valid_induct)
  case (split h u)
  then show ?case
    using utf8_chars_split [of "h @ u" h u] utf8_chars_split [of "(h @ u) @ t" h "u @ t"]
      utf8_split_append2 [of "h @ u" h u t]
    by simp
qed simp

lemma concat_utf8_chars: "utf8_valid s \<Longrightarrow> concat (utf8_chars s) = s"
  by (induction s rule: utf8_valid_induct) (simp_all add: utf8_chars_split)

lemma utf8_chars_eq_Nil: "utf8_valid s \<Longrightarrow> utf8_chars s = [] \<longleftrightarrow> s = []"
  using concat_utf8_chars by fastforce

subsection \<open>Reading a list back\<close>

text \<open>
  An item that survives trimming, white space around it, and the text of a list of padded items.
\<close>

definition plain_item :: "string \<Rightarrow> bool" where
  "plain_item n \<longleftrightarrow> n \<noteq> [] \<and> utf8_valid n \<and> CHR '','' \<notin> set n \<and>
     \<not> is_whitespace (hd (utf8_chars n)) \<and> \<not> is_whitespace (last (utf8_chars n))"

definition padding :: "string \<Rightarrow> bool" where
  "padding p \<longleftrightarrow> utf8_valid p \<and> list_all is_whitespace (utf8_chars p)"

fun comma_join :: "string list \<Rightarrow> string" where
  "comma_join [] = []"
| "comma_join [x] = x"
| "comma_join (x # y # ys) = x @ CHR '','' # comma_join (y # ys)"

lemma dropWhile_all: "list_all P xs \<Longrightarrow> dropWhile P (xs @ ys) = dropWhile P ys"
  by (induction xs) auto

lemma trim_ends_padded:
  assumes "list_all P p" "list_all P q" "n \<noteq> []" "\<not> P (hd n)" "\<not> P (last n)"
  shows "trim_ends P (p @ n @ q) = n"
proof -
  have "dropWhile P (p @ n @ q) = n @ q"
    using assms by (cases n) (simp_all add: dropWhile_all)
  moreover have "dropWhile P (rev q @ rev n) = rev n"
    using assms by (cases n rule: rev_cases) (simp_all add: dropWhile_all list_all_rev)
  ultimately show ?thesis by (simp add: trim_ends_def)
qed

lemma trim_padded:
  assumes "plain_item n" "padding p" "padding q"
  shows "trim (p @ n @ q) = n"
  using assms trim_ends_padded [of is_whitespace "utf8_chars p" "utf8_chars q" "utf8_chars n"]
  by (simp add: trim_def plain_item_def padding_def utf8_chars_append utf8_chars_eq_Nil concat_utf8_chars)

lemma whitespace_no_comma: "is_whitespace c \<Longrightarrow> CHR '','' \<notin> set c"
proof
  assume "is_whitespace c" "CHR '','' \<in> set c"
  then have "0x2C \<in> set (map byte_of c)" by force
  with \<open>is_whitespace c\<close> show False
    by (auto simp: is_whitespace_def Let_def in_set_conv_nth less_Suc_eq numeral_3_eq_3 numeral_2_eq_2)
qed

lemma padding_no_comma: "padding p \<Longrightarrow> CHR '','' \<notin> set p"
  using concat_utf8_chars [of p] whitespace_no_comma
  by (auto simp: padding_def list_all_iff) (metis UN_iff set_concat)

lemma split_on_prefix: "c \<notin> set x \<Longrightarrow> split_on c (x @ c # ys) = x # split_on c ys"
  by (induction x) auto

lemma split_on_none: "c \<notin> set x \<Longrightarrow> split_on c x = [x]"
  by (induction x) auto

lemma split_on_comma_join:
  "xs \<noteq> [] \<Longrightarrow> \<forall>x \<in> set xs. CHR '','' \<notin> set x \<Longrightarrow> split_on (CHR '','') (comma_join xs) = xs"
  by (induction xs rule: comma_join.induct) (simp_all add: split_on_prefix split_on_none)

lemma utf8_valid_comma_join: "\<forall>x \<in> set xs. utf8_valid x \<Longrightarrow> utf8_valid (comma_join xs)"
proof (induction xs rule: comma_join.induct)
  case (3 x y ys)
  have "utf8_valid (CHR '','' # t) = utf8_valid t" for t
    using utf8_valid_append [of "'',''" t] by (simp add: utf8_valid_ascii)
  with 3 show ?case by (simp add: utf8_valid_append)
qed simp_all

lemma comma_join_ne: "xs \<noteq> [] \<Longrightarrow> \<forall>x \<in> set xs. x \<noteq> [] \<Longrightarrow> comma_join xs \<noteq> []"
  by (induction xs rule: comma_join.induct) auto

text \<open>
  Reading a comma separated list: whatever white space surrounds the items, exactly
  the items are converted, in order, and what converts is appended to the list; a null or empty
  string clears the list; and a string that is not UTF-8 is refused.
\<close>

lemma comma_separated_items_are_read_back:
  assumes "items \<noteq> []"
    and "\<forall>(p, n, q) \<in> set items. padding p \<and> plain_item n \<and> padding q"
    and "s = comma_join (map (\<lambda>(p, n, q). p @ n @ q) items)"
  shows "update_comma_delimited_list list (Some s) (length s) convert =
       Inr (list @ List.map_filter convert (map (\<lambda>(p, n, q). n) items)) \<and>
     update_comma_delimited_list list None len convert = Inr [] \<and>
     update_comma_delimited_list list (Some mem) 0 convert = Inr [] \<and>
     (\<not> utf8_valid (take len mem) \<longrightarrow>
        update_comma_delimited_list list (Some mem) len convert = Inl CASS_ERROR_LIB_BAD_PARAMS)"
proof -
  define texts where "texts = map (\<lambda>(p, n, q). p @ n @ q) items"
  have texts: "texts \<noteq> []" "\<forall>x \<in> set texts. CHR '','' \<notin> set x" "\<forall>x \<in> set texts. utf8_valid x"
      "\<forall>x \<in> set texts. x \<noteq> []"
    using assms(1,2)
    by (auto simp: texts_def padding_no_comma plain_item_def utf8_valid_append padding_def)
  have "map trim texts = map (\<lambda>(p, n, q). n) items"
    using assms(2) by (auto simp: texts_def trim_padded)
  with texts show ?thesis
    using assms(3) utf8_valid_comma_join [of texts] comma_join_ne [of texts]
    by (simp add: update_comma_delimited_list_def CassStrLenDelimited_to_str_def
        split_on_comma_join flip: texts_def)
qed

end
