(* ===== verification/Cass_Exec_Profile.thy ===== *)
theory Cass_Exec_Profile
  imports Cass_Lb_Settings Cass_Batch
begin

text \<open>
  \<open>exec_profile.rs\<close>: execution profiles, how they are completed from the default profile of the
  cluster, and how the profile named by a statement is resolved.

  \<open>ExecutionProfileBuilder\<close> and \<open>ExecutionProfile\<close> are library types: the builder keeps what was
  set on it, and building fills what was never set from the defaults of the Rust driver, which are an
  argument.  \<open>exec_profile_builder_modify\<close> takes the builder out, changes it and puts it back; it is
  the application of the change.
\<close>

subsection \<open>Profiles\<close>

record SimpleSpeculativeExecutionPolicy =
  max_retry_count :: nat
  retry_interval :: Duration

datatype lb_policy = Policy_Filtering FilteringLoadBalancingPolicy | Policy_Driver_Default

record ExecutionProfileBuilder =
  pb_consistency :: "Consistency option"
  pb_serial_consistency :: "SerialConsistency option option"
  pb_request_timeout :: "Duration option option"
  pb_retry_policy :: "CassRetryPolicy option"
  pb_speculative_execution_policy :: "SimpleSpeculativeExecutionPolicy option option"
  pb_load_balancing_policy :: "lb_policy option"

record ExecutionProfile =
  prof_consistency :: Consistency
  prof_serial_consistency :: "SerialConsistency option"
  prof_request_timeout :: "Duration option"
  prof_retry_policy :: CassRetryPolicy
  prof_speculative_execution_policy :: "SimpleSpeculativeExecutionPolicy option"
  prof_load_balancing_policy :: lb_policy

definition ExecutionProfileBuilder_default :: ExecutionProfileBuilder where
  "ExecutionProfileBuilder_default =
     \<lparr>pb_consistency = None, pb_serial_consistency = None, pb_request_timeout = None,
      pb_retry_policy = None, pb_speculative_execution_policy = None, pb_load_balancing_policy = None\<rparr>"

definition or_default :: "'a option \<Rightarrow> 'a \<Rightarrow> 'a" where
  "or_default x d = (case x of Some v \<Rightarrow> v | None \<Rightarrow> d)"

lemma or_default_simps [simp]: "or_default (Some v) d = v" "or_default None d = d"
  by (simp_all add: or_default_def)

definition ExecutionProfileBuilder_build ::
    "ExecutionProfile \<Rightarrow> ExecutionProfileBuilder \<Rightarrow> ExecutionProfile" where
  "ExecutionProfileBuilder_build driver b =
     \<lparr>prof_consistency = or_default (pb_consistency b) (prof_consistency driver),
      prof_serial_consistency = or_default (pb_serial_consistency b) (prof_serial_consistency driver),
      prof_request_timeout = or_default (pb_request_timeout b) (prof_request_timeout driver),
      prof_retry_policy = or_default (pb_retry_policy b) (prof_retry_policy driver),
      prof_speculative_execution_policy =
        or_default (pb_speculative_execution_policy b) (prof_speculative_execution_policy driver),
      prof_load_balancing_policy =
        or_default (pb_load_balancing_policy b) (prof_load_balancing_policy driver)\<rparr>"

record ExecutionProfileOverrides =
  ov_consistency :: bool
  ov_serial_consistency :: bool
  ov_request_timeout :: bool
  ov_retry_policy :: bool
  ov_speculative_execution_policy :: bool

record CassExecProfile =
  ep_inner :: ExecutionProfileBuilder
  ep_overrides :: ExecutionProfileOverrides
  ep_load_balancing_config :: LoadBalancingConfig

definition CassExecProfile_new :: CassExecProfile where
  "CassExecProfile_new =
     \<lparr>ep_inner = ExecutionProfileBuilder_default,
      ep_overrides = \<lparr>ov_consistency = False, ov_serial_consistency = False,
        ov_request_timeout = False, ov_retry_policy = False,
        ov_speculative_execution_policy = False\<rparr>,
      ep_load_balancing_config = LoadBalancingConfig_default\<rparr>"

definition modify_in_place ::
    "(ExecutionProfileBuilder \<Rightarrow> ExecutionProfileBuilder) \<Rightarrow> CassExecProfile \<Rightarrow> CassExecProfile" where
  "modify_in_place f self = self\<lparr>ep_inner := f (ep_inner self)\<rparr>"

definition set_overrides ::
    "(ExecutionProfileOverrides \<Rightarrow> ExecutionProfileOverrides) \<Rightarrow> CassExecProfile \<Rightarrow> CassExecProfile" where
  "set_overrides f self = self\<lparr>ep_overrides := f (ep_overrides self)\<rparr>"

definition DEFAULT_CONSISTENCY :: Consistency where
  "DEFAULT_CONSISTENCY = Consistency_LocalOne"

definition use_cluster_defaults_for_unset_settings ::
    "ExecutionProfile \<Rightarrow> CassExecProfile \<Rightarrow> CassExecProfile" where
  "use_cluster_defaults_for_unset_settings default_profile self =
     (let ov = ep_overrides self;
          s1 = (if ov_consistency ov then self
                else modify_in_place (\<lambda>b. b\<lparr>pb_consistency := Some DEFAULT_CONSISTENCY\<rparr>) self);
          s2 = (if ov_serial_consistency ov then s1
                else modify_in_place (\<lambda>b. b\<lparr>pb_serial_consistency :=
                       Some (prof_serial_consistency default_profile)\<rparr>) s1);
          s3 = (if ov_request_timeout ov then s2
                else modify_in_place (\<lambda>b. b\<lparr>pb_request_timeout :=
                       Some (prof_request_timeout default_profile)\<rparr>) s2);
          s4 = (if ov_retry_policy ov then s3
                else modify_in_place (\<lambda>b. b\<lparr>pb_retry_policy :=
                       Some (prof_retry_policy default_profile)\<rparr>) s3)
      in (if ov_speculative_execution_policy ov then s4
          else modify_in_place (\<lambda>b. b\<lparr>pb_speculative_execution_policy :=
                 Some (prof_speculative_execution_policy default_profile)\<rparr>) s4))"

definition CassExecProfile_build ::
    "ExecutionProfile \<Rightarrow> CassExecProfile \<Rightarrow> ExecutionProfile \<Rightarrow> ExecutionProfile" where
  "CassExecProfile_build driver self cluster_default_profile =
     (let self' = use_cluster_defaults_for_unset_settings cluster_default_profile self;
          load_balancing =
            (if load_balancing_kind (ep_load_balancing_config self') \<noteq> None
             then Policy_Filtering (LoadBalancingConfig_build (ep_load_balancing_config self'))
             else prof_load_balancing_policy cluster_default_profile)
      in ExecutionProfileBuilder_build driver
           ((ep_inner self')\<lparr>pb_load_balancing_policy := Some load_balancing\<rparr>))"

subsection \<open>Names\<close>

definition ExecProfileName_try_from :: "string \<Rightarrow> unit + string" where
  "ExecProfileName_try_from name = (if name = [] then Inl () else Inr name)"

subsection \<open>Setters\<close>

definition cass_execution_profile_new :: "CassExecProfile c_ptr" where
  "cass_execution_profile_new = Some CassExecProfile_new"

definition cass_execution_profile_set_consistency ::
    "CassExecProfile c_ptr \<Rightarrow> CassConsistency \<Rightarrow> (CassError \<times> CassExecProfile c_ptr) panics" where
  "cass_execution_profile_set_consistency profile consistency =
     on_ptr_p profile (\<lambda>profile.
       do { r \<leftarrow> from_c_value Consistency_is_unset Consistency_from_set_c_value consistency;
            case r of
              Inl _ \<Rightarrow> Some (CASS_ERROR_LIB_BAD_PARAMS, profile)
            | Inr Cfg_Unset \<Rightarrow>
                Some (CASS_OK, set_overrides (\<lambda>o'. o'\<lparr>ov_consistency := False\<rparr>) profile)
            | Inr (Cfg_Set consistency) \<Rightarrow>
                Some (CASS_OK, set_overrides (\<lambda>o'. o'\<lparr>ov_consistency := True\<rparr>)
                  (modify_in_place (\<lambda>b. b\<lparr>pb_consistency := Some consistency\<rparr>) profile)) })"

definition cass_execution_profile_set_no_speculative_execution_policy ::
    "CassExecProfile c_ptr \<Rightarrow> CassError \<times> CassExecProfile c_ptr" where
  "cass_execution_profile_set_no_speculative_execution_policy profile =
     on_ptr profile (\<lambda>profile.
       (CASS_OK, set_overrides (\<lambda>o'. o'\<lparr>ov_speculative_execution_policy := True\<rparr>)
          (modify_in_place (\<lambda>b. b\<lparr>pb_speculative_execution_policy := Some None\<rparr>) profile)))"

definition cass_execution_profile_set_constant_speculative_execution_policy ::
    "CassExecProfile c_ptr \<Rightarrow> u64 \<Rightarrow> u32 \<Rightarrow> CassError \<times> CassExecProfile c_ptr" where
  "cass_execution_profile_set_constant_speculative_execution_policy profile constant_delay_ms
       max_speculative_executions =
     on_ptr profile (\<lambda>profile.
       if sint constant_delay_ms < 0 \<or> sint max_speculative_executions < 0
       then (CASS_ERROR_LIB_BAD_PARAMS, profile)
       else
         (let policy = \<lparr>max_retry_count = unat max_speculative_executions,
                        retry_interval = Duration_from_millis constant_delay_ms\<rparr>
          in (CASS_OK, set_overrides (\<lambda>o'. o'\<lparr>ov_speculative_execution_policy := True\<rparr>)
                (modify_in_place (\<lambda>b. b\<lparr>pb_speculative_execution_policy := Some (Some policy)\<rparr>)
                  profile))))"

definition on_lb_config ::
    "(LoadBalancingConfig \<Rightarrow> LoadBalancingConfig) \<Rightarrow> CassExecProfile \<Rightarrow> CassExecProfile" where
  "on_lb_config f p = p\<lparr>ep_load_balancing_config := f (ep_load_balancing_config p)\<rparr>"

definition cass_execution_profile_set_latency_aware_routing ::
    "CassExecProfile c_ptr \<Rightarrow> u32 \<Rightarrow> CassError \<times> CassExecProfile c_ptr" where
  "cass_execution_profile_set_latency_aware_routing profile enabled =
     on_ptr profile (\<lambda>profile. (CASS_OK,
       on_lb_config (\<lambda>c. c\<lparr>latency_awareness_enabled := (enabled \<noteq> 0)\<rparr>) profile))"

definition cass_execution_profile_set_latency_aware_routing_settings ::
    "CassExecProfile c_ptr \<Rightarrow> u64 \<Rightarrow> u64 \<Rightarrow> u64 \<Rightarrow> u64 \<Rightarrow> u64 \<Rightarrow> CassExecProfile c_ptr" where
  "cass_execution_profile_set_latency_aware_routing_settings profile exclusion_threshold scale_ms
       retry_period_ms update_rate_ms min_measured =
     on_ptr_void profile (\<lambda>profile.
       on_lb_config (\<lambda>c. c\<lparr>latency_awareness_builder := LatencyAwarenessBuilder_new
         \<lparr>la_exclusion_threshold := Some exclusion_threshold,
          la_retry_period := Some (Duration_from_millis retry_period_ms),
          la_update_rate := Some (Duration_from_millis update_rate_ms),
          la_minimum_measurements := Some min_measured\<rparr>\<rparr>) profile)"

definition cass_execution_profile_set_load_balance_dc_aware_n ::
    "CassExecProfile c_ptr \<Rightarrow> c_chars \<Rightarrow> nat \<Rightarrow> u32 \<Rightarrow> u32 \<Rightarrow> CassError \<times> CassExecProfile c_ptr" where
  "cass_execution_profile_set_load_balance_dc_aware_n profile local_dc local_dc_length
       used_hosts_per_remote_dc allow_remote_dcs_for_local_cl =
     on_ptr profile (\<lambda>profile.
       let (err, c) = set_load_balance_dc_aware_n (ep_load_balancing_config profile) local_dc
             local_dc_length used_hosts_per_remote_dc allow_remote_dcs_for_local_cl
       in (err, profile\<lparr>ep_load_balancing_config := c\<rparr>))"

definition cass_execution_profile_set_load_balance_dc_aware ::
    "CassExecProfile c_ptr \<Rightarrow> c_chars \<Rightarrow> u32 \<Rightarrow> u32 \<Rightarrow> CassError \<times> CassExecProfile c_ptr" where
  "cass_execution_profile_set_load_balance_dc_aware profile local_dc used_hosts_per_remote_dc
       allow_remote_dcs_for_local_cl =
     (let (local_dc, local_dc_length) = as_len_delimited local_dc
      in cass_execution_profile_set_load_balance_dc_aware_n profile local_dc local_dc_length
           used_hosts_per_remote_dc allow_remote_dcs_for_local_cl)"

definition cass_execution_profile_set_load_balance_rack_aware_n ::
    "CassExecProfile c_ptr \<Rightarrow> c_chars \<Rightarrow> nat \<Rightarrow> c_chars \<Rightarrow> nat \<Rightarrow> CassError \<times> CassExecProfile c_ptr" where
  "cass_execution_profile_set_load_balance_rack_aware_n profile local_dc_raw local_dc_length
       local_rack_raw local_rack_length =
     on_ptr profile (\<lambda>profile.
       let (err, c) = set_load_balance_rack_aware_n (ep_load_balancing_config profile) local_dc_raw
             local_dc_length local_rack_raw local_rack_length
       in (err, profile\<lparr>ep_load_balancing_config := c\<rparr>))"

definition cass_execution_profile_set_load_balance_rack_aware ::
    "CassExecProfile c_ptr \<Rightarrow> c_chars \<Rightarrow> c_chars \<Rightarrow> CassError \<times> CassExecProfile c_ptr" where
  "cass_execution_profile_set_load_balance_rack_aware profile local_dc_raw local_rack_raw =
     (let (local_dc, local_dc_length) = as_len_delimited local_dc_raw;
          (local_rack, local_rack_length) = as_len_delimited local_rack_raw
      in cass_execution_profile_set_load_balance_rack_aware_n profile local_dc local_dc_length
           local_rack local_rack_length)"

definition cass_execution_profile_set_load_balance_round_robin ::
    "CassExecProfile c_ptr \<Rightarrow> CassError \<times> CassExecProfile c_ptr" where
  "cass_execution_profile_set_load_balance_round_robin profile =
     on_ptr profile (\<lambda>profile. (CASS_OK,
       on_lb_config (\<lambda>c. c\<lparr>load_balancing_kind := Some LB_RoundRobin\<rparr>) profile))"

text \<open>The four lists: which one is read from the configuration and how it is written back.\<close>

definition update_lb_list ::
    "(FilteringConfig \<Rightarrow> 't list) \<Rightarrow> ('t list \<Rightarrow> FilteringConfig \<Rightarrow> FilteringConfig) \<Rightarrow>
     (string \<Rightarrow> 't option) \<Rightarrow> c_chars \<Rightarrow> nat \<Rightarrow> LoadBalancingConfig \<Rightarrow> CassError \<times> LoadBalancingConfig" where
  "update_lb_list get put conv items len cfg =
     (case update_comma_delimited_list (get (filtering cfg)) items len conv of
        Inr xs \<Rightarrow> (CASS_OK, cfg\<lparr>filtering := put xs (filtering cfg)\<rparr>)
      | Inl e \<Rightarrow> (e, cfg))"

definition profile_list ::
    "(FilteringConfig \<Rightarrow> 't list) \<Rightarrow> ('t list \<Rightarrow> FilteringConfig \<Rightarrow> FilteringConfig) \<Rightarrow>
     (string \<Rightarrow> 't option) \<Rightarrow> c_chars \<Rightarrow> nat \<Rightarrow> CassExecProfile c_ptr \<Rightarrow> CassError \<times> CassExecProfile c_ptr" where
  "profile_list get put conv items len profile =
     on_ptr profile (\<lambda>profile.
       let (err, c) = update_lb_list get put conv items len (ep_load_balancing_config profile)
       in (err, profile\<lparr>ep_load_balancing_config := c\<rparr>))"

definition cass_execution_profile_set_whitelist_filtering_n ::
    "(string \<Rightarrow> IpAddr option) \<Rightarrow> CassExecProfile c_ptr \<Rightarrow> c_chars \<Rightarrow> nat \<Rightarrow> CassError \<times> CassExecProfile c_ptr" where
  "cass_execution_profile_set_whitelist_filtering_n from_str profile hosts hosts_size =
     profile_list whitelist_hosts (\<lambda>xs f. f\<lparr>whitelist_hosts := xs\<rparr>) from_str hosts hosts_size profile"

definition cass_execution_profile_set_whitelist_filtering ::
    "(string \<Rightarrow> IpAddr option) \<Rightarrow> CassExecProfile c_ptr \<Rightarrow> c_chars \<Rightarrow> CassError \<times> CassExecProfile c_ptr" where
  "cass_execution_profile_set_whitelist_filtering from_str profile hosts =
     (let (hosts, hosts_size) = as_len_delimited hosts
      in cass_execution_profile_set_whitelist_filtering_n from_str profile hosts hosts_size)"

definition cass_execution_profile_set_blacklist_filtering_n ::
    "(string \<Rightarrow> IpAddr option) \<Rightarrow> CassExecProfile c_ptr \<Rightarrow> c_chars \<Rightarrow> nat \<Rightarrow> CassError \<times> CassExecProfile c_ptr" where
  "cass_execution_profile_set_blacklist_filtering_n from_str profile hosts hosts_size =
     profile_list blacklist_hosts (\<lambda>xs f. f\<lparr>blacklist_hosts := xs\<rparr>) from_str hosts hosts_size profile"

definition cass_execution_profile_set_blacklist_filtering ::
    "(string \<Rightarrow> IpAddr option) \<Rightarrow> CassExecProfile c_ptr \<Rightarrow> c_chars \<Rightarrow> CassError \<times> CassExecProfile c_ptr" where
  "cass_execution_profile_set_blacklist_filtering from_str profile hosts =
     (let (hosts, hosts_size) = as_len_delimited hosts
      in cass_execution_profile_set_blacklist_filtering_n from_str profile hosts hosts_size)"

definition cass_execution_profile_set_whitelist_dc_filtering_n ::
    "CassExecProfile c_ptr \<Rightarrow> c_chars \<Rightarrow> nat \<Rightarrow> CassError \<times> CassExecProfile c_ptr" where
  "cass_execution_profile_set_whitelist_dc_filtering_n profile dcs dcs_size =
     profile_list whitelist_dc (\<lambda>xs f. f\<lparr>whitelist_dc := xs\<rparr>) nonempty_item dcs dcs_size profile"

definition cass_execution_profile_set_whitelist_dc_filtering ::
    "CassExecProfile c_ptr \<Rightarrow> c_chars \<Rightarrow> CassError \<times> CassExecProfile c_ptr" where
  "cass_execution_profile_set_whitelist_dc_filtering profile dcs =
     (let (dcs, dcs_size) = as_len_delimited dcs
      in cass_execution_profile_set_whitelist_dc_filtering_n profile dcs dcs_size)"

definition cass_execution_profile_set_blacklist_dc_filtering_n ::
    "CassExecProfile c_ptr \<Rightarrow> c_chars \<Rightarrow> nat \<Rightarrow> CassError \<times> CassExecProfile c_ptr" where
  "cass_execution_profile_set_blacklist_dc_filtering_n profile dcs dcs_size =
     profile_list blacklist_dc (\<lambda>xs f. f\<lparr>blacklist_dc := xs\<rparr>) nonempty_item dcs dcs_size profile"

definition cass_execution_profile_set_blacklist_dc_filtering ::
    "CassExecProfile c_ptr \<Rightarrow> c_chars \<Rightarrow> CassError \<times> CassExecProfile c_ptr" where
  "cass_execution_profile_set_blacklist_dc_filtering profile dcs =
     (let (dcs, dcs_size) = as_len_delimited dcs
      in cass_execution_profile_set_blacklist_dc_filtering_n profile dcs dcs_size)"

definition cass_execution_profile_set_request_timeout ::
    "CassExecProfile c_ptr \<Rightarrow> u64 \<Rightarrow> (CassError \<times> CassExecProfile c_ptr) panics" where
  "cass_execution_profile_set_request_timeout profile timeout_ms =
     on_ptr_p profile (\<lambda>profile.
       do { r \<leftarrow> from_c_value RequestTimeout_is_unset RequestTimeout_from_set_c_value timeout_ms;
            case r of
              Inr (Cfg_Set (RequestTimeout maybe_timeout)) \<Rightarrow>
                Some (CASS_OK, set_overrides (\<lambda>o'. o'\<lparr>ov_request_timeout := True\<rparr>)
                  (modify_in_place (\<lambda>b. b\<lparr>pb_request_timeout := Some maybe_timeout\<rparr>) profile))
            | _ \<Rightarrow> Some (CASS_OK, set_overrides (\<lambda>o'. o'\<lparr>ov_request_timeout := False\<rparr>) profile) })"

definition cass_execution_profile_set_retry_policy ::
    "CassExecProfile c_ptr \<Rightarrow> CassRetryPolicy c_ptr \<Rightarrow> (CassError \<times> CassExecProfile c_ptr) panics" where
  "cass_execution_profile_set_retry_policy profile cass_retry_policy =
     on_ptr_p profile (\<lambda>profile.
       do { r \<leftarrow> from_c_value RetryPolicy_is_unset RetryPolicy_from_set_c_value cass_retry_policy;
            case r of
              Inr (Cfg_Set retry_policy) \<Rightarrow>
                Some (CASS_OK, set_overrides (\<lambda>o'. o'\<lparr>ov_retry_policy := True\<rparr>)
                  (modify_in_place (\<lambda>b. b\<lparr>pb_retry_policy := Some retry_policy\<rparr>) profile))
            | _ \<Rightarrow> Some (CASS_OK, set_overrides (\<lambda>o'. o'\<lparr>ov_retry_policy := False\<rparr>) profile) })"

definition cass_execution_profile_set_serial_consistency ::
    "CassExecProfile c_ptr \<Rightarrow> CassConsistency \<Rightarrow> (CassError \<times> CassExecProfile c_ptr) panics" where
  "cass_execution_profile_set_serial_consistency profile serial_consistency =
     on_ptr_p profile (\<lambda>profile.
       do { r \<leftarrow> from_c_value SerialConsistency_is_unset SerialConsistency_from_set_c_value
                   serial_consistency;
            case r of
              Inl _ \<Rightarrow> Some (CASS_ERROR_LIB_BAD_PARAMS, profile)
            | Inr Cfg_Unset \<Rightarrow>
                Some (CASS_OK, set_overrides (\<lambda>o'. o'\<lparr>ov_serial_consistency := False\<rparr>) profile)
            | Inr (Cfg_Set maybe_serial_consistency) \<Rightarrow>
                Some (CASS_OK, set_overrides (\<lambda>o'. o'\<lparr>ov_serial_consistency := True\<rparr>)
                  (modify_in_place (\<lambda>b. b\<lparr>pb_serial_consistency := Some maybe_serial_consistency\<rparr>)
                    profile)) })"

definition cass_execution_profile_set_token_aware_routing ::
    "CassExecProfile c_ptr \<Rightarrow> u32 \<Rightarrow> CassError \<times> CassExecProfile c_ptr" where
  "cass_execution_profile_set_token_aware_routing profile enabled =
     on_ptr profile (\<lambda>profile. (CASS_OK,
       on_lb_config (\<lambda>c. c\<lparr>token_awareness_enabled := (enabled \<noteq> 0)\<rparr>) profile))"

definition cass_execution_profile_set_token_aware_routing_shuffle_replicas ::
    "CassExecProfile c_ptr \<Rightarrow> u32 \<Rightarrow> CassError \<times> CassExecProfile c_ptr" where
  "cass_execution_profile_set_token_aware_routing_shuffle_replicas profile enabled =
     on_ptr profile (\<lambda>profile. (CASS_OK,
       on_lb_config (\<lambda>c. c\<lparr>token_aware_shuffling_replicas_enabled := (enabled \<noteq> 0)\<rparr>) profile))"

subsection \<open>Optional settings\<close>

text \<open>
  What a profile is meant to be: a setting is given or left to the cluster.  The operations on a
  profile, their effect on such a record, and the profile it stands for given the default profile of
  the cluster.
\<close>

record profile_spec =
  sp_consistency :: "Consistency option"
  sp_serial_consistency :: "SerialConsistency option option"
  sp_request_timeout :: "Duration option option"
  sp_retry_policy :: "CassRetryPolicy option"
  sp_speculative :: "SimpleSpeculativeExecutionPolicy option option"

datatype profile_op =
    PO_Consistency CassConsistency
  | PO_Serial_consistency CassConsistency
  | PO_Request_timeout u64
  | PO_Retry_policy "CassRetryPolicy c_ptr"
  | PO_No_speculative
  | PO_Constant_speculative u64 u32
  | PO_Latency_aware u32
  | PO_Token_aware u32
  | PO_Shuffle_replicas u32
  | PO_Round_robin
  | PO_Dc_aware c_chars u32 u32
  | PO_Rack_aware c_chars c_chars
  | PO_Whitelist_dc c_chars
  | PO_Blacklist_dc c_chars
  | PO_Whitelist c_chars
  | PO_Blacklist c_chars
  | PO_Latency_aware_settings u64 u64 u64 u64 u64

fun profile_apply ::
    "(string \<Rightarrow> IpAddr option) \<Rightarrow> profile_op \<Rightarrow> CassExecProfile c_ptr \<Rightarrow> (CassError \<times> CassExecProfile c_ptr) panics" where
  "profile_apply from_str (PO_Consistency c) p = cass_execution_profile_set_consistency p c"
| "profile_apply from_str (PO_Serial_consistency c) p = cass_execution_profile_set_serial_consistency p c"
| "profile_apply from_str (PO_Request_timeout t) p = cass_execution_profile_set_request_timeout p t"
| "profile_apply from_str (PO_Retry_policy r) p = cass_execution_profile_set_retry_policy p r"
| "profile_apply from_str PO_No_speculative p =
     Some (cass_execution_profile_set_no_speculative_execution_policy p)"
| "profile_apply from_str (PO_Constant_speculative d n) p =
     Some (cass_execution_profile_set_constant_speculative_execution_policy p d n)"
| "profile_apply from_str (PO_Latency_aware e) p = Some (cass_execution_profile_set_latency_aware_routing p e)"
| "profile_apply from_str (PO_Token_aware e) p = Some (cass_execution_profile_set_token_aware_routing p e)"
| "profile_apply from_str (PO_Shuffle_replicas e) p =
     Some (cass_execution_profile_set_token_aware_routing_shuffle_replicas p e)"
| "profile_apply from_str PO_Round_robin p = Some (cass_execution_profile_set_load_balance_round_robin p)"
| "profile_apply from_str (PO_Dc_aware dc used allow) p =
     Some (cass_execution_profile_set_load_balance_dc_aware p dc used allow)"
| "profile_apply from_str (PO_Rack_aware dc rack) p =
     Some (cass_execution_profile_set_load_balance_rack_aware p dc rack)"
| "profile_apply from_str (PO_Whitelist_dc dcs) p = Some (cass_execution_profile_set_whitelist_dc_filtering p dcs)"
| "profile_apply from_str (PO_Blacklist_dc dcs) p = Some (cass_execution_profile_set_blacklist_dc_filtering p dcs)"
| "profile_apply from_str (PO_Whitelist hosts) p =
     Some (cass_execution_profile_set_whitelist_filtering from_str p hosts)"
| "profile_apply from_str (PO_Blacklist hosts) p =
     Some (cass_execution_profile_set_blacklist_filtering from_str p hosts)"
| "profile_apply from_str (PO_Latency_aware_settings threshold scale period rate measured) p =
     Some (CASS_OK, cass_execution_profile_set_latency_aware_routing_settings p threshold scale period
       rate measured)"

fun profile_run ::
    "(string \<Rightarrow> IpAddr option) \<Rightarrow> profile_op list \<Rightarrow> CassExecProfile c_ptr \<Rightarrow> CassExecProfile c_ptr panics" where
  "profile_run from_str [] p = Some p"
| "profile_run from_str (op # ops) p = do { (_, p') \<leftarrow> profile_apply from_str op p; profile_run from_str ops p' }"

text \<open>
  The numbers of the header: 65535 leaves the consistency levels to the cluster, and the largest
  64 bit number leaves the timeout to it; 0 is no timeout.
\<close>

fun spec_step :: "profile_op \<Rightarrow> profile_spec \<Rightarrow> profile_spec" where
  "spec_step (PO_Consistency c) s =
     (if c = CASS_CONSISTENCY_UNKNOWN then s\<lparr>sp_consistency := None\<rparr>
      else case the (Consistency_from_set_c_value c) of
             Inr v \<Rightarrow> s\<lparr>sp_consistency := Some v\<rparr> | Inl _ \<Rightarrow> s)"
| "spec_step (PO_Serial_consistency c) s =
     (if c = CASS_CONSISTENCY_UNKNOWN then s\<lparr>sp_serial_consistency := None\<rparr>
      else if c = CASS_CONSISTENCY_ANY then s\<lparr>sp_serial_consistency := Some None\<rparr>
      else if c = CASS_CONSISTENCY_SERIAL
        then s\<lparr>sp_serial_consistency := Some (Some SerialConsistency_Serial)\<rparr>
      else if c = CASS_CONSISTENCY_LOCAL_SERIAL
        then s\<lparr>sp_serial_consistency := Some (Some SerialConsistency_LocalSerial)\<rparr>
      else s)"
| "spec_step (PO_Request_timeout t) s =
     s\<lparr>sp_request_timeout :=
        (if t = - 1 then None
         else if t = 0 then Some None else Some (Some (unat t * 1000000)))\<rparr>"
| "spec_step (PO_Retry_policy r) s = s\<lparr>sp_retry_policy := r\<rparr>"
| "spec_step PO_No_speculative s = s\<lparr>sp_speculative := Some None\<rparr>"
| "spec_step (PO_Constant_speculative d n) s =
     (if 0 \<le> sint d \<and> 0 \<le> sint n
      then s\<lparr>sp_speculative := Some (Some \<lparr>max_retry_count = unat n, retry_interval = unat d * 1000000\<rparr>)\<rparr>
      else s)"
| "spec_step _ s = s"

definition spec_new :: profile_spec where
  "spec_new = \<lparr>sp_consistency = None, sp_serial_consistency = None, sp_request_timeout = None,
     sp_retry_policy = None, sp_speculative = None\<rparr>"

definition spec_profile :: "profile_spec \<Rightarrow> ExecutionProfile \<Rightarrow> lb_policy \<Rightarrow> ExecutionProfile" where
  "spec_profile s def lb =
     \<lparr>prof_consistency = or_default (sp_consistency s) DEFAULT_CONSISTENCY,
      prof_serial_consistency = or_default (sp_serial_consistency s) (prof_serial_consistency def),
      prof_request_timeout = or_default (sp_request_timeout s) (prof_request_timeout def),
      prof_retry_policy = or_default (sp_retry_policy s) (prof_retry_policy def),
      prof_speculative_execution_policy =
        or_default (sp_speculative s) (prof_speculative_execution_policy def),
      prof_load_balancing_policy = lb\<rparr>"

text \<open>A profile represents a record of optional settings: a setting that is overridden was set.\<close>

definition represents_setting :: "bool \<Rightarrow> 'a option \<Rightarrow> 'a option \<Rightarrow> bool" where
  "represents_setting overridden b s \<longleftrightarrow> (if overridden then b = s \<and> s \<noteq> None else s = None)"

lemma represents_setting_simps [simp]:
  "represents_setting True (Some v) (Some v)"
  "represents_setting False b None"
  by (simp_all add: represents_setting_def)

lemma represents_setting_or_default:
  "represents_setting ov b s \<Longrightarrow> or_default (if ov then b else Some d) d' = or_default s d"
  by (auto simp: represents_setting_def split: if_splits)

definition represents_spec :: "CassExecProfile \<Rightarrow> profile_spec \<Rightarrow> bool" where
  "represents_spec p s \<longleftrightarrow>
     (let ov = ep_overrides p; b = ep_inner p in
      represents_setting (ov_consistency ov) (pb_consistency b) (sp_consistency s) \<and>
      represents_setting (ov_serial_consistency ov) (pb_serial_consistency b) (sp_serial_consistency s) \<and>
      represents_setting (ov_request_timeout ov) (pb_request_timeout b) (sp_request_timeout s) \<and>
      represents_setting (ov_retry_policy ov) (pb_retry_policy b) (sp_retry_policy s) \<and>
      represents_setting (ov_speculative_execution_policy ov) (pb_speculative_execution_policy b)
        (sp_speculative s))"

lemmas represents_simps = represents_spec_def Let_def set_overrides_def modify_in_place_def on_lb_config_def

lemma represents_lb [simp]:
  "represents_spec (p\<lparr>ep_load_balancing_config := c\<rparr>) s = represents_spec p s"
  by (simp add: represents_simps)

lemma represents_new: "represents_spec CassExecProfile_new spec_new"
  by (simp add: represents_simps CassExecProfile_new_def spec_new_def)

text \<open>The load balancing setters change nothing else.\<close>

lemma profile_list_frame:
  "\<exists>err c. profile_list get put conv items len (Some p) = (err, Some (p\<lparr>ep_load_balancing_config := c\<rparr>))"
  by (auto simp: profile_list_def split: prod.splits)

lemma dc_aware_frame:
  "\<exists>err c. cass_execution_profile_set_load_balance_dc_aware (Some p) dc used allow =
     (err, Some (p\<lparr>ep_load_balancing_config := c\<rparr>))"
  by (auto simp: cass_execution_profile_set_load_balance_dc_aware_def
      cass_execution_profile_set_load_balance_dc_aware_n_def split: prod.splits)

lemma rack_aware_frame:
  "\<exists>err c. cass_execution_profile_set_load_balance_rack_aware (Some p) dc rack =
     (err, Some (p\<lparr>ep_load_balancing_config := c\<rparr>))"
  by (auto simp: cass_execution_profile_set_load_balance_rack_aware_def
      cass_execution_profile_set_load_balance_rack_aware_n_def split: prod.splits)

lemma whitelist_dc_frame:
  "\<exists>err c. cass_execution_profile_set_whitelist_dc_filtering (Some p) dcs =
     (err, Some (p\<lparr>ep_load_balancing_config := c\<rparr>))"
  by (simp add: cass_execution_profile_set_whitelist_dc_filtering_def
      cass_execution_profile_set_whitelist_dc_filtering_n_def profile_list_frame split: prod.splits)

lemma blacklist_dc_frame:
  "\<exists>err c. cass_execution_profile_set_blacklist_dc_filtering (Some p) dcs =
     (err, Some (p\<lparr>ep_load_balancing_config := c\<rparr>))"
  by (simp add: cass_execution_profile_set_blacklist_dc_filtering_def
      cass_execution_profile_set_blacklist_dc_filtering_n_def profile_list_frame split: prod.splits)

lemma host_list_frames:
  "\<exists>err c. cass_execution_profile_set_whitelist_filtering from_str (Some p) hosts =
     (err, Some (p\<lparr>ep_load_balancing_config := c\<rparr>))"
  "\<exists>err c. cass_execution_profile_set_blacklist_filtering from_str (Some p) hosts =
     (err, Some (p\<lparr>ep_load_balancing_config := c\<rparr>))"
  by (simp_all add: cass_execution_profile_set_whitelist_filtering_def
      cass_execution_profile_set_whitelist_filtering_n_def
      cass_execution_profile_set_blacklist_filtering_def
      cass_execution_profile_set_blacklist_filtering_n_def profile_list_frame split: prod.splits)

lemma represents_set:
  assumes "represents_spec p s"
  shows "represents_spec (set_overrides (\<lambda>o'. o'\<lparr>ov_consistency := True\<rparr>)
        (modify_in_place (\<lambda>b. b\<lparr>pb_consistency := Some c\<rparr>) p)) (s\<lparr>sp_consistency := Some c\<rparr>)"
    "represents_spec (set_overrides (\<lambda>o'. o'\<lparr>ov_serial_consistency := True\<rparr>)
        (modify_in_place (\<lambda>b. b\<lparr>pb_serial_consistency := Some sc\<rparr>) p))
        (s\<lparr>sp_serial_consistency := Some sc\<rparr>)"
    "represents_spec (set_overrides (\<lambda>o'. o'\<lparr>ov_request_timeout := True\<rparr>)
        (modify_in_place (\<lambda>b. b\<lparr>pb_request_timeout := Some t\<rparr>) p)) (s\<lparr>sp_request_timeout := Some t\<rparr>)"
    "represents_spec (set_overrides (\<lambda>o'. o'\<lparr>ov_retry_policy := True\<rparr>)
        (modify_in_place (\<lambda>b. b\<lparr>pb_retry_policy := Some r\<rparr>) p)) (s\<lparr>sp_retry_policy := Some r\<rparr>)"
    "represents_spec (set_overrides (\<lambda>o'. o'\<lparr>ov_speculative_execution_policy := True\<rparr>)
        (modify_in_place (\<lambda>b. b\<lparr>pb_speculative_execution_policy := Some e\<rparr>) p))
        (s\<lparr>sp_speculative := Some e\<rparr>)"
  using assms by (simp_all add: represents_simps)

lemma represents_unset:
  assumes "represents_spec p s"
  shows "represents_spec (set_overrides (\<lambda>o'. o'\<lparr>ov_consistency := False\<rparr>) p) (s\<lparr>sp_consistency := None\<rparr>)"
    "represents_spec (set_overrides (\<lambda>o'. o'\<lparr>ov_serial_consistency := False\<rparr>) p)
        (s\<lparr>sp_serial_consistency := None\<rparr>)"
    "represents_spec (set_overrides (\<lambda>o'. o'\<lparr>ov_request_timeout := False\<rparr>) p)
        (s\<lparr>sp_request_timeout := None\<rparr>)"
    "represents_spec (set_overrides (\<lambda>o'. o'\<lparr>ov_retry_policy := False\<rparr>) p) (s\<lparr>sp_retry_policy := None\<rparr>)"
  using assms by (simp_all add: represents_simps)

lemma step_consistency:
  assumes "represents_spec p s"
  shows "\<exists>err p'. profile_apply from_str (PO_Consistency c) (Some p) = Some (err, Some p') \<and>
     represents_spec p' (spec_step (PO_Consistency c) s)"
proof -
  obtain r where r: "Consistency_from_set_c_value c = Some r"
    by (simp add: Consistency_from_set_c_value_def)
  with assms show ?thesis
    by (cases r) (simp_all add: cass_execution_profile_set_consistency_def from_c_value_def
        Consistency_is_unset_def represents_set represents_unset)
qed

lemma step_serial_consistency:
  assumes "represents_spec p s"
  shows "\<exists>err p'. profile_apply from_str (PO_Serial_consistency c) (Some p) = Some (err, Some p') \<and>
     represents_spec p' (spec_step (PO_Serial_consistency c) s)"
  using assms
  by (simp add: cass_execution_profile_set_serial_consistency_def from_c_value_def
      SerialConsistency_is_unset_def SerialConsistency_from_set_c_value_def represents_set represents_unset)

lemma step_request_timeout:
  assumes "represents_spec p s"
  shows "\<exists>err p'. profile_apply from_str (PO_Request_timeout t) (Some p) = Some (err, Some p') \<and>
     represents_spec p' (spec_step (PO_Request_timeout t) s)"
  using assms
  by (simp add: cass_execution_profile_set_request_timeout_def from_c_value_def
      RequestTimeout_is_unset_def RequestTimeout_from_set_c_value_def Duration_from_millis_def
      represents_set represents_unset)

lemma step_retry_policy:
  assumes "represents_spec p s"
  shows "\<exists>err p'. profile_apply from_str (PO_Retry_policy r) (Some p) = Some (err, Some p') \<and>
     represents_spec p' (spec_step (PO_Retry_policy r) s)"
  using assms
  by (cases r) (simp_all add: cass_execution_profile_set_retry_policy_def from_c_value_def
      RetryPolicy_is_unset_def RetryPolicy_from_set_c_value_def represents_set represents_unset)

lemma step_speculative:
  assumes "represents_spec p s"
  shows "\<exists>err p'. profile_apply from_str (PO_Constant_speculative d n) (Some p) = Some (err, Some p') \<and>
     represents_spec p' (spec_step (PO_Constant_speculative d n) s)"
    "\<exists>err p'. profile_apply from_str PO_No_speculative (Some p) = Some (err, Some p') \<and>
     represents_spec p' (spec_step PO_No_speculative s)"
  using assms
  by (simp_all add: cass_execution_profile_set_constant_speculative_execution_policy_def not_less
      cass_execution_profile_set_no_speculative_execution_policy_def Duration_from_millis_def
      represents_set)

lemma profile_apply_represents:
  assumes "represents_spec p s"
  shows "\<exists>err p'. profile_apply from_str op (Some p) = Some (err, Some p') \<and> represents_spec p' (spec_step op s)"
proof (cases op)
  case (PO_Dc_aware dc used allow)
  then show ?thesis
    using assms dc_aware_frame [of p dc used allow] by auto
next
  case (PO_Rack_aware dc rack)
  then show ?thesis
    using assms rack_aware_frame [of p dc rack] by auto
next
  case (PO_Whitelist_dc dcs)
  then show ?thesis
    using assms whitelist_dc_frame [of p dcs] by auto
next
  case (PO_Blacklist_dc dcs)
  then show ?thesis
    using assms blacklist_dc_frame [of p dcs] by auto
next
  case (PO_Whitelist hosts)
  then show ?thesis
    using assms host_list_frames(1) [of from_str p hosts] by auto
next
  case (PO_Blacklist hosts)
  then show ?thesis
    using assms host_list_frames(2) [of from_str p hosts] by auto
qed (use assms step_consistency step_serial_consistency step_request_timeout step_retry_policy
      step_speculative in
    \<open>simp_all add: cass_execution_profile_set_latency_aware_routing_def
      cass_execution_profile_set_latency_aware_routing_settings_def
      cass_execution_profile_set_token_aware_routing_def
      cass_execution_profile_set_token_aware_routing_shuffle_replicas_def
      cass_execution_profile_set_load_balance_round_robin_def on_lb_config_def\<close>)

lemma profile_run_represents:
  "represents_spec p s \<Longrightarrow>
   \<exists>p'. profile_run from_str ops (Some p) = Some (Some p') \<and> represents_spec p' (fold spec_step ops s)"
proof (induction ops arbitrary: p s)
  case (Cons op ops)
  obtain err q where "profile_apply from_str op (Some p) = Some (err, Some q)" "represents_spec q (spec_step op s)"
    using profile_apply_represents [OF Cons.prems, of from_str op] by blast
  with Cons.IH [of q "spec_step op s"] show ?case by simp
qed simp

lemma or_default_if: "or_default (if b then x else y) d = (if b then or_default x d else or_default y d)"
  by simp

lemma inner_after_defaults:
  "ep_inner (use_cluster_defaults_for_unset_settings def p) =
     (let ov = ep_overrides p; b = ep_inner p in
      b\<lparr>pb_consistency := (if ov_consistency ov then pb_consistency b else Some DEFAULT_CONSISTENCY),
        pb_serial_consistency := (if ov_serial_consistency ov then pb_serial_consistency b
          else Some (prof_serial_consistency def)),
        pb_request_timeout := (if ov_request_timeout ov then pb_request_timeout b
          else Some (prof_request_timeout def)),
        pb_retry_policy := (if ov_retry_policy ov then pb_retry_policy b
          else Some (prof_retry_policy def)),
        pb_speculative_execution_policy := (if ov_speculative_execution_policy ov
          then pb_speculative_execution_policy b
          else Some (prof_speculative_execution_policy def))\<rparr>)"
  by (simp add: use_cluster_defaults_for_unset_settings_def modify_in_place_def Let_def)

lemma lb_config_after_defaults [simp]:
  "ep_load_balancing_config (use_cluster_defaults_for_unset_settings def p) = ep_load_balancing_config p"
  by (simp add: use_cluster_defaults_for_unset_settings_def modify_in_place_def Let_def)

lemma build_represents:
  assumes "represents_spec p s"
  shows "CassExecProfile_build driver p def = spec_profile s def
    (if load_balancing_kind (ep_load_balancing_config p) = None then prof_load_balancing_policy def
     else Policy_Filtering (LoadBalancingConfig_build (ep_load_balancing_config p)))"
  using assms
  by (simp add: CassExecProfile_build_def ExecutionProfileBuilder_build_def spec_profile_def
      inner_after_defaults represents_spec_def Let_def represents_setting_or_default)


subsection \<open>Resolving the profile of a statement\<close>

text \<open>
  The profiles of a connected session (\<open>session.rs\<close>) are a map from names to handles.  The profile of
  a statement is a cell shared by all its executions, behind a lock: an execution first reads it
  under the read lock, and only if it is not resolved takes the write lock, looks again, and
  resolves the name.
\<close>

type_synonym session_profiles = "(string \<times> profile_handle) list"

definition resolve_exec_profile :: "session_profiles \<Rightarrow> string \<Rightarrow> (CassError \<times> string) + profile_handle" where
  "resolve_exec_profile exec_profile_map name =
     (case map_of exec_profile_map name of
        Some handle \<Rightarrow> Inr handle
      | None \<Rightarrow> Inl (CASS_ERROR_LIB_EXECUTION_PROFILE_INVALID, name @ '' does not exist''))"

fun already_resolved :: "PerStatementExecProfile \<Rightarrow> profile_handle option" where
  "already_resolved (Profile_Unresolved _) = None"
| "already_resolved (Profile_Resolved handle) = Some handle"

fun resolve_under_write_lock ::
    "session_profiles \<Rightarrow> PerStatementExecProfile \<Rightarrow>
     ((CassError \<times> string) + profile_handle) \<times> PerStatementExecProfile" where
  "resolve_under_write_lock profiles (Profile_Unresolved name) =
     (case resolve_exec_profile profiles name of
        Inl e \<Rightarrow> (Inl e, Profile_Unresolved name)
      | Inr handle \<Rightarrow> (Inr handle, Profile_Resolved handle))"
| "resolve_under_write_lock profiles (Profile_Resolved handle) = (Inr handle, Profile_Resolved handle)"

definition get_or_resolve_profile_handle ::
    "session_profiles \<Rightarrow> PerStatementExecProfile \<Rightarrow>
     ((CassError \<times> string) + profile_handle) \<times> PerStatementExecProfile" where
  "get_or_resolve_profile_handle profiles self =
     (case already_resolved self of
        Some handle \<Rightarrow> (Inr handle, self)
      | None \<Rightarrow> resolve_under_write_lock profiles self)"

text \<open>
  Executions of one statement, numbered, each on a session of its own choice; their two steps
  interleave in any order.
\<close>

datatype execution =
    Ex_Start
  | Ex_Write_lock
  | Ex_Done "(CassError \<times> string) + profile_handle"

record resolution_state =
  rs_cell :: PerStatementExecProfile
  rs_executions :: "nat \<Rightarrow> execution"

inductive resolution_step ::
    "(nat \<Rightarrow> session_profiles) \<Rightarrow> resolution_state \<Rightarrow> resolution_state \<Rightarrow> bool" for sessions where
  read_resolved: "rs_executions s i = Ex_Start \<Longrightarrow> already_resolved (rs_cell s) = Some handle \<Longrightarrow>
     resolution_step sessions s (s\<lparr>rs_executions := (rs_executions s)(i := Ex_Done (Inr handle))\<rparr>)"
| read_unresolved: "rs_executions s i = Ex_Start \<Longrightarrow> already_resolved (rs_cell s) = None \<Longrightarrow>
     resolution_step sessions s (s\<lparr>rs_executions := (rs_executions s)(i := Ex_Write_lock)\<rparr>)"
| write_step: "rs_executions s i = Ex_Write_lock \<Longrightarrow>
     resolve_under_write_lock (sessions i) (rs_cell s) = (r, cell) \<Longrightarrow>
     resolution_step sessions s \<lparr>rs_cell = cell, rs_executions = (rs_executions s)(i := Ex_Done r)\<rparr>"

definition resolution_start :: "string \<Rightarrow> resolution_state" where
  "resolution_start name = \<lparr>rs_cell = Profile_Unresolved name, rs_executions = (\<lambda>_. Ex_Start)\<rparr>"

definition resolution_inv :: "(nat \<Rightarrow> session_profiles) \<Rightarrow> string \<Rightarrow> resolution_state \<Rightarrow> bool" where
  "resolution_inv sessions name s \<longleftrightarrow>
     (case rs_cell s of
        Profile_Unresolved n \<Rightarrow> n = name \<and> (\<forall>i h. rs_executions s i \<noteq> Ex_Done (Inr h))
      | Profile_Resolved h \<Rightarrow> (\<exists>k. map_of (sessions k) name = Some h) \<and>
          (\<forall>i h'. rs_executions s i = Ex_Done (Inr h') \<longrightarrow> h' = h)) \<and>
     (\<forall>i. case rs_executions s i of
             Ex_Done (Inl e) \<Rightarrow>
               map_of (sessions i) name = None \<and> fst e = CASS_ERROR_LIB_EXECUTION_PROFILE_INVALID
           | _ \<Rightarrow> True)"

lemma resolution_inv_start: "resolution_inv sessions name (resolution_start name)"
  by (simp add: resolution_inv_def resolution_start_def)

lemma resolution_inv_step:
  assumes "resolution_step sessions s s'" "resolution_inv sessions name s"
  shows "resolution_inv sessions name s'"
proof -
  obtain c ex where s: "s = \<lparr>rs_cell = c, rs_executions = ex\<rparr>" by (cases s)
  from assms(1) show ?thesis
  proof cases
    case (read_resolved i handle)
    with assms(2) s show ?thesis by (cases c) (auto simp: resolution_inv_def)
  next
    case (read_unresolved i)
    with assms(2) s show ?thesis by (cases c) (auto simp: resolution_inv_def)
  next
    case (write_step i r cell)
    with assms(2) s show ?thesis
      by (cases c) (auto simp: resolution_inv_def resolve_exec_profile_def split: option.splits)
  qed
qed

lemma resolution_inv_reachable:
  "(resolution_step sessions)\<^sup>*\<^sup>* (resolution_start name) s \<Longrightarrow> resolution_inv sessions name s"
  by (induction rule: rtranclp_induct) (simp_all add: resolution_inv_start resolution_inv_step)

text \<open>
  Property C35.  The profile of a statement is resolved once: under any interleaving, all executions
  that succeed get the same handle, one that some session has under the name, even when the sessions
  they run on have different profiles of that name; an execution fails only if its own session has no
  such profile.
\<close>

theorem profile_is_resolved_once:
  assumes "(resolution_step sessions)\<^sup>*\<^sup>* (resolution_start name) s"
  shows "(rs_executions s i = Ex_Done (Inr h) \<longrightarrow>
       (\<exists>k. map_of (sessions k) name = Some h) \<and>
       (\<forall>j h'. rs_executions s j = Ex_Done (Inr h') \<longrightarrow> h' = h)) \<and>
     (rs_executions s i = Ex_Done (Inl e) \<longrightarrow>
       map_of (sessions i) name = None \<and> fst e = CASS_ERROR_LIB_EXECUTION_PROFILE_INVALID)"
proof (cases "rs_cell s")
  case (Profile_Unresolved n)
  then show ?thesis
    using resolution_inv_reachable [OF assms]
    by (auto simp: resolution_inv_def dest: spec [of _ i])
next
  case (Profile_Resolved h')
  with resolution_inv_reachable [OF assms]
  have "map_of (sessions k) name = Some h' \<Longrightarrow> ?thesis" for k
    by (auto simp: resolution_inv_def dest: spec [of _ i] split: execution.splits) blast+
  with Profile_Resolved resolution_inv_reachable [OF assms] show ?thesis
    by (auto simp: resolution_inv_def)
qed

text \<open>The example: two sessions with different profiles of one name.\<close>

definition two_sessions :: "nat \<Rightarrow> session_profiles" where
  "two_sessions i = (if i = 0 then [(''p'', 1)] else [(''p'', 2)])"

definition both_resolved :: resolution_state where
  "both_resolved = \<lparr>rs_cell = Profile_Resolved 1,
     rs_executions = (\<lambda>_. Ex_Start)(0 := Ex_Done (Inr 1), 1 := Ex_Done (Inr 1))\<rparr>"

lemma both_resolved_reachable:
  "(resolution_step two_sessions)\<^sup>*\<^sup>* (resolution_start ''p'') both_resolved"
proof -
  define s1 where "s1 = (resolution_start ''p'')\<lparr>rs_executions := (\<lambda>_. Ex_Start)(0 := Ex_Write_lock)\<rparr>"
  define s2 where "s2 = \<lparr>rs_cell = Profile_Resolved 1,
    rs_executions = (\<lambda>_. Ex_Start)(0 := Ex_Done (Inr 1))\<rparr>"
  have r1: "resolution_step two_sessions (resolution_start ''p'') s1"
    using read_unresolved [of "resolution_start ''p''" 0 two_sessions]
    by (simp add: s1_def resolution_start_def)
  have r2: "resolution_step two_sessions s1 s2"
    using write_step [of s1 0 two_sessions "Inr 1" "Profile_Resolved 1"]
    by (simp add: s1_def s2_def resolution_start_def resolve_exec_profile_def two_sessions_def)
  have r3: "resolution_step two_sessions s2 both_resolved"
    using read_resolved [of s2 1 1 two_sessions] by (simp add: s2_def both_resolved_def)
  show ?thesis
    by (rule converse_rtranclp_into_rtranclp, rule r1, rule converse_rtranclp_into_rtranclp, rule r2,
        rule r_into_rtranclp, rule r3)
qed

theorem profile_is_resolved_once_witness:
  "rs_executions both_resolved 1 = Ex_Done (Inr 1) \<and> map_of (two_sessions 1) ''p'' = Some 2 \<and>
     (\<exists>k. map_of (two_sessions k) ''p'' = Some 1)"
proof -
  have e: "rs_executions both_resolved 1 = Ex_Done (Inr 1)"
    by (simp add: both_resolved_def)
  then have "\<exists>k. map_of (two_sessions k) ''p'' = Some 1"
    using profile_is_resolved_once [OF both_resolved_reachable, of 1 1] by blast
  with e show ?thesis by (simp add: two_sessions_def)
qed

end
