(* ===== verification/Cass_Cluster.thy ===== *)
theory Cass_Cluster
  imports Cass_Exec_Profile Cass_Uuid
begin

text \<open>
  \<open>cluster.rs\<close>: the configuration of a cluster, its setters, the host filter and the session builder
  made from it.

  The session builder of the Rust driver is a record of what is set on it.  Its initial settings, the
  range of ephemeral ports, which port ranges it accepts, the text of a UUID, the parser of addresses
  and the random order of contact points are arguments.  Callbacks, their data and SSL contexts are
  addresses.
\<close>

subsection \<open>Configuration\<close>

datatype PoolSize = PerHost nat | PerShard nat

datatype WriteCoalescingDelay = SmallNondeterministic | Milliseconds nat

datatype Compression = Lz4 | Snappy

datatype ReconnectPolicy =
    Reconnect_Driver_Default
  | Reconnect_Constant Duration
  | Reconnect_Exponential Duration Duration

record SelfIdentity =
  custom_driver_name :: string
  custom_driver_version :: string
  application_name :: "string option"
  application_version :: "string option"
  identity_client_id :: "string option"

record SessionConfig =
  sc_identity :: SelfIdentity
  sc_fetch_schema_metadata :: bool
  sc_schema_agreement_timeout :: Duration
  sc_schema_agreement_interval :: Duration
  sc_tcp_nodelay :: bool
  sc_tcp_keepalive_interval :: "Duration option"
  sc_connect_timeout :: Duration
  sc_connection_pool_size :: PoolSize
  sc_enable_write_coalescing :: bool
  sc_write_coalescing_delay :: WriteCoalescingDelay
  sc_keepalive_interval :: "Duration option"
  sc_keepalive_timeout :: "Duration option"
  sc_local_ip_address :: "IpAddr option"
  sc_shard_aware_local_port_range :: "nat \<times> nat"
  sc_timestamp_generator :: "warning_settings option"
  sc_hostname_resolution_timeout :: "Duration option"
  sc_tls_context :: "nat option"
  sc_compression :: "Compression option"
  sc_reconnect_policy :: ReconnectPolicy
  sc_metadata_request_serverside_timeout :: "Duration option"
  sc_host_listener :: "(nat \<times> nat) option"
  sc_known_nodes :: "string list"
  sc_user :: "(string \<times> string) option"
  sc_default_execution_profile :: "ExecutionProfile option"

record CassCluster =
  num_threads_io :: "nat option"
  session_builder :: SessionConfig
  default_execution_profile_builder :: ExecutionProfileBuilder
  execution_profile_map :: "(string \<times> CassExecProfile) list"
  contact_points :: "string list"
  port :: u16
  load_balancing_config :: LoadBalancingConfig
  use_beta_protocol_version :: bool
  auth_username :: "string option"
  auth_password :: "string option"
  client_id :: "u128 option"
  shuffle_contact_points :: bool

definition Duration_from_secs :: "u64 \<Rightarrow> Duration" where
  "Duration_from_secs s = unat s * 1000000000"

definition DRIVER_NAME :: string where
  "DRIVER_NAME = ''ScyllaDB CPP RS Driver''"

text \<open>
  \<open>cass_cluster_new\<close> with the constants of the source written in: \<open>version\<close> is the version of the
  package, \<open>ephemeral\<close> the range of ephemeral ports and \<open>new_builder\<close> a fresh session builder.
\<close>

definition cass_cluster_new ::
    "string \<Rightarrow> nat \<times> nat \<Rightarrow> SessionConfig \<Rightarrow> CassCluster c_ptr" where
  "cass_cluster_new version ephemeral new_builder =
     Some \<lparr>num_threads_io = None,
       session_builder = new_builder
         \<lparr>sc_identity := \<lparr>custom_driver_name = DRIVER_NAME, custom_driver_version = version,
            application_name = None, application_version = None, identity_client_id = None\<rparr>,
          sc_fetch_schema_metadata := True,
          sc_schema_agreement_timeout := Duration_from_millis 10000,
          sc_schema_agreement_interval := Duration_from_millis 200,
          sc_tcp_nodelay := True,
          sc_tcp_keepalive_interval := Some (Duration_from_secs 2),
          sc_connect_timeout := Duration_from_millis 5000,
          sc_connection_pool_size := PerShard 1,
          sc_enable_write_coalescing := True,
          sc_write_coalescing_delay := SmallNondeterministic,
          sc_keepalive_interval := Some (Duration_from_secs 30),
          sc_keepalive_timeout := Some (Duration_from_secs 60),
          sc_local_ip_address := None,
          sc_shard_aware_local_port_range := ephemeral,
          sc_timestamp_generator := Some Warn_Default,
          sc_hostname_resolution_timeout := Some (Duration_from_millis 2000)\<rparr>,
       default_execution_profile_builder = ExecutionProfileBuilder_default
         \<lparr>pb_consistency := Some DEFAULT_CONSISTENCY,
          pb_serial_consistency := Some (Some SerialConsistency_LocalSerial),
          pb_request_timeout := Some (Some (Duration_from_millis 12000)),
          pb_retry_policy := Some RP_Default,
          pb_speculative_execution_policy := Some None\<rparr>,
       execution_profile_map = [],
       contact_points = [],
       port = 9042,
       load_balancing_config = LoadBalancingConfig_default,
       use_beta_protocol_version = False,
       auth_username = None,
       auth_password = None,
       client_id = None,
       shuffle_contact_points = True\<rparr>"

subsection \<open>Host filter and session builder\<close>

definition build_host_filter :: "CassCluster \<Rightarrow> FilteringInfo" where
  "build_host_filter self =
     new_from_lbp_configs (load_balancing_config self #
       filter (\<lambda>c. load_balancing_kind c \<noteq> None)
         (map (ep_load_balancing_config \<circ> snd) (execution_profile_map self)))"

fun decimal :: "nat \<Rightarrow> string" where
  "decimal n = (if n < 10 then [char_of (48 + n)] else decimal (n div 10) @ [char_of (48 + n mod 10)])"

declare decimal.simps [simp del]

definition build_session_builder ::
    "(string list \<Rightarrow> string list) \<Rightarrow> ExecutionProfile \<Rightarrow> CassCluster \<Rightarrow> SessionConfig" where
  "build_session_builder shuffle driver self =
     (let known_nodes = map (\<lambda>cp. cp @ CHR '':'' # decimal (unat (port self))) (contact_points self);
          b1 = session_builder self;
          b2 = b1\<lparr>sc_known_nodes := sc_known_nodes b1 @
                 (if shuffle_contact_points self then shuffle known_nodes else known_nodes)\<rparr>;
          b3 = (case (auth_username self, auth_password self) of
                  (Some username, Some password) \<Rightarrow> b2\<lparr>sc_user := Some (username, password)\<rparr>
                | _ \<Rightarrow> b2);
          load_balancing = LoadBalancingConfig_build (load_balancing_config self);
          profile = ExecutionProfileBuilder_build driver
            ((default_execution_profile_builder self)
               \<lparr>pb_load_balancing_policy := Some (Policy_Filtering load_balancing)\<rparr>)
      in b3\<lparr>sc_default_execution_profile := Some profile\<rparr>)"

subsection \<open>Setters of the session builder\<close>

definition on_builder :: "(SessionConfig \<Rightarrow> SessionConfig) \<Rightarrow> CassCluster \<Rightarrow> CassCluster" where
  "on_builder f c = c\<lparr>session_builder := f (session_builder c)\<rparr>"

definition on_identity :: "(SelfIdentity \<Rightarrow> SelfIdentity) \<Rightarrow> CassCluster \<Rightarrow> CassCluster" where
  "on_identity f = on_builder (\<lambda>b. b\<lparr>sc_identity := f (sc_identity b)\<rparr>)"

definition on_profile_builder ::
    "(ExecutionProfileBuilder \<Rightarrow> ExecutionProfileBuilder) \<Rightarrow> CassCluster \<Rightarrow> CassCluster" where
  "on_profile_builder f c = c\<lparr>default_execution_profile_builder := f (default_execution_profile_builder c)\<rparr>"

definition on_cluster_lb ::
    "(LoadBalancingConfig \<Rightarrow> LoadBalancingConfig) \<Rightarrow> CassCluster \<Rightarrow> CassCluster" where
  "on_cluster_lb f c = c\<lparr>load_balancing_config := f (load_balancing_config c)\<rparr>"

definition cass_cluster_set_contact_points_n ::
    "CassCluster c_ptr \<Rightarrow> c_chars \<Rightarrow> nat \<Rightarrow> CassError \<times> CassCluster c_ptr" where
  "cass_cluster_set_contact_points_n cluster points points_length =
     on_ptr cluster (\<lambda>cluster.
       case update_comma_delimited_list (contact_points cluster) points points_length nonempty_item of
         Inr xs \<Rightarrow> (CASS_OK, cluster\<lparr>contact_points := xs\<rparr>)
       | Inl err \<Rightarrow> (err, cluster))"

definition cass_cluster_set_contact_points ::
    "CassCluster c_ptr \<Rightarrow> c_chars \<Rightarrow> CassError \<times> CassCluster c_ptr" where
  "cass_cluster_set_contact_points cluster points =
     (let (points, points_length) = as_len_delimited points
      in cass_cluster_set_contact_points_n cluster points points_length)"

definition cass_cluster_set_application_name_n ::
    "CassCluster c_ptr \<Rightarrow> c_chars \<Rightarrow> nat \<Rightarrow> CassCluster c_ptr" where
  "cass_cluster_set_application_name_n cluster app_name app_name_len =
     on_ptr_void cluster (\<lambda>cluster.
       case CassStrLenDelimited_to_str app_name app_name_len of
         Inr s \<Rightarrow> on_identity (\<lambda>i. i\<lparr>application_name := Some s\<rparr>) cluster
       | Inl _ \<Rightarrow> cluster)"

definition cass_cluster_set_application_name ::
    "CassCluster c_ptr \<Rightarrow> c_chars \<Rightarrow> CassCluster c_ptr" where
  "cass_cluster_set_application_name cluster app_name =
     (let (app_name, app_name_len) = as_len_delimited app_name
      in cass_cluster_set_application_name_n cluster app_name app_name_len)"

definition cass_cluster_set_application_version_n ::
    "CassCluster c_ptr \<Rightarrow> c_chars \<Rightarrow> nat \<Rightarrow> CassCluster c_ptr" where
  "cass_cluster_set_application_version_n cluster app_version app_version_len =
     on_ptr_void cluster (\<lambda>cluster.
       case CassStrLenDelimited_to_str app_version app_version_len of
         Inr s \<Rightarrow> on_identity (\<lambda>i. i\<lparr>application_version := Some s\<rparr>) cluster
       | Inl _ \<Rightarrow> cluster)"

definition cass_cluster_set_application_version ::
    "CassCluster c_ptr \<Rightarrow> c_chars \<Rightarrow> CassCluster c_ptr" where
  "cass_cluster_set_application_version cluster app_version =
     (let (app_version, app_version_len) = as_len_delimited app_version
      in cass_cluster_set_application_version_n cluster app_version app_version_len)"

definition cass_cluster_set_client_id ::
    "(u128 \<Rightarrow> string) \<Rightarrow> CassCluster c_ptr \<Rightarrow> CassUuid \<Rightarrow> CassCluster c_ptr" where
  "cass_cluster_set_client_id uuid_to_string cluster cid =
     on_ptr_void cluster (\<lambda>cluster.
       let client_uuid = Uuid_from cid
       in on_identity (\<lambda>i. i\<lparr>identity_client_id := Some (uuid_to_string client_uuid)\<rparr>)
            (cluster\<lparr>client_id := Some client_uuid\<rparr>))"

definition cass_cluster_set_use_schema :: "CassCluster c_ptr \<Rightarrow> u32 \<Rightarrow> CassCluster c_ptr" where
  "cass_cluster_set_use_schema cluster enabled =
     on_ptr_void cluster (on_builder (\<lambda>b. b\<lparr>sc_fetch_schema_metadata := (enabled \<noteq> 0)\<rparr>))"

definition cass_cluster_set_use_randomized_contact_points ::
    "CassCluster c_ptr \<Rightarrow> u32 \<Rightarrow> CassError \<times> CassCluster c_ptr" where
  "cass_cluster_set_use_randomized_contact_points cluster enabled =
     on_ptr cluster (\<lambda>cluster. (CASS_OK, cluster\<lparr>shuffle_contact_points := (enabled = 1)\<rparr>))"

definition cass_cluster_set_tcp_nodelay :: "CassCluster c_ptr \<Rightarrow> u32 \<Rightarrow> CassCluster c_ptr" where
  "cass_cluster_set_tcp_nodelay cluster enabled =
     on_ptr_void cluster (on_builder (\<lambda>b. b\<lparr>sc_tcp_nodelay := (enabled \<noteq> 0)\<rparr>))"

definition cass_cluster_set_tcp_keepalive :: "CassCluster c_ptr \<Rightarrow> u32 \<Rightarrow> u32 \<Rightarrow> CassCluster c_ptr" where
  "cass_cluster_set_tcp_keepalive cluster enabled delay_secs =
     on_ptr_void cluster (on_builder (\<lambda>b. b\<lparr>sc_tcp_keepalive_interval :=
       then_some (enabled \<noteq> 0) (Duration_from_secs (ucast delay_secs))\<rparr>))"

definition cass_cluster_set_timestamp_gen ::
    "CassCluster c_ptr \<Rightarrow> CassTimestampGen c_ptr \<Rightarrow> CassCluster c_ptr" where
  "cass_cluster_set_timestamp_gen cluster timestamp_gen =
     on_ptr_void cluster (\<lambda>cluster.
       case timestamp_gen of
         None \<Rightarrow> cluster
       | Some TG_ServerSide \<Rightarrow> on_builder (\<lambda>b. b\<lparr>sc_timestamp_generator := None\<rparr>) cluster
       | Some (TG_Monotonic g) \<Rightarrow> on_builder (\<lambda>b. b\<lparr>sc_timestamp_generator := Some g\<rparr>) cluster)"

definition cass_cluster_set_connection_heartbeat_interval ::
    "CassCluster c_ptr \<Rightarrow> u32 \<Rightarrow> CassCluster c_ptr" where
  "cass_cluster_set_connection_heartbeat_interval cluster interval_secs =
     on_ptr_void cluster (on_builder (\<lambda>b. b\<lparr>sc_keepalive_interval :=
       then_some (interval_secs > 0) (Duration_from_secs (ucast interval_secs))\<rparr>))"

definition cass_cluster_set_connection_idle_timeout ::
    "CassCluster c_ptr \<Rightarrow> u32 \<Rightarrow> CassCluster c_ptr" where
  "cass_cluster_set_connection_idle_timeout cluster timeout_secs =
     on_ptr_void cluster (on_builder (\<lambda>b. b\<lparr>sc_keepalive_timeout :=
       then_some (timeout_secs > 0) (Duration_from_secs (ucast timeout_secs))\<rparr>))"

definition cass_cluster_set_connect_timeout :: "CassCluster c_ptr \<Rightarrow> u32 \<Rightarrow> CassCluster c_ptr" where
  "cass_cluster_set_connect_timeout cluster timeout_ms =
     on_ptr_void cluster (on_builder (\<lambda>b.
       b\<lparr>sc_connect_timeout := Duration_from_millis (ucast timeout_ms)\<rparr>))"

definition cass_cluster_set_core_connections_per_host ::
    "CassCluster c_ptr \<Rightarrow> u32 \<Rightarrow> CassError \<times> CassCluster c_ptr" where
  "cass_cluster_set_core_connections_per_host cluster num_connections =
     on_ptr cluster (\<lambda>cluster.
       if num_connections \<noteq> 0
       then (CASS_OK, on_builder (\<lambda>b. b\<lparr>sc_connection_pool_size := PerHost (unat num_connections)\<rparr>) cluster)
       else (CASS_ERROR_LIB_BAD_PARAMS, cluster))"

definition cass_cluster_set_core_connections_per_shard ::
    "CassCluster c_ptr \<Rightarrow> u32 \<Rightarrow> CassError \<times> CassCluster c_ptr" where
  "cass_cluster_set_core_connections_per_shard cluster num_connections =
     on_ptr cluster (\<lambda>cluster.
       if num_connections \<noteq> 0
       then (CASS_OK, on_builder (\<lambda>b. b\<lparr>sc_connection_pool_size := PerShard (unat num_connections)\<rparr>) cluster)
       else (CASS_ERROR_LIB_BAD_PARAMS, cluster))"

definition cass_cluster_set_coalesce_delay ::
    "CassCluster c_ptr \<Rightarrow> u64 \<Rightarrow> CassError \<times> CassCluster c_ptr" where
  "cass_cluster_set_coalesce_delay cluster delay_us =
     on_ptr cluster (\<lambda>cluster.
       if sint delay_us < 0 then (CASS_ERROR_LIB_BAD_PARAMS, cluster)
       else if sint delay_us = 0
         then (CASS_OK, on_builder (\<lambda>b. b\<lparr>sc_enable_write_coalescing := False\<rparr>) cluster)
       else
         (let ms = nat (sint delay_us div 1000);
              d = (if ms \<noteq> 0 then Milliseconds ms else SmallNondeterministic)
          in (CASS_OK, on_builder (\<lambda>b. b\<lparr>sc_enable_write_coalescing := True,
                                          sc_write_coalescing_delay := d\<rparr>) cluster)))"

definition cass_cluster_set_request_timeout :: "CassCluster c_ptr \<Rightarrow> u32 \<Rightarrow> CassCluster c_ptr" where
  "cass_cluster_set_request_timeout cluster timeout_ms =
     on_ptr_void cluster (on_profile_builder (\<lambda>b. b\<lparr>pb_request_timeout :=
       Some (then_some (timeout_ms > 0) (Duration_from_millis (ucast timeout_ms)))\<rparr>))"

definition cass_cluster_set_resolve_timeout :: "CassCluster c_ptr \<Rightarrow> u32 \<Rightarrow> CassCluster c_ptr" where
  "cass_cluster_set_resolve_timeout cluster timeout_ms =
     on_ptr_void cluster (on_builder (\<lambda>b. b\<lparr>sc_hostname_resolution_timeout :=
       then_some (timeout_ms > 0) (Duration_from_millis (ucast timeout_ms))\<rparr>))"

definition cass_cluster_set_max_schema_wait_time :: "CassCluster c_ptr \<Rightarrow> u32 \<Rightarrow> CassCluster c_ptr" where
  "cass_cluster_set_max_schema_wait_time cluster wait_time_ms =
     on_ptr_void cluster (on_builder (\<lambda>b.
       b\<lparr>sc_schema_agreement_timeout := Duration_from_millis (ucast wait_time_ms)\<rparr>))"

definition cass_cluster_set_schema_agreement_interval ::
    "CassCluster c_ptr \<Rightarrow> u32 \<Rightarrow> CassCluster c_ptr" where
  "cass_cluster_set_schema_agreement_interval cluster interval_ms =
     on_ptr_void cluster (on_builder (\<lambda>b.
       b\<lparr>sc_schema_agreement_interval := Duration_from_millis (ucast interval_ms)\<rparr>))"

text \<open>\<open>u16::try_from\<close> of an \<open>i32\<close>.\<close>

definition u16_try_from :: "int \<Rightarrow> u16 option" where
  "u16_try_from n = then_some (0 \<le> n \<and> n \<le> 65535) (word_of_int n)"

definition cass_cluster_set_port :: "CassCluster c_ptr \<Rightarrow> u32 \<Rightarrow> CassError \<times> CassCluster c_ptr" where
  "cass_cluster_set_port cluster port' =
     on_ptr cluster (\<lambda>cluster.
       case u16_try_from (sint port') of
         None \<Rightarrow> (CASS_ERROR_LIB_BAD_PARAMS, cluster)
       | Some p \<Rightarrow> (CASS_OK, cluster\<lparr>port := p\<rparr>))"

definition cass_cluster_set_local_address_n ::
    "(string \<Rightarrow> IpAddr option) \<Rightarrow> CassCluster c_ptr \<Rightarrow> c_chars \<Rightarrow> nat \<Rightarrow> CassError \<times> CassCluster c_ptr" where
  "cass_cluster_set_local_address_n from_str cluster ip ip_length =
     on_ptr cluster (\<lambda>cluster.
       let set_addr = (\<lambda>a. (CASS_OK, on_builder (\<lambda>b. b\<lparr>sc_local_ip_address := a\<rparr>) cluster)) in
       if ip_length = 0 then set_addr None
       else case CassStrLenDelimited_to_str ip ip_length of
              Inr ip_str \<Rightarrow>
                (case from_str ip_str of
                   Some addr \<Rightarrow> set_addr (Some addr)
                 | None \<Rightarrow> (CASS_ERROR_LIB_BAD_PARAMS, cluster))
            | Inl NullPointer \<Rightarrow> set_addr None
            | Inl InvalidUtf8 \<Rightarrow> (CASS_ERROR_LIB_BAD_PARAMS, cluster))"

definition cass_cluster_set_local_address ::
    "(string \<Rightarrow> IpAddr option) \<Rightarrow> CassCluster c_ptr \<Rightarrow> c_chars \<Rightarrow> CassError \<times> CassCluster c_ptr" where
  "cass_cluster_set_local_address from_str cluster ip =
     (let (ip, ip_length) = as_len_delimited ip
      in cass_cluster_set_local_address_n from_str cluster ip ip_length)"

text \<open>\<open>accepts\<close> is the validation in \<open>ShardAwarePortRange::new\<close>, with both ends included.\<close>

definition compute_range_from_raw :: "(nat \<Rightarrow> nat \<Rightarrow> bool) \<Rightarrow> u32 \<Rightarrow> u32 \<Rightarrow> (nat \<times> nat) option" where
  "compute_range_from_raw accepts lo hi =
     do { start \<leftarrow> u16_try_from (sint lo);
          end' \<leftarrow> (if sint hi = - (2 ^ 31) then None else u16_try_from (sint hi - 1));
          then_some (accepts (unat start) (unat end')) (unat start, unat end') }"

definition cass_cluster_set_local_port_range ::
    "(nat \<Rightarrow> nat \<Rightarrow> bool) \<Rightarrow> CassCluster c_ptr \<Rightarrow> u32 \<Rightarrow> u32 \<Rightarrow> CassError \<times> CassCluster c_ptr" where
  "cass_cluster_set_local_port_range accepts cluster lo hi =
     on_ptr cluster (\<lambda>cluster.
       case compute_range_from_raw accepts lo hi of
         None \<Rightarrow> (CASS_ERROR_LIB_BAD_PARAMS, cluster)
       | Some r \<Rightarrow> (CASS_OK, on_builder (\<lambda>b. b\<lparr>sc_shard_aware_local_port_range := r\<rparr>) cluster))"

definition cass_cluster_set_credentials_n ::
    "CassCluster c_ptr \<Rightarrow> c_chars \<Rightarrow> nat \<Rightarrow> c_chars \<Rightarrow> nat \<Rightarrow> CassCluster c_ptr" where
  "cass_cluster_set_credentials_n cluster username_raw username_length password_raw password_length =
     on_ptr_void cluster (\<lambda>cluster.
       case CassStrLenDelimited_to_str username_raw username_length of
         Inl _ \<Rightarrow> cluster
       | Inr username \<Rightarrow>
           (case CassStrLenDelimited_to_str password_raw password_length of
              Inl _ \<Rightarrow> cluster
            | Inr password \<Rightarrow>
                cluster\<lparr>auth_username := Some username, auth_password := Some password\<rparr>))"

definition cass_cluster_set_credentials ::
    "CassCluster c_ptr \<Rightarrow> c_chars \<Rightarrow> c_chars \<Rightarrow> CassCluster c_ptr" where
  "cass_cluster_set_credentials cluster username password =
     (let (username, username_length) = as_len_delimited username;
          (password, password_length) = as_len_delimited password
      in cass_cluster_set_credentials_n cluster username username_length password password_length)"

subsection \<open>Setters of load balancing\<close>

definition cass_cluster_set_load_balance_round_robin :: "CassCluster c_ptr \<Rightarrow> CassCluster c_ptr" where
  "cass_cluster_set_load_balance_round_robin cluster =
     on_ptr_void cluster (on_cluster_lb (\<lambda>c. c\<lparr>load_balancing_kind := Some LB_RoundRobin\<rparr>))"

definition cass_cluster_set_load_balance_dc_aware_n ::
    "CassCluster c_ptr \<Rightarrow> c_chars \<Rightarrow> nat \<Rightarrow> u32 \<Rightarrow> u32 \<Rightarrow> CassError \<times> CassCluster c_ptr" where
  "cass_cluster_set_load_balance_dc_aware_n cluster local_dc_raw local_dc_length
       used_hosts_per_remote_dc allow_remote_dcs_for_local_cl =
     on_ptr cluster (\<lambda>cluster.
       let (err, c) = set_load_balance_dc_aware_n (load_balancing_config cluster) local_dc_raw
             local_dc_length used_hosts_per_remote_dc allow_remote_dcs_for_local_cl
       in (err, cluster\<lparr>load_balancing_config := c\<rparr>))"

definition cass_cluster_set_load_balance_dc_aware ::
    "CassCluster c_ptr \<Rightarrow> c_chars \<Rightarrow> u32 \<Rightarrow> u32 \<Rightarrow> CassError \<times> CassCluster c_ptr" where
  "cass_cluster_set_load_balance_dc_aware cluster local_dc used_hosts_per_remote_dc
       allow_remote_dcs_for_local_cl =
     (let (local_dc, local_dc_length) = as_len_delimited local_dc
      in cass_cluster_set_load_balance_dc_aware_n cluster local_dc local_dc_length
           used_hosts_per_remote_dc allow_remote_dcs_for_local_cl)"

definition cass_cluster_set_load_balance_rack_aware_n ::
    "CassCluster c_ptr \<Rightarrow> c_chars \<Rightarrow> nat \<Rightarrow> c_chars \<Rightarrow> nat \<Rightarrow> CassError \<times> CassCluster c_ptr" where
  "cass_cluster_set_load_balance_rack_aware_n cluster local_dc_raw local_dc_length local_rack_raw
       local_rack_length =
     on_ptr cluster (\<lambda>cluster.
       let (err, c) = set_load_balance_rack_aware_n (load_balancing_config cluster) local_dc_raw
             local_dc_length local_rack_raw local_rack_length
       in (err, cluster\<lparr>load_balancing_config := c\<rparr>))"

definition cass_cluster_set_load_balance_rack_aware ::
    "CassCluster c_ptr \<Rightarrow> c_chars \<Rightarrow> c_chars \<Rightarrow> CassError \<times> CassCluster c_ptr" where
  "cass_cluster_set_load_balance_rack_aware cluster local_dc_raw local_rack_raw =
     (let (local_dc, local_dc_length) = as_len_delimited local_dc_raw;
          (local_rack, local_rack_length) = as_len_delimited local_rack_raw
      in cass_cluster_set_load_balance_rack_aware_n cluster local_dc local_dc_length local_rack
           local_rack_length)"

definition cass_cluster_set_token_aware_routing :: "CassCluster c_ptr \<Rightarrow> u32 \<Rightarrow> CassCluster c_ptr" where
  "cass_cluster_set_token_aware_routing cluster enabled =
     on_ptr_void cluster (on_cluster_lb (\<lambda>c. c\<lparr>token_awareness_enabled := (enabled \<noteq> 0)\<rparr>))"

definition cass_cluster_set_token_aware_routing_shuffle_replicas ::
    "CassCluster c_ptr \<Rightarrow> u32 \<Rightarrow> CassCluster c_ptr" where
  "cass_cluster_set_token_aware_routing_shuffle_replicas cluster enabled =
     on_ptr_void cluster (on_cluster_lb (\<lambda>c.
       c\<lparr>token_aware_shuffling_replicas_enabled := (enabled \<noteq> 0)\<rparr>))"

definition cass_cluster_set_latency_aware_routing :: "CassCluster c_ptr \<Rightarrow> u32 \<Rightarrow> CassCluster c_ptr" where
  "cass_cluster_set_latency_aware_routing cluster enabled =
     on_ptr_void cluster (on_cluster_lb (\<lambda>c. c\<lparr>latency_awareness_enabled := (enabled \<noteq> 0)\<rparr>))"

definition cass_cluster_set_latency_aware_routing_settings ::
    "CassCluster c_ptr \<Rightarrow> u64 \<Rightarrow> u64 \<Rightarrow> u64 \<Rightarrow> u64 \<Rightarrow> u64 \<Rightarrow> CassCluster c_ptr" where
  "cass_cluster_set_latency_aware_routing_settings cluster exclusion_threshold scale_ms
       retry_period_ms update_rate_ms min_measured =
     on_ptr_void cluster (on_cluster_lb (\<lambda>c. c\<lparr>latency_awareness_builder := LatencyAwarenessBuilder_new
       \<lparr>la_exclusion_threshold := Some exclusion_threshold,
        la_scale := Some (Duration_from_millis scale_ms),
        la_retry_period := Some (Duration_from_millis retry_period_ms),
        la_update_rate := Some (Duration_from_millis update_rate_ms),
        la_minimum_measurements := Some min_measured\<rparr>\<rparr>))"

text \<open>The lists of the cluster: the result of reading the string is ignored.\<close>

definition cluster_list ::
    "(FilteringConfig \<Rightarrow> 't list) \<Rightarrow> ('t list \<Rightarrow> FilteringConfig \<Rightarrow> FilteringConfig) \<Rightarrow>
     (string \<Rightarrow> 't option) \<Rightarrow> c_chars \<Rightarrow> nat \<Rightarrow> CassCluster c_ptr \<Rightarrow> CassCluster c_ptr" where
  "cluster_list get put conv items len cluster =
     on_ptr_void cluster (on_cluster_lb (\<lambda>c. snd (update_lb_list get put conv items len c)))"

definition cass_cluster_set_whitelist_filtering_n ::
    "(string \<Rightarrow> IpAddr option) \<Rightarrow> CassCluster c_ptr \<Rightarrow> c_chars \<Rightarrow> nat \<Rightarrow> CassCluster c_ptr" where
  "cass_cluster_set_whitelist_filtering_n from_str cluster hosts hosts_size =
     cluster_list whitelist_hosts (\<lambda>xs f. f\<lparr>whitelist_hosts := xs\<rparr>) from_str hosts hosts_size cluster"

definition cass_cluster_set_whitelist_filtering ::
    "(string \<Rightarrow> IpAddr option) \<Rightarrow> CassCluster c_ptr \<Rightarrow> c_chars \<Rightarrow> CassCluster c_ptr" where
  "cass_cluster_set_whitelist_filtering from_str cluster hosts =
     (let (hosts, hosts_size) = as_len_delimited hosts
      in cass_cluster_set_whitelist_filtering_n from_str cluster hosts hosts_size)"

definition cass_cluster_set_blacklist_filtering_n ::
    "(string \<Rightarrow> IpAddr option) \<Rightarrow> CassCluster c_ptr \<Rightarrow> c_chars \<Rightarrow> nat \<Rightarrow> CassCluster c_ptr" where
  "cass_cluster_set_blacklist_filtering_n from_str cluster hosts hosts_size =
     cluster_list blacklist_hosts (\<lambda>xs f. f\<lparr>blacklist_hosts := xs\<rparr>) from_str hosts hosts_size cluster"

definition cass_cluster_set_blacklist_filtering ::
    "(string \<Rightarrow> IpAddr option) \<Rightarrow> CassCluster c_ptr \<Rightarrow> c_chars \<Rightarrow> CassCluster c_ptr" where
  "cass_cluster_set_blacklist_filtering from_str cluster hosts =
     (let (hosts, hosts_size) = as_len_delimited hosts
      in cass_cluster_set_blacklist_filtering_n from_str cluster hosts hosts_size)"

definition cass_cluster_set_whitelist_dc_filtering_n ::
    "CassCluster c_ptr \<Rightarrow> c_chars \<Rightarrow> nat \<Rightarrow> CassCluster c_ptr" where
  "cass_cluster_set_whitelist_dc_filtering_n cluster dcs dcs_size =
     cluster_list whitelist_dc (\<lambda>xs f. f\<lparr>whitelist_dc := xs\<rparr>) nonempty_item dcs dcs_size cluster"

definition cass_cluster_set_whitelist_dc_filtering ::
    "CassCluster c_ptr \<Rightarrow> c_chars \<Rightarrow> CassCluster c_ptr" where
  "cass_cluster_set_whitelist_dc_filtering cluster dcs =
     (let (dcs, dcs_size) = as_len_delimited dcs
      in cass_cluster_set_whitelist_dc_filtering_n cluster dcs dcs_size)"

definition cass_cluster_set_blacklist_dc_filtering_n ::
    "CassCluster c_ptr \<Rightarrow> c_chars \<Rightarrow> nat \<Rightarrow> CassCluster c_ptr" where
  "cass_cluster_set_blacklist_dc_filtering_n cluster dcs dcs_size =
     cluster_list blacklist_dc (\<lambda>xs f. f\<lparr>blacklist_dc := xs\<rparr>) nonempty_item dcs dcs_size cluster"

definition cass_cluster_set_blacklist_dc_filtering ::
    "CassCluster c_ptr \<Rightarrow> c_chars \<Rightarrow> CassCluster c_ptr" where
  "cass_cluster_set_blacklist_dc_filtering cluster dcs =
     (let (dcs, dcs_size) = as_len_delimited dcs
      in cass_cluster_set_blacklist_dc_filtering_n cluster dcs dcs_size)"

subsection \<open>Other setters\<close>

definition cass_cluster_set_use_beta_protocol_version ::
    "CassCluster c_ptr \<Rightarrow> u32 \<Rightarrow> CassError \<times> CassCluster c_ptr" where
  "cass_cluster_set_use_beta_protocol_version cluster enable =
     on_ptr cluster (\<lambda>cluster. (CASS_OK, cluster\<lparr>use_beta_protocol_version := (enable = 1)\<rparr>))"

definition cass_cluster_set_protocol_version ::
    "CassCluster c_ptr \<Rightarrow> u32 \<Rightarrow> CassError \<times> CassCluster c_ptr" where
  "cass_cluster_set_protocol_version cluster protocol_version =
     on_ptr cluster (\<lambda>cluster.
       if protocol_version = 4 \<and> \<not> use_beta_protocol_version cluster
       then (CASS_OK, cluster) else (CASS_ERROR_LIB_BAD_PARAMS, cluster))"

definition cass_cluster_set_constant_speculative_execution_policy ::
    "CassCluster c_ptr \<Rightarrow> u64 \<Rightarrow> u32 \<Rightarrow> CassError \<times> CassCluster c_ptr" where
  "cass_cluster_set_constant_speculative_execution_policy cluster constant_delay_ms
       max_speculative_executions =
     on_ptr cluster (\<lambda>cluster.
       if sint constant_delay_ms < 0 \<or> sint max_speculative_executions < 0
       then (CASS_ERROR_LIB_BAD_PARAMS, cluster)
       else
         (let policy = \<lparr>max_retry_count = unat max_speculative_executions,
                        retry_interval = Duration_from_millis constant_delay_ms\<rparr>
          in (CASS_OK, on_profile_builder
                (\<lambda>b. b\<lparr>pb_speculative_execution_policy := Some (Some policy)\<rparr>) cluster)))"

definition cass_cluster_set_no_speculative_execution_policy ::
    "CassCluster c_ptr \<Rightarrow> CassError \<times> CassCluster c_ptr" where
  "cass_cluster_set_no_speculative_execution_policy cluster =
     on_ptr cluster (\<lambda>cluster.
       (CASS_OK, on_profile_builder (\<lambda>b. b\<lparr>pb_speculative_execution_policy := Some None\<rparr>) cluster))"

definition cass_cluster_set_retry_policy ::
    "CassCluster c_ptr \<Rightarrow> CassRetryPolicy c_ptr \<Rightarrow> CassCluster c_ptr panics" where
  "cass_cluster_set_retry_policy cluster cass_retry_policy =
     (case cluster of
        None \<Rightarrow> Some None
      | Some cluster \<Rightarrow>
          do { r \<leftarrow> from_c_value RetryPolicy_is_unset RetryPolicy_from_set_c_value cass_retry_policy;
               Some (Some (case r of
                 Inr (Cfg_Set retry_policy) \<Rightarrow>
                   on_profile_builder (\<lambda>b. b\<lparr>pb_retry_policy := Some retry_policy\<rparr>) cluster
               | _ \<Rightarrow> cluster)) })"

definition cass_cluster_set_ssl :: "CassCluster c_ptr \<Rightarrow> nat c_ptr \<Rightarrow> CassCluster c_ptr" where
  "cass_cluster_set_ssl cluster ssl =
     on_ptr_void cluster (\<lambda>cluster.
       case ssl of
         None \<Rightarrow> cluster
       | Some ssl_context \<Rightarrow> on_builder (\<lambda>b. b\<lparr>sc_tls_context := Some ssl_context\<rparr>) cluster)"

abbreviation CASS_COMPRESSION_LZ4 :: u32 where
  "CASS_COMPRESSION_LZ4 \<equiv> 0"

abbreviation CASS_COMPRESSION_SNAPPY :: u32 where
  "CASS_COMPRESSION_SNAPPY \<equiv> 1"

definition cass_cluster_set_compression :: "CassCluster c_ptr \<Rightarrow> u32 \<Rightarrow> CassCluster c_ptr" where
  "cass_cluster_set_compression cluster compression_type =
     on_ptr_void cluster (on_builder (\<lambda>b. b\<lparr>sc_compression :=
       (if compression_type = CASS_COMPRESSION_LZ4 then Some Lz4
        else if compression_type = CASS_COMPRESSION_SNAPPY then Some Snappy
        else None)\<rparr>))"

definition cass_cluster_set_consistency ::
    "CassCluster c_ptr \<Rightarrow> CassConsistency \<Rightarrow> (CassError \<times> CassCluster c_ptr) panics" where
  "cass_cluster_set_consistency cluster consistency =
     on_ptr_p cluster (\<lambda>cluster.
       do { r \<leftarrow> from_c_value Consistency_is_unset Consistency_from_set_c_value consistency;
            case r of
              Inr (Cfg_Set consistency) \<Rightarrow>
                Some (CASS_OK, on_profile_builder (\<lambda>b. b\<lparr>pb_consistency := Some consistency\<rparr>) cluster)
            | _ \<Rightarrow> Some (CASS_ERROR_LIB_BAD_PARAMS, cluster) })"

definition cass_cluster_set_serial_consistency ::
    "CassCluster c_ptr \<Rightarrow> CassConsistency \<Rightarrow> (CassError \<times> CassCluster c_ptr) panics" where
  "cass_cluster_set_serial_consistency cluster serial_consistency =
     on_ptr_p cluster (\<lambda>cluster.
       do { r \<leftarrow> from_c_value SerialConsistency_is_unset SerialConsistency_from_set_c_value
                   serial_consistency;
            case r of
              Inr (Cfg_Set serial_consistency) \<Rightarrow>
                Some (CASS_OK, on_profile_builder
                  (\<lambda>b. b\<lparr>pb_serial_consistency := Some serial_consistency\<rparr>) cluster)
            | _ \<Rightarrow> Some (CASS_ERROR_LIB_BAD_PARAMS, cluster) })"

definition cass_cluster_set_execution_profile_n ::
    "CassCluster c_ptr \<Rightarrow> c_chars \<Rightarrow> nat \<Rightarrow> CassExecProfile c_ptr \<Rightarrow> CassError \<times> CassCluster c_ptr" where
  "cass_cluster_set_execution_profile_n cluster name name_length profile =
     on_ptr cluster (\<lambda>cluster.
       case profile of
         None \<Rightarrow> (CASS_ERROR_LIB_BAD_PARAMS, cluster)
       | Some profile \<Rightarrow>
           (case CassStrLenDelimited_to_str name name_length of
              Inl _ \<Rightarrow> (CASS_ERROR_LIB_BAD_PARAMS, cluster)
            | Inr name \<Rightarrow>
                (case ExecProfileName_try_from name of
                   Inl _ \<Rightarrow> (CASS_ERROR_LIB_BAD_PARAMS, cluster)
                 | Inr name \<Rightarrow>
                     (CASS_OK, cluster\<lparr>execution_profile_map :=
                        hash_insert name profile (execution_profile_map cluster)\<rparr>))))"

definition cass_cluster_set_execution_profile ::
    "CassCluster c_ptr \<Rightarrow> c_chars \<Rightarrow> CassExecProfile c_ptr \<Rightarrow> CassError \<times> CassCluster c_ptr" where
  "cass_cluster_set_execution_profile cluster name profile =
     (let (name, name_length) = as_len_delimited name
      in cass_cluster_set_execution_profile_n cluster name name_length profile)"

definition cass_cluster_set_constant_reconnect :: "CassCluster c_ptr \<Rightarrow> u64 \<Rightarrow> CassCluster c_ptr" where
  "cass_cluster_set_constant_reconnect cluster wait_time_ms =
     on_ptr_void cluster (on_builder (\<lambda>b.
       b\<lparr>sc_reconnect_policy := Reconnect_Constant (Duration_from_millis wait_time_ms)\<rparr>))"

definition cass_cluster_set_reconnect_wait_time :: "CassCluster c_ptr \<Rightarrow> u32 \<Rightarrow> CassCluster c_ptr" where
  "cass_cluster_set_reconnect_wait_time cluster wait_time_ms =
     cass_cluster_set_constant_reconnect cluster (ucast wait_time_ms)"

definition cass_cluster_set_exponential_reconnect ::
    "CassCluster c_ptr \<Rightarrow> u64 \<Rightarrow> u64 \<Rightarrow> CassError \<times> CassCluster c_ptr" where
  "cass_cluster_set_exponential_reconnect cluster base_delay_ms max_delay_ms =
     on_ptr cluster (\<lambda>cluster.
       if base_delay_ms \<le> 1 then (CASS_ERROR_LIB_BAD_PARAMS, cluster)
       else if max_delay_ms \<le> 1 then (CASS_ERROR_LIB_BAD_PARAMS, cluster)
       else if max_delay_ms < base_delay_ms then (CASS_ERROR_LIB_BAD_PARAMS, cluster)
       else (CASS_OK, on_builder (\<lambda>b. b\<lparr>sc_reconnect_policy :=
               Reconnect_Exponential (Duration_from_millis base_delay_ms)
                 (Duration_from_millis max_delay_ms)\<rparr>) cluster))"

definition cass_cluster_set_num_threads_io ::
    "CassCluster c_ptr \<Rightarrow> u32 \<Rightarrow> CassError \<times> CassCluster c_ptr" where
  "cass_cluster_set_num_threads_io cluster num_threads =
     on_ptr cluster (\<lambda>cluster. (CASS_OK, cluster\<lparr>num_threads_io := Some (unat num_threads)\<rparr>))"

definition cass_cluster_set_metadata_request_serverside_timeout ::
    "CassCluster c_ptr \<Rightarrow> u64 \<Rightarrow> CassCluster c_ptr" where
  "cass_cluster_set_metadata_request_serverside_timeout cluster timeout_ms =
     on_ptr_void cluster (on_builder (\<lambda>b. b\<lparr>sc_metadata_request_serverside_timeout :=
       then_some (timeout_ms > 0) (Duration_from_millis timeout_ms)\<rparr>))"

definition cass_cluster_set_host_listener_callback ::
    "CassCluster c_ptr \<Rightarrow> nat c_ptr \<Rightarrow> nat \<Rightarrow> CassError \<times> CassCluster c_ptr" where
  "cass_cluster_set_host_listener_callback cluster callback data =
     on_ptr cluster (\<lambda>cluster. (CASS_OK,
       on_builder (\<lambda>b. b\<lparr>sc_host_listener := map_option (\<lambda>cb. (cb, data)) callback\<rparr>) cluster))"

end
