(* ===== verification/Cass_Cluster_Props.thy ===== *)
theory Cass_Cluster_Props
  imports Cass_Cluster
begin

text \<open>
  Properties of clusters: what the host filter of a session lets through, which settings are refused,
  and how settings of load balancing combine.
\<close>

subsection \<open>Sessions connect to what their profiles plan\<close>

text \<open>The profiles a session of the cluster can use: the default one and the named ones.\<close>

definition default_profile :: "ExecutionProfile \<Rightarrow> CassCluster \<Rightarrow> ExecutionProfile" where
  "default_profile driver c =
     (case sc_default_execution_profile (build_session_builder id driver c) of Some p \<Rightarrow> p | None \<Rightarrow> driver)"

definition session_policies :: "ExecutionProfile \<Rightarrow> CassCluster \<Rightarrow> lb_policy list" where
  "session_policies driver c =
     prof_load_balancing_policy (default_profile driver c) #
     map (\<lambda>(name, p). prof_load_balancing_policy (CassExecProfile_build driver p (default_profile driver c)))
       (execution_profile_map c)"

lemma default_profile_lb [simp]:
  "prof_load_balancing_policy (default_profile driver c) =
     Policy_Filtering (LoadBalancingConfig_build (load_balancing_config c))"
  by (simp add: default_profile_def build_session_builder_def ExecutionProfileBuilder_build_def Let_def
      split: option.splits prod.splits)

lemma built_profile_lb:
  "prof_load_balancing_policy (CassExecProfile_build driver p def) =
     (if load_balancing_kind (ep_load_balancing_config p) = None then prof_load_balancing_policy def
      else Policy_Filtering (LoadBalancingConfig_build (ep_load_balancing_config p)))"
  by (simp add: CassExecProfile_build_def ExecutionProfileBuilder_build_def Let_def)

lemma session_policy_config:
  assumes "policy \<in> set (session_policies driver c)"
  shows "\<exists>cfg. policy = Policy_Filtering (LoadBalancingConfig_build cfg) \<and>
     cfg \<in> set (load_balancing_config c # filter (\<lambda>c. load_balancing_kind c \<noteq> None)
       (map (ep_load_balancing_config \<circ> snd) (execution_profile_map c)))"
  using assms by (force simp: session_policies_def built_profile_lb)

text \<open>
  Property C22.  A session opens connections to every host that its requests may be sent to: each
  load balancing policy in use, of the default profile or of a named execution profile, is a
  filtering policy, and whatever host it plans, from any plan of its child policy and for any
  consistency level, passes the host filter of the cluster.
\<close>

theorem sessions_connect_to_planned_hosts:
  assumes "policy \<in> set (session_policies driver c)"
  shows "\<exists>p. policy = Policy_Filtering p \<and>
     (\<forall>cl child_pick child_fallback t.
        pick p cl child_pick = Some t \<or> t \<in> set (fallback p cl child_fallback) \<longrightarrow>
        accept (build_host_filter c) (fst t))"
proof -
  obtain cfg where "policy = Policy_Filtering (LoadBalancingConfig_build cfg)"
    "cfg \<in> set (load_balancing_config c # filter (\<lambda>c. load_balancing_kind c \<noteq> None)
       (map (ep_load_balancing_config \<circ> snd) (execution_profile_map c)))"
    using session_policy_config [OF assms] by blast
  then show ?thesis
    using host_filter_accepts_all_planned_hosts by (fastforce simp: build_host_filter_def)
qed

definition plain_session :: SessionConfig where
  "plain_session = \<lparr>sc_identity = \<lparr>custom_driver_name = [], custom_driver_version = [],
       application_name = None, application_version = None, identity_client_id = None\<rparr>,
     sc_fetch_schema_metadata = False, sc_schema_agreement_timeout = 0, sc_schema_agreement_interval = 0,
     sc_tcp_nodelay = False, sc_tcp_keepalive_interval = None, sc_connect_timeout = 0,
     sc_connection_pool_size = PerShard 1, sc_enable_write_coalescing = False,
     sc_write_coalescing_delay = SmallNondeterministic, sc_keepalive_interval = None,
     sc_keepalive_timeout = None, sc_local_ip_address = None,
     sc_shard_aware_local_port_range = (49152, 65535), sc_timestamp_generator = None,
     sc_hostname_resolution_timeout = None, sc_tls_context = None, sc_compression = None,
     sc_reconnect_policy = Reconnect_Driver_Default, sc_metadata_request_serverside_timeout = None,
     sc_host_listener = None, sc_known_nodes = [], sc_user = None,
     sc_default_execution_profile = None\<rparr>"

definition plain_cluster :: CassCluster where
  "plain_cluster = the (cass_cluster_new ''1.0'' (49152, 65535) plain_session)"

definition plain_profile :: ExecutionProfile where
  "plain_profile = \<lparr>prof_consistency = Consistency_LocalQuorum, prof_serial_consistency = None,
     prof_request_timeout = None, prof_retry_policy = RP_Default,
     prof_speculative_execution_policy = None, prof_load_balancing_policy = Policy_Driver_Default\<rparr>"

definition cluster_with_profile :: CassCluster where
  "cluster_with_profile = plain_cluster
     \<lparr>load_balancing_config := only_host_a,
      execution_profile_map := [(''p'', CassExecProfile_new
        \<lparr>ep_load_balancing_config := LoadBalancingConfig_default\<lparr>load_balancing_kind := Some LB_RoundRobin\<rparr>\<rparr>)]\<rparr>"

theorem sessions_connect_to_planned_hosts_witness:
  "accept (build_host_filter cluster_with_profile) host_b"
proof -
  let ?cfg = "LoadBalancingConfig_default\<lparr>load_balancing_kind := Some LB_RoundRobin\<rparr>"
  have "Policy_Filtering (LoadBalancingConfig_build ?cfg) \<in>
      set (session_policies plain_profile cluster_with_profile)"
    by (simp add: session_policies_def cluster_with_profile_def built_profile_lb)
  moreover have "pick (LoadBalancingConfig_build ?cfg) Consistency_One (Some (host_b, None)) =
      Some (host_b, None)"
    by (simp add: pick_def target_allowed_def LoadBalancingConfig_build_def into_filtering_info_def
        is_host_allowed_def is_some_and_def then_some_def example_configs)
  ultimately show ?thesis
    using sessions_connect_to_planned_hosts
      [of "Policy_Filtering (LoadBalancingConfig_build ?cfg)" plain_profile cluster_with_profile]
    by fastforce
qed

subsection \<open>Changing the kind of load balancing\<close>

text \<open>
  Round robin after a DC-aware setting without remote hosts is not round robin over the
  cluster: the restriction to the old local datacenter stays, so that no node of another datacenter
  is ever picked, and, with no execution profiles, no connection to one is opened.
\<close>

lemma round_robin_keeps_the_old_restriction:
  assumes "CassStrLenDelimited_to_str local_dc len = Inr dc" "len \<noteq> 0" "dc' \<noteq> dc"
    and "cass_cluster_set_load_balance_round_robin
       (snd (cass_cluster_set_load_balance_dc_aware_n (Some c) local_dc len 0 allow)) = Some c'"
  shows "load_balancing_kind (load_balancing_config c') = Some LB_RoundRobin \<and>
     pick (LoadBalancingConfig_build (load_balancing_config c')) cl
       (Some (\<lparr>node_ip = ip, node_datacenter = Some dc'\<rparr>, shard)) = None \<and>
     (execution_profile_map c = [] \<longrightarrow>
        \<not> accept (build_host_filter c') \<lparr>node_ip = ip, node_datacenter = Some dc'\<rparr>)"
proof -
  have c': "c' = c\<lparr>load_balancing_config := (load_balancing_config c)
      \<lparr>filtering := (filtering (load_balancing_config c))\<lparr>dc_restriction := DcRestriction_Local dc\<rparr>,
       load_balancing_kind := Some LB_RoundRobin\<rparr>\<rparr>"
    using assms by (simp add: cass_cluster_set_load_balance_round_robin_def on_cluster_lb_def
        cass_cluster_set_load_balance_dc_aware_n_def set_load_balance_dc_aware_n_def Let_def)
  show ?thesis
    using assms(3)
    by (simp add: c' pick_def target_allowed_def LoadBalancingConfig_build_def Let_def
        is_host_allowed_def into_filtering_info_def accept_def build_host_filter_def
        new_from_lbp_configs_def then_some_def)
qed

subsection \<open>Refused settings\<close>

text \<open>The setters that can refuse their arguments.\<close>

datatype cluster_op =
    CO_Contact_points c_chars nat
  | CO_Core_connections_per_host u32
  | CO_Core_connections_per_shard u32
  | CO_Coalesce_delay u64
  | CO_Port u32
  | CO_Local_address c_chars nat
  | CO_Local_port_range u32 u32
  | CO_Dc_aware c_chars nat u32 u32
  | CO_Rack_aware c_chars nat c_chars nat
  | CO_Protocol_version u32
  | CO_Constant_speculative u64 u32
  | CO_Consistency CassConsistency
  | CO_Serial_consistency CassConsistency
  | CO_Execution_profile c_chars nat "CassExecProfile c_ptr"
  | CO_Exponential_reconnect u64 u64

fun cluster_apply ::
    "(string \<Rightarrow> IpAddr option) \<Rightarrow> (nat \<Rightarrow> nat \<Rightarrow> bool) \<Rightarrow> cluster_op \<Rightarrow> CassCluster c_ptr \<Rightarrow>
     (CassError \<times> CassCluster c_ptr) panics" where
  "cluster_apply from_str accepts (CO_Contact_points s n) c = Some (cass_cluster_set_contact_points_n c s n)"
| "cluster_apply from_str accepts (CO_Core_connections_per_host n) c =
     Some (cass_cluster_set_core_connections_per_host c n)"
| "cluster_apply from_str accepts (CO_Core_connections_per_shard n) c =
     Some (cass_cluster_set_core_connections_per_shard c n)"
| "cluster_apply from_str accepts (CO_Coalesce_delay d) c = Some (cass_cluster_set_coalesce_delay c d)"
| "cluster_apply from_str accepts (CO_Port p) c = Some (cass_cluster_set_port c p)"
| "cluster_apply from_str accepts (CO_Local_address s n) c =
     Some (cass_cluster_set_local_address_n from_str c s n)"
| "cluster_apply from_str accepts (CO_Local_port_range lo hi) c =
     Some (cass_cluster_set_local_port_range accepts c lo hi)"
| "cluster_apply from_str accepts (CO_Dc_aware s n used allow) c =
     Some (cass_cluster_set_load_balance_dc_aware_n c s n used allow)"
| "cluster_apply from_str accepts (CO_Rack_aware s n r m) c =
     Some (cass_cluster_set_load_balance_rack_aware_n c s n r m)"
| "cluster_apply from_str accepts (CO_Protocol_version v) c = Some (cass_cluster_set_protocol_version c v)"
| "cluster_apply from_str accepts (CO_Constant_speculative d n) c =
     Some (cass_cluster_set_constant_speculative_execution_policy c d n)"
| "cluster_apply from_str accepts (CO_Consistency k) c = cass_cluster_set_consistency c k"
| "cluster_apply from_str accepts (CO_Serial_consistency k) c = cass_cluster_set_serial_consistency c k"
| "cluster_apply from_str accepts (CO_Execution_profile s n p) c =
     Some (cass_cluster_set_execution_profile_n c s n p)"
| "cluster_apply from_str accepts (CO_Exponential_reconnect b m) c =
     Some (cass_cluster_set_exponential_reconnect c b m)"

lemma refused_by_text:
  "fst (cass_cluster_set_contact_points_n c s n) \<noteq> CASS_OK \<Longrightarrow> snd (cass_cluster_set_contact_points_n c s n) = c"
  "fst (cass_cluster_set_local_address_n from_str c s n) \<noteq> CASS_OK \<Longrightarrow>
     snd (cass_cluster_set_local_address_n from_str c s n) = c"
  "fst (cass_cluster_set_execution_profile_n c s n p) \<noteq> CASS_OK \<Longrightarrow>
     snd (cass_cluster_set_execution_profile_n c s n p) = c"
  by (cases c; auto simp: cass_cluster_set_contact_points_n_def cass_cluster_set_local_address_n_def
      cass_cluster_set_execution_profile_n_def Let_def
      split: sum.splits option.splits PtrToStrError.splits if_splits)+

lemma refused_by_load_balancing:
  "fst (set_load_balance_dc_aware_n cfg s n used allow) \<noteq> CASS_OK \<Longrightarrow>
     snd (set_load_balance_dc_aware_n cfg s n used allow) = cfg"
  "fst (set_load_balance_rack_aware_n cfg s n r m) \<noteq> CASS_OK \<Longrightarrow>
     snd (set_load_balance_rack_aware_n cfg s n r m) = cfg"
  by (auto simp: set_load_balance_dc_aware_n_def set_load_balance_rack_aware_n_def Let_def
      split: sum.splits if_splits)

lemma refused_by_kind:
  "fst (cass_cluster_set_load_balance_dc_aware_n c s n used allow) \<noteq> CASS_OK \<Longrightarrow>
     snd (cass_cluster_set_load_balance_dc_aware_n c s n used allow) = c"
  "fst (cass_cluster_set_load_balance_rack_aware_n c s n r m) \<noteq> CASS_OK \<Longrightarrow>
     snd (cass_cluster_set_load_balance_rack_aware_n c s n r m) = c"
  by (cases c; simp add: cass_cluster_set_load_balance_dc_aware_n_def case_prod_beta Let_def
      cass_cluster_set_load_balance_rack_aware_n_def refused_by_load_balancing)+

lemma refused_by_number:
  "fst (cass_cluster_set_core_connections_per_host c k) \<noteq> CASS_OK \<Longrightarrow>
     snd (cass_cluster_set_core_connections_per_host c k) = c"
  "fst (cass_cluster_set_core_connections_per_shard c k) \<noteq> CASS_OK \<Longrightarrow>
     snd (cass_cluster_set_core_connections_per_shard c k) = c"
  "fst (cass_cluster_set_coalesce_delay c d) \<noteq> CASS_OK \<Longrightarrow> snd (cass_cluster_set_coalesce_delay c d) = c"
  "fst (cass_cluster_set_port c k) \<noteq> CASS_OK \<Longrightarrow> snd (cass_cluster_set_port c k) = c"
  "fst (cass_cluster_set_local_port_range accepts c k l) \<noteq> CASS_OK \<Longrightarrow>
     snd (cass_cluster_set_local_port_range accepts c k l) = c"
  "fst (cass_cluster_set_protocol_version c k) \<noteq> CASS_OK \<Longrightarrow>
     snd (cass_cluster_set_protocol_version c k) = c"
  "fst (cass_cluster_set_constant_speculative_execution_policy c d k) \<noteq> CASS_OK \<Longrightarrow>
     snd (cass_cluster_set_constant_speculative_execution_policy c d k) = c"
  "fst (cass_cluster_set_exponential_reconnect c d e) \<noteq> CASS_OK \<Longrightarrow>
     snd (cass_cluster_set_exponential_reconnect c d e) = c"
  by (cases c; auto simp: cass_cluster_set_core_connections_per_host_def
      cass_cluster_set_core_connections_per_shard_def cass_cluster_set_coalesce_delay_def
      cass_cluster_set_port_def cass_cluster_set_local_port_range_def cass_cluster_set_protocol_version_def
      cass_cluster_set_constant_speculative_execution_policy_def Let_def
      cass_cluster_set_exponential_reconnect_def split: option.splits if_splits)+

lemma set_consistency_result:
  "\<exists>err c'. cass_cluster_set_consistency c k = Some (err, c') \<and> (err \<noteq> CASS_OK \<longrightarrow> c' = c)"
  "\<exists>err c'. cass_cluster_set_serial_consistency c k = Some (err, c') \<and> (err \<noteq> CASS_OK \<longrightarrow> c' = c)"
  using cons.from_c_value_returns [of k] serial.from_c_value_returns [of k]
  by (cases c; auto simp: cass_cluster_set_consistency_def cass_cluster_set_serial_consistency_def
      split: sum.splits MaybeUnsetConfig.splits)+

lemma ok_or_same:
  "(fst r \<noteq> CASS_OK \<Longrightarrow> snd r = c) \<Longrightarrow>
   \<exists>err c'. Some r = Some (err, c') \<and> (err \<noteq> CASS_OK \<longrightarrow> c' = c)"
  by (cases r) auto



subsection \<open>Ports\<close>

lemma u16_try_from_Some:
  "u16_try_from n = Some w \<longleftrightarrow> 0 \<le> n \<and> n \<le> 65535 \<and> uint w = n"
proof
  assume "u16_try_from n = Some w"
  then have "0 \<le> n" "n \<le> 65535" "w = word_of_int n" by (simp_all add: u16_try_from_def)
  then show "0 \<le> n \<and> n \<le> 65535 \<and> uint w = n"
    by (simp add: unsigned_of_int take_bit_int_eq_self)
next
  assume "0 \<le> n \<and> n \<le> 65535 \<and> uint w = n"
  then show "u16_try_from n = Some w" by (auto simp: u16_try_from_def)
qed

lemma u16_try_from_None: "u16_try_from n = None \<longleftrightarrow> \<not> (0 \<le> n \<and> n \<le> 65535)"
  by (simp add: u16_try_from_def then_some_def)

lemma u16_try_from_in_range:
  assumes "0 \<le> n" "n \<le> 65535"
  obtains v where "u16_try_from n = Some v" "unat v = nat n"
proof (rule that)
  show "u16_try_from n = Some (word_of_int n)"
    using assms by (simp add: u16_try_from_def)
  show "unat (word_of_int n :: u16) = nat n"
    using assms by (simp add: unat_eq_nat_uint unsigned_of_int take_bit_int_eq_self)
qed

lemma compute_range_eq:
  "compute_range_from_raw accepts lo hi =
     (if 0 \<le> sint lo \<and> sint lo \<le> 65535 \<and> 1 \<le> sint hi \<and> sint hi \<le> 65536 \<and>
         accepts (nat (sint lo)) (nat (sint hi - 1))
      then Some (nat (sint lo), nat (sint hi - 1)) else None)"
proof (cases "0 \<le> sint lo \<and> sint lo \<le> 65535 \<and> 1 \<le> sint hi \<and> sint hi \<le> 65536")
  case True
  obtain v where v: "u16_try_from (sint lo) = Some v" "unat v = nat (sint lo)"
    using u16_try_from_in_range [of "sint lo"] True by blast
  have "0 \<le> sint hi - 1" "sint hi - 1 \<le> 65535" "sint hi \<noteq> - (2 ^ 31)" using True by simp_all
  then obtain w where "u16_try_from (sint hi - 1) = Some w" "unat w = nat (sint hi - 1)"
    "sint hi \<noteq> - (2 ^ 31)"
    using u16_try_from_in_range [of "sint hi - 1"] by blast
  with True v show ?thesis
    by (simp add: compute_range_from_raw_def then_some_def)
next
  case False
  then show ?thesis
    by (auto simp: compute_range_from_raw_def u16_try_from_def then_some_def)
qed

text \<open>
  Ports are checked before they are narrowed: a port is accepted exactly when it is between
  0 and 65535, and is then stored unchanged; a local range with lower bound \<open>lo\<close> included and upper
  bound \<open>hi\<close> excluded is stored exactly when its ends \<open>lo\<close> and \<open>hi - 1\<close> are ports and the Rust
  driver accepts them, also at the smallest \<open>hi\<close>, where the subtraction would overflow.
\<close>

lemma ports_are_range_checked:
  "(fst (cass_cluster_set_port (Some c) p) = CASS_OK \<longleftrightarrow> 0 \<le> sint p \<and> sint p \<le> 65535) \<and>
   (\<exists>c'. snd (cass_cluster_set_port (Some c) p) = Some c' \<and>
      uint (port c') = (if 0 \<le> sint p \<and> sint p \<le> 65535 then sint p else uint (port c))) \<and>
   (\<exists>c'. snd (cass_cluster_set_local_port_range accepts (Some c) lo hi) = Some c' \<and>
      sc_shard_aware_local_port_range (session_builder c') =
        (if 0 \<le> sint lo \<and> sint lo \<le> 65535 \<and> 1 \<le> sint hi \<and> sint hi \<le> 65536 \<and>
            accepts (nat (sint lo)) (nat (sint hi - 1))
         then (nat (sint lo), nat (sint hi - 1))
         else sc_shard_aware_local_port_range (session_builder c)))"
proof (intro conjI)
  show "fst (cass_cluster_set_port (Some c) p) = CASS_OK \<longleftrightarrow> 0 \<le> sint p \<and> sint p \<le> 65535"
    by (auto simp: cass_cluster_set_port_def u16_try_from_None u16_try_from_Some split: option.splits)
  show "\<exists>c'. snd (cass_cluster_set_port (Some c) p) = Some c' \<and>
      uint (port c') = (if 0 \<le> sint p \<and> sint p \<le> 65535 then sint p else uint (port c))"
    by (auto simp: cass_cluster_set_port_def u16_try_from_None u16_try_from_Some split: option.splits)
  show "\<exists>c'. snd (cass_cluster_set_local_port_range accepts (Some c) lo hi) = Some c' \<and>
      sc_shard_aware_local_port_range (session_builder c') =
        (if 0 \<le> sint lo \<and> sint lo \<le> 65535 \<and> 1 \<le> sint hi \<and> sint hi \<le> 65536 \<and>
            accepts (nat (sint lo)) (nat (sint hi - 1))
         then (nat (sint lo), nat (sint hi - 1))
         else sc_shard_aware_local_port_range (session_builder c))"
    by (simp add: cass_cluster_set_local_port_range_def compute_range_eq on_builder_def)
qed

end
