(* ===== verification/Cass_Future.thy ===== *)
theory Cass_Future
  imports Cass_Enums
begin

text \<open>
  \<open>future.rs\<close>, the part that is concurrent: a future that a task of the runtime resolves, threads that
  wait for it with or without a timeout, and threads that set a callback.

  Everything done under the mutex of the future is one step.  The loop of \<open>waited_result\<close> holds the
  mutex from its start, or from the wake-up inside \<open>wait_while\<close>, to the next wait, block or return, so
  that one iteration is one step, \<open>loop_iteration\<close>, which also evaluates the condition of
  \<open>wait_while\<close>.  A timed wait (\<open>True\<close>) is the same loop with steps that give up.  The request itself is
  left open: it finishes with the result \<open>r\<close> at any time when the runtime can run its task, that is, always
  with worker threads (\<open>multi\<close>), and otherwise only while some thread blocks on the join handle.  After the
  request has finished, the rest of the task does not yield.
\<close>

subsection \<open>States\<close>

text \<open>A callback and its data.\<close>

datatype BoundCallback = BoundCallback nat nat

datatype task_phase =
    T_Await
  | T_Callback "BoundCallback option"
  | T_Notify
  | T_Finished
  | T_Panicked

datatype 'r thread =
    Th_Idle
  | Th_Set BoundCallback
  | Th_Invoke BoundCallback
  | Th_Set_done CassError
  | Th_Wait bool
  | Th_Loop bool
  | Th_Block bool
  | Th_Return_handle
  | Th_Cond bool
  | Th_Got 'r
  | Th_Timeout
  | Th_Invalid_duration
  | Th_Panicked

record 'r ResolvableFuture =
  rf_callback :: "BoundCallback option"
  rf_join_handle :: bool
  rf_result :: "'r option"
  rf_task :: task_phase
  rf_threads :: "nat \<Rightarrow> 'r thread"
  rf_invoked :: "(BoundCallback \<times> 'r option) list"

text \<open>\<open>rf_invoked\<close> records the calls of callbacks, each with what the future's result was then.\<close>

definition set_thread :: "nat \<Rightarrow> 'r thread \<Rightarrow> 'r ResolvableFuture \<Rightarrow> 'r ResolvableFuture" where
  "set_thread i th s = s\<lparr>rf_threads := (rf_threads s)(i := th)\<rparr>"

subsection \<open>Sections under the mutex\<close>

definition set_callback_locked ::
    "BoundCallback \<Rightarrow> 'r ResolvableFuture \<Rightarrow> 'r thread \<times> 'r ResolvableFuture" where
  "set_callback_locked bound_cb s =
     (if rf_callback s \<noteq> None then (Th_Set_done CASS_ERROR_LIB_CALLBACK_ALREADY_SET, s)
      else (if rf_result s \<noteq> None then Th_Invoke bound_cb else Th_Set_done CASS_OK,
            s\<lparr>rf_callback := Some bound_cb\<rparr>))"

definition loop_iteration :: "bool \<Rightarrow> 'r ResolvableFuture \<Rightarrow> 'r thread \<times> 'r ResolvableFuture" where
  "loop_iteration timed s =
     (case rf_result s of
        Some result \<Rightarrow> (Th_Got result, s)
      | None \<Rightarrow>
          (if rf_join_handle s then (Th_Block timed, s\<lparr>rf_join_handle := False\<rparr>)
           else (Th_Cond timed, s)))"

definition resolve_locked :: "'r \<Rightarrow> 'r ResolvableFuture \<Rightarrow> 'r ResolvableFuture" where
  "resolve_locked r s =
     (if rf_result s = None then s\<lparr>rf_result := Some r, rf_task := T_Callback (rf_callback s)\<rparr>
      else s\<lparr>rf_task := T_Panicked\<rparr>)"

definition wake :: "'r thread \<Rightarrow> 'r thread" where
  "wake th = (case th of Th_Cond timed \<Rightarrow> Th_Loop timed | _ \<Rightarrow> th)"

definition notify_all :: "'r ResolvableFuture \<Rightarrow> 'r ResolvableFuture" where
  "notify_all s = s\<lparr>rf_threads := wake \<circ> rf_threads s\<rparr>"

definition invoke :: "BoundCallback option \<Rightarrow> 'r ResolvableFuture \<Rightarrow> 'r ResolvableFuture" where
  "invoke cb s =
     (case cb of None \<Rightarrow> s | Some c \<Rightarrow> s\<lparr>rf_invoked := rf_invoked s @ [(c, rf_result s)]\<rparr>)"

definition new_from_future :: "(nat \<Rightarrow> 'r thread) \<Rightarrow> 'r ResolvableFuture" where
  "new_from_future threads =
     \<lparr>rf_callback = None, rf_join_handle = True, rf_result = None, rf_task = T_Await,
      rf_threads = threads, rf_invoked = []\<rparr>"

subsection \<open>Steps\<close>

inductive future_step :: "bool \<Rightarrow> 'r \<Rightarrow> 'r ResolvableFuture \<Rightarrow> 'r ResolvableFuture \<Rightarrow> bool"
  for multi r where
  task_resolve: "rf_task s = T_Await \<Longrightarrow> multi \<or> (\<exists>i t. rf_threads s i = Th_Block t) \<Longrightarrow>
     future_step multi r s (resolve_locked r s)"
| task_callback: "rf_task s = T_Callback cb \<Longrightarrow>
     future_step multi r s ((invoke cb s)\<lparr>rf_task := T_Notify\<rparr>)"
| task_notify: "rf_task s = T_Notify \<Longrightarrow>
     future_step multi r s ((notify_all s)\<lparr>rf_task := T_Finished\<rparr>)"
| set_lock: "rf_threads s i = Th_Set cb \<Longrightarrow> set_callback_locked cb s = (th, s') \<Longrightarrow>
     future_step multi r s (set_thread i th s')"
| set_invoke: "rf_threads s i = Th_Invoke cb \<Longrightarrow>
     future_step multi r s (set_thread i (Th_Set_done CASS_OK) (invoke (Some cb) s))"
| wait_fast: "rf_threads s i = Th_Wait t \<Longrightarrow> rf_result s = Some x \<Longrightarrow>
     future_step multi r s (set_thread i (Th_Got x) s)"
| wait_slow: "rf_threads s i = Th_Wait t \<Longrightarrow> rf_result s = None \<Longrightarrow>
     future_step multi r s (set_thread i (Th_Loop t) s)"
| wait_invalid: "rf_threads s i = Th_Wait True \<Longrightarrow> rf_result s = None \<Longrightarrow>
     future_step multi r s (set_thread i Th_Invalid_duration s)"
| wait_loop: "rf_threads s i = Th_Loop t \<Longrightarrow> loop_iteration t s = (th, s') \<Longrightarrow>
     future_step multi r s (set_thread i th s')"
| block_done: "rf_threads s i = Th_Block t \<Longrightarrow> rf_task s = T_Finished \<Longrightarrow>
     future_step multi r s
       (set_thread i (case rf_result s of Some x \<Rightarrow> Th_Got x | None \<Rightarrow> Th_Panicked) s)"
| block_panicked: "rf_threads s i = Th_Block t \<Longrightarrow> rf_task s = T_Panicked \<Longrightarrow>
     future_step multi r s (set_thread i Th_Panicked s)"
| block_timeout: "rf_threads s i = Th_Block True \<Longrightarrow>
     rf_task s = T_Await \<or> (multi \<and> rf_task s \<noteq> T_Finished) \<Longrightarrow>
     future_step multi r s (set_thread i Th_Return_handle s)"
| return_one: "rf_threads s i = Th_Return_handle \<Longrightarrow> rf_threads s j = Th_Cond t \<Longrightarrow>
     future_step multi r s
       (set_thread j (Th_Loop t) (set_thread i Th_Timeout (s\<lparr>rf_join_handle := True\<rparr>)))"
| return_none: "rf_threads s i = Th_Return_handle \<Longrightarrow> \<forall>j t. rf_threads s j \<noteq> Th_Cond t \<Longrightarrow>
     future_step multi r s (set_thread i Th_Timeout (s\<lparr>rf_join_handle := True\<rparr>))"
| cond_timeout: "rf_threads s i = Th_Cond True \<Longrightarrow> rf_result s = None \<Longrightarrow> \<not> rf_join_handle s \<Longrightarrow>
     future_step multi r s (set_thread i Th_Timeout s)"
| cond_timed_wake: "rf_threads s i = Th_Cond True \<Longrightarrow> rf_result s \<noteq> None \<or> rf_join_handle s \<Longrightarrow>
     future_step multi r s (set_thread i (Th_Loop True) s)"

text \<open>A condition variable may also wake a thread for no reason; progress never relies on it.\<close>

inductive spurious_wakeup :: "'r ResolvableFuture \<Rightarrow> 'r ResolvableFuture \<Rightarrow> bool" where
  "rf_threads s i = Th_Cond t \<Longrightarrow> spurious_wakeup s (set_thread i (Th_Loop t) s)"

definition any_step :: "bool \<Rightarrow> 'r \<Rightarrow> 'r ResolvableFuture \<Rightarrow> 'r ResolvableFuture \<Rightarrow> bool" where
  "any_step multi r s s' \<longleftrightarrow> future_step multi r s s' \<or> spurious_wakeup s s'"

text \<open>At first every thread is about to wait, about to set a callback, or uninterested.\<close>

definition fresh :: "'r thread \<Rightarrow> bool" where
  "fresh th \<longleftrightarrow> (case th of Th_Idle \<Rightarrow> True | Th_Set _ \<Rightarrow> True | Th_Wait _ \<Rightarrow> True | _ \<Rightarrow> False)"

definition future_reachable :: "bool \<Rightarrow> 'r \<Rightarrow> 'r ResolvableFuture \<Rightarrow> bool" where
  "future_reachable multi r s \<longleftrightarrow>
     (\<exists>threads. (\<forall>i. fresh (threads i)) \<and> (any_step multi r)\<^sup>*\<^sup>* (new_from_future threads) s)"

subsection \<open>Immediate futures\<close>

text \<open>\<open>cass_future_set_callback\<close> on a future that is ready: the flag decides, and the callback is called.\<close>

definition immediate_set_callback ::
    "bool \<Rightarrow> BoundCallback \<Rightarrow> CassError \<times> bool \<times> BoundCallback list" where
  "immediate_set_callback callback_set cb =
     (if callback_set then (CASS_ERROR_LIB_CALLBACK_ALREADY_SET, True, []) else (CASS_OK, True, [cb]))"

subsection \<open>Invariants\<close>

lemmas section_defs = set_thread_def set_callback_locked_def loop_iteration_def resolve_locked_def
  notify_all_def invoke_def wake_def

lemma future_invariant_induct [consumes 1, case_names init step wakeup]:
  assumes "future_reachable multi r s"
    and "\<And>threads. \<forall>i. fresh (threads i) \<Longrightarrow> P (new_from_future threads)"
    and "\<And>s s'. future_reachable multi r s \<Longrightarrow> P s \<Longrightarrow> future_step multi r s s' \<Longrightarrow> P s'"
    and "\<And>s i t. future_reachable multi r s \<Longrightarrow> P s \<Longrightarrow> rf_threads s i = Th_Cond t \<Longrightarrow>
           P (set_thread i (Th_Loop t) s)"
  shows "P s"
proof -
  obtain threads where fr: "\<forall>i. fresh (threads i)"
    and steps: "(any_step multi r)\<^sup>*\<^sup>* (new_from_future threads) s"
    using assms(1) by (auto simp: future_reachable_def)
  from steps show ?thesis
  proof (induction rule: rtranclp_induct)
    case base
    show ?case using assms(2) [OF fr] .
  next
    case (step y z)
    have "future_reachable multi r y" using fr step.hyps(1) by (auto simp: future_reachable_def)
    with step.IH step.hyps(2) assms(3) [of y z] assms(4) [of y] show ?case
      by (auto simp: any_step_def elim: spurious_wakeup.cases)
  qed
qed

text \<open>The task sets the result, once.\<close>

definition result_inv :: "'r \<Rightarrow> 'r ResolvableFuture \<Rightarrow> bool" where
  "result_inv r s \<longleftrightarrow>
     rf_task s \<noteq> T_Panicked \<and> (rf_task s = T_Await \<longleftrightarrow> rf_result s = None) \<and>
     (rf_result s \<noteq> None \<longrightarrow> rf_result s = Some r) \<and>
     (\<forall>i x. rf_threads s i = Th_Got x \<longrightarrow> rf_result s = Some x) \<and>
     (\<forall>i. rf_threads s i \<noteq> Th_Panicked)"

lemma result_inv_step: "future_step multi r s s' \<Longrightarrow> result_inv r s \<Longrightarrow> result_inv r s'"
  by (induction rule: future_step.induct)
    (auto simp: result_inv_def section_defs split: if_splits option.splits thread.splits)

lemma reachable_result: "future_reachable multi r s \<Longrightarrow> result_inv r s"
proof (induction rule: future_invariant_induct)
  case (init threads)
  then show ?case by (auto simp: result_inv_def new_from_future_def fresh_def split: thread.splits)
next
  case (step s s')
  show ?case by (rule result_inv_step [OF step.hyps(2) step.IH])
next
  case (wakeup s i t)
  then show ?case by (auto simp: result_inv_def set_thread_def)
qed

text \<open>
  The join handle is in the future or with one thread, until the task has finished.
\<close>

definition owner :: "'r thread \<Rightarrow> bool" where
  "owner th \<longleftrightarrow> (case th of Th_Block _ \<Rightarrow> True | Th_Return_handle \<Rightarrow> True | _ \<Rightarrow> False)"

lemma owner_simps [simp]:
  "owner (Th_Block t)" "owner Th_Return_handle" "\<not> owner (Th_Set cb)" "\<not> owner (Th_Invoke cb)"
  "\<not> owner (Th_Set_done e)" "\<not> owner (Th_Wait t)" "\<not> owner (Th_Loop t)" "\<not> owner (Th_Cond t)"
  "\<not> owner (Th_Got x)" "\<not> owner Th_Timeout" "\<not> owner Th_Invalid_duration" "\<not> owner Th_Panicked"
  by (simp_all add: owner_def)

lemma owner_wake [simp]: "owner (wake th) = owner th"
  by (simp add: wake_def split: thread.splits)

lemma owner_callback [simp]: "owner (fst (set_callback_locked cb s)) = False"
  by (simp add: set_callback_locked_def)

definition handle_inv :: "'r ResolvableFuture \<Rightarrow> bool" where
  "handle_inv s \<longleftrightarrow>
     (rf_join_handle s \<longrightarrow> (\<forall>i. \<not> owner (rf_threads s i))) \<and>
     (\<forall>i j. owner (rf_threads s i) \<longrightarrow> owner (rf_threads s j) \<longrightarrow> i = j) \<and>
     (rf_task s \<noteq> T_Finished \<longrightarrow> \<not> rf_join_handle s \<longrightarrow> (\<exists>i. owner (rf_threads s i)))"

lemma handle_inv_keep:
  assumes "handle_inv s" "owner (rf_threads s i) = owner th"
  shows "handle_inv (set_thread i th s)"
proof -
  have "owner (((rf_threads s)(i := th)) j) = owner (rf_threads s j)" for j
    using assms(2) by simp
  with assms(1) show ?thesis by (simp add: handle_inv_def set_thread_def)
qed

lemma handle_inv_fields [simp]:
  "handle_inv (s\<lparr>rf_callback := c\<rparr>) = handle_inv s"
  "handle_inv (invoke cb s) = handle_inv s"
  "rf_threads (s\<lparr>rf_callback := c\<rparr>) = rf_threads s"
  "rf_threads (invoke cb s) = rf_threads s"
  "rf_task (invoke cb s) = rf_task s"
  "rf_result (invoke cb s) = rf_result s"
  "rf_join_handle (invoke cb s) = rf_join_handle s"
  "rf_callback (invoke cb s) = rf_callback s"
  by (simp_all add: handle_inv_def invoke_def split: option.splits)

lemma handle_inv_return:
  assumes "handle_inv s" "rf_threads s i = Th_Return_handle"
  shows "handle_inv (set_thread i Th_Timeout (s\<lparr>rf_join_handle := True\<rparr>))"
proof -
  have "\<not> owner (rf_threads s j)" if "j \<noteq> i" for j
    using assms that by (auto simp: handle_inv_def)
  then show ?thesis by (simp add: handle_inv_def set_thread_def)
qed

lemma handle_inv_loop:
  assumes "handle_inv s" "rf_threads s i = Th_Loop t" "loop_iteration t s = (th, s')"
  shows "handle_inv (set_thread i th s')"
proof (cases "rf_result s = None \<and> rf_join_handle s")
  case True
  with assms show ?thesis by (auto simp: handle_inv_def loop_iteration_def set_thread_def)
next
  case False
  with assms(3) have "s' = s" "\<not> owner th" by (auto simp: loop_iteration_def split: option.splits if_splits)
  with assms(1,2) show ?thesis by (simp add: handle_inv_keep)
qed

lemma handle_inv_step:
  assumes "future_step multi r s s'" "result_inv r s" "handle_inv s"
  shows "handle_inv s'"
  using assms
proof (induction rule: future_step.induct)
  case (task_resolve s)
  then show ?case by (auto simp: handle_inv_def resolve_locked_def)
next
  case (task_callback s cb)
  then show ?case by (auto simp: handle_inv_def)
next
  case (task_notify s)
  then show ?case by (auto simp: handle_inv_def notify_all_def)
next
  case (set_lock s i cb th s')
  then show ?case by (auto simp: set_callback_locked_def handle_inv_keep split: if_splits)
next
  case (wait_loop s i t th s')
  then show ?case by (simp add: handle_inv_loop)
next
  case (return_one s i j t)
  then have "i \<noteq> j" by auto
  have "handle_inv (set_thread i Th_Timeout (s\<lparr>rf_join_handle := True\<rparr>))"
    using return_one by (simp add: handle_inv_return)
  then show ?case
    by (rule handle_inv_keep) (use return_one \<open>i \<noteq> j\<close> in \<open>simp add: set_thread_def\<close>)
next
  case (block_done s i t)
  have own: "owner (rf_threads s i)" using block_done.hyps(1) by simp
  then have "\<not> rf_join_handle s" "\<And>j. owner (rf_threads s j) \<Longrightarrow> j = i"
    using block_done.prems(2) unfolding handle_inv_def by blast+
  with block_done show ?case by (auto simp: handle_inv_def set_thread_def)
qed (simp_all add: handle_inv_keep handle_inv_return result_inv_def)

lemma reachable_handle: "future_reachable multi r s \<Longrightarrow> handle_inv s"
proof (induction rule: future_invariant_induct)
  case (init threads)
  then show ?case by (auto simp: handle_inv_def new_from_future_def fresh_def owner_def split: thread.splits)
next
  case (step s s')
  show ?case by (rule handle_inv_step [OF step.hyps(2) reachable_result [OF step.hyps(1)] step.IH])
next
  case (wakeup s i t)
  then show ?case by (simp add: handle_inv_keep)
qed

text \<open>
  No notification is lost: once the task has notified everybody, nobody waits on the condition
  variable; and when a handle was returned while others wait, somebody is awake to take it.
\<close>

definition wakeup_inv :: "'r ResolvableFuture \<Rightarrow> bool" where
  "wakeup_inv s \<longleftrightarrow>
     (rf_task s = T_Finished \<longrightarrow> (\<forall>i t. rf_threads s i \<noteq> Th_Cond t)) \<and>
     (rf_join_handle s \<longrightarrow> rf_result s = None \<longrightarrow> (\<exists>i t. rf_threads s i = Th_Cond t) \<longrightarrow>
        (\<exists>i t. rf_threads s i = Th_Loop t))"

lemma wakeup_inv_keep:
  assumes "wakeup_inv s" "\<And>t. rf_threads s i \<noteq> Th_Loop t" "\<And>t. th \<noteq> Th_Cond t"
  shows "wakeup_inv (set_thread i th s)"
proof -
  have loop: "\<exists>j t. ((rf_threads s)(i := th)) j = Th_Loop t" if "rf_threads s k = Th_Loop u" for k u
    using that assms(2) by (intro exI [of _ k] exI [of _ u]) auto
  show ?thesis
    unfolding wakeup_inv_def
  proof (intro conjI impI)
    show "\<forall>j t. rf_threads (set_thread i th s) j \<noteq> Th_Cond t"
      if "rf_task (set_thread i th s) = T_Finished"
      using that assms(1,3) by (simp add: wakeup_inv_def set_thread_def)
  next
    assume "rf_join_handle (set_thread i th s)" "rf_result (set_thread i th s) = None"
      and "\<exists>j t. rf_threads (set_thread i th s) j = Th_Cond t"
    then have "rf_join_handle s" "rf_result s = None" "\<exists>j t. rf_threads s j = Th_Cond t"
      using assms(3) by (auto simp: set_thread_def split: if_splits)
    then obtain k u where "rf_threads s k = Th_Loop u"
      using assms(1) by (auto simp: wakeup_inv_def)
    then show "\<exists>j t. rf_threads (set_thread i th s) j = Th_Loop t"
      using loop by (simp add: set_thread_def)
  qed
qed

lemma wakeup_inv_woken: "wakeup_inv s \<Longrightarrow> wakeup_inv (set_thread i (Th_Loop t) s)"
  by (auto simp: wakeup_inv_def set_thread_def)

lemma wakeup_inv_fields [simp]:
  "wakeup_inv (s\<lparr>rf_callback := c\<rparr>) = wakeup_inv s"
  "wakeup_inv (invoke cb s) = wakeup_inv s"
  by (simp_all add: wakeup_inv_def)

lemma wakeup_inv_loop:
  assumes "wakeup_inv s" "result_inv r s" "rf_threads s i = Th_Loop t" "loop_iteration t s = (th, s')"
  shows "wakeup_inv (set_thread i th s')"
proof (cases "rf_result s")
  case None
  with assms show ?thesis
    by (auto simp: wakeup_inv_def loop_iteration_def set_thread_def result_inv_def split: if_splits)
next
  case (Some x)
  with assms show ?thesis
    by (auto simp: wakeup_inv_def loop_iteration_def set_thread_def)
qed

lemma wakeup_inv_step:
  assumes "future_step multi r s s'" "result_inv r s" "wakeup_inv s"
  shows "wakeup_inv s'"
  using assms
proof (induction rule: future_step.induct)
  case (task_resolve s)
  then show ?case by (auto simp: wakeup_inv_def resolve_locked_def result_inv_def)
next
  case (task_callback s cb)
  then show ?case by (auto simp: wakeup_inv_def)
next
  case (task_notify s)
  then show ?case
    by (auto simp: wakeup_inv_def notify_all_def wake_def result_inv_def split: thread.splits)
next
  case (set_lock s i cb th s')
  then show ?case by (auto simp: set_callback_locked_def wakeup_inv_keep split: if_splits)
next
  case (wait_loop s i t th s')
  then show ?case by (simp add: wakeup_inv_loop)
next
  case (return_one s i j t)
  then show ?case by (auto simp: wakeup_inv_def set_thread_def)
next
  case (return_none s i)
  then show ?case by (auto simp: wakeup_inv_def set_thread_def)
qed (simp_all add: wakeup_inv_keep wakeup_inv_woken result_inv_def split: option.splits)

lemma reachable_wakeup: "future_reachable multi r s \<Longrightarrow> wakeup_inv s"
proof (induction rule: future_invariant_induct)
  case (init threads)
  then show ?case by (auto simp: wakeup_inv_def new_from_future_def fresh_def split: thread.splits)
next
  case (step s s')
  show ?case by (rule wakeup_inv_step [OF step.hyps(2) reachable_result [OF step.hyps(1)] step.IH])
next
  case (wakeup s i t)
  then show ?case by (auto simp: wakeup_inv_def set_thread_def)
qed

subsection \<open>Callbacks\<close>

text \<open>
  A callback that was set is about to be called by the task or by the thread that set it, or was
  called, or waits for the result; and at most one thread has set it.
\<close>

definition setter :: "'r thread \<Rightarrow> bool" where
  "setter th \<longleftrightarrow> (case th of Th_Invoke _ \<Rightarrow> True | Th_Set_done e \<Rightarrow> e = CASS_OK | _ \<Rightarrow> False)"

definition callback_pending :: "'r ResolvableFuture \<Rightarrow> bool" where
  "callback_pending s \<longleftrightarrow> (\<exists>c. rf_task s = T_Callback (Some c)) \<or> (\<exists>i c. rf_threads s i = Th_Invoke c)"

definition callback_inv :: "'r \<Rightarrow> 'r ResolvableFuture \<Rightarrow> bool" where
  "callback_inv r s \<longleftrightarrow>
     (\<forall>i j. setter (rf_threads s i) \<longrightarrow> setter (rf_threads s j) \<longrightarrow> i = j) \<and>
     (\<forall>i. setter (rf_threads s i) \<longrightarrow> rf_callback s \<noteq> None) \<and>
     (\<forall>i c. rf_threads s i = Th_Invoke c \<longrightarrow> rf_callback s = Some c) \<and>
     (\<forall>c. rf_task s = T_Callback (Some c) \<longrightarrow> rf_callback s = Some c \<and> (\<forall>i d. rf_threads s i \<noteq> Th_Invoke d)) \<and>
     (if rf_result s = None \<or> rf_callback s = None then \<not> callback_pending s \<and> rf_invoked s = []
      else if callback_pending s then rf_invoked s = []
      else rf_invoked s = [(the (rf_callback s), Some r)])"

lemma setter_simps [simp]:
  "setter (Th_Invoke c)" "setter (Th_Set_done CASS_OK)" "\<not> setter (Th_Set c)"
  "\<not> setter (Th_Set_done CASS_ERROR_LIB_CALLBACK_ALREADY_SET)" "\<not> setter (Th_Wait t)"
  "\<not> setter (Th_Loop t)" "\<not> setter (Th_Block t)" "\<not> setter Th_Return_handle" "\<not> setter (Th_Cond t)"
  "\<not> setter (Th_Got x)" "\<not> setter Th_Timeout" "\<not> setter Th_Invalid_duration" "\<not> setter Th_Panicked"
  by (simp_all add: setter_def)

lemma setter_wake [simp]: "setter (wake th) = setter th" "wake th = Th_Invoke c \<longleftrightarrow> th = Th_Invoke c"
  by (simp_all add: wake_def split: thread.splits)

lemma callback_inv_same:
  assumes "rf_callback s' = rf_callback s" "rf_task s' = rf_task s" "rf_result s' = rf_result s"
    and "rf_invoked s' = rf_invoked s"
    and "\<And>j. setter (rf_threads s' j) = setter (rf_threads s j)"
    and "\<And>j c. (rf_threads s' j = Th_Invoke c) = (rf_threads s j = Th_Invoke c)"
  shows "callback_inv r s' = callback_inv r s"
  unfolding callback_inv_def callback_pending_def assms ..

lemma callback_inv_handle [simp]: "callback_inv r (s\<lparr>rf_join_handle := b\<rparr>) = callback_inv r s"
  by (rule callback_inv_same) simp_all

lemma callback_inv_keep:
  assumes "callback_inv r s" "\<not> setter (rf_threads s i)" "\<not> setter th"
  shows "callback_inv r (set_thread i th s)"
proof -
  have "callback_inv r (set_thread i th s) = callback_inv r s"
    by (rule callback_inv_same) (use assms(2,3) in \<open>auto simp: set_thread_def\<close>)
  with assms(1) show ?thesis by simp
qed

lemma callback_inv_locked:
  assumes "callback_inv r s" "result_inv r s" "rf_threads s i = Th_Set cb"
    and "set_callback_locked cb s = (th, s')"
  shows "callback_inv r (set_thread i th s')"
proof (cases "rf_callback s")
  case None
  then have quiet: "\<And>j. \<not> setter (rf_threads s j)" "\<And>j c. rf_threads s j \<noteq> Th_Invoke c"
      "\<And>c. rf_task s \<noteq> T_Callback (Some c)" "rf_invoked s = []"
    using assms(1) by (auto simp: callback_inv_def callback_pending_def)
  then show ?thesis
  proof (cases "rf_result s")
    case None
    with \<open>rf_callback s = None\<close> assms(4) quiet show ?thesis
      by (auto simp: set_callback_locked_def callback_inv_def callback_pending_def set_thread_def)
  next
    case (Some x)
    with \<open>rf_callback s = None\<close> assms(4) quiet show ?thesis
      by (auto simp: set_callback_locked_def callback_inv_def callback_pending_def set_thread_def)
  qed
next
  case (Some c)
  with assms show ?thesis by (auto simp: set_callback_locked_def callback_inv_keep)
qed

lemma callback_inv_invoke:
  assumes "callback_inv r s" "result_inv r s" "rf_threads s i = Th_Invoke cb"
  shows "callback_inv r (set_thread i (Th_Set_done CASS_OK) (invoke (Some cb) s))"
proof -
  have only: "j = i" if "setter (rf_threads s j)" for j
    using assms(1,3) that unfolding callback_inv_def by (metis setter_simps(1))
  have cb: "rf_callback s = Some cb" and task: "\<And>c. rf_task s \<noteq> T_Callback (Some c)"
    using assms(1,3) unfolding callback_inv_def by blast+
  have pending: "callback_pending s" using assms(3) by (auto simp: callback_pending_def)
  then have "rf_result s \<noteq> None" "rf_invoked s = []"
    using assms(1) cb unfolding callback_inv_def by (auto split: if_splits)
  moreover from this have "rf_result s = Some r" using assms(2) by (simp add: result_inv_def)
  moreover have "rf_threads s j \<noteq> Th_Invoke c" if "j \<noteq> i" for j c
    using only that by (metis setter_simps(1))
  ultimately show ?thesis
    using only cb task
    by (auto simp: callback_inv_def callback_pending_def set_thread_def invoke_def)
qed

lemma callback_inv_task:
  assumes "callback_inv r s" "result_inv r s" "rf_task s = T_Callback cb"
  shows "callback_inv r ((invoke cb s)\<lparr>rf_task := T_Notify\<rparr>)"
proof (cases cb)
  case None
  with assms show ?thesis by (auto simp: callback_inv_def callback_pending_def invoke_def)
next
  case (Some c)
  then have "rf_callback s = Some c" "\<And>i d. rf_threads s i \<noteq> Th_Invoke d"
    using assms(1,3) unfolding callback_inv_def by blast+
  moreover have "callback_pending s" using Some assms(3) by (simp add: callback_pending_def)
  moreover have "rf_result s = Some r" using assms(2,3) by (auto simp: result_inv_def)
  ultimately show ?thesis
    using Some assms(1)
    by (auto simp: callback_inv_def callback_pending_def invoke_def split: if_splits)
qed

lemma callback_inv_step:
  assumes "future_step multi r s s'" "result_inv r s" "callback_inv r s"
  shows "callback_inv r s'"
  using assms
proof (induction rule: future_step.induct)
  case (task_resolve s)
  then have "rf_result s = None" by (simp add: result_inv_def)
  with task_resolve show ?case
    by (auto simp: callback_inv_def callback_pending_def resolve_locked_def)
next
  case (task_callback s cb)
  then show ?case by (simp add: callback_inv_task)
next
  case (task_notify s)
  then show ?case by (auto simp: callback_inv_def callback_pending_def notify_all_def)
next
  case (set_lock s i cb th s')
  then show ?case by (simp add: callback_inv_locked)
next
  case (set_invoke s i cb)
  then show ?case by (simp add: callback_inv_invoke)
next
  case (wait_loop s i t th s')
  then show ?case
    by (auto simp: loop_iteration_def callback_inv_keep split: option.splits if_splits)
next
  case (return_one s i j t)
  then have "callback_inv r (set_thread i Th_Timeout (s\<lparr>rf_join_handle := True\<rparr>))"
    by (simp add: callback_inv_keep)
  then show ?case
    by (rule callback_inv_keep) (use return_one in \<open>auto simp: set_thread_def\<close>)
next
  case (block_done s i t)
  then show ?case by (simp add: callback_inv_keep split: option.splits)
qed (simp_all add: callback_inv_keep)

lemma reachable_callback: "future_reachable multi r s \<Longrightarrow> callback_inv r s"
proof (induction rule: future_invariant_induct)
  case (init threads)
  then have "\<not> setter (threads i)" "threads i \<noteq> Th_Invoke c" for i c
    by (auto simp: fresh_def setter_def split: thread.splits dest: spec [of _ i])
  then show ?case by (simp add: callback_inv_def callback_pending_def new_from_future_def)
next
  case (step s s')
  show ?case by (rule callback_inv_step [OF step.hyps(2) reachable_result [OF step.hyps(1)] step.IH])
next
  case (wakeup s i t)
  then show ?case by (simp add: callback_inv_keep)
qed

subsection \<open>Progress\<close>

definition waiting :: "'r thread \<Rightarrow> bool" where
  "waiting th \<longleftrightarrow> th \<in> {Th_Wait False, Th_Loop False, Th_Block False, Th_Cond False}"

definition can_get :: "bool \<Rightarrow> 'r \<Rightarrow> nat \<Rightarrow> 'r ResolvableFuture \<Rightarrow> bool" where
  "can_get multi r i s \<longleftrightarrow> (\<exists>s'. (future_step multi r)\<^sup>*\<^sup>* s s' \<and> rf_threads s' i = Th_Got r)"

lemma can_get_step: "future_step multi r s s' \<Longrightarrow> can_get multi r i s' \<Longrightarrow> can_get multi r i s"
  unfolding can_get_def by (meson converse_rtranclp_into_rtranclp)

lemma can_get_now: "future_step multi r s s' \<Longrightarrow> rf_threads s' i = Th_Got r \<Longrightarrow> can_get multi r i s"
  unfolding can_get_def by blast

lemma reachable_step: "future_reachable multi r s \<Longrightarrow> future_step multi r s s' \<Longrightarrow> future_reachable multi r s'"
proof -
  assume "future_reachable multi r s" and step: "future_step multi r s s'"
  then obtain threads where fr: "\<forall>i. fresh (threads i)"
    and steps: "(any_step multi r)\<^sup>*\<^sup>* (new_from_future threads) s"
    by (auto simp: future_reachable_def)
  have "any_step multi r s s'" using step by (simp add: any_step_def)
  with steps have "(any_step multi r)\<^sup>*\<^sup>* (new_from_future threads) s'" by (rule rtranclp.rtrancl_into_rtrancl)
  with fr show ?thesis by (auto simp: future_reachable_def)
qed

lemma waiting_wake [simp]: "waiting th \<Longrightarrow> waiting (wake th)"
  by (auto simp: waiting_def wake_def)

lemma finished_can_get:
  assumes "future_reachable multi r s" "waiting (rf_threads s i)" "rf_task s = T_Finished"
  shows "can_get multi r i s"
proof -
  have res: "rf_result s = Some r"
    using reachable_result [OF assms(1)] assms(3) by (auto simp: result_inv_def)
  have "rf_threads s i \<noteq> Th_Cond False"
    using reachable_wakeup [OF assms(1)] assms(3) by (simp add: wakeup_inv_def)
  then consider "rf_threads s i = Th_Wait False" | "rf_threads s i = Th_Loop False"
    | "rf_threads s i = Th_Block False"
    using assms(2) by (auto simp: waiting_def)
  then show ?thesis
  proof cases
    case 1
    then show ?thesis
      using can_get_now [OF wait_fast [OF 1 res]] by (simp add: set_thread_def)
  next
    case 2
    then show ?thesis
      using can_get_now [OF wait_loop [OF 2, of "Th_Got r" s]] res
      by (simp add: set_thread_def loop_iteration_def)
  next
    case 3
    then show ?thesis
      using can_get_now [OF block_done [OF 3 assms(3)]] res by (simp add: set_thread_def)
  qed
qed

lemma resolved_can_get:
  assumes "future_reachable multi r s" "waiting (rf_threads s i)" "rf_task s \<noteq> T_Await"
  shows "can_get multi r i s"
proof -
  have notify: "can_get multi r i s"
    if reach: "future_reachable multi r s" and w: "waiting (rf_threads s i)" and t: "rf_task s = T_Notify" for s
  proof (rule can_get_step [OF task_notify [OF t]])
    show "can_get multi r i ((notify_all s)\<lparr>rf_task := T_Finished\<rparr>)"
      using reachable_step [OF reach task_notify [OF t]] w
      by (intro finished_can_get) (simp_all add: notify_all_def)
  qed
  have callback: "can_get multi r i s" if t: "rf_task s = T_Callback cb" for cb
  proof (rule can_get_step [OF task_callback [OF t]])
    show "can_get multi r i ((invoke cb s)\<lparr>rf_task := T_Notify\<rparr>)"
      using reachable_step [OF assms(1) task_callback [OF t]] assms(2) by (intro notify) simp_all
  qed
  have "rf_task s \<noteq> T_Panicked" using reachable_result [OF assms(1)] by (simp add: result_inv_def)
  with assms notify callback finished_can_get show ?thesis by (cases "rf_task s") auto
qed

lemma driven_can_get:
  assumes "future_reachable multi r s" "waiting (rf_threads s i)" "rf_task s = T_Await"
    and "multi \<or> (\<exists>j t. rf_threads s j = Th_Block t)"
  shows "can_get multi r i s"
proof (rule can_get_step [OF task_resolve [OF assms(3,4)]])
  have "rf_result s = None" using reachable_result [OF assms(1)] assms(3) by (simp add: result_inv_def)
  then show "can_get multi r i (resolve_locked r s)"
    using reachable_step [OF assms(1) task_resolve [OF assms(3,4)]] assms(2)
    by (intro resolved_can_get) (simp_all add: resolve_locked_def)
qed

lemma taken_can_get:
  assumes "future_reachable multi r s" "waiting (rf_threads s i)" "rf_task s = T_Await"
    and "rf_join_handle s" "rf_threads s j = Th_Loop t"
  shows "can_get multi r i s"
proof -
  let ?s = "set_thread j (Th_Block t) (s\<lparr>rf_join_handle := False\<rparr>)"
  have "rf_result s = None" using reachable_result [OF assms(1)] assms(3) by (simp add: result_inv_def)
  then have step: "future_step multi r s ?s"
    using assms(4) by (intro wait_loop [OF assms(5)]) (simp add: loop_iteration_def)
  have "waiting (rf_threads ?s i)" using assms(2,5) by (auto simp: waiting_def set_thread_def)
  moreover have "rf_threads ?s j = Th_Block t" "rf_task ?s = T_Await"
    using assms(3) by (simp_all add: set_thread_def)
  ultimately have "can_get multi r i ?s"
    using reachable_step [OF assms(1) step] by (intro driven_can_get) auto
  then show ?thesis by (rule can_get_step [OF step])
qed

lemma free_handle_can_get:
  assumes "future_reachable multi r s" "waiting (rf_threads s i)" "rf_task s = T_Await"
    and "rf_join_handle s"
  shows "can_get multi r i s"
proof (cases "\<exists>j t. rf_threads s j = Th_Loop t")
  case True
  then obtain j t where "rf_threads s j = Th_Loop t" by blast
  then show ?thesis by (rule taken_can_get [OF assms])
next
  case False
  have res: "rf_result s = None" using reachable_result [OF assms(1)] assms(3) by (simp add: result_inv_def)
  have "rf_threads s i \<noteq> Th_Cond False"
    using reachable_wakeup [OF assms(1)] assms(4) res False by (auto simp: wakeup_inv_def)
  moreover have "\<not> owner (rf_threads s i)"
    using reachable_handle [OF assms(1)] assms(4) by (simp add: handle_inv_def)
  ultimately have w: "rf_threads s i = Th_Wait False"
    using assms(2) False by (auto simp: waiting_def)
  let ?s = "set_thread i (Th_Loop False) s"
  have step: "future_step multi r s ?s" by (rule wait_slow [OF w res])
  have "can_get multi r i ?s"
    using reachable_step [OF assms(1) step] assms(3,4)
    by (intro taken_can_get [of multi r ?s i i False]) (simp_all add: set_thread_def waiting_def)
  then show ?thesis by (rule can_get_step [OF step])
qed

lemma returned_handle_can_get:
  assumes "future_reachable multi r s" "waiting (rf_threads s i)" "rf_task s = T_Await"
    and "rf_threads s j = Th_Return_handle"
  shows "can_get multi r i s"
proof (cases "\<exists>k t. rf_threads s k = Th_Cond t")
  case True
  then obtain k t where k: "rf_threads s k = Th_Cond t" by blast
  let ?s = "set_thread k (Th_Loop t) (set_thread j Th_Timeout (s\<lparr>rf_join_handle := True\<rparr>))"
  have step: "future_step multi r s ?s" by (rule return_one [OF assms(4) k])
  have "can_get multi r i ?s"
    using reachable_step [OF assms(1) step] assms(2-4) k
    by (intro free_handle_can_get) (auto simp: set_thread_def waiting_def)
  then show ?thesis by (rule can_get_step [OF step])
next
  case False
  let ?s = "set_thread j Th_Timeout (s\<lparr>rf_join_handle := True\<rparr>)"
  have step: "future_step multi r s ?s" using False by (intro return_none [OF assms(4)]) blast
  have "can_get multi r i ?s"
    using reachable_step [OF assms(1) step] assms(2-4)
    by (intro free_handle_can_get) (auto simp: set_thread_def waiting_def)
  then show ?thesis by (rule can_get_step [OF step])
qed

lemma waiting_can_get:
  assumes "future_reachable multi r s" "waiting (rf_threads s i)"
  shows "can_get multi r i s"
proof (cases "rf_task s = T_Await")
  case False
  then show ?thesis using resolved_can_get [OF assms] by simp
next
  case await: True
  show ?thesis
  proof (cases "rf_join_handle s")
    case True
    then show ?thesis using free_handle_can_get [OF assms await] by simp
  next
    case False
    then obtain j where "owner (rf_threads s j)"
      using reachable_handle [OF assms(1)] await by (auto simp: handle_inv_def)
    then consider t where "rf_threads s j = Th_Block t" | "rf_threads s j = Th_Return_handle"
      by (auto simp: owner_def split: thread.splits)
    then show ?thesis
    proof cases
      case 1
      then show ?thesis using driven_can_get [OF assms await] by blast
    next
      case 2
      then show ?thesis using returned_handle_can_get [OF assms await] by simp
    qed
  qed
qed

subsection \<open>What callers see\<close>

text \<open>
  Property C8.  Waiting cannot get stuck.  In every state that threads can reach, whatever waits with
  timeouts, callbacks and spurious wake-ups came before, a thread that waits without a timeout still
  has a way to return, and what it returns is the result of the request.  This holds with a runtime
  without worker threads too, where the request only proceeds while somebody blocks on the join
  handle, and it needs no spurious wake-up.
\<close>

theorem waiting_threads_can_always_return:
  assumes "future_reachable multi r s"
    and "rf_threads s i \<in> {Th_Wait False, Th_Loop False, Th_Block False, Th_Cond False}"
  shows "\<exists>s'. (future_step multi r)\<^sup>*\<^sup>* s s' \<and> rf_threads s' i = Th_Got r"
  using waiting_can_get [OF assms(1), of i] assms(2) by (simp add: waiting_def can_get_def)

text \<open>Two threads, one of which has taken the handle; there are no worker threads.\<close>

definition two_waiters :: "nat ResolvableFuture" where
  "two_waiters = new_from_future ((\<lambda>_. Th_Idle)(0 := Th_Wait False, 1 := Th_Wait True))"

lemma fresh_init: "\<forall>i. fresh (threads i) \<Longrightarrow> future_reachable multi r (new_from_future threads)"
  by (auto simp: future_reachable_def)

theorem waiting_threads_can_always_return_witness:
  "\<exists>s'. (future_step False 7)\<^sup>*\<^sup>* two_waiters s' \<and> rf_threads s' 0 = Th_Got 7"
proof (rule waiting_threads_can_always_return)
  show "future_reachable False 7 two_waiters"
    unfolding two_waiters_def by (rule fresh_init) (simp add: fresh_def)
qed (simp add: two_waiters_def new_from_future_def)

text \<open>
  Property C9.  All that is returned is the result of the request: every thread that gets a result gets
  that of the request; the result is never set twice and never missing when it is unwrapped, so that
  neither the task nor a waiting thread panics; and while a result is missing, exactly one of the
  future and the threads has the join handle.
\<close>

theorem waiting_threads_get_the_result:
  assumes "future_reachable multi r s"
  shows "(rf_threads s i = Th_Got x \<longrightarrow> x = r \<and> rf_result s = Some r) \<and>
     rf_threads s i \<noteq> Th_Panicked \<and> rf_task s \<noteq> T_Panicked \<and>
     (rf_result s = None \<longrightarrow>
        (rf_join_handle s \<longleftrightarrow> (\<forall>j. \<not> owner (rf_threads s j))) \<and>
        (owner (rf_threads s i) \<longrightarrow> owner (rf_threads s k) \<longrightarrow> i = k))"
proof -
  have h: "handle_inv s" and "result_inv r s"
    using reachable_handle [OF assms] reachable_result [OF assms] by simp_all
  then have "rf_threads s i = Th_Got x \<longrightarrow> x = r \<and> rf_result s = Some r"
    "rf_threads s i \<noteq> Th_Panicked" "rf_task s \<noteq> T_Panicked"
    "rf_result s = None \<longrightarrow> rf_task s = T_Await"
    by (auto simp: result_inv_def)
  with h show ?thesis unfolding handle_inv_def by auto
qed

theorem waiting_threads_get_the_result_witness:
  "rf_join_handle two_waiters \<longleftrightarrow> (\<forall>j. \<not> owner (rf_threads two_waiters j))"
proof -
  have "future_reachable True 7 two_waiters"
    unfolding two_waiters_def by (rule fresh_init) (simp add: fresh_def)
  from waiting_threads_get_the_result [OF this, of 0 7 0] show ?thesis
    by (simp add: two_waiters_def new_from_future_def)
qed

text \<open>
  Property C13.  A callback runs exactly once.  However setting it races with the task that resolves the
  future, at most one call of \<open>cass_future_set_callback\<close> succeeds, its callback is called at most
  once, no other callback is called, and the result is available when it is; and once the task has
  finished and no call is in progress, it was called.
\<close>

theorem callback_runs_exactly_once:
  assumes "future_reachable multi r s"
  shows "length (rf_invoked s) \<le> 1 \<and>
     ((cb, res) \<in> set (rf_invoked s) \<longrightarrow> rf_callback s = Some cb \<and> res = Some r) \<and>
     (rf_threads s i = Th_Set_done CASS_OK \<longrightarrow>
        (rf_threads s j = Th_Set_done CASS_OK \<longrightarrow> i = j) \<and>
        (rf_task s = T_Finished \<longrightarrow> (\<forall>k c. rf_threads s k \<noteq> Th_Invoke c) \<longrightarrow> length (rf_invoked s) = 1))"
proof -
  have inv: "callback_inv r s" and res: "result_inv r s"
    using reachable_callback [OF assms] reachable_result [OF assms] by simp_all
  have log: "rf_invoked s = [] \<or> rf_callback s \<noteq> None \<and> rf_invoked s = [(the (rf_callback s), Some r)]"
    using inv by (auto simp: callback_inv_def split: if_splits)
  have "i = j" "rf_callback s \<noteq> None"
    if "rf_threads s i = Th_Set_done CASS_OK" "rf_threads s j = Th_Set_done CASS_OK" for i j
    using inv that unfolding callback_inv_def by (metis setter_simps(2))+
  moreover have "length (rf_invoked s) = 1"
    if "rf_threads s i = Th_Set_done CASS_OK" "rf_task s = T_Finished" "\<forall>k c. rf_threads s k \<noteq> Th_Invoke c"
  proof -
    have "rf_callback s \<noteq> None" using inv that(1) unfolding callback_inv_def by (metis setter_simps(2))
    moreover have "rf_result s \<noteq> None" using res that(2) by (auto simp: result_inv_def)
    ultimately show ?thesis
      using inv that(2,3) unfolding callback_inv_def callback_pending_def by (simp split: if_splits)
  qed
  ultimately show ?thesis using log by auto
qed

definition with_callback :: "nat ResolvableFuture" where
  "with_callback = new_from_future ((\<lambda>_. Th_Idle)(0 := Th_Set (BoundCallback 1 2)))"

theorem callback_runs_exactly_once_witness:
  "\<exists>s. future_reachable True (7 :: nat) s \<and> rf_threads s 0 = Th_Set_done CASS_OK \<and>
     rf_task s = T_Finished \<and> length (rf_invoked s) = 1"
proof -
  let ?s1 = "set_thread 0 (Th_Set_done CASS_OK) (with_callback\<lparr>rf_callback := Some (BoundCallback 1 2)\<rparr>)"
  let ?s2 = "resolve_locked 7 ?s1"
  let ?s3 = "(invoke (Some (BoundCallback 1 2)) ?s2)\<lparr>rf_task := T_Notify\<rparr>"
  let ?s4 = "(notify_all ?s3)\<lparr>rf_task := T_Finished\<rparr>"
  have r0: "future_reachable True 7 with_callback"
    unfolding with_callback_def by (rule fresh_init) (simp add: fresh_def)
  have r1: "future_reachable True 7 ?s1"
    by (rule reachable_step [OF r0], rule set_lock [of _ 0 "BoundCallback 1 2"])
      (simp_all add: with_callback_def new_from_future_def set_callback_locked_def)
  have r2: "future_reachable True 7 ?s2"
    by (rule reachable_step [OF r1], rule task_resolve)
      (simp_all add: with_callback_def new_from_future_def set_thread_def)
  have r3: "future_reachable True 7 ?s3"
    by (rule reachable_step [OF r2], rule task_callback)
      (simp add: with_callback_def new_from_future_def set_thread_def resolve_locked_def)
  have r4: "future_reachable True 7 ?s4"
    by (rule reachable_step [OF r3], rule task_notify) simp
  have t: "rf_threads ?s4 0 = Th_Set_done CASS_OK" "\<forall>k c. rf_threads ?s4 k \<noteq> Th_Invoke c"
    "rf_task ?s4 = T_Finished"
    by (simp_all add: with_callback_def new_from_future_def section_defs)
  then have "length (rf_invoked ?s4) = 1"
    using callback_runs_exactly_once [OF r4, of "BoundCallback 1 2" "Some 7" 0 0] by blast
  with r4 t show ?thesis by blast
qed

end
