(* ===== verification/Cass_Events.thy ===== *)
theory Cass_Events
  imports Cass_Inet_Date Cass_Load_Balancing
begin

text \<open>
  \<open>logging.rs\<close>, \<open>host_listener.rs\<close> and \<open>runtime.rs\<close>: what is reported to the callbacks of the application,
  and the cache of runtimes.

  An event of the \<open>tracing\<close> library has a level, a target, a line and fields with their texts.  The
  state of logging is the filter of the subscriber, absent when the application installed its own, and
  the registered callback; callbacks and their data are addresses, and \<open>None\<close> is the callback that the
  driver starts with, which prints to standard error.
\<close>

subsection \<open>Log levels\<close>

datatype Level = Level_ERROR | Level_WARN | Level_INFO | Level_DEBUG | Level_TRACE

datatype LevelFilter = Filter_OFF | Filter_upto Level

type_synonym CassLogLevel = u32

abbreviation CASS_LOG_DISABLED :: CassLogLevel where
  "CASS_LOG_DISABLED \<equiv> 0"

abbreviation CASS_LOG_CRITICAL :: CassLogLevel where
  "CASS_LOG_CRITICAL \<equiv> 1"

abbreviation CASS_LOG_ERROR :: CassLogLevel where
  "CASS_LOG_ERROR \<equiv> 2"

abbreviation CASS_LOG_WARN :: CassLogLevel where
  "CASS_LOG_WARN \<equiv> 3"

abbreviation CASS_LOG_INFO :: CassLogLevel where
  "CASS_LOG_INFO \<equiv> 4"

abbreviation CASS_LOG_DEBUG :: CassLogLevel where
  "CASS_LOG_DEBUG \<equiv> 5"

abbreviation CASS_LOG_TRACE :: CassLogLevel where
  "CASS_LOG_TRACE \<equiv> 6"

fun CassLogLevel_from :: "Level \<Rightarrow> CassLogLevel" where
  "CassLogLevel_from Level_TRACE = CASS_LOG_TRACE"
| "CassLogLevel_from Level_DEBUG = CASS_LOG_DEBUG"
| "CassLogLevel_from Level_INFO = CASS_LOG_INFO"
| "CassLogLevel_from Level_WARN = CASS_LOG_WARN"
| "CassLogLevel_from Level_ERROR = CASS_LOG_ERROR"

definition Level_try_from :: "CassLogLevel \<Rightarrow> unit + Level" where
  "Level_try_from log_level =
     (if log_level = CASS_LOG_TRACE then Inr Level_TRACE
      else if log_level = CASS_LOG_DEBUG then Inr Level_DEBUG
      else if log_level = CASS_LOG_INFO then Inr Level_INFO
      else if log_level = CASS_LOG_WARN then Inr Level_WARN
      else if log_level = CASS_LOG_ERROR then Inr Level_ERROR
      else if log_level = CASS_LOG_CRITICAL then Inr Level_ERROR
      else Inl ())"

definition LevelFilter_try_from :: "CassLogLevel \<Rightarrow> unit + LevelFilter" where
  "LevelFilter_try_from log_level =
     (if log_level = CASS_LOG_DISABLED then Inr Filter_OFF
      else map_sum id Filter_upto (Level_try_from log_level))"

definition cass_log_level_string :: "CassLogLevel \<Rightarrow> string" where
  "cass_log_level_string log_level =
     (if log_level = CASS_LOG_TRACE then ''TRACE''
      else if log_level = CASS_LOG_DEBUG then ''DEBUG''
      else if log_level = CASS_LOG_INFO then ''INFO''
      else if log_level = CASS_LOG_WARN then ''WARN''
      else if log_level = CASS_LOG_ERROR then ''ERROR''
      else if log_level = CASS_LOG_CRITICAL then ''CRITICAL''
      else if log_level = CASS_LOG_DISABLED then ''DISABLED''
      else [])"

subsection \<open>Log messages\<close>

text \<open>\<open>None\<close> as a callback stands for \<open>stderr_log_callback\<close>, \<open>Some None\<close> for \<open>noop_log_callback\<close>.\<close>

record log_state =
  log_filter :: "LevelFilter option"
  logger_cb :: "nat option option"
  logger_data :: nat

record log_event =
  ev_level :: Level
  ev_target :: string
  ev_line :: "nat option"
  ev_fields :: "(string \<times> string) list"

record CassLogMessage =
  time_ms :: u64
  severity :: CassLogLevel
  log_file :: string
  log_line :: u32
  log_message :: string

definition DEFAULT_LOG_LEVEL_FILTER :: LevelFilter where
  "DEFAULT_LOG_LEVEL_FILTER = Filter_upto Level_WARN"

text \<open>\<open>installed\<close>: whether the driver's subscriber could be installed.\<close>

definition init_logging :: "bool \<Rightarrow> log_state" where
  "init_logging installed =
     \<lparr>log_filter = then_some installed DEFAULT_LOG_LEVEL_FILTER, logger_cb = None, logger_data = 0\<rparr>"

definition cass_log_set_level :: "CassLogLevel \<Rightarrow> log_state \<Rightarrow> log_state" where
  "cass_log_set_level log_level s =
     (let filt = (case LevelFilter_try_from log_level of Inr f \<Rightarrow> f | Inl _ \<Rightarrow> DEFAULT_LOG_LEVEL_FILTER)
      in s\<lparr>log_filter := map_option (\<lambda>_. filt) (log_filter s)\<rparr>)"

definition cass_log_set_callback :: "nat option \<Rightarrow> nat \<Rightarrow> log_state \<Rightarrow> log_state" where
  "cass_log_set_callback callback data s = s\<lparr>logger_cb := Some callback, logger_data := data\<rparr>"

definition cass_log_get_callback_and_data :: "log_state \<Rightarrow> nat option option \<times> nat" where
  "cass_log_get_callback_and_data s = (logger_cb s, logger_data s)"

definition record_debug :: "string \<Rightarrow> string \<times> string \<Rightarrow> string" where
  "record_debug msg f =
     (if msg = [] then fst f @ '': '' @ snd f else msg @ '', '' @ fst f @ '': '' @ snd f)"

definition CASS_LOG_MAX_MESSAGE_SIZE :: nat where
  "CASS_LOG_MAX_MESSAGE_SIZE = 1024"

definition log_on_event :: "u64 \<Rightarrow> log_event \<Rightarrow> CassLogMessage" where
  "log_on_event now event =
     \<lparr>time_ms = now, severity = CassLogLevel_from (ev_level event),
      log_file = ev_target event @ [nul],
      log_line = word_of_nat (case ev_line event of Some l \<Rightarrow> l | None \<Rightarrow> 0),
      log_message = str_to_arr CASS_LOG_MAX_MESSAGE_SIZE
        (foldl record_debug [] (ev_fields event) @ [nul])\<rparr>"

text \<open>
  The filter of \<open>tracing\<close> lets an event through when its level is not more verbose; the registered
  callback, if it is one of the application, gets the message and its data.
\<close>

definition level_rank :: "Level \<Rightarrow> nat" where
  "level_rank l = unat (CassLogLevel_from l)"

definition admits :: "LevelFilter \<Rightarrow> Level \<Rightarrow> bool" where
  "admits f l = (case f of Filter_OFF \<Rightarrow> False | Filter_upto m \<Rightarrow> level_rank l \<le> level_rank m)"

definition emit :: "log_state \<Rightarrow> u64 \<Rightarrow> log_event \<Rightarrow> (nat \<times> CassLogMessage \<times> nat) list" where
  "emit s now event =
     (case (log_filter s, logger_cb s) of
        (Some f, Some (Some cb)) \<Rightarrow>
          (if admits f (ev_level event) then [(cb, log_on_event now event, logger_data s)] else [])
      | _ \<Rightarrow> [])"

subsection \<open>Host events\<close>

datatype HostEvent =
    HE_Added
  | HE_Removed
  | HE_Up
  | HE_Down
  | HE_AddressChanged IpAddr IpAddr
  | HE_Unknown

datatype CassHostListenerEvent =
    CASS_HOST_LISTENER_EVENT_UP
  | CASS_HOST_LISTENER_EVENT_DOWN
  | CASS_HOST_LISTENER_EVENT_ADD
  | CASS_HOST_LISTENER_EVENT_REMOVE

text \<open>The calls of the callback of a listener, each with the data.\<close>

fun host_listener_on_event ::
    "nat \<Rightarrow> IpAddr \<Rightarrow> HostEvent \<Rightarrow> (CassHostListenerEvent \<times> CassInet \<times> nat) list" where
  "host_listener_on_event data ip HE_Added = [(CASS_HOST_LISTENER_EVENT_ADD, CassInet_from ip, data)]"
| "host_listener_on_event data ip HE_Removed = [(CASS_HOST_LISTENER_EVENT_REMOVE, CassInet_from ip, data)]"
| "host_listener_on_event data ip HE_Up = [(CASS_HOST_LISTENER_EVENT_UP, CassInet_from ip, data)]"
| "host_listener_on_event data ip HE_Down = [(CASS_HOST_LISTENER_EVENT_DOWN, CassInet_from ip, data)]"
| "host_listener_on_event data ip (HE_AddressChanged old new) =
     [(CASS_HOST_LISTENER_EVENT_REMOVE, CassInet_from old, data),
      (CASS_HOST_LISTENER_EVENT_ADD, CassInet_from new, data)]"
| "host_listener_on_event data ip HE_Unknown = []"

subsection \<open>Runtimes\<close>

text \<open>
  A runtime is an address; it is alive while some session holds it.  A slot of the cache is a weak
  pointer: it can be upgraded exactly when its runtime is alive.  The default runtime has the key
  \<open>None\<close>, a runtime with \<open>n\<close> worker threads the key \<open>Some n\<close>.  Creating a runtime can fail.
\<close>

type_synonym runtime_key = "nat option"

record Runtimes =
  rt_slots :: "(runtime_key \<times> nat) list"
  rt_alive :: "(nat \<times> runtime_key) list"
  rt_next :: nat

definition upgrade :: "Runtimes \<Rightarrow> runtime_key \<Rightarrow> nat option" where
  "upgrade rs key =
     (case map_of (rt_slots rs) key of
        Some runtime \<Rightarrow> then_some (runtime \<in> fst ` set (rt_alive rs)) runtime
      | None \<Rightarrow> None)"

definition cached_or_new_runtime :: "Runtimes \<Rightarrow> runtime_key \<Rightarrow> bool \<Rightarrow> (unit + nat) \<times> Runtimes" where
  "cached_or_new_runtime rs key creates =
     (case upgrade rs key of
        Some cached_runtime \<Rightarrow> (Inr cached_runtime, rs)
      | None \<Rightarrow>
          (if creates
           then (Inr (rt_next rs),
                 \<lparr>rt_slots = (key, rt_next rs) # rt_slots rs,
                  rt_alive = (rt_next rs, key) # rt_alive rs,
                  rt_next = Suc (rt_next rs)\<rparr>)
           else (Inl (), rs)))"

definition default_runtime :: "Runtimes \<Rightarrow> bool \<Rightarrow> (unit + nat) \<times> Runtimes" where
  "default_runtime rs creates = cached_or_new_runtime rs None creates"

definition n_thread_runtime :: "Runtimes \<Rightarrow> nat \<Rightarrow> bool \<Rightarrow> (unit + nat) \<times> Runtimes" where
  "n_thread_runtime rs n_threads creates = cached_or_new_runtime rs (Some n_threads) creates"

text \<open>\<open>CassCluster::get_runtime\<close> panics when the runtime cannot be created.\<close>

definition get_runtime :: "Runtimes \<Rightarrow> nat option \<Rightarrow> bool \<Rightarrow> (nat \<times> Runtimes) panics" where
  "get_runtime rs threads creates =
     (case (case threads of Some n \<Rightarrow> n_thread_runtime rs n creates | None \<Rightarrow> default_runtime rs creates) of
        (Inr runtime, rs') \<Rightarrow> Some (runtime, rs')
      | (Inl _, rs') \<Rightarrow> None)"

inductive runtimes_reachable :: "Runtimes \<Rightarrow> bool" where
  start: "runtimes_reachable \<lparr>rt_slots = [], rt_alive = [], rt_next = 0\<rparr>"
| get: "runtimes_reachable rs \<Longrightarrow> get_runtime rs threads creates = Some (runtime, rs') \<Longrightarrow>
     runtimes_reachable rs'"
| dropped: "runtimes_reachable rs \<Longrightarrow>
     runtimes_reachable (rs\<lparr>rt_alive := filter (\<lambda>(id, _). id \<noteq> runtime) (rt_alive rs)\<rparr>)"

subsection \<open>Laws\<close>

lemma small_word_cases:
  assumes "unat (l :: u32) \<le> 6"
  shows "l = 0 \<or> l = 1 \<or> l = 2 \<or> l = 3 \<or> l = 4 \<or> l = 5 \<or> l = 6"
proof -
  have "l = word_of_nat (unat l)" by simp
  with assms obtain k where k: "l = word_of_nat k" "k \<le> 6" by blast
  then have "k = 0 \<or> k = 1 \<or> k = 2 \<or> k = 3 \<or> k = 4 \<or> k = 5 \<or> k = 6" by auto
  with k(1) show ?thesis by auto
qed

lemma admits_rank:
  "admits (Filter_upto m) l \<longleftrightarrow> unat (CassLogLevel_from l) \<le> unat (CassLogLevel_from m)"
  "\<not> admits Filter_OFF l"
  by (simp_all add: admits_def level_rank_def)

lemma rank_positive: "0 < unat (CassLogLevel_from l)"
  by (cases l) simp_all

lemma filter_bound:
  "admits (case LevelFilter_try_from l of Inr f \<Rightarrow> f | Inl _ \<Rightarrow> DEFAULT_LOG_LEVEL_FILTER) e \<longleftrightarrow>
     unat (CassLogLevel_from e) \<le>
       (if l = CASS_LOG_CRITICAL then 2 else if unat l \<le> 6 then unat l else 3)"
proof (cases "unat l \<le> 6")
  case True
  with small_word_cases [OF True] show ?thesis
    using rank_positive [of e]
    by (elim disjE) (simp_all add: LevelFilter_try_from_def Level_try_from_def admits_rank)
next
  case False
  then have "l \<noteq> 0" "l \<noteq> 1" "l \<noteq> 2" "l \<noteq> 3" "l \<noteq> 4" "l \<noteq> 5" "l \<noteq> 6" by auto
  with False show ?thesis
    by (simp add: LevelFilter_try_from_def Level_try_from_def admits_rank DEFAULT_LOG_LEVEL_FILTER_def)
qed

text \<open>
  After \<open>cass_log_set_level\<close> with a level of the header, the application's callback gets an
  event exactly when its severity is at most that level, except that \<open>CASS_LOG_CRITICAL\<close> also lets
  errors through; \<open>CASS_LOG_DISABLED\<close> silences everything, an unknown level means \<open>CASS_LOG_WARN\<close>, and
  the message has room for its terminator.
\<close>

lemma log_level_filters_events:
  assumes "log_filter s \<noteq> None" "logger_cb s = Some (Some cb)"
  shows "emit (cass_log_set_level l s) now e =
     (if unat (CassLogLevel_from (ev_level e)) \<le>
         (if l = CASS_LOG_CRITICAL then 2 else if unat l \<le> 6 then unat l else 3)
      then [(cb, log_on_event now e, logger_data s)] else []) \<and>
     length (log_message (log_on_event now e)) = CASS_LOG_MAX_MESSAGE_SIZE"
proof -
  obtain f where f: "log_filter s = Some f" using assms(1) by blast
  define bound :: nat where
    "bound = (if l = CASS_LOG_CRITICAL then 2 else if unat l \<le> 6 then unat l else 3)"
  have "admits (case LevelFilter_try_from l of Inr f \<Rightarrow> f | Inl _ \<Rightarrow> DEFAULT_LOG_LEVEL_FILTER) (ev_level e) \<longleftrightarrow>
      unat (CassLogLevel_from (ev_level e)) \<le> bound"
    unfolding bound_def by (rule filter_bound)
  with assms f show ?thesis
    unfolding bound_def
    by (simp add: emit_def cass_log_set_level_def log_on_event_def length_str_to_arr)
qed

text \<open>Every live runtime is the one its slot points to.\<close>

definition runtimes_inv :: "Runtimes \<Rightarrow> bool" where
  "runtimes_inv rs \<longleftrightarrow>
     (\<forall>(id, key) \<in> set (rt_alive rs). map_of (rt_slots rs) key = Some id \<and> id < rt_next rs) \<and>
     distinct (map fst (rt_alive rs))"

lemma cached_or_new_inv:
  assumes "runtimes_inv rs" "cached_or_new_runtime rs key creates = (Inr runtime, rs')"
  shows "runtimes_inv rs' \<and> upgrade rs' key = Some runtime"
proof (cases "upgrade rs key")
  case None
  then have dead: "\<forall>id. (id, key) \<notin> set (rt_alive rs)"
    using assms(1) by (force simp: upgrade_def runtimes_inv_def then_some_def split: option.splits if_splits)
  have rs': "rs' = \<lparr>rt_slots = (key, rt_next rs) # rt_slots rs, rt_alive = (rt_next rs, key) # rt_alive rs,
      rt_next = Suc (rt_next rs)\<rparr>" "runtime = rt_next rs"
    using None assms(2) by (auto simp: cached_or_new_runtime_def split: if_splits)
  have "runtimes_inv rs'"
    using assms(1) dead by (fastforce simp: runtimes_inv_def rs')
  then show ?thesis by (simp add: rs' upgrade_def)
next
  case (Some r)
  with assms show ?thesis by (simp add: cached_or_new_runtime_def)
qed

lemma cached_or_new_again:
  assumes "runtimes_inv rs" "cached_or_new_runtime rs key creates = (Inr runtime, rs')"
  shows "cached_or_new_runtime rs' key creates' = (Inr runtime, rs')"
  using cached_or_new_inv [OF assms] by (simp add: cached_or_new_runtime_def)

lemma get_runtime_cached:
  "get_runtime rs threads creates = Some (runtime, rs') \<longleftrightarrow>
     cached_or_new_runtime rs threads creates = (Inr runtime, rs')"
  by (auto simp: get_runtime_def n_thread_runtime_def default_runtime_def
      split: option.splits sum.splits prod.splits)

lemma runtimes_reachable_inv: "runtimes_reachable rs \<Longrightarrow> runtimes_inv rs"
proof (induction rule: runtimes_reachable.induct)
  case (get rs threads creates runtime rs')
  then show ?case using cached_or_new_inv [of rs threads creates runtime rs'] by (auto simp: get_runtime_cached)
qed (auto simp: runtimes_inv_def distinct_map_filter)

lemma alive_slot: "runtimes_inv rs \<Longrightarrow> (a, key) \<in> set (rt_alive rs) \<Longrightarrow> map_of (rt_slots rs) key = Some a"
  by (auto simp: runtimes_inv_def)

lemma alive_key:
  "runtimes_inv rs \<Longrightarrow> (a, key) \<in> set (rt_alive rs) \<Longrightarrow> (a, key') \<in> set (rt_alive rs) \<Longrightarrow> key = key'"
  using eq_key_imp_eq_value [of "rt_alive rs" a key key'] by (simp add: runtimes_inv_def)

text \<open>
  Clusters with the same number of threads share a runtime while it lives: after any
  history of creating and dropping, asking again for the runtime just obtained gives the same one and
  creates nothing; there is never more than one live runtime for a number of threads, and none serves
  two numbers.
\<close>

lemma runtimes_are_shared:
  assumes "runtimes_reachable rs"
  shows "(get_runtime rs threads creates = Some (runtime, rs') \<longrightarrow>
       get_runtime rs' threads creates' = Some (runtime, rs')) \<and>
     ((a, key) \<in> set (rt_alive rs) \<longrightarrow>
       ((b, key) \<in> set (rt_alive rs) \<longrightarrow> a = b) \<and> ((a, key') \<in> set (rt_alive rs) \<longrightarrow> key = key'))"
proof -
  note inv = runtimes_reachable_inv [OF assms]
  have "get_runtime rs' threads creates' = Some (runtime, rs')"
    if "get_runtime rs threads creates = Some (runtime, rs')"
    using that cached_or_new_again [OF inv, of threads creates runtime rs' creates']
    by (simp only: get_runtime_cached)
  moreover have "a = b" if "(a, key) \<in> set (rt_alive rs)" "(b, key) \<in> set (rt_alive rs)"
    using alive_slot [OF inv that(1)] alive_slot [OF inv that(2)] by simp
  ultimately show ?thesis using alive_key [OF inv, of a key key'] by simp
qed

end
