(* ===== verification/Cass_Query_Result.thy ===== *)
theory Cass_Query_Result
  imports Cass_Metadata_Cache Cass_Statement_Api Cass_Serialize Cass_Data_Type_Api Cass_Uuid Cass_Inet_Date Cass_Error
begin

text \<open>
  \<open>query_result.rs\<close>: results, rows and values, and the functions that read them.

  The frame of a response belongs to the Rust driver.  A \<open>FrameSlice\<close> is its bytes.  The rows that the
  driver hands out are the list of what its row iterator gives, each row the list of what its column
  iterator gives; either may be an error in place of an item, and the number of rows in the header is
  kept beside them.  What a C type is read with (\<open>DeserializeValue\<close> for \<open>f32\<close>, \<open>i64\<close>, \<open>&str\<close> and so on)
  is an argument of the getter: a check of the column type and a reader of the bytes.

  A getter that writes through a pointer returns the error and what it has written, if anything.
\<close>

subsection \<open>What the Rust driver hands out\<close>

type_synonym frame_slice = "u8 list"

record RawColumn =
  raw_index :: nat
  raw_spec :: ColumnSpec
  raw_slice :: "frame_slice option"

type_synonym CassRawRow = "(unit + RawColumn) list"

record DeserializedMetadataAndRawRows =
  rows_count :: nat
  rows_iter :: "(unit + CassRawRow) list"

record QueryRowsResult =
  qr_column_specs :: "ColumnSpec list"
  qr_raw_rows :: DeserializedMetadataAndRawRows
  qr_tracing_id :: "u128 option"
  qr_coordinator :: "nat option"

datatype into_rows_result =
    Rows_Ok QueryRowsResult
  | ResultNotRows "u128 option" nat
  | ResultMetadataLazyDeserializationError

record 't DeserializeValue =
  type_check :: "ColumnType \<Rightarrow> bool"
  deserialize_value :: "ColumnType \<Rightarrow> frame_slice \<Rightarrow> unit + 't"

subsection \<open>Raw values\<close>

record CassRawValue =
  rv_typ :: ColumnType
  rv_slice :: "frame_slice option"
  rv_item_count :: "nat option"

datatype CollectionLengthDeserializationError = TooFewBytes nat | NegativeLength int

fun is_collection_type :: "ColumnType \<Rightarrow> bool" where
  "is_collection_type (CT_List _ _) = True"
| "is_collection_type (CT_Set _ _) = True"
| "is_collection_type (CT_Map _ _ _) = True"
| "is_collection_type _ = False"

definition collection_length :: "frame_slice \<Rightarrow> CollectionLengthDeserializationError + nat" where
  "collection_length bytes =
     (if length bytes < 4 then Inl (TooFewBytes (length bytes))
      else
        (let i32_length = sint (word_of_nat (of_be_bytes (take 4 bytes)) :: u32) in
         if i32_length < 0 then Inl (NegativeLength i32_length) else Inr (nat i32_length)))"

definition determine_value_item_count ::
    "ColumnType \<Rightarrow> frame_slice option \<Rightarrow> CollectionLengthDeserializationError + nat option" where
  "determine_value_item_count typ bytes =
     (case bytes of
        None \<Rightarrow> Inr None
      | Some frame_slice \<Rightarrow>
          (if is_collection_type typ then map_sum id Some (collection_length frame_slice)
           else
             (case typ of
                CT_Tuple types \<Rightarrow> Inr (Some (length types))
              | CT_Vector _ dimensions \<Rightarrow> Inr (Some (unat dimensions))
              | CT_UserDefinedType field_list _ _ _ \<Rightarrow> Inr (Some (length field_list))
              | _ \<Rightarrow> Inr None)))"

text \<open>The types for which an empty cell is a value of its own: collections, UDTs, strings and bytes.\<close>

fun keeps_empty :: "ColumnType \<Rightarrow> bool" where
  "keeps_empty (CT_UserDefinedType _ _ _ _) = True"
| "keeps_empty (CT_Native n) = (n \<in> {NT_Duration, NT_Counter, NT_Ascii, NT_Text, NT_Blob})"
| "keeps_empty typ = is_collection_type typ"

definition CassRawValue_deserialize ::
    "ColumnType \<Rightarrow> frame_slice option \<Rightarrow> CollectionLengthDeserializationError + CassRawValue" where
  "CassRawValue_deserialize typ v =
     (let bytes = (if keeps_empty typ then v else if v = Some [] then None else v) in
      case determine_value_item_count typ bytes of
        Inl e \<Rightarrow> Inl e
      | Inr item_count \<Rightarrow> Inr \<lparr>rv_typ = typ, rv_slice = bytes, rv_item_count = item_count\<rparr>)"

subsection \<open>Values and rows\<close>

record CassValue =
  cv_value :: CassRawValue
  cv_value_type :: CassDataType

datatype NonNullDeserializationError = IsNull | Typecheck | Deserialization

fun NonNullDeserializationError_to_cass_error :: "NonNullDeserializationError \<Rightarrow> CassError" where
  "NonNullDeserializationError_to_cass_error IsNull = CASS_ERROR_LIB_NULL_VALUE"
| "NonNullDeserializationError_to_cass_error Typecheck = CASS_ERROR_LIB_INVALID_VALUE_TYPE"
| "NonNullDeserializationError_to_cass_error Deserialization = CASS_ERROR_LIB_INVALID_DATA"

definition get_non_null :: "'t DeserializeValue \<Rightarrow> CassValue \<Rightarrow> NonNullDeserializationError + 't" where
  "get_non_null T self =
     (case rv_slice (cv_value self) of
        None \<Rightarrow> Inl IsNull
      | Some frame_slice \<Rightarrow>
          (let typ = rv_typ (cv_value self) in
           if \<not> type_check T typ then Inl Typecheck
           else (case deserialize_value T typ frame_slice of
                   Inl _ \<Rightarrow> Inl Deserialization
                 | Inr v \<Rightarrow> Inr v)))"

definition get_bytes_non_null :: "CassValue \<Rightarrow> NonNullDeserializationError + frame_slice" where
  "get_bytes_non_null self =
     (case rv_slice (cv_value self) of None \<Rightarrow> Inl IsNull | Some bytes \<Rightarrow> Inr bytes)"

record CassRow =
  row_columns :: "CassValue list"
  row_result_metadata :: CassResultMetadata

text \<open>
  The loop over the columns, zipped with their metadata: the first error ends it.  The allocation of
  an old row may be reused for the new one; the old columns are cleared first.
\<close>

fun raw_columns_loop :: "((unit + RawColumn) \<times> CassColumnSpec) list \<Rightarrow> unit + CassValue list" where
  "raw_columns_loop [] = Inr []"
| "raw_columns_loop ((Inl e, spec) # rest) = Inl e"
| "raw_columns_loop ((Inr raw_column, spec) # rest) =
     (case CassRawValue_deserialize (col_typ (raw_spec raw_column)) (raw_slice raw_column) of
        Inl _ \<Rightarrow> Inl ()
      | Inr raw_value \<Rightarrow>
          map_sum id ((#) \<lparr>cv_value = raw_value, cv_value_type = spec_data_type spec\<rparr>)
            (raw_columns_loop rest))"

definition from_raw_row_and_metadata :: "CassRawRow \<Rightarrow> CassResultMetadata \<Rightarrow> unit + CassRow" where
  "from_raw_row_and_metadata raw_row result_metadata =
     (case raw_columns_loop (zip raw_row result_metadata) of
        Inl e \<Rightarrow> Inl e
      | Inr columns \<Rightarrow> Inr \<lparr>row_columns = columns, row_result_metadata = result_metadata\<rparr>)"

subsection \<open>Results\<close>

record CassRowsResult =
  shared_raw_rows :: DeserializedMetadataAndRawRows
  shared_metadata :: CassResultMetadata
  rows_first_row :: "CassRow option"

datatype CassResultKind = NonRows | Rows CassRowsResult

record CassResult =
  res_tracing_id :: "u128 option"
  res_paging_state_response :: PagingStateResponse
  res_kind :: CassResultKind
  res_coordinator :: "nat option"

definition init_first_row :: "CassRowsResult \<Rightarrow> CassErrorResult + CassRowsResult" where
  "init_first_row self =
     (case rows_iter (shared_raw_rows self) of
        [] \<Rightarrow> Inr (self\<lparr>rows_first_row := None\<rparr>)
      | Inl _ # _ \<Rightarrow> Inl CER_Deserialization
      | Inr raw_row # _ \<Rightarrow>
          (case from_raw_row_and_metadata raw_row (shared_metadata self) of
             Inl _ \<Rightarrow> Inl CER_Deserialization
           | Inr row \<Rightarrow> Inr (self\<lparr>rows_first_row := Some row\<rparr>)))"

definition from_result_payload ::
    "into_rows_result \<Rightarrow> PagingStateResponse \<Rightarrow> (QueryRowsResult \<Rightarrow> CassResultMetadata option) option \<Rightarrow>
     CassErrorResult + CassResult" where
  "from_result_payload result paging_state_response try_get_or_make_result_metadata =
     (case result of
        Rows_Ok rows_result \<Rightarrow>
          (let metadata =
                 (case try_get_or_make_result_metadata \<bind> (\<lambda>f. f rows_result) of
                    Some m \<Rightarrow> m
                  | None \<Rightarrow> from_column_specs (qr_column_specs rows_result))
           in case init_first_row \<lparr>shared_raw_rows = qr_raw_rows rows_result, shared_metadata = metadata,
                     rows_first_row = None\<rparr> of
                Inl e \<Rightarrow> Inl e
              | Inr rows \<Rightarrow>
                  Inr \<lparr>res_tracing_id = qr_tracing_id rows_result,
                       res_paging_state_response = paging_state_response, res_kind = Rows rows,
                       res_coordinator = qr_coordinator rows_result\<rparr>)
      | ResultNotRows tracing_id coordinator \<Rightarrow>
          Inr \<lparr>res_tracing_id = tracing_id, res_paging_state_response = paging_state_response,
               res_kind = NonRows, res_coordinator = Some coordinator\<rparr>
      | ResultMetadataLazyDeserializationError \<Rightarrow> Inl CER_ResultMetadataLazyDeserialization)"

definition cass_result_has_more_pages :: "CassResult c_ptr \<Rightarrow> bool" where
  "cass_result_has_more_pages result =
     (case result of
        None \<Rightarrow> False
      | Some result \<Rightarrow> res_paging_state_response result \<noteq> NoMorePages)"

definition cass_result_paging_state_token ::
    "CassResult c_ptr \<Rightarrow> CassError \<times> (string c_ptr \<times> nat) option" where
  "cass_result_paging_state_token result =
     (case result of
        None \<Rightarrow> (CASS_ERROR_LIB_BAD_PARAMS, None)
      | Some result_from_raw \<Rightarrow>
          (if \<not> cass_result_has_more_pages result then (CASS_ERROR_LIB_NO_PAGING_STATE, None)
           else
             (CASS_OK,
              Some (case res_paging_state_response result_from_raw of
                      HasMorePages (Some result_paging_state) \<Rightarrow>
                        (Some result_paging_state, length result_paging_state)
                    | HasMorePages None \<Rightarrow> (None, 0)
                    | NoMorePages \<Rightarrow> (None, 0)))))"

definition cass_result_column_name :: "CassResult c_ptr \<Rightarrow> nat \<Rightarrow> CassError \<times> (string \<times> nat) option" where
  "cass_result_column_name result index =
     (case result of
        None \<Rightarrow> (CASS_ERROR_LIB_BAD_PARAMS, None)
      | Some result_from_raw \<Rightarrow>
          (case res_kind result_from_raw of
             NonRows \<Rightarrow> (CASS_ERROR_LIB_BAD_PARAMS, None)
           | Rows rows \<Rightarrow>
               (case list_get (shared_metadata rows) index of
                  None \<Rightarrow> (CASS_ERROR_LIB_INDEX_OUT_OF_BOUNDS, None)
                | Some col_spec \<Rightarrow> (CASS_OK, Some (write_str_to_c (spec_name col_spec))))))"

definition cass_result_column_data_type :: "CassResult c_ptr \<Rightarrow> nat \<Rightarrow> CassDataType c_ptr" where
  "cass_result_column_data_type result index =
     do { result_from_raw \<leftarrow> result;
          case res_kind result_from_raw of
            NonRows \<Rightarrow> None
          | Rows rows \<Rightarrow> map_option spec_data_type (list_get (shared_metadata rows) index) }"

definition cass_result_column_type :: "CassResult c_ptr \<Rightarrow> nat \<Rightarrow> CassValueType" where
  "cass_result_column_type result index =
     (case cass_result_column_data_type result index of
        None \<Rightarrow> CASS_VALUE_TYPE_UNKNOWN
      | Some data_type \<Rightarrow> cass_data_type_type (Some data_type))"

definition cass_result_row_count :: "CassResult c_ptr \<Rightarrow> nat" where
  "cass_result_row_count result_raw =
     (case result_raw of
        None \<Rightarrow> 0
      | Some result \<Rightarrow>
          (case res_kind result of NonRows \<Rightarrow> 0 | Rows rows \<Rightarrow> rows_count (shared_raw_rows rows)))"

definition cass_result_column_count :: "CassResult c_ptr \<Rightarrow> nat" where
  "cass_result_column_count result_raw =
     (case result_raw of
        None \<Rightarrow> 0
      | Some result \<Rightarrow>
          (case res_kind result of NonRows \<Rightarrow> 0 | Rows rows \<Rightarrow> length (shared_metadata rows)))"

definition cass_result_first_row :: "CassResult c_ptr \<Rightarrow> CassRow c_ptr" where
  "cass_result_first_row result_raw =
     do { result \<leftarrow> result_raw;
          case res_kind result of NonRows \<Rightarrow> None | Rows rows \<Rightarrow> rows_first_row rows }"

subsection \<open>Columns of a row\<close>

definition cass_row_get_column :: "CassRow c_ptr \<Rightarrow> nat \<Rightarrow> CassValue c_ptr" where
  "cass_row_get_column row_raw index = do { row \<leftarrow> row_raw; list_get (row_columns row) index }"

text \<open>
  The quotes of a name are removed one after the other; the second removal panics when the first one
  has left nothing.
\<close>

definition unquote_name :: "string \<Rightarrow> (string \<times> bool) panics" where
  "unquote_name name_str =
     (if name_str \<noteq> [] \<and> hd name_str = CHR 0x22 \<and> last name_str = CHR 0x22
      then (let stripped = tl name_str in
            if stripped \<noteq> [] \<and> last stripped = CHR 0x22 then Some (butlast stripped, True) else None)
      else Some (name_str, False))"

definition name_matches :: "string \<Rightarrow> bool \<Rightarrow> CassColumnSpec \<Rightarrow> bool" where
  "name_matches name_str is_case_sensitive col_spec \<longleftrightarrow>
     (is_case_sensitive \<and> spec_name col_spec = name_str) \<or>
     (\<not> is_case_sensitive \<and> eq_ignore_ascii_case (spec_name col_spec) name_str)"

definition cass_row_get_column_by_name_n ::
    "CassRow c_ptr \<Rightarrow> c_chars \<Rightarrow> nat \<Rightarrow> CassValue c_ptr panics" where
  "cass_row_get_column_by_name_n row name name_length =
     (case row of
        None \<Rightarrow> Some None
      | Some row_from_raw \<Rightarrow>
          (case CassStrLenDelimited_to_str name name_length of
             Inl _ \<Rightarrow> Some None
           | Inr name_str \<Rightarrow>
               do { (name_str, is_case_sensitive) \<leftarrow> unquote_name name_str;
                    Some (case List.find (\<lambda>(_, col_spec). name_matches name_str is_case_sensitive col_spec)
                            (enumerate 0 (row_result_metadata row_from_raw)) of
                            None \<Rightarrow> None
                          | Some (index, _) \<Rightarrow> list_get (row_columns row_from_raw) index) }))"

definition cass_row_get_column_by_name :: "CassRow c_ptr \<Rightarrow> c_chars \<Rightarrow> CassValue c_ptr panics" where
  "cass_row_get_column_by_name row name =
     (let (name, name_len) = as_len_delimited name in cass_row_get_column_by_name_n row name name_len)"

subsection \<open>Values\<close>

definition cass_value_type :: "CassValue c_ptr \<Rightarrow> CassValueType" where
  "cass_value_type val =
     (case val of
        None \<Rightarrow> CASS_VALUE_TYPE_UNKNOWN
      | Some value_from_raw \<Rightarrow> cass_data_type_type (Some (cv_value_type value_from_raw)))"

definition cass_value_data_type :: "CassValue c_ptr \<Rightarrow> CassDataType c_ptr" where
  "cass_value_data_type val = map_option cv_value_type val"

text \<open>
  Most getters have one form: a null pointer is a null value, otherwise the value is read as a Rust
  type, and what was read is written in the C representation.
\<close>

definition read_value :: "'t DeserializeValue \<Rightarrow> ('t \<Rightarrow> 'o) \<Rightarrow> CassValue c_ptr \<Rightarrow> CassError \<times> 'o option" where
  "read_value T out val =
     (case val of
        None \<Rightarrow> (CASS_ERROR_LIB_NULL_VALUE, None)
      | Some v \<Rightarrow>
          (case get_non_null T v of
             Inl e \<Rightarrow> (NonNullDeserializationError_to_cass_error e, None)
           | Inr x \<Rightarrow> (CASS_OK, Some (out x))))"

definition cass_value_get_float ::
    "u32 DeserializeValue \<Rightarrow> CassValue c_ptr \<Rightarrow> CassError \<times> u32 option" where
  "cass_value_get_float T val = read_value T id val"

definition cass_value_get_double ::
    "u64 DeserializeValue \<Rightarrow> CassValue c_ptr \<Rightarrow> CassError \<times> u64 option" where
  "cass_value_get_double T val = read_value T id val"

definition cass_value_get_bool ::
    "bool DeserializeValue \<Rightarrow> CassValue c_ptr \<Rightarrow> CassError \<times> u32 option" where
  "cass_value_get_bool T val = read_value T (\<lambda>b. if b then 1 else 0) val"

definition cass_value_get_int8 ::
    "u8 DeserializeValue \<Rightarrow> CassValue c_ptr \<Rightarrow> CassError \<times> u8 option" where
  "cass_value_get_int8 T val = read_value T id val"

definition cass_value_get_int16 ::
    "u16 DeserializeValue \<Rightarrow> CassValue c_ptr \<Rightarrow> CassError \<times> u16 option" where
  "cass_value_get_int16 T val = read_value T id val"

definition cass_value_get_uint32 ::
    "u32 DeserializeValue \<Rightarrow> CassValue c_ptr \<Rightarrow> CassError \<times> u32 option" where
  "cass_value_get_uint32 T val = read_value T id val"

definition cass_value_get_int32 ::
    "u32 DeserializeValue \<Rightarrow> CassValue c_ptr \<Rightarrow> CassError \<times> u32 option" where
  "cass_value_get_int32 T val = read_value T id val"

definition cass_value_get_inet ::
    "IpAddr DeserializeValue \<Rightarrow> CassValue c_ptr \<Rightarrow> CassError \<times> CassInet option" where
  "cass_value_get_inet T val = read_value T CassInet_from val"

text \<open>The digits of a decimal with their number, and the scale.\<close>

definition cass_value_get_decimal ::
    "(u8 list \<times> u32) DeserializeValue \<Rightarrow> CassValue c_ptr \<Rightarrow> CassError \<times> (u8 list \<times> nat \<times> u32) option" where
  "cass_value_get_decimal T val =
     read_value T (\<lambda>(varint_value, scale_value). (varint_value, length varint_value, scale_value)) val"

text \<open>Months, days and nanoseconds.\<close>

definition cass_value_get_duration ::
    "(u32 \<times> u32 \<times> u64) DeserializeValue \<Rightarrow> CassValue c_ptr \<Rightarrow> CassError \<times> (u32 \<times> u32 \<times> u64) option" where
  "cass_value_get_duration T val = read_value T id val"

text \<open>
  Where several column types share a getter, the source looks at the column type first and then
  treats a failed type check as impossible.
\<close>

definition read_known_type ::
    "'t DeserializeValue \<Rightarrow> ('t \<Rightarrow> 'o) \<Rightarrow> CassValue \<Rightarrow> (CassError \<times> 'o option) panics" where
  "read_known_type T out val =
     (case get_non_null T val of
        Inr x \<Rightarrow> Some (CASS_OK, Some (out x))
      | Inl Typecheck \<Rightarrow> None
      | Inl e \<Rightarrow> Some (NonNullDeserializationError_to_cass_error e, None))"

definition cass_value_get_int64 ::
    "u64 DeserializeValue \<Rightarrow> u64 DeserializeValue \<Rightarrow> u64 DeserializeValue \<Rightarrow> u64 DeserializeValue \<Rightarrow>
     CassValue c_ptr \<Rightarrow> (CassError \<times> u64 option) panics" where
  "cass_value_get_int64 I64 Counter CqlTime CqlTimestamp val =
     (case val of
        None \<Rightarrow> Some (CASS_ERROR_LIB_NULL_VALUE, None)
      | Some v \<Rightarrow>
          (case rv_typ (cv_value v) of
             CT_Native NT_BigInt \<Rightarrow> read_known_type I64 id v
           | CT_Native NT_Counter \<Rightarrow> read_known_type Counter id v
           | CT_Native NT_Time \<Rightarrow> read_known_type CqlTime id v
           | CT_Native NT_Timestamp \<Rightarrow> read_known_type CqlTimestamp id v
           | _ \<Rightarrow> Some (CASS_ERROR_LIB_INVALID_VALUE_TYPE, None)))"

definition cass_value_get_uuid ::
    "u128 DeserializeValue \<Rightarrow> u128 DeserializeValue \<Rightarrow> CassValue c_ptr \<Rightarrow>
     (CassError \<times> CassUuid option) panics" where
  "cass_value_get_uuid T_Uuid T_CqlTimeuuid val =
     (case val of
        None \<Rightarrow> Some (CASS_ERROR_LIB_NULL_VALUE, None)
      | Some v \<Rightarrow>
          (case rv_typ (cv_value v) of
             CT_Native NT_Uuid \<Rightarrow> read_known_type T_Uuid CassUuid_from v
           | CT_Native NT_Timeuuid \<Rightarrow> read_known_type T_CqlTimeuuid CassUuid_from v
           | _ \<Rightarrow> Some (CASS_ERROR_LIB_INVALID_VALUE_TYPE, None)))"

definition cass_value_get_string ::
    "string DeserializeValue \<Rightarrow> CassValue c_ptr \<Rightarrow> (CassError \<times> (string \<times> nat) option) panics" where
  "cass_value_get_string T_str val =
     (case val of
        None \<Rightarrow> Some (CASS_ERROR_LIB_NULL_VALUE, None)
      | Some v \<Rightarrow>
          (case rv_typ (cv_value v) of
             CT_Native NT_Ascii \<Rightarrow> read_known_type T_str write_str_to_c v
           | CT_Native NT_Text \<Rightarrow> read_known_type T_str write_str_to_c v
           | _ \<Rightarrow> Some (CASS_ERROR_LIB_INVALID_VALUE_TYPE, None)))"

definition cass_value_get_bytes :: "CassValue c_ptr \<Rightarrow> CassError \<times> (u8 list \<times> nat) option" where
  "cass_value_get_bytes val =
     (case val of
        None \<Rightarrow> (CASS_ERROR_LIB_NULL_VALUE, None)
      | Some value_from_raw \<Rightarrow>
          (case get_bytes_non_null value_from_raw of
             Inl e \<Rightarrow> (NonNullDeserializationError_to_cass_error e, None)
           | Inr bytes \<Rightarrow> (CASS_OK, Some (bytes, length bytes))))"

definition cass_value_is_null :: "CassValue c_ptr \<Rightarrow> bool" where
  "cass_value_is_null val = (case val of None \<Rightarrow> False | Some v \<Rightarrow> rv_slice (cv_value v) = None)"

definition cass_value_is_collection :: "CassValue c_ptr \<Rightarrow> bool" where
  "cass_value_is_collection val =
     (case val of
        None \<Rightarrow> False
      | Some v \<Rightarrow> get_value_type (cv_value_type v) = CASS_VALUE_TYPE_LIST \<or>
                 get_value_type (cv_value_type v) = CASS_VALUE_TYPE_SET \<or>
                 get_value_type (cv_value_type v) = CASS_VALUE_TYPE_MAP)"

definition cass_value_is_duration :: "CassValue c_ptr \<Rightarrow> bool" where
  "cass_value_is_duration val =
     (case val of
        None \<Rightarrow> False
      | Some v \<Rightarrow> get_value_type (cv_value_type v) = CASS_VALUE_TYPE_DURATION)"

definition cass_value_item_count :: "CassValue c_ptr \<Rightarrow> nat" where
  "cass_value_item_count collection =
     (case collection of
        None \<Rightarrow> 0
      | Some val \<Rightarrow> (case rv_item_count (cv_value val) of Some n \<Rightarrow> n | None \<Rightarrow> 0))"

definition cass_value_primary_sub_type :: "CassValue c_ptr \<Rightarrow> CassValueType" where
  "cass_value_primary_sub_type collection =
     (case collection of
        None \<Rightarrow> CASS_VALUE_TYPE_UNKNOWN
      | Some val \<Rightarrow>
          (case cv_value_type val of
             DT_List (Some list_type) _ \<Rightarrow> get_value_type list_type
           | DT_Set (Some set_type) _ \<Rightarrow> get_value_type set_type
           | DT_Map (MT_Key key) _ \<Rightarrow> get_value_type key
           | DT_Map (MT_KeyAndValue key _) _ \<Rightarrow> get_value_type key
           | DT_Vector typ _ \<Rightarrow> get_value_type typ
           | _ \<Rightarrow> CASS_VALUE_TYPE_UNKNOWN))"

definition cass_value_secondary_sub_type :: "CassValue c_ptr \<Rightarrow> CassValueType" where
  "cass_value_secondary_sub_type collection =
     (case collection of
        None \<Rightarrow> CASS_VALUE_TYPE_UNKNOWN
      | Some val \<Rightarrow>
          (case cv_value_type val of
             DT_Map (MT_KeyAndValue _ value_type) _ \<Rightarrow> get_value_type value_type
           | _ \<Rightarrow> CASS_VALUE_TYPE_UNKNOWN))"

end
