(* ===== verification/Cass_Schema_Meta.thy ===== *)
theory Cass_Schema_Meta
  imports Cass_Data_Type_Api Cass_Arg_Conv "HOL-Library.List_Lexorder" "HOL-Library.Char_ord" "HOL-Library.Multiset"
begin

text \<open>
  \<open>metadata.rs\<close> and \<open>cass_session_get_schema_meta\<close> of \<open>session.rs\<close>: the metadata of keyspaces, tables,
  views and columns, made from the schema that the Rust driver knows.

  The schema of the driver is a record with the fields the source reads; of a view it also has the
  name of the base table, which the source does not read.  The weak reference from a view to its
  base table is the name under which the keyspace holds that table.  Names compare by their bytes.
\<close>

subsection \<open>The schema of the Rust driver\<close>

datatype ColumnKind = CK_Regular | CK_Static | CK_Clustering | CK_PartitionKey | CK_Other

record Column =
  column_typ :: ColumnType
  column_kind :: ColumnKind

record Table =
  tbl_columns :: "(string \<times> Column) list"
  tbl_partition_key :: "string list"
  tbl_clustering_key :: "string list"

record MaterializedView =
  mv_view_metadata :: Table
  mv_base_table_name :: string

record UserDefinedType =
  udt_def_fields :: "(string \<times> ColumnType) list"
  udt_def_keyspace :: string
  udt_def_name :: string

record Keyspace =
  ks_user_defined_types :: "(string \<times> UserDefinedType) list"
  ks_tables :: "(string \<times> Table) list"
  ks_views :: "(string \<times> MaterializedView) list"

subsection \<open>Metadata\<close>

datatype CassColumnType =
    CASS_COLUMN_TYPE_REGULAR
  | CASS_COLUMN_TYPE_PARTITION_KEY
  | CASS_COLUMN_TYPE_CLUSTERING_KEY
  | CASS_COLUMN_TYPE_STATIC
  | CASS_COLUMN_TYPE_COMPACT_VALUE

record CassColumnMeta =
  cm_name :: string
  cm_column_type :: CassDataType
  cm_column_kind :: CassColumnType

datatype CassTableMeta =
  CassTableMeta (tm_name: string) (columns_metadata: "(string \<times> CassColumnMeta) list")
    (partition_keys: "string list") (clustering_keys: "string list")
    (non_key_sorted_columns: "string list") (tm_views: "(string \<times> CassMaterializedViewMeta) list")
and CassMaterializedViewMeta =
  CassMaterializedViewMeta (vm_name: string) (view_metadata: CassTableMeta) (base_table: string)

record CassKeyspaceMeta =
  km_name :: string
  km_user_defined_type_data_type :: "(string \<times> CassDataType) list"
  km_tables :: "(string \<times> CassTableMeta) list"
  km_views :: "(string \<times> CassMaterializedViewMeta) list"

type_synonym CassSchemaMeta = "(string \<times> CassKeyspaceMeta) list"

fun cass_column_kind :: "ColumnKind \<Rightarrow> CassColumnType panics" where
  "cass_column_kind CK_Regular = Some CASS_COLUMN_TYPE_REGULAR"
| "cass_column_kind CK_Static = Some CASS_COLUMN_TYPE_STATIC"
| "cass_column_kind CK_Clustering = Some CASS_COLUMN_TYPE_CLUSTERING_KEY"
| "cass_column_kind CK_PartitionKey = Some CASS_COLUMN_TYPE_PARTITION_KEY"
| "cass_column_kind CK_Other = None"

fun columns_loop ::
    "(string \<times> Column) list \<Rightarrow> (string \<times> CassColumnMeta) list \<Rightarrow> (string \<times> CassColumnMeta) list panics" where
  "columns_loop [] columns = Some columns"
| "columns_loop ((column_name, column) # rest) columns =
     do { kind \<leftarrow> cass_column_kind (column_kind column);
          columns_loop rest
            (hash_insert column_name
              \<lparr>cm_name = column_name, cm_column_type = get_column_type (column_typ column),
               cm_column_kind = kind\<rparr> columns) }"

definition is_key_column :: "CassColumnMeta \<Rightarrow> bool" where
  "is_key_column column \<longleftrightarrow>
     cm_column_kind column = CASS_COLUMN_TYPE_PARTITION_KEY \<or>
     cm_column_kind column = CASS_COLUMN_TYPE_CLUSTERING_KEY"

definition create_table_metadata :: "string \<Rightarrow> Table \<Rightarrow> CassTableMeta panics" where
  "create_table_metadata table_name table_metadata =
     do { columns \<leftarrow> columns_loop (tbl_columns table_metadata) [];
          let non_key = sort (map fst (filter (\<lambda>(_, column). \<not> is_key_column column) columns));
          Some (CassTableMeta table_name columns (tbl_partition_key table_metadata)
            (tbl_clustering_key table_metadata) non_key []) }"

subsection \<open>The schema of a session\<close>

fun udts_loop ::
    "(string \<times> UserDefinedType) list \<Rightarrow> (string \<times> CassDataType) list \<Rightarrow> (string \<times> CassDataType) list" where
  "udts_loop [] acc = acc"
| "udts_loop ((type_name, udt) # rest) acc =
     udts_loop rest (hash_insert type_name
       (get_column_type (CT_UserDefinedType (udt_def_fields udt) (udt_def_keyspace udt)
         (udt_def_name udt) False)) acc)"

text \<open>The loop over the views of the keyspace, run for a table: it fills the views of both.\<close>

fun views_loop ::
    "(string \<times> MaterializedView) list \<Rightarrow> string \<Rightarrow> (string \<times> CassMaterializedViewMeta) list \<Rightarrow>
     (string \<times> CassMaterializedViewMeta) list \<Rightarrow>
     ((string \<times> CassMaterializedViewMeta) list \<times> (string \<times> CassMaterializedViewMeta) list) panics" where
  "views_loop [] table_name table_views views = Some (table_views, views)"
| "views_loop ((view_name, view) # rest) table_name table_views views =
     do { cass_view_table_meta \<leftarrow> create_table_metadata view_name (mv_view_metadata view);
          let cass_view_meta = CassMaterializedViewMeta view_name cass_view_table_meta table_name;
          views_loop rest table_name (hash_insert view_name cass_view_meta table_views)
            (hash_insert view_name cass_view_meta views) }"

fun set_table_views :: "CassTableMeta \<Rightarrow> (string \<times> CassMaterializedViewMeta) list \<Rightarrow> CassTableMeta" where
  "set_table_views (CassTableMeta n cs pk ck nk _) views = CassTableMeta n cs pk ck nk views"

fun tables_loop ::
    "(string \<times> MaterializedView) list \<Rightarrow> (string \<times> Table) list \<Rightarrow> (string \<times> CassTableMeta) list \<Rightarrow>
     (string \<times> CassMaterializedViewMeta) list \<Rightarrow>
     ((string \<times> CassTableMeta) list \<times> (string \<times> CassMaterializedViewMeta) list) panics" where
  "tables_loop keyspace_views [] tables views = Some (tables, views)"
| "tables_loop keyspace_views ((table_name, table_metadata) # rest) tables views =
     do { cass_table_meta \<leftarrow> create_table_metadata table_name table_metadata;
          (table_views, views) \<leftarrow> views_loop keyspace_views table_name [] views;
          tables_loop keyspace_views rest
            (hash_insert table_name (set_table_views cass_table_meta table_views) tables) views }"

definition keyspace_meta :: "string \<Rightarrow> Keyspace \<Rightarrow> CassKeyspaceMeta panics" where
  "keyspace_meta keyspace_name keyspace =
     do { (tables, views) \<leftarrow> tables_loop (ks_views keyspace) (ks_tables keyspace) [] [];
          Some \<lparr>km_name = keyspace_name,
                km_user_defined_type_data_type = udts_loop (ks_user_defined_types keyspace) [],
                km_tables = tables, km_views = views\<rparr> }"

fun keyspaces_loop :: "(string \<times> Keyspace) list \<Rightarrow> CassSchemaMeta \<Rightarrow> CassSchemaMeta panics" where
  "keyspaces_loop [] keyspaces = Some keyspaces"
| "keyspaces_loop ((keyspace_name, keyspace) # rest) keyspaces =
     do { meta \<leftarrow> keyspace_meta keyspace_name keyspace;
          keyspaces_loop rest (hash_insert keyspace_name meta keyspaces) }"

text \<open>
  \<open>cluster_state\<close> is what the driver knows, or \<open>None\<close> when the session is null, locked by somebody
  who connects or closes it, or not connected.
\<close>

definition cass_session_get_schema_meta ::
    "(string \<times> Keyspace) list option \<Rightarrow> CassSchemaMeta c_ptr panics" where
  "cass_session_get_schema_meta cluster_state =
     (case cluster_state of
        None \<Rightarrow> Some None
      | Some keyspaces \<Rightarrow> map_option Some (keyspaces_loop keyspaces []))"

subsection \<open>Functions of the C API\<close>

text \<open>Looking a name up in a map of an object: null for a null object and for no or a bad name.\<close>

definition meta_by_name ::
    "('m \<Rightarrow> (string \<times> 'v) list) \<Rightarrow> 'm c_ptr \<Rightarrow> c_chars \<Rightarrow> nat \<Rightarrow> 'v c_ptr" where
  "meta_by_name entries obj name name_length =
     (case obj of
        None \<Rightarrow> None
      | Some m \<Rightarrow>
          (case CassStrLenDelimited_to_str name name_length of
             Inl _ \<Rightarrow> None
           | Inr s \<Rightarrow> map_of (entries m) s))"

definition cass_schema_meta_keyspace_by_name_n :: "CassSchemaMeta c_ptr \<Rightarrow> c_chars \<Rightarrow> nat \<Rightarrow> CassKeyspaceMeta c_ptr" where
  "cass_schema_meta_keyspace_by_name_n obj keyspace_name keyspace_name_length = meta_by_name id obj keyspace_name keyspace_name_length"

definition cass_schema_meta_keyspace_by_name :: "CassSchemaMeta c_ptr \<Rightarrow> c_chars \<Rightarrow> CassKeyspaceMeta c_ptr" where
  "cass_schema_meta_keyspace_by_name obj keyspace_name =
     (let (keyspace_name, keyspace_name_length) = as_len_delimited keyspace_name in cass_schema_meta_keyspace_by_name_n obj keyspace_name keyspace_name_length)"

definition cass_keyspace_meta_name :: "CassKeyspaceMeta c_ptr \<Rightarrow> (string \<times> nat) option" where
  "cass_keyspace_meta_name obj = map_option (\<lambda>m. write_str_to_c (km_name m)) obj"

definition cass_keyspace_meta_user_type_by_name_n :: "CassKeyspaceMeta c_ptr \<Rightarrow> c_chars \<Rightarrow> nat \<Rightarrow> CassDataType c_ptr" where
  "cass_keyspace_meta_user_type_by_name_n obj udt_type udt_type_length = meta_by_name km_user_defined_type_data_type obj udt_type udt_type_length"

definition cass_keyspace_meta_user_type_by_name :: "CassKeyspaceMeta c_ptr \<Rightarrow> c_chars \<Rightarrow> CassDataType c_ptr" where
  "cass_keyspace_meta_user_type_by_name obj udt_type =
     (let (udt_type, udt_type_length) = as_len_delimited udt_type in cass_keyspace_meta_user_type_by_name_n obj udt_type udt_type_length)"

definition cass_keyspace_meta_table_by_name_n :: "CassKeyspaceMeta c_ptr \<Rightarrow> c_chars \<Rightarrow> nat \<Rightarrow> CassTableMeta c_ptr" where
  "cass_keyspace_meta_table_by_name_n obj table table_length = meta_by_name km_tables obj table table_length"

definition cass_keyspace_meta_table_by_name :: "CassKeyspaceMeta c_ptr \<Rightarrow> c_chars \<Rightarrow> CassTableMeta c_ptr" where
  "cass_keyspace_meta_table_by_name obj table =
     (let (table, table_length) = as_len_delimited table in cass_keyspace_meta_table_by_name_n obj table table_length)"

definition cass_table_meta_name :: "CassTableMeta c_ptr \<Rightarrow> (string \<times> nat) option" where
  "cass_table_meta_name obj = map_option (\<lambda>m. write_str_to_c (tm_name m)) obj"

definition cass_table_meta_column_count :: "CassTableMeta c_ptr \<Rightarrow> nat" where
  "cass_table_meta_column_count obj = (case obj of None \<Rightarrow> 0 | Some m \<Rightarrow> length (columns_metadata m))"

text \<open>
  The columns by index: partition keys, clustering keys, the rest by name.  A name that is in one of
  the lists and not among the columns would be a panic.
\<close>

definition cass_table_meta_column :: "CassTableMeta c_ptr \<Rightarrow> nat \<Rightarrow> CassColumnMeta c_ptr panics" where
  "cass_table_meta_column obj index =
     (case obj of
        None \<Rightarrow> Some None
      | Some m \<Rightarrow>
          (case list_get (partition_keys m) index of
             Some pk_name \<Rightarrow> map_option Some (map_of (columns_metadata m) pk_name)
           | None \<Rightarrow>
               (let index = index - length (partition_keys m) in
                case list_get (clustering_keys m) index of
                  Some ck_name \<Rightarrow> map_option Some (map_of (columns_metadata m) ck_name)
                | None \<Rightarrow>
                    (let index = index - length (clustering_keys m) in
                     case list_get (non_key_sorted_columns m) index of
                       None \<Rightarrow> Some None
                     | Some column_name \<Rightarrow> map_option Some (map_of (columns_metadata m) column_name)))))"

definition cass_table_meta_partition_key :: "CassTableMeta c_ptr \<Rightarrow> nat \<Rightarrow> CassColumnMeta c_ptr" where
  "cass_table_meta_partition_key obj index =
     (case obj of
        None \<Rightarrow> None
      | Some m \<Rightarrow>
          (case list_get (partition_keys m) index of
             Some column_name \<Rightarrow> map_of (columns_metadata m) column_name
           | None \<Rightarrow> None))"

definition cass_table_meta_partition_key_count :: "CassTableMeta c_ptr \<Rightarrow> nat" where
  "cass_table_meta_partition_key_count obj = (case obj of None \<Rightarrow> 0 | Some m \<Rightarrow> length (partition_keys m))"

definition cass_table_meta_clustering_key :: "CassTableMeta c_ptr \<Rightarrow> nat \<Rightarrow> CassColumnMeta c_ptr" where
  "cass_table_meta_clustering_key obj index =
     (case obj of
        None \<Rightarrow> None
      | Some m \<Rightarrow>
          (case list_get (clustering_keys m) index of
             Some column_name \<Rightarrow> map_of (columns_metadata m) column_name
           | None \<Rightarrow> None))"

definition cass_table_meta_clustering_key_count :: "CassTableMeta c_ptr \<Rightarrow> nat" where
  "cass_table_meta_clustering_key_count obj = (case obj of None \<Rightarrow> 0 | Some m \<Rightarrow> length (clustering_keys m))"

definition cass_table_meta_column_by_name_n :: "CassTableMeta c_ptr \<Rightarrow> c_chars \<Rightarrow> nat \<Rightarrow> CassColumnMeta c_ptr" where
  "cass_table_meta_column_by_name_n obj column column_length = meta_by_name columns_metadata obj column column_length"

definition cass_table_meta_column_by_name :: "CassTableMeta c_ptr \<Rightarrow> c_chars \<Rightarrow> CassColumnMeta c_ptr" where
  "cass_table_meta_column_by_name obj column =
     (let (column, column_length) = as_len_delimited column in cass_table_meta_column_by_name_n obj column column_length)"

definition cass_column_meta_name :: "CassColumnMeta c_ptr \<Rightarrow> (string \<times> nat) option" where
  "cass_column_meta_name obj = map_option (\<lambda>m. write_str_to_c (cm_name m)) obj"

definition cass_column_meta_data_type :: "CassColumnMeta c_ptr \<Rightarrow> CassDataType c_ptr" where
  "cass_column_meta_data_type obj = map_option cm_column_type obj"

definition cass_column_meta_type :: "CassColumnMeta c_ptr \<Rightarrow> CassColumnType" where
  "cass_column_meta_type obj =
     (case obj of None \<Rightarrow> CASS_COLUMN_TYPE_REGULAR | Some column_meta \<Rightarrow> cm_column_kind column_meta)"

definition cass_keyspace_meta_materialized_view_by_name_n :: "CassKeyspaceMeta c_ptr \<Rightarrow> c_chars \<Rightarrow> nat \<Rightarrow> CassMaterializedViewMeta c_ptr" where
  "cass_keyspace_meta_materialized_view_by_name_n obj view view_length = meta_by_name km_views obj view view_length"

definition cass_keyspace_meta_materialized_view_by_name :: "CassKeyspaceMeta c_ptr \<Rightarrow> c_chars \<Rightarrow> CassMaterializedViewMeta c_ptr" where
  "cass_keyspace_meta_materialized_view_by_name obj view =
     (let (view, view_length) = as_len_delimited view in cass_keyspace_meta_materialized_view_by_name_n obj view view_length)"

definition cass_table_meta_materialized_view_by_name_n :: "CassTableMeta c_ptr \<Rightarrow> c_chars \<Rightarrow> nat \<Rightarrow> CassMaterializedViewMeta c_ptr" where
  "cass_table_meta_materialized_view_by_name_n obj view view_length = meta_by_name tm_views obj view view_length"

definition cass_table_meta_materialized_view_by_name :: "CassTableMeta c_ptr \<Rightarrow> c_chars \<Rightarrow> CassMaterializedViewMeta c_ptr" where
  "cass_table_meta_materialized_view_by_name obj view =
     (let (view, view_length) = as_len_delimited view in cass_table_meta_materialized_view_by_name_n obj view view_length)"

definition cass_table_meta_materialized_view_count :: "CassTableMeta c_ptr \<Rightarrow> nat" where
  "cass_table_meta_materialized_view_count obj = (case obj of None \<Rightarrow> 0 | Some m \<Rightarrow> length (tm_views m))"

definition cass_table_meta_materialized_view :: "CassTableMeta c_ptr \<Rightarrow> nat \<Rightarrow> CassMaterializedViewMeta c_ptr" where
  "cass_table_meta_materialized_view obj index =
     do { m \<leftarrow> obj; map_option snd (list_get (tm_views m) index) }"

definition cass_materialized_view_meta_column_by_name_n :: "CassMaterializedViewMeta c_ptr \<Rightarrow> c_chars \<Rightarrow> nat \<Rightarrow> CassColumnMeta c_ptr" where
  "cass_materialized_view_meta_column_by_name_n obj column column_length = meta_by_name (columns_metadata \<circ> view_metadata) obj column column_length"

definition cass_materialized_view_meta_column_by_name :: "CassMaterializedViewMeta c_ptr \<Rightarrow> c_chars \<Rightarrow> CassColumnMeta c_ptr" where
  "cass_materialized_view_meta_column_by_name obj column =
     (let (column, column_length) = as_len_delimited column in cass_materialized_view_meta_column_by_name_n obj column column_length)"

definition cass_materialized_view_meta_name :: "CassMaterializedViewMeta c_ptr \<Rightarrow> (string \<times> nat) option" where
  "cass_materialized_view_meta_name obj = map_option (\<lambda>m. write_str_to_c (vm_name m)) obj"

text \<open>The base table of a view of the keyspace \<open>keyspace\<close>.\<close>

definition cass_materialized_view_meta_base_table ::
    "CassKeyspaceMeta \<Rightarrow> CassMaterializedViewMeta c_ptr \<Rightarrow> CassTableMeta c_ptr" where
  "cass_materialized_view_meta_base_table keyspace obj =
     do { view_meta \<leftarrow> obj; map_of (km_tables keyspace) (base_table view_meta) }"

text \<open>The count is the one function here that does not check for null.\<close>

definition cass_materialized_view_meta_column_count :: "CassMaterializedViewMeta c_ptr \<Rightarrow> nat panics" where
  "cass_materialized_view_meta_column_count obj =
     map_option (\<lambda>view_meta. length (columns_metadata (view_metadata view_meta))) obj"

definition cass_materialized_view_meta_column ::
    "CassMaterializedViewMeta c_ptr \<Rightarrow> nat \<Rightarrow> CassColumnMeta c_ptr" where
  "cass_materialized_view_meta_column obj index =
     do { view_meta \<leftarrow> obj; map_option snd (list_get (columns_metadata (view_metadata view_meta)) index) }"

definition cass_materialized_view_meta_partition_key_count :: "CassMaterializedViewMeta c_ptr \<Rightarrow> nat" where
  "cass_materialized_view_meta_partition_key_count obj = (case obj of None \<Rightarrow> 0 | Some m \<Rightarrow> length (partition_keys (view_metadata m)))"

definition cass_materialized_view_meta_partition_key :: "CassMaterializedViewMeta c_ptr \<Rightarrow> nat \<Rightarrow> CassColumnMeta c_ptr" where
  "cass_materialized_view_meta_partition_key obj index =
     (case obj of
        None \<Rightarrow> None
      | Some m \<Rightarrow>
          (case list_get (partition_keys (view_metadata m)) index of
             Some column_name \<Rightarrow> map_of (columns_metadata (view_metadata m)) column_name
           | None \<Rightarrow> None))"

definition cass_materialized_view_meta_clustering_key_count :: "CassMaterializedViewMeta c_ptr \<Rightarrow> nat" where
  "cass_materialized_view_meta_clustering_key_count obj = (case obj of None \<Rightarrow> 0 | Some m \<Rightarrow> length (clustering_keys (view_metadata m)))"

definition cass_materialized_view_meta_clustering_key :: "CassMaterializedViewMeta c_ptr \<Rightarrow> nat \<Rightarrow> CassColumnMeta c_ptr" where
  "cass_materialized_view_meta_clustering_key obj index =
     (case obj of
        None \<Rightarrow> None
      | Some m \<Rightarrow>
          (case list_get (clustering_keys (view_metadata m)) index of
             Some column_name \<Rightarrow> map_of (columns_metadata (view_metadata m)) column_name
           | None \<Rightarrow> None))"

subsection \<open>Columns\<close>

text \<open>
  What the driver guarantees of a table: the names of its columns are distinct, the keys are listed
  without repetition, and the listed keys are the columns of that kind.
\<close>

definition columns_of_kind :: "ColumnKind \<Rightarrow> Table \<Rightarrow> string set" where
  "columns_of_kind k t = {n. \<exists>c. (n, c) \<in> set (tbl_columns t) \<and> column_kind c = k}"

definition driver_table :: "Table \<Rightarrow> bool" where
  "driver_table t \<longleftrightarrow>
     distinct (map fst (tbl_columns t)) \<and> columns_of_kind CK_Other t = {} \<and>
     distinct (tbl_partition_key t) \<and> set (tbl_partition_key t) = columns_of_kind CK_PartitionKey t \<and>
     distinct (tbl_clustering_key t) \<and> set (tbl_clustering_key t) = columns_of_kind CK_Clustering t"

text \<open>The order of columns that the comment in \<open>cass_table_meta_column\<close> promises.\<close>

definition is_key_kind :: "ColumnKind \<Rightarrow> bool" where
  "is_key_kind k \<longleftrightarrow> k = CK_PartitionKey \<or> k = CK_Clustering"

definition column_order :: "Table \<Rightarrow> string list" where
  "column_order t =
     tbl_partition_key t @ tbl_clustering_key t @
     sort (map fst (filter (\<lambda>(_, c). \<not> is_key_kind (column_kind c)) (tbl_columns t)))"

definition column_meta_of :: "string \<times> Column \<Rightarrow> string \<times> CassColumnMeta" where
  "column_meta_of = (\<lambda>(n, c). (n, \<lparr>cm_name = n, cm_column_type = get_column_type (column_typ c),
     cm_column_kind = the (cass_column_kind (column_kind c))\<rparr>))"

lemma fst_column_meta_of [simp]: "fst (column_meta_of p) = fst p"
  by (simp add: column_meta_of_def split: prod.split)

lemma columns_loop_eq:
  assumes "distinct (map fst cols)" "fst ` set cols \<inter> fst ` set acc = {}"
    and "\<And>n c. (n, c) \<in> set cols \<Longrightarrow> column_kind c \<noteq> CK_Other"
  shows "columns_loop cols acc = Some (rev (map column_meta_of cols) @ acc)"
  using assms
proof (induction cols arbitrary: acc)
  case (Cons p cols)
  obtain n c where p: "p = (n, c)" by (cases p)
  with Cons.prems(3) [of n c] obtain k where k: "cass_column_kind (column_kind c) = Some k"
    by (cases "column_kind c") auto
  define meta where "meta = \<lparr>cm_name = n, cm_column_type = get_column_type (column_typ c),
    cm_column_kind = k\<rparr>"
  have "n \<notin> fst ` set acc" using Cons.prems(2) p by auto
  then have ins: "hash_insert n meta acc = (n, meta) # acc" by (rule hash_insert_new)
  have "columns_loop cols ((n, meta) # acc) = Some (rev (map column_meta_of cols) @ (n, meta) # acc)"
    by (rule Cons.IH) (use Cons.prems p in auto)
  then show ?case using p k ins by (simp add: meta_def column_meta_of_def)
qed simp

lemma is_key_column_of:
  "column_kind c \<noteq> CK_Other \<Longrightarrow> is_key_column (snd (column_meta_of (n, c))) = is_key_kind (column_kind c)"
  by (cases "column_kind c") (simp_all add: is_key_column_def is_key_kind_def column_meta_of_def)

lemma list_get_append:
  "list_get (xs @ ys) i = (case list_get xs i of Some x \<Rightarrow> Some x | None \<Rightarrow> list_get ys (i - length xs))"
  by (auto simp: list_get_def nth_append)

lemma column_by_index:
  "cass_table_meta_column (Some m) i =
     (case list_get (partition_keys m @ clustering_keys m @ non_key_sorted_columns m) i of
        None \<Rightarrow> Some None
      | Some n \<Rightarrow> map_option Some (map_of (columns_metadata m) n))"
  by (simp add: cass_table_meta_column_def list_get_append Let_def split: option.split)

lemma non_key_names:
  assumes "\<And>n c. (n, c) \<in> set cols \<Longrightarrow> column_kind c \<noteq> CK_Other"
  shows "map fst (filter (\<lambda>(_, c). \<not> is_key_column c) (map column_meta_of cols)) =
         map fst (filter (\<lambda>(_, c). \<not> is_key_kind (column_kind c)) cols)"
  using assms
proof (induction cols)
  case (Cons p cols)
  obtain n c where p: "p = (n, c)" by (cases p)
  have "is_key_column (snd (column_meta_of p)) = is_key_kind (column_kind c)"
    using Cons.prems p is_key_column_of by auto
  moreover have "map fst (filter (\<lambda>(_, c). \<not> is_key_column c) (map column_meta_of cols)) =
      map fst (filter (\<lambda>(_, c). \<not> is_key_kind (column_kind c)) cols)"
    by (rule Cons.IH) (use Cons.prems in auto)
  ultimately show ?case using p by (simp add: case_prod_unfold)
qed simp

lemma create_table_metadata_eq:
  assumes "driver_table t"
  shows "create_table_metadata n t =
     Some (CassTableMeta n (rev (map column_meta_of (tbl_columns t))) (tbl_partition_key t) (tbl_clustering_key t)
       (sort (map fst (filter (\<lambda>(_, c). \<not> is_key_kind (column_kind c)) (tbl_columns t)))) [])"
proof -
  have kinds: "\<And>n c. (n, c) \<in> set (tbl_columns t) \<Longrightarrow> column_kind c \<noteq> CK_Other"
    using assms by (auto simp: driver_table_def columns_of_kind_def)
  have "columns_loop (tbl_columns t) [] = Some (rev (map column_meta_of (tbl_columns t)))"
    using columns_loop_eq [of "tbl_columns t" "[]"] kinds assms by (simp add: driver_table_def)
  moreover have "map fst (filter (\<lambda>(_, c). \<not> is_key_column c) (rev (map column_meta_of (tbl_columns t)))) =
      rev (map fst (filter (\<lambda>(_, c). \<not> is_key_kind (column_kind c)) (tbl_columns t)))"
    unfolding rev_filter [symmetric] rev_map [symmetric] rev_is_rev_conv
    by (rule non_key_names) (rule kinds)
  moreover have "sort (rev xs) = sort xs" for xs :: "string list"
    by (rule properties_for_sort) simp_all
  ultimately show ?thesis by (simp add: create_table_metadata_def)
qed

lemma column_order_complete:
  assumes "driver_table t"
  shows "distinct (column_order t)" and "set (column_order t) = fst ` set (tbl_columns t)"
proof -
  note t = assms [unfolded driver_table_def]
  let ?cols = "tbl_columns t"
  let ?rest = "filter (\<lambda>(_, c). \<not> is_key_kind (column_kind c)) ?cols"
  have same: "c = c'" if "(n, c) \<in> set ?cols" "(n, c') \<in> set ?cols" for n c c'
    using that t by (metis map_of_is_SomeI option.inject)
  have rest: "fst ` set ?rest = {n. \<exists>c. (n, c) \<in> set ?cols \<and> \<not> is_key_kind (column_kind c)}"
    by force
  have "distinct (map fst ?rest)" using t by (simp add: distinct_filter_keys)
  then show "distinct (column_order t)"
    using t rest by (auto simp: column_order_def columns_of_kind_def is_key_kind_def dest: same)
  have "set (column_order t) =
      columns_of_kind CK_PartitionKey t \<union> columns_of_kind CK_Clustering t \<union> fst ` set ?rest"
    using t by (simp add: column_order_def Un_assoc)
  also have "\<dots> = {n. \<exists>c. (n, c) \<in> set ?cols}"
    unfolding rest columns_of_kind_def by (auto simp: is_key_kind_def)
  finally show "set (column_order t) = fst ` set ?cols" by force
qed

text \<open>
  The columns of a table are numbered without gaps in the promised order: the
  partition key by position, the clustering key by position, the remaining columns by name; each
  column has exactly one number, the count is their number, and the next number gives null.
\<close>

lemma table_columns_are_numbered_in_order:
  assumes "driver_table t"
  shows "\<exists>m. create_table_metadata n t = Some m \<and>
     cass_table_meta_column_count (Some m) = length (column_order t) \<and>
     distinct (column_order t) \<and> set (column_order t) = fst ` set (tbl_columns t) \<and>
     (\<forall>i < length (column_order t). \<exists>c. cass_table_meta_column (Some m) i = Some (Some c) \<and>
        cm_name c = column_order t ! i) \<and>
     (\<forall>i \<ge> length (column_order t). cass_table_meta_column (Some m) i = Some None)"
proof -
  let ?m = "CassTableMeta n (rev (map column_meta_of (tbl_columns t))) (tbl_partition_key t) (tbl_clustering_key t)
       (sort (map fst (filter (\<lambda>(_, c). \<not> is_key_kind (column_kind c)) (tbl_columns t)))) []"
  note order = column_order_complete [OF assms]
  have names: "partition_keys ?m @ clustering_keys ?m @ non_key_sorted_columns ?m = column_order t"
    by (simp add: column_order_def)
  have created: "create_table_metadata n t = Some ?m" by (rule create_table_metadata_eq [OF assms])
  have "length (column_order t) = card (set (column_order t))" using order(1) by (simp add: distinct_card)
  also have "\<dots> = length (tbl_columns t)"
    using assms distinct_card [of "map fst (tbl_columns t)"] unfolding order(2) by (simp add: driver_table_def)
  finally have len: "cass_table_meta_column_count (Some ?m) = length (column_order t)"
    by (simp add: cass_table_meta_column_count_def)
  have beyond: "cass_table_meta_column (Some ?m) i = Some None" if "length (column_order t) \<le> i" for i
    unfolding column_by_index names using that by (simp add: list_get_def)
  have "\<exists>c. cass_table_meta_column (Some ?m) i = Some (Some c) \<and> cm_name c = column_order t ! i"
    if "i < length (column_order t)" for i
  proof -
    have "column_order t ! i \<in> fst ` set (tbl_columns t)"
      using that order(2) nth_mem by blast
    then obtain c where "(column_order t ! i, c) \<in> set (tbl_columns t)" by auto
    then have "column_meta_of (column_order t ! i, c) \<in> set (columns_metadata ?m)" by auto
    moreover have "distinct (map fst (columns_metadata ?m))"
      using assms by (simp add: driver_table_def rev_map [symmetric] comp_def)
    ultimately have "map_of (columns_metadata ?m) (column_order t ! i) =
        Some (snd (column_meta_of (column_order t ! i, c)))"
      by (simp add: map_of_eq_Some_iff column_meta_of_def)
    then show ?thesis
      unfolding column_by_index names using that
      by (simp add: list_get_def column_meta_of_def)
  qed
  with created len order beyond show ?thesis by blast
qed

text \<open>The table of the comment in the source, with its columns in no particular order.\<close>

definition example_table :: Table where
  "example_table = \<lparr>tbl_columns =
     (let col = (\<lambda>k. \<lparr>column_typ = CT_Native NT_Int, column_kind = k\<rparr>) in
      [(''i'', col CK_Clustering), (''f'', col CK_Regular), (''g'', col CK_Static), (''b'', col CK_Regular),
       (''d'', col CK_PartitionKey), (''a'', col CK_PartitionKey)]),
     tbl_partition_key = [''d'', ''a''], tbl_clustering_key = [''i'']\<rparr>"

lemma example_table_ok: "driver_table example_table"
proof -
  have kinds: "columns_of_kind k t = set (map fst (filter (\<lambda>(_, c). column_kind c = k) (tbl_columns t)))" for k t
    by (force simp: columns_of_kind_def)
  show ?thesis by (simp add: driver_table_def example_table_def kinds insert_commute)
qed

subsection \<open>Views\<close>

lemma tm_views_set [simp]: "tm_views (set_table_views m vs) = vs"
  by (cases m) simp

lemma views_loop_lookup:
  assumes "views_loop kvs t tvs vs = Some (tvs', vs')"
  shows "\<forall>n. if n \<in> fst ` set kvs
     then \<exists>vm. map_of tvs' n = Some vm \<and> map_of vs' n = Some vm \<and> base_table vm = t
     else map_of tvs' n = map_of tvs n \<and> map_of vs' n = map_of vs n"
  using assms
proof (induction kvs arbitrary: tvs vs)
  case (Cons p kvs)
  obtain n v where p: "p = (n, v)" by (cases p)
  with Cons.prems obtain m where
    step: "views_loop kvs t (hash_insert n (CassMaterializedViewMeta n m t) tvs)
       (hash_insert n (CassMaterializedViewMeta n m t) vs) = Some (tvs', vs')"
    by (auto simp: bind_eq_Some_conv Let_def)
  show ?case
  proof
    fix x
    from Cons.IH [OF step, rule_format, of x] p
    show "if x \<in> fst ` set (p # kvs)
       then \<exists>vm. map_of tvs' x = Some vm \<and> map_of vs' x = Some vm \<and> base_table vm = t
       else map_of tvs' x = map_of tvs x \<and> map_of vs' x = map_of vs x"
      by (cases "x \<in> fst ` set kvs"; cases "x = n") simp_all
  qed
qed simp

text \<open>After the loop, a table that was visited lists all views, and the last one has them in the keyspace.\<close>

definition lists_all_views ::
    "(string \<times> MaterializedView) list \<Rightarrow> string \<Rightarrow> (string \<times> CassTableMeta) list \<Rightarrow> bool" where
  "lists_all_views kvs t tables \<longleftrightarrow>
     (\<exists>tm. map_of tables t = Some tm \<and>
           (\<forall>n \<in> fst ` set kvs. \<exists>vm. map_of (tm_views tm) n = Some vm \<and> base_table vm = t))"

definition all_based_on ::
    "(string \<times> MaterializedView) list \<Rightarrow> string \<Rightarrow> (string \<times> CassMaterializedViewMeta) list \<Rightarrow> bool" where
  "all_based_on kvs t views \<longleftrightarrow>
     (\<forall>n \<in> fst ` set kvs. \<exists>vm. map_of views n = Some vm \<and> base_table vm = t)"

lemma tables_loop_views:
  assumes "tables_loop kvs ts tables views = Some (tables', views')"
  shows "(\<forall>t. t \<in> fst ` set ts \<or> lists_all_views kvs t tables \<longrightarrow> lists_all_views kvs t tables') \<and>
         (ts \<noteq> [] \<longrightarrow> all_based_on kvs (fst (last ts)) views')"
  using assms
proof (induction ts arbitrary: tables views)
  case (Cons p ts)
  obtain t tbl where p: "p = (t, tbl)" by (cases p)
  with Cons.prems obtain m tvs vs where
    loop: "views_loop kvs t [] views = Some (tvs, vs)" and
    rest: "tables_loop kvs ts (hash_insert t (set_table_views m tvs) tables) vs = Some (tables', views')"
    by (auto simp: bind_eq_Some_conv)
  have listed: "\<forall>n \<in> fst ` set kvs. \<exists>vm. map_of tvs n = Some vm \<and> base_table vm = t"
    and based: "all_based_on kvs t vs"
    using views_loop_lookup [OF loop] unfolding all_based_on_def by metis+
  have "lists_all_views kvs x (hash_insert t (set_table_views m tvs) tables)"
    if "x = t \<or> lists_all_views kvs x tables" for x
    using that listed by (auto simp: lists_all_views_def)
  with Cons.IH [OF rest] p have "\<forall>x. x \<in> fst ` set (p # ts) \<or> lists_all_views kvs x tables \<longrightarrow>
      lists_all_views kvs x tables'" by auto
  moreover have "all_based_on kvs (fst (last (p # ts))) views'"
  proof (cases "ts = []")
    case True
    with rest based p show ?thesis by simp
  next
    case False
    with Cons.IH [OF rest] show ?thesis by simp
  qed
  ultimately show ?case by simp
qed simp

text \<open>
  Property C38.  The views of a keyspace are not assigned to their base tables: every table of the
  keyspace lists every view, each table as the base table of its own copies, and in the keyspace all
  views have one base table, the table that happens to be visited last.
\<close>

theorem every_table_lists_every_view:
  assumes "keyspace_meta name ks = Some km" and "t \<in> fst ` set (ks_tables ks)"
    and "v \<in> fst ` set (ks_views ks)"
  shows "(\<exists>tm vm. map_of (km_tables km) t = Some tm \<and> map_of (tm_views tm) v = Some vm \<and> base_table vm = t) \<and>
         (\<exists>vm. map_of (km_views km) v = Some vm \<and> base_table vm = fst (last (ks_tables ks)))"
proof -
  obtain tables views where loop: "tables_loop (ks_views ks) (ks_tables ks) [] [] = Some (tables, views)"
    and km: "km_tables km = tables" "km_views km = views"
    using assms(1) by (auto simp: keyspace_meta_def bind_eq_Some_conv)
  have "ks_tables ks \<noteq> []" using assms(2) by auto
  with tables_loop_views [OF loop] assms(2)
  have "lists_all_views (ks_views ks) t tables" "all_based_on (ks_views ks) (fst (last (ks_tables ks))) views"
    by blast+
  with assms(3) km show ?thesis unfolding lists_all_views_def all_based_on_def by blast
qed

definition example_keyspace :: Keyspace where
  "example_keyspace = \<lparr>ks_user_defined_types = [],
     ks_tables = [(''t'', example_table), (''u'', example_table)],
     ks_views = [(''v'', \<lparr>mv_view_metadata = example_table, mv_base_table_name = ''t''\<rparr>)]\<rparr>"

theorem every_table_lists_every_view_witness:
  "\<exists>km tm vm vm'. keyspace_meta ''k'' example_keyspace = Some km \<and>
     map_of (km_tables km) ''u'' = Some tm \<and> map_of (tm_views tm) ''v'' = Some vm \<and>
     map_of (km_views km) ''v'' = Some vm' \<and> base_table vm' = ''u''"
proof -
  obtain km where km: "keyspace_meta ''k'' example_keyspace = Some km"
    by (simp add: keyspace_meta_def example_keyspace_def create_table_metadata_eq [OF example_table_ok] Let_def)
  have t: "''u'' \<in> fst ` set (ks_tables example_keyspace)" "''v'' \<in> fst ` set (ks_views example_keyspace)"
    "fst (last (ks_tables example_keyspace)) = ''u''"
    by (simp_all add: example_keyspace_def)
  from every_table_lists_every_view [OF km t(1,2)] km t(3) show ?thesis by auto
qed

end
