(* ===== verification/Cass_Iterator.thy ===== *)
theory Cass_Iterator
  imports Cass_Query_Result Cass_Schema_Meta
begin

text \<open>
  \<open>iterator.rs\<close>: iterators over results, rows, values and metadata.

  The iterators of the Rust driver over the cells of a collection, a map, a vector or a user defined
  type are what they still have to give: a list of cells, each possibly an error, beside the column
  types they were created with.  How the driver makes them from bytes is an argument, a
  \<open>DeserializeValue\<close>; and so is \<open>read_cql_bytes\<close>, which takes one cell from a slice.  The iterator over
  tuples is defined in the source itself.
\<close>

subsection \<open>Iterators of the Rust driver\<close>

type_synonym raw_cell = "unit + frame_slice option"

text \<open>\<open>ListlikeIterator\<close> and \<open>VectorIterator\<close>.\<close>

record lib_sequence =
  seq_elem_typ :: ColumnType
  seq_cells :: "raw_cell list"

text \<open>\<open>MapIterator\<close>.\<close>

record lib_mapping =
  map_key_typ :: ColumnType
  map_value_typ :: ColumnType
  map_cells :: "(unit + frame_slice option \<times> frame_slice option) list"

text \<open>\<open>UdtIterator\<close>; a field may be missing from the value.\<close>

record lib_udt =
  udt_cells :: "((string \<times> ColumnType) \<times> (unit + frame_slice option option)) list"

type_synonym read_cql_bytes = "frame_slice \<Rightarrow> raw_cell \<times> frame_slice"

text \<open>Items are read as \<open>CassRawValue\<close>, whose \<open>deserialize\<close> is in the source.\<close>

definition read_raw :: "ColumnType \<Rightarrow> frame_slice option \<Rightarrow> unit + CassRawValue" where
  "read_raw typ cell = map_sum (\<lambda>_. ()) id (CassRawValue_deserialize typ cell)"

definition sequence_next :: "lib_sequence \<Rightarrow> (unit + CassRawValue) option \<times> lib_sequence" where
  "sequence_next it =
     (case seq_cells it of
        [] \<Rightarrow> (None, it)
      | c # cs \<Rightarrow>
          (Some (case c of Inl e \<Rightarrow> Inl e | Inr cell \<Rightarrow> read_raw (seq_elem_typ it) cell),
           it\<lparr>seq_cells := cs\<rparr>))"

definition mapping_next :: "lib_mapping \<Rightarrow> (unit + CassRawValue \<times> CassRawValue) option \<times> lib_mapping" where
  "mapping_next it =
     (case map_cells it of
        [] \<Rightarrow> (None, it)
      | c # cs \<Rightarrow>
          (Some (case c of
                   Inl e \<Rightarrow> Inl e
                 | Inr (k, v) \<Rightarrow>
                     (case read_raw (map_key_typ it) k of
                        Inl e \<Rightarrow> Inl e
                      | Inr key \<Rightarrow> map_sum id (Pair key) (read_raw (map_value_typ it) v))),
           it\<lparr>map_cells := cs\<rparr>))"

definition udt_next :: "lib_udt \<Rightarrow> ((string \<times> ColumnType) \<times> (unit + frame_slice option option)) option \<times> lib_udt" where
  "udt_next it =
     (case udt_cells it of [] \<Rightarrow> (None, it) | c # cs \<Rightarrow> (Some c, it\<lparr>udt_cells := cs\<rparr>))"

subsection \<open>Rows of a result, columns of a row\<close>

record CassRowsResultIterator =
  rri_iterator :: "(unit + CassRawRow) list"
  rri_result_metadata :: CassResultMetadata
  rri_current_row :: "CassRow option"

datatype CassResultIterator = RI_NonRows | RI_Rows CassRowsResultIterator

fun CassResultIterator_next :: "CassResultIterator \<Rightarrow> bool \<times> CassResultIterator" where
  "CassResultIterator_next RI_NonRows = (False, RI_NonRows)"
| "CassResultIterator_next (RI_Rows it) =
     (let (next_item, rest) = (case rri_iterator it of [] \<Rightarrow> (None, []) | r # rs \<Rightarrow> (Some r, rs));
          new_row = do { raw_row_res \<leftarrow> next_item;
                         case raw_row_res of
                           Inl _ \<Rightarrow> None
                         | Inr raw_row \<Rightarrow>
                             (case from_raw_row_and_metadata raw_row (rri_result_metadata it) of
                                Inl _ \<Rightarrow> None
                              | Inr row \<Rightarrow> Some row) }
      in (new_row \<noteq> None, RI_Rows (it\<lparr>rri_iterator := rest, rri_current_row := new_row\<rparr>)))"

record CassRowIterator =
  ri_row :: CassRow
  ri_position :: "nat option"

definition next_position :: "nat option \<Rightarrow> nat" where
  "next_position pos = (case pos of None \<Rightarrow> 0 | Some prev_pos \<Rightarrow> prev_pos + 1)"

definition CassRowIterator_next :: "CassRowIterator \<Rightarrow> bool \<times> CassRowIterator" where
  "CassRowIterator_next self =
     (let new_pos = next_position (ri_position self)
      in (new_pos < length (row_columns (ri_row self)), self\<lparr>ri_position := Some new_pos\<rparr>))"

subsection \<open>Lists, sets and vectors\<close>

record CassListlikeIterator =
  ll_iterator :: lib_sequence
  ll_value_data_type :: CassDataType
  ll_current_value :: "CassValue option"

definition CassListlikeIterator_new_from_value ::
    "lib_sequence DeserializeValue \<Rightarrow> CassValue \<Rightarrow>
     (NonNullDeserializationError + CassListlikeIterator) panics" where
  "CassListlikeIterator_new_from_value L val =
     (case get_non_null L val of
        Inl e \<Rightarrow> Some (Inl e)
      | Inr listlike_iterator \<Rightarrow>
          do { item_type \<leftarrow> (case cv_value_type val of DT_List typ _ \<Rightarrow> typ | DT_Set typ _ \<Rightarrow> typ | _ \<Rightarrow> None);
               Some (Inr \<lparr>ll_iterator = listlike_iterator, ll_value_data_type = item_type,
                          ll_current_value = None\<rparr>) })"

definition CassListlikeIterator_next :: "CassListlikeIterator \<Rightarrow> bool \<times> CassListlikeIterator" where
  "CassListlikeIterator_next self =
     (let (item, it) = sequence_next (ll_iterator self);
          next_value = (case item of
              Some (Inr v) \<Rightarrow> Some \<lparr>cv_value = v, cv_value_type = ll_value_data_type self\<rparr>
            | _ \<Rightarrow> None)
      in (next_value \<noteq> None, self\<lparr>ll_iterator := it, ll_current_value := next_value\<rparr>))"

record CassVectorIterator =
  vi_iterator :: lib_sequence
  vi_element_data_type :: CassDataType
  vi_current_value :: "CassValue option"

definition CassVectorIterator_new_from_value ::
    "lib_sequence DeserializeValue \<Rightarrow> CassValue \<Rightarrow>
     (NonNullDeserializationError + CassVectorIterator) panics" where
  "CassVectorIterator_new_from_value V val =
     (case get_non_null V val of
        Inl e \<Rightarrow> Some (Inl e)
      | Inr vector_iterator \<Rightarrow>
          do { element_type \<leftarrow> (case cv_value_type val of DT_Vector typ _ \<Rightarrow> Some typ | _ \<Rightarrow> None);
               Some (Inr \<lparr>vi_iterator = vector_iterator, vi_element_data_type = element_type,
                          vi_current_value = None\<rparr>) })"

definition CassVectorIterator_next :: "CassVectorIterator \<Rightarrow> bool \<times> CassVectorIterator" where
  "CassVectorIterator_next self =
     (let (item, it) = sequence_next (vi_iterator self);
          next_value = (case item of
              Some (Inr v) \<Rightarrow> Some \<lparr>cv_value = v, cv_value_type = vi_element_data_type self\<rparr>
            | _ \<Rightarrow> None)
      in (next_value \<noteq> None, self\<lparr>vi_iterator := it, vi_current_value := next_value\<rparr>))"

subsection \<open>Maps\<close>

record CassMapIterator =
  mi_iterator :: lib_mapping
  mi_key_type :: CassDataType
  mi_value_type :: CassDataType
  mi_current_entry :: "(CassValue \<times> CassValue) option"

definition CassMapIterator_new_from_value ::
    "lib_mapping DeserializeValue \<Rightarrow> CassValue \<Rightarrow>
     (NonNullDeserializationError + CassMapIterator) panics" where
  "CassMapIterator_new_from_value M val =
     (case get_non_null M val of
        Inl e \<Rightarrow> Some (Inl e)
      | Inr map_iterator \<Rightarrow>
          (case cv_value_type val of
             DT_Map (MT_KeyAndValue key_type val_type) _ \<Rightarrow>
               Some (Inr \<lparr>mi_iterator = map_iterator, mi_key_type = key_type, mi_value_type = val_type,
                          mi_current_entry = None\<rparr>)
           | _ \<Rightarrow> None))"

definition CassMapIterator_next :: "CassMapIterator \<Rightarrow> bool \<times> CassMapIterator" where
  "CassMapIterator_next self =
     (let (item, it) = mapping_next (mi_iterator self);
          new_entry = (case item of
              Some (Inr (key, val)) \<Rightarrow>
                Some (\<lparr>cv_value = key, cv_value_type = mi_key_type self\<rparr>,
                      \<lparr>cv_value = val, cv_value_type = mi_value_type self\<rparr>)
            | _ \<Rightarrow> None)
      in (new_entry \<noteq> None, self\<lparr>mi_iterator := it, mi_current_entry := new_entry\<rparr>))"

datatype CassMapCollectionIteratorState = MCS_Key | MCS_Value

record CassMapCollectionIterator =
  mc_iterator :: CassMapIterator
  mc_state :: "CassMapCollectionIteratorState option"

definition CassMapCollectionIterator_new_from_value ::
    "lib_mapping DeserializeValue \<Rightarrow> CassValue \<Rightarrow>
     (NonNullDeserializationError + CassMapCollectionIterator) panics" where
  "CassMapCollectionIterator_new_from_value M val =
     map_option (map_sum id (\<lambda>iterator. \<lparr>mc_iterator = iterator, mc_state = None\<rparr>))
       (CassMapIterator_new_from_value M val)"

definition CassMapCollectionIterator_next ::
    "CassMapCollectionIterator \<Rightarrow> bool \<times> CassMapCollectionIterator" where
  "CassMapCollectionIterator_next self =
     (let (new_state, next_result, it) =
            (case mc_state self of
               None \<Rightarrow> (let (r, it) = CassMapIterator_next (mc_iterator self) in (MCS_Key, r, it))
             | Some MCS_Key \<Rightarrow> (MCS_Value, True, mc_iterator self)
             | Some MCS_Value \<Rightarrow> (let (r, it) = CassMapIterator_next (mc_iterator self) in (MCS_Key, r, it)))
      in (next_result,
          self\<lparr>mc_iterator := it, mc_state := (if next_result then Some new_state else mc_state self)\<rparr>))"

datatype CassCollectionIterator = CI_Listlike CassListlikeIterator | CI_Map CassMapCollectionIterator

fun CassCollectionIterator_next :: "CassCollectionIterator \<Rightarrow> bool \<times> CassCollectionIterator" where
  "CassCollectionIterator_next (CI_Listlike it) = map_prod id CI_Listlike (CassListlikeIterator_next it)"
| "CassCollectionIterator_next (CI_Map it) = map_prod id CI_Map (CassMapCollectionIterator_next it)"

subsection \<open>Tuples\<close>

text \<open>The module \<open>tuple_iterator\<close>: a tuple is read cell by cell, one for each type.\<close>

record TupleIterator =
  ti_all_metadata :: "ColumnType list"
  ti_remaining_metadata :: "ColumnType list"
  ti_slice :: frame_slice

definition BytesSequenceIterator_next :: "read_cql_bytes \<Rightarrow> frame_slice \<Rightarrow> raw_cell option \<times> frame_slice" where
  "BytesSequenceIterator_next rd bytes =
     (if bytes = [] then (None, bytes) else (let (r, rest) = rd bytes in (Some r, rest)))"

definition TupleIterator_new :: "ColumnType list \<Rightarrow> frame_slice \<Rightarrow> TupleIterator" where
  "TupleIterator_new metadata bytes =
     \<lparr>ti_all_metadata = metadata, ti_remaining_metadata = metadata, ti_slice = bytes\<rparr>"

text \<open>After the type check, the type is a tuple: the other case is unreachable.\<close>

definition TupleIterator_reader :: "TupleIterator DeserializeValue" where
  "TupleIterator_reader =
     \<lparr>type_check = (\<lambda>typ. case typ of CT_Tuple _ \<Rightarrow> True | _ \<Rightarrow> False),
      deserialize_value = (\<lambda>typ bytes. case typ of CT_Tuple types \<Rightarrow> Inr (TupleIterator_new types bytes)
                                     | _ \<Rightarrow> Inl ())\<rparr>"

definition TupleIterator_next ::
    "read_cql_bytes \<Rightarrow> TupleIterator \<Rightarrow> (unit + ColumnType \<times> frame_slice option) option \<times> TupleIterator" where
  "TupleIterator_next rd self =
     (case ti_remaining_metadata self of
        [] \<Rightarrow> (None, self)
      | head # metadata \<Rightarrow>
          (let (raw, rest) = BytesSequenceIterator_next rd (ti_slice self);
               raw_res = (case raw of
                   Some (Inr raw) \<Rightarrow> Inr (head, raw)
                 | Some (Inl e) \<Rightarrow> Inl ()
                 | None \<Rightarrow> Inl ())
           in (Some raw_res, self\<lparr>ti_remaining_metadata := metadata, ti_slice := rest\<rparr>)))"

record CassTupleIteratorEntry =
  te_field_value :: CassValue
  te_metadata_types_index :: nat

record CassTupleIterator =
  tu_iterator :: TupleIterator
  tu_metadata :: "CassDataType list"
  tu_current_entry :: "CassTupleIteratorEntry option"

definition CassTupleIterator_new_from_value ::
    "CassValue \<Rightarrow> (NonNullDeserializationError + CassTupleIterator) panics" where
  "CassTupleIterator_new_from_value val =
     (case get_non_null TupleIterator_reader val of
        Inl e \<Rightarrow> Some (Inl e)
      | Inr tuple_iterator \<Rightarrow>
          (case cv_value_type val of
             DT_Tuple typ \<Rightarrow>
               Some (Inr \<lparr>tu_iterator = tuple_iterator, tu_metadata = typ, tu_current_entry = None\<rparr>)
           | _ \<Rightarrow> None))"

definition next_index :: "CassTupleIteratorEntry option \<Rightarrow> nat" where
  "next_index current_entry =
     (case current_entry of None \<Rightarrow> 0 | Some entry \<Rightarrow> te_metadata_types_index entry + 1)"

text \<open>Indexing past the metadata would panic.\<close>

definition CassTupleIterator_next ::
    "read_cql_bytes \<Rightarrow> CassTupleIterator \<Rightarrow> (bool \<times> CassTupleIterator) panics" where
  "CassTupleIterator_next rd self =
     (let (item, it) = TupleIterator_next rd (tu_iterator self);
          self = self\<lparr>tu_iterator := it\<rparr>
      in case item of
           None \<Rightarrow> Some (False, self)
         | Some (Inl _) \<Rightarrow> Some (False, self)
         | Some (Inr (column_type, bytes)) \<Rightarrow>
             (case read_raw column_type bytes of
                Inl _ \<Rightarrow> Some (False, self)
              | Inr raw_value \<Rightarrow>
                  (let new_metadata_types_index = next_index (tu_current_entry self) in
                   do { value_type \<leftarrow> list_get (tu_metadata self) new_metadata_types_index;
                        Some (True, self\<lparr>tu_current_entry :=
                          Some \<lparr>te_field_value = \<lparr>cv_value = raw_value, cv_value_type = value_type\<rparr>,
                                te_metadata_types_index = new_metadata_types_index\<rparr>\<rparr>) })))"

subsection \<open>User defined types\<close>

text \<open>The entry of a UDT iterator has the same two fields as that of a tuple iterator.\<close>

record CassUdtIterator =
  ui_iterator :: lib_udt
  ui_metadata :: "(string \<times> CassDataType) list"
  ui_current_entry :: "CassTupleIteratorEntry option"

definition CassUdtIterator_new_from_value ::
    "lib_udt DeserializeValue \<Rightarrow> CassValue \<Rightarrow> (NonNullDeserializationError + CassUdtIterator) panics" where
  "CassUdtIterator_new_from_value U val =
     (case get_non_null U val of
        Inl e \<Rightarrow> Some (Inl e)
      | Inr udt_iterator \<Rightarrow>
          (case cv_value_type val of
             DT_Udt udt_type \<Rightarrow>
               Some (Inr \<lparr>ui_iterator = udt_iterator, ui_metadata = field_types udt_type,
                          ui_current_entry = None\<rparr>)
           | _ \<Rightarrow> None))"

definition CassUdtIterator_next :: "CassUdtIterator \<Rightarrow> (bool \<times> CassUdtIterator) panics" where
  "CassUdtIterator_next self =
     (let (item, it) = udt_next (ui_iterator self);
          self = self\<lparr>ui_iterator := it\<rparr>
      in case item of
           None \<Rightarrow> Some (False, self)
         | Some ((field_name, field_type), Inl _) \<Rightarrow> Some (False, self)
         | Some ((field_name, field_type), Inr field_value) \<Rightarrow>
             (let field_slice = (case field_value of Some f \<Rightarrow> f | None \<Rightarrow> None) in
              case read_raw field_type field_slice of
                Inl _ \<Rightarrow> Some (False, self)
              | Inr raw_value \<Rightarrow>
                  (let new_metadata_types_index = next_index (ui_current_entry self) in
                   do { field \<leftarrow> list_get (ui_metadata self) new_metadata_types_index;
                        Some (True, self\<lparr>ui_current_entry :=
                          Some \<lparr>te_field_value = \<lparr>cv_value = raw_value, cv_value_type = snd field\<rparr>,
                                te_metadata_types_index = new_metadata_types_index\<rparr>\<rparr>) })))"

subsection \<open>Metadata\<close>

record 'v meta_iterator =
  mt_value :: 'v
  mt_count :: nat
  mt_position :: "nat option"

type_synonym CassSchemaMetaIterator = "CassSchemaMeta meta_iterator"
type_synonym CassKeyspaceMetaIterator = "CassKeyspaceMeta meta_iterator"
type_synonym CassTableMetaIterator = "CassTableMeta meta_iterator"
type_synonym CassViewMetaIterator = "CassMaterializedViewMeta meta_iterator"

definition meta_next :: "'v meta_iterator \<Rightarrow> bool \<times> 'v meta_iterator" where
  "meta_next self =
     (let new_pos = next_position (mt_position self)
      in (new_pos < mt_count self, self\<lparr>mt_position := Some new_pos\<rparr>))"

definition CassSchemaMetaIterator_next :: "CassSchemaMetaIterator \<Rightarrow> bool \<times> CassSchemaMetaIterator" where
  "CassSchemaMetaIterator_next = meta_next"

definition CassKeyspaceMetaIterator_next :: "CassKeyspaceMetaIterator \<Rightarrow> bool \<times> CassKeyspaceMetaIterator" where
  "CassKeyspaceMetaIterator_next = meta_next"

definition CassTableMetaIterator_next :: "CassTableMetaIterator \<Rightarrow> bool \<times> CassTableMetaIterator" where
  "CassTableMetaIterator_next = meta_next"

definition CassViewMetaIterator_next :: "CassViewMetaIterator \<Rightarrow> bool \<times> CassViewMetaIterator" where
  "CassViewMetaIterator_next = meta_next"

datatype CassColumnsMetaIterator = CM_FromTable CassTableMetaIterator | CM_FromView CassViewMetaIterator

datatype CassMaterializedViewsMetaIterator =
    VM_FromKeyspace CassKeyspaceMetaIterator
  | VM_FromTable CassTableMetaIterator

subsection \<open>The iterator of the C API\<close>

datatype CassIterator =
    It_Result CassResultIterator
  | It_Row CassRowIterator
  | It_Collection CassCollectionIterator
  | It_Map CassMapIterator
  | It_Tuple CassTupleIterator
  | It_Udt CassUdtIterator
  | It_Vector CassVectorIterator
  | It_KeyspacesMeta CassSchemaMetaIterator
  | It_TablesMeta CassKeyspaceMetaIterator
  | It_UserTypes CassKeyspaceMetaIterator
  | It_MaterializedViewsMeta CassMaterializedViewsMetaIterator
  | It_ColumnsMeta CassColumnsMetaIterator

datatype CassIteratorType =
    CASS_ITERATOR_TYPE_RESULT
  | CASS_ITERATOR_TYPE_ROW
  | CASS_ITERATOR_TYPE_COLLECTION
  | CASS_ITERATOR_TYPE_MAP
  | CASS_ITERATOR_TYPE_TUPLE
  | CASS_ITERATOR_TYPE_USER_TYPE_FIELD
  | CASS_ITERATOR_TYPE_VECTOR
  | CASS_ITERATOR_TYPE_KEYSPACE_META
  | CASS_ITERATOR_TYPE_TABLE_META
  | CASS_ITERATOR_TYPE_TYPE_META
  | CASS_ITERATOR_TYPE_MATERIALIZED_VIEW_META
  | CASS_ITERATOR_TYPE_COLUMN_META

definition cass_iterator_type :: "CassIterator c_ptr \<Rightarrow> CassIteratorType" where
  "cass_iterator_type iterator =
     (case iterator of
        None \<Rightarrow> CASS_ITERATOR_TYPE_RESULT
      | Some (It_Result _) \<Rightarrow> CASS_ITERATOR_TYPE_RESULT
      | Some (It_Row _) \<Rightarrow> CASS_ITERATOR_TYPE_ROW
      | Some (It_Collection _) \<Rightarrow> CASS_ITERATOR_TYPE_COLLECTION
      | Some (It_Map _) \<Rightarrow> CASS_ITERATOR_TYPE_MAP
      | Some (It_Tuple _) \<Rightarrow> CASS_ITERATOR_TYPE_TUPLE
      | Some (It_Udt _) \<Rightarrow> CASS_ITERATOR_TYPE_USER_TYPE_FIELD
      | Some (It_Vector _) \<Rightarrow> CASS_ITERATOR_TYPE_VECTOR
      | Some (It_KeyspacesMeta _) \<Rightarrow> CASS_ITERATOR_TYPE_KEYSPACE_META
      | Some (It_TablesMeta _) \<Rightarrow> CASS_ITERATOR_TYPE_TABLE_META
      | Some (It_UserTypes _) \<Rightarrow> CASS_ITERATOR_TYPE_TYPE_META
      | Some (It_MaterializedViewsMeta _) \<Rightarrow> CASS_ITERATOR_TYPE_MATERIALIZED_VIEW_META
      | Some (It_ColumnsMeta _) \<Rightarrow> CASS_ITERATOR_TYPE_COLUMN_META)"

fun iterator_next :: "read_cql_bytes \<Rightarrow> CassIterator \<Rightarrow> (bool \<times> CassIterator) panics" where
  "iterator_next rd (It_Result it) = Some (map_prod id It_Result (CassResultIterator_next it))"
| "iterator_next rd (It_Row it) = Some (map_prod id It_Row (CassRowIterator_next it))"
| "iterator_next rd (It_Collection it) = Some (map_prod id It_Collection (CassCollectionIterator_next it))"
| "iterator_next rd (It_Tuple it) = map_option (map_prod id It_Tuple) (CassTupleIterator_next rd it)"
| "iterator_next rd (It_Map it) = Some (map_prod id It_Map (CassMapIterator_next it))"
| "iterator_next rd (It_Udt it) = map_option (map_prod id It_Udt) (CassUdtIterator_next it)"
| "iterator_next rd (It_Vector it) = Some (map_prod id It_Vector (CassVectorIterator_next it))"
| "iterator_next rd (It_KeyspacesMeta it) = Some (map_prod id It_KeyspacesMeta (CassSchemaMetaIterator_next it))"
| "iterator_next rd (It_TablesMeta it) = Some (map_prod id It_TablesMeta (CassKeyspaceMetaIterator_next it))"
| "iterator_next rd (It_UserTypes it) = Some (map_prod id It_UserTypes (CassKeyspaceMetaIterator_next it))"
| "iterator_next rd (It_MaterializedViewsMeta (VM_FromKeyspace it)) =
     Some (map_prod id (It_MaterializedViewsMeta \<circ> VM_FromKeyspace) (CassKeyspaceMetaIterator_next it))"
| "iterator_next rd (It_MaterializedViewsMeta (VM_FromTable it)) =
     Some (map_prod id (It_MaterializedViewsMeta \<circ> VM_FromTable) (CassTableMetaIterator_next it))"
| "iterator_next rd (It_ColumnsMeta (CM_FromTable it)) =
     Some (map_prod id (It_ColumnsMeta \<circ> CM_FromTable) (CassTableMetaIterator_next it))"
| "iterator_next rd (It_ColumnsMeta (CM_FromView it)) =
     Some (map_prod id (It_ColumnsMeta \<circ> CM_FromView) (CassViewMetaIterator_next it))"

definition cass_iterator_next ::
    "read_cql_bytes \<Rightarrow> CassIterator c_ptr \<Rightarrow> (bool \<times> CassIterator c_ptr) panics" where
  "cass_iterator_next rd iterator =
     (case iterator of
        None \<Rightarrow> Some (False, None)
      | Some iter \<Rightarrow> map_option (map_prod id Some) (iterator_next rd iter))"

subsection \<open>Reading the current item\<close>

definition cass_iterator_get_row :: "CassIterator c_ptr \<Rightarrow> CassRow c_ptr" where
  "cass_iterator_get_row iterator =
     (case iterator of
        Some (It_Result (RI_Rows it)) \<Rightarrow> rri_current_row it
      | _ \<Rightarrow> None)"

definition cass_iterator_get_column :: "CassIterator c_ptr \<Rightarrow> CassValue c_ptr" where
  "cass_iterator_get_column iterator =
     (case iterator of
        Some (It_Row it) \<Rightarrow> do { iter_position \<leftarrow> ri_position it; list_get (row_columns (ri_row it)) iter_position }
      | _ \<Rightarrow> None)"

definition cass_iterator_get_value :: "CassIterator c_ptr \<Rightarrow> CassValue c_ptr" where
  "cass_iterator_get_value iterator =
     (case iterator of
        Some (It_Collection (CI_Listlike it)) \<Rightarrow> ll_current_value it
      | Some (It_Collection (CI_Map it)) \<Rightarrow>
          do { state \<leftarrow> mc_state it;
               let current_entry = mi_current_entry (mc_iterator it);
               case state of
                 MCS_Key \<Rightarrow> map_option fst current_entry
               | MCS_Value \<Rightarrow> map_option snd current_entry }
      | Some (It_Tuple it) \<Rightarrow> map_option te_field_value (tu_current_entry it)
      | Some (It_Vector it) \<Rightarrow> vi_current_value it
      | _ \<Rightarrow> None)"

definition cass_iterator_get_map_key :: "CassIterator c_ptr \<Rightarrow> CassValue c_ptr" where
  "cass_iterator_get_map_key iterator =
     (case iterator of Some (It_Map it) \<Rightarrow> map_option fst (mi_current_entry it) | _ \<Rightarrow> None)"

definition cass_iterator_get_map_value :: "CassIterator c_ptr \<Rightarrow> CassValue c_ptr" where
  "cass_iterator_get_map_value iterator =
     (case iterator of Some (It_Map it) \<Rightarrow> map_option snd (mi_current_entry it) | _ \<Rightarrow> None)"

definition cass_iterator_get_user_type_field_name ::
    "CassIterator c_ptr \<Rightarrow> (CassError \<times> (string \<times> nat) option) panics" where
  "cass_iterator_get_user_type_field_name iterator =
     (case iterator of
        Some (It_Udt it) \<Rightarrow>
          (case ui_current_entry it of
             Some entry \<Rightarrow>
               do { field \<leftarrow> list_get (ui_metadata it) (te_metadata_types_index entry);
                    Some (CASS_OK, Some (write_str_to_c (fst field))) }
           | None \<Rightarrow> Some (CASS_ERROR_LIB_BAD_PARAMS, None))
      | _ \<Rightarrow> Some (CASS_ERROR_LIB_BAD_PARAMS, None))"

definition cass_iterator_get_user_type_field_value :: "CassIterator c_ptr \<Rightarrow> CassValue c_ptr" where
  "cass_iterator_get_user_type_field_value iterator =
     (case iterator of Some (It_Udt it) \<Rightarrow> map_option te_field_value (ui_current_entry it) | _ \<Rightarrow> None)"

text \<open>The entry at the position of a metadata iterator.\<close>

definition meta_entry :: "('v \<Rightarrow> (string \<times> 'e) list) \<Rightarrow> 'v meta_iterator \<Rightarrow> 'e option" where
  "meta_entry entries it =
     do { iter_position \<leftarrow> mt_position it; map_option snd (list_get (entries (mt_value it)) iter_position) }"

definition cass_iterator_get_keyspace_meta :: "CassIterator c_ptr \<Rightarrow> CassKeyspaceMeta c_ptr" where
  "cass_iterator_get_keyspace_meta iterator =
     (case iterator of Some (It_KeyspacesMeta it) \<Rightarrow> meta_entry id it | _ \<Rightarrow> None)"

definition cass_iterator_get_table_meta :: "CassIterator c_ptr \<Rightarrow> CassTableMeta c_ptr" where
  "cass_iterator_get_table_meta iterator =
     (case iterator of Some (It_TablesMeta it) \<Rightarrow> meta_entry km_tables it | _ \<Rightarrow> None)"

definition cass_iterator_get_user_type :: "CassIterator c_ptr \<Rightarrow> CassDataType c_ptr" where
  "cass_iterator_get_user_type iterator =
     (case iterator of Some (It_UserTypes it) \<Rightarrow> meta_entry km_user_defined_type_data_type it | _ \<Rightarrow> None)"

definition cass_iterator_get_column_meta :: "CassIterator c_ptr \<Rightarrow> CassColumnMeta c_ptr" where
  "cass_iterator_get_column_meta iterator =
     (case iterator of
        Some (It_ColumnsMeta (CM_FromTable it)) \<Rightarrow> meta_entry columns_metadata it
      | Some (It_ColumnsMeta (CM_FromView it)) \<Rightarrow> meta_entry (columns_metadata \<circ> view_metadata) it
      | _ \<Rightarrow> None)"

definition cass_iterator_get_materialized_view_meta :: "CassIterator c_ptr \<Rightarrow> CassMaterializedViewMeta c_ptr" where
  "cass_iterator_get_materialized_view_meta iterator =
     (case iterator of
        Some (It_MaterializedViewsMeta (VM_FromKeyspace it)) \<Rightarrow> meta_entry km_views it
      | Some (It_MaterializedViewsMeta (VM_FromTable it)) \<Rightarrow> meta_entry tm_views it
      | _ \<Rightarrow> None)"

subsection \<open>Creating iterators\<close>

definition cass_iterator_from_result :: "CassResult c_ptr \<Rightarrow> CassIterator c_ptr" where
  "cass_iterator_from_result result =
     (case result of
        None \<Rightarrow> None
      | Some result_from_raw \<Rightarrow>
          Some (It_Result
            (case res_kind result_from_raw of
               NonRows \<Rightarrow> RI_NonRows
             | Rows rows \<Rightarrow>
                 RI_Rows \<lparr>rri_iterator = rows_iter (shared_raw_rows rows),
                          rri_result_metadata = shared_metadata rows, rri_current_row = None\<rparr>)))"

definition cass_iterator_from_row :: "CassRow c_ptr \<Rightarrow> CassIterator c_ptr" where
  "cass_iterator_from_row row =
     map_option (\<lambda>row_from_raw. It_Row \<lparr>ri_row = row_from_raw, ri_position = None\<rparr>) row"

text \<open>An iterator over a value, or null when it cannot be created.\<close>

definition value_iterator ::
    "CassValue c_ptr \<Rightarrow> (CassValue \<Rightarrow> (NonNullDeserializationError + 'i) panics) \<Rightarrow> ('i \<Rightarrow> CassIterator) \<Rightarrow>
     CassIterator c_ptr panics" where
  "value_iterator val new_from_value wrap =
     (case val of
        None \<Rightarrow> Some None
      | Some v \<Rightarrow>
          do { iterator_result \<leftarrow> new_from_value v;
               Some (case iterator_result of Inr iterator \<Rightarrow> Some (wrap iterator) | Inl _ \<Rightarrow> None) })"

definition cass_iterator_from_collection ::
    "lib_sequence DeserializeValue \<Rightarrow> lib_mapping DeserializeValue \<Rightarrow> CassValue c_ptr \<Rightarrow>
     CassIterator c_ptr panics" where
  "cass_iterator_from_collection L M val =
     (case val of
        None \<Rightarrow> Some None
      | Some v \<Rightarrow>
          (let value_type = get_value_type (cv_value_type v) in
           if value_type = CASS_VALUE_TYPE_SET \<or> value_type = CASS_VALUE_TYPE_LIST
           then value_iterator val (CassListlikeIterator_new_from_value L) (It_Collection \<circ> CI_Listlike)
           else if value_type = CASS_VALUE_TYPE_MAP
           then value_iterator val (CassMapCollectionIterator_new_from_value M) (It_Collection \<circ> CI_Map)
           else Some None))"

definition cass_iterator_from_tuple :: "CassValue c_ptr \<Rightarrow> CassIterator c_ptr panics" where
  "cass_iterator_from_tuple val = value_iterator val CassTupleIterator_new_from_value It_Tuple"

definition cass_iterator_from_vector ::
    "lib_sequence DeserializeValue \<Rightarrow> CassValue c_ptr \<Rightarrow> CassIterator c_ptr panics" where
  "cass_iterator_from_vector V val = value_iterator val (CassVectorIterator_new_from_value V) It_Vector"

definition cass_iterator_from_map ::
    "lib_mapping DeserializeValue \<Rightarrow> CassValue c_ptr \<Rightarrow> CassIterator c_ptr panics" where
  "cass_iterator_from_map M val = value_iterator val (CassMapIterator_new_from_value M) It_Map"

definition cass_iterator_fields_from_user_type ::
    "lib_udt DeserializeValue \<Rightarrow> CassValue c_ptr \<Rightarrow> CassIterator c_ptr panics" where
  "cass_iterator_fields_from_user_type U val =
     value_iterator val (CassUdtIterator_new_from_value U) It_Udt"

definition meta_start :: "('v \<Rightarrow> 'e list) \<Rightarrow> 'v \<Rightarrow> 'v meta_iterator" where
  "meta_start entries v = \<lparr>mt_value = v, mt_count = length (entries v), mt_position = None\<rparr>"

definition cass_iterator_keyspaces_from_schema_meta :: "CassSchemaMeta c_ptr \<Rightarrow> CassIterator c_ptr" where
  "cass_iterator_keyspaces_from_schema_meta = map_option (It_KeyspacesMeta \<circ> meta_start id)"

definition cass_iterator_tables_from_keyspace_meta :: "CassKeyspaceMeta c_ptr \<Rightarrow> CassIterator c_ptr" where
  "cass_iterator_tables_from_keyspace_meta = map_option (It_TablesMeta \<circ> meta_start km_tables)"

definition cass_iterator_materialized_views_from_keyspace_meta :: "CassKeyspaceMeta c_ptr \<Rightarrow> CassIterator c_ptr" where
  "cass_iterator_materialized_views_from_keyspace_meta =
     map_option (It_MaterializedViewsMeta \<circ> VM_FromKeyspace \<circ> meta_start km_views)"

definition cass_iterator_user_types_from_keyspace_meta :: "CassKeyspaceMeta c_ptr \<Rightarrow> CassIterator c_ptr" where
  "cass_iterator_user_types_from_keyspace_meta =
     map_option (It_UserTypes \<circ> meta_start km_user_defined_type_data_type)"

definition cass_iterator_columns_from_table_meta :: "CassTableMeta c_ptr \<Rightarrow> CassIterator c_ptr" where
  "cass_iterator_columns_from_table_meta =
     map_option (It_ColumnsMeta \<circ> CM_FromTable \<circ> meta_start columns_metadata)"

definition cass_iterator_materialized_views_from_table_meta :: "CassTableMeta c_ptr \<Rightarrow> CassIterator c_ptr" where
  "cass_iterator_materialized_views_from_table_meta =
     map_option (It_MaterializedViewsMeta \<circ> VM_FromTable \<circ> meta_start tm_views)"

definition cass_iterator_columns_from_materialized_view_meta ::
    "CassMaterializedViewMeta c_ptr \<Rightarrow> CassIterator c_ptr" where
  "cass_iterator_columns_from_materialized_view_meta =
     map_option (It_ColumnsMeta \<circ> CM_FromView \<circ> meta_start (columns_metadata \<circ> view_metadata))"

end
