(* ===== verification/Cass_Cursor.thy ===== *)
theory Cass_Cursor
  imports Cass_Iterator
begin

text \<open>
  What an application does with an iterator of \<open>iterator.rs\<close>: call \<open>cass_iterator_next\<close> until it
  returns false, and look at the current item each time.  The interface \<open>cursor\<close> says when that visits
  a given list of items; every pair of \<open>cass_iterator_next\<close> and a getter provides it.
\<close>

subsection \<open>Visiting items\<close>

text \<open>
  The loop of the application, with a bound on the number of calls; \<open>None\<close> when a call panics or the
  bound is too small.
\<close>

fun visit :: "('s \<Rightarrow> (bool \<times> 's) panics) \<Rightarrow> ('s \<Rightarrow> 'a option) \<Rightarrow> nat \<Rightarrow> 's \<Rightarrow> 'a option list panics" where
  "visit step current 0 s = None"
| "visit step current (Suc n) s =
     do { (more, s') \<leftarrow> step s;
          if more then map_option ((#) (current s')) (visit step current n s') else Some [] }"

locale cursor =
  fixes step :: "'s \<Rightarrow> (bool \<times> 's) panics"
    and current :: "'s \<Rightarrow> 'a option"
    and pending :: "'s \<Rightarrow> 'a list"
    and good :: "'s \<Rightarrow> bool"
  assumes step_item: "good s \<Longrightarrow> pending s = x # xs \<Longrightarrow>
      \<exists>s'. step s = Some (True, s') \<and> current s' = Some x \<and> pending s' = xs \<and> good s'"
    and step_end: "good s \<Longrightarrow> pending s = [] \<Longrightarrow> \<exists>s'. step s = Some (False, s')"
begin

lemma visits_pending:
  assumes "good s" "length (pending s) < n"
  shows "visit step current n s = Some (map Some (pending s))"
  using assms
proof (induction n arbitrary: s)
  case (Suc n)
  show ?case
  proof (cases "pending s")
    case Nil
    with step_end [OF Suc.prems(1)] show ?thesis by auto
  next
    case (Cons x xs)
    with step_item [OF Suc.prems(1)] obtain s' where
      s': "step s = Some (True, s')" "current s' = Some x" "pending s' = xs" "good s'" by blast
    with Suc.IH [of s'] Suc.prems(2) Cons show ?thesis by simp
  qed
qed simp

lemma never_panics:
  assumes "good s"
  shows "step s \<noteq> None"
proof (cases "pending s")
  case Nil
  with step_end [OF assms] show ?thesis by auto
next
  case (Cons x xs)
  with step_item [OF assms] show ?thesis by auto
qed

end

subsection \<open>Rows and columns\<close>

fun rows_left :: "CassResultMetadata \<Rightarrow> (unit + CassRawRow) list \<Rightarrow> CassRow list" where
  "rows_left md (Inr raw_row # rest) =
     (case from_raw_row_and_metadata raw_row md of Inr row \<Rightarrow> row # rows_left md rest | Inl _ \<Rightarrow> [])"
| "rows_left md _ = []"

definition pending_rows :: "CassIterator c_ptr \<Rightarrow> CassRow list" where
  "pending_rows iterator =
     (case iterator of
        Some (It_Result (RI_Rows it)) \<Rightarrow> rows_left (rri_result_metadata it) (rri_iterator it)
      | _ \<Rightarrow> [])"

definition is_result_iterator :: "CassIterator c_ptr \<Rightarrow> bool" where
  "is_result_iterator iterator \<longleftrightarrow> (\<exists>it. iterator = Some (It_Result it))"

interpretation rows: cursor "cass_iterator_next rd" cass_iterator_get_row pending_rows is_result_iterator
proof
  fix s x xs
  assume g: "is_result_iterator s" and p: "pending_rows s = x # xs"
  then obtain it where s: "s = Some (It_Result (RI_Rows it))"
    and left: "rows_left (rri_result_metadata it) (rri_iterator it) = x # xs"
    by (auto simp: is_result_iterator_def pending_rows_def split: CassResultIterator.splits)
  then obtain raw rest where "rri_iterator it = Inr raw # rest"
      "from_raw_row_and_metadata raw (rri_result_metadata it) = Inr x" "rows_left (rri_result_metadata it) rest = xs"
    by (cases "(rri_result_metadata it, rri_iterator it)" rule: rows_left.cases) (auto split: sum.splits)
  then show "\<exists>s'. cass_iterator_next rd s = Some (True, s') \<and> cass_iterator_get_row s' = Some x \<and>
      pending_rows s' = xs \<and> is_result_iterator s'"
    by (simp add: s cass_iterator_next_def cass_iterator_get_row_def pending_rows_def is_result_iterator_def)
next
  fix s
  assume g: "is_result_iterator s" and p: "pending_rows s = []"
  obtain it where s: "s = Some (It_Result it)" using g by (auto simp: is_result_iterator_def)
  show "\<exists>s'. cass_iterator_next rd s = Some (False, s')"
  proof (cases it)
    case RI_NonRows
    then show ?thesis by (simp add: s cass_iterator_next_def)
  next
    case (RI_Rows r)
    with p s have "rows_left (rri_result_metadata r) (rri_iterator r) = []" by (simp add: pending_rows_def)
    then show ?thesis
      by (cases "(rri_result_metadata r, rri_iterator r)" rule: rows_left.cases)
        (auto simp: s RI_Rows cass_iterator_next_def split: sum.splits)
  qed
qed

lemma drop_next:
  "drop (next_position p) xs = x # ys \<Longrightarrow>
     next_position p < length xs \<and> xs ! next_position p = x \<and> drop (Suc (next_position p)) xs = ys"
  by (metis drop_eq_Nil2 list.inject list.simps(3) not_le Cons_nth_drop_Suc)

lemma next_position_Some [simp]: "next_position (Some p) = Suc p"
  by (simp add: next_position_def)

definition pending_columns :: "CassIterator c_ptr \<Rightarrow> CassValue list" where
  "pending_columns iterator =
     (case iterator of
        Some (It_Row it) \<Rightarrow> drop (next_position (ri_position it)) (row_columns (ri_row it))
      | _ \<Rightarrow> [])"

definition is_row_iterator :: "CassIterator c_ptr \<Rightarrow> bool" where
  "is_row_iterator iterator \<longleftrightarrow> (\<exists>it. iterator = Some (It_Row it))"

interpretation columns: cursor "cass_iterator_next rd" cass_iterator_get_column pending_columns is_row_iterator
  by unfold_locales
    (auto simp: is_row_iterator_def pending_columns_def cass_iterator_next_def CassRowIterator_next_def
      cass_iterator_get_column_def Let_def list_get_def dest!: drop_next)

subsection \<open>Values of collections, tuples and vectors\<close>

fun cells_left :: "ColumnType \<Rightarrow> CassDataType \<Rightarrow> raw_cell list \<Rightarrow> CassValue list" where
  "cells_left typ dt (Inr cell # cs) =
     (case read_raw typ cell of
        Inr v \<Rightarrow> \<lparr>cv_value = v, cv_value_type = dt\<rparr> # cells_left typ dt cs
      | Inl _ \<Rightarrow> [])"
| "cells_left typ dt _ = []"

fun entries_left ::
    "ColumnType \<Rightarrow> CassDataType \<Rightarrow> ColumnType \<Rightarrow> CassDataType \<Rightarrow>
     (unit + frame_slice option \<times> frame_slice option) list \<Rightarrow> (CassValue \<times> CassValue) list" where
  "entries_left kt kd vt vd (Inr (k, v) # cs) =
     (case (read_raw kt k, read_raw vt v) of
        (Inr k', Inr v') \<Rightarrow>
          (\<lparr>cv_value = k', cv_value_type = kd\<rparr>, \<lparr>cv_value = v', cv_value_type = vd\<rparr>) #
          entries_left kt kd vt vd cs
      | _ \<Rightarrow> [])"
| "entries_left kt kd vt vd _ = []"

fun tuple_left ::
    "read_cql_bytes \<Rightarrow> ColumnType list \<Rightarrow> CassDataType list \<Rightarrow> frame_slice \<Rightarrow> CassValue list" where
  "tuple_left rd (t # ts) (d # ds) bytes =
     (case BytesSequenceIterator_next rd bytes of
        (Some (Inr cell), rest) \<Rightarrow>
          (case read_raw t cell of
             Inr v \<Rightarrow> \<lparr>cv_value = v, cv_value_type = d\<rparr> # tuple_left rd ts ds rest
           | Inl _ \<Rightarrow> [])
      | _ \<Rightarrow> [])"
| "tuple_left rd _ _ bytes = []"

definition map_entries_left :: "CassMapIterator \<Rightarrow> (CassValue \<times> CassValue) list" where
  "map_entries_left it =
     entries_left (map_key_typ (mi_iterator it)) (mi_key_type it) (map_value_typ (mi_iterator it))
       (mi_value_type it) (map_cells (mi_iterator it))"

definition flat_entries :: "(CassValue \<times> CassValue) list \<Rightarrow> CassValue list" where
  "flat_entries es = concat (map (\<lambda>(k, v). [k, v]) es)"

definition map_collection_left :: "CassMapCollectionIterator \<Rightarrow> CassValue list" where
  "map_collection_left it =
     (case (mc_state it, mi_current_entry (mc_iterator it)) of
        (Some MCS_Key, Some (_, v)) \<Rightarrow> v # flat_entries (map_entries_left (mc_iterator it))
      | _ \<Rightarrow> flat_entries (map_entries_left (mc_iterator it)))"

definition pending_values :: "read_cql_bytes \<Rightarrow> CassIterator c_ptr \<Rightarrow> CassValue list" where
  "pending_values rd iterator =
     (case iterator of
        Some (It_Collection (CI_Listlike it)) \<Rightarrow>
          cells_left (seq_elem_typ (ll_iterator it)) (ll_value_data_type it) (seq_cells (ll_iterator it))
      | Some (It_Collection (CI_Map it)) \<Rightarrow>
          map_collection_left it
      | Some (It_Tuple it) \<Rightarrow>
          tuple_left rd (ti_remaining_metadata (tu_iterator it))
            (drop (next_index (tu_current_entry it)) (tu_metadata it)) (ti_slice (tu_iterator it))
      | Some (It_Vector it) \<Rightarrow>
          cells_left (seq_elem_typ (vi_iterator it)) (vi_element_data_type it) (seq_cells (vi_iterator it))
      | _ \<Rightarrow> [])"

text \<open>
  A map iterator that stands at a key has an entry, and a tuple iterator has a data type for each
  column type that is left.
\<close>

definition is_value_iterator :: "CassIterator c_ptr \<Rightarrow> bool" where
  "is_value_iterator iterator \<longleftrightarrow>
     (case iterator of
        Some (It_Collection (CI_Listlike it)) \<Rightarrow> True
      | Some (It_Collection (CI_Map it)) \<Rightarrow>
          mc_state it = Some MCS_Key \<longrightarrow> mi_current_entry (mc_iterator it) \<noteq> None
      | Some (It_Tuple it) \<Rightarrow>
          next_index (tu_current_entry it) + length (ti_remaining_metadata (tu_iterator it)) \<le>
          length (tu_metadata it)
      | Some (It_Vector it) \<Rightarrow> True
      | _ \<Rightarrow> False)"

lemma cells_left_Cons:
  "cells_left typ dt cells = x # xs \<longleftrightarrow>
     (\<exists>cell cs v. cells = Inr cell # cs \<and> read_raw typ cell = Inr v \<and>
        x = \<lparr>cv_value = v, cv_value_type = dt\<rparr> \<and> xs = cells_left typ dt cs)"
  by (cases "(typ, dt, cells)" rule: cells_left.cases) (auto split: sum.splits)

lemma sequence_step:
  "cells_left (seq_elem_typ it) dt (seq_cells it) = x # xs \<Longrightarrow>
     \<exists>v it'. sequence_next it = (Some (Inr v), it') \<and> x = \<lparr>cv_value = v, cv_value_type = dt\<rparr> \<and>
           cells_left (seq_elem_typ it') dt (seq_cells it') = xs"
  by (auto simp: cells_left_Cons sequence_next_def)

lemma sequence_stop:
  "cells_left (seq_elem_typ it) dt (seq_cells it) = [] \<Longrightarrow>
     \<exists>it'. sequence_next it = (None, it') \<or> sequence_next it = (Some (Inl ()), it')"
  by (cases "(seq_elem_typ it, dt, seq_cells it)" rule: cells_left.cases)
    (auto simp: sequence_next_def split: sum.splits)

lemma mapping_step:
  assumes "map_entries_left it = (k, v) # es"
  obtains it' where "CassMapIterator_next it = (True, it')" "mi_current_entry it' = Some (k, v)"
    "map_entries_left it' = es"
proof -
  obtain c d cs where "map_cells (mi_iterator it) = Inr (c, d) # cs"
    using assms unfolding map_entries_left_def
    by (cases "(map_key_typ (mi_iterator it), mi_key_type it, map_value_typ (mi_iterator it),
        mi_value_type it, map_cells (mi_iterator it))" rule: entries_left.cases) auto
  with assms that show ?thesis
    by (auto simp: map_entries_left_def CassMapIterator_next_def mapping_next_def split: sum.splits)
qed

lemma mapping_stop:
  assumes "map_entries_left it = []"
  shows "\<exists>it'. CassMapIterator_next it = (False, it')"
  using assms unfolding map_entries_left_def
  by (cases "(map_key_typ (mi_iterator it), mi_key_type it, map_value_typ (mi_iterator it),
        mi_value_type it, map_cells (mi_iterator it))" rule: entries_left.cases)
    (auto simp: CassMapIterator_next_def mapping_next_def split: sum.splits)

lemma flat_entries_simps [simp]:
  "flat_entries [] = []" "flat_entries ((k, v) # es) = k # v # flat_entries es"
  by (simp_all add: flat_entries_def)

lemma flat_entries_Cons:
  "flat_entries es = x # xs \<Longrightarrow> \<exists>v es'. es = (x, v) # es' \<and> xs = v # flat_entries es'"
  by (cases es) auto

lemma next_index_Some [simp]: "next_index (Some e) = Suc (te_metadata_types_index e)"
  by (simp add: next_index_def)

lemma tuple_step:
  assumes "tuple_left rd (ti_remaining_metadata (tu_iterator it))
      (drop (next_index (tu_current_entry it)) (tu_metadata it)) (ti_slice (tu_iterator it)) = x # xs"
    and "next_index (tu_current_entry it) + length (ti_remaining_metadata (tu_iterator it)) \<le>
      length (tu_metadata it)"
  obtains it' where "CassTupleIterator_next rd it = Some (True, it')"
    "map_option te_field_value (tu_current_entry it') = Some x"
    "tuple_left rd (ti_remaining_metadata (tu_iterator it'))
      (drop (next_index (tu_current_entry it')) (tu_metadata it')) (ti_slice (tu_iterator it')) = xs"
    "next_index (tu_current_entry it') + length (ti_remaining_metadata (tu_iterator it')) \<le>
      length (tu_metadata it')"
proof -
  let ?i = "next_index (tu_current_entry it)"
  obtain t ts where ts: "ti_remaining_metadata (tu_iterator it) = t # ts"
    using assms(1) by (cases "ti_remaining_metadata (tu_iterator it)") auto
  with assms(2) have i: "?i < length (tu_metadata it)" by simp
  have d: "drop ?i (tu_metadata it) = tu_metadata it ! ?i # drop (Suc ?i) (tu_metadata it)"
    using i by (simp add: Cons_nth_drop_Suc)
  obtain cell rest v where
    cell: "BytesSequenceIterator_next rd (ti_slice (tu_iterator it)) = (Some (Inr cell), rest)"
      "read_raw t cell = Inr v" and
    x: "x = \<lparr>cv_value = v, cv_value_type = tu_metadata it ! ?i\<rparr>"
      "xs = tuple_left rd ts (drop (Suc ?i) (tu_metadata it)) rest"
    using assms(1) unfolding ts d by (auto split: prod.splits option.splits sum.splits)
  define it' where "it' = it\<lparr>tu_iterator := (tu_iterator it)\<lparr>ti_remaining_metadata := ts, ti_slice := rest\<rparr>,
    tu_current_entry := Some \<lparr>te_field_value = x, te_metadata_types_index = ?i\<rparr>\<rparr>"
  show ?thesis
    by (rule that [of it']) (use ts cell x i assms(2) in
      \<open>simp_all add: it'_def CassTupleIterator_next_def TupleIterator_next_def Let_def list_get_def\<close>)
qed

lemma tuple_stop:
  assumes "tuple_left rd (ti_remaining_metadata (tu_iterator it))
      (drop (next_index (tu_current_entry it)) (tu_metadata it)) (ti_slice (tu_iterator it)) = []"
    and "next_index (tu_current_entry it) + length (ti_remaining_metadata (tu_iterator it)) \<le>
      length (tu_metadata it)"
  shows "\<exists>it'. CassTupleIterator_next rd it = Some (False, it')"
proof (cases "ti_remaining_metadata (tu_iterator it)")
  case Nil
  then show ?thesis by (simp add: CassTupleIterator_next_def TupleIterator_next_def)
next
  case (Cons t ts)
  let ?i = "next_index (tu_current_entry it)"
  have "drop ?i (tu_metadata it) = tu_metadata it ! ?i # drop (Suc ?i) (tu_metadata it)"
    using assms(2) Cons by (simp add: Cons_nth_drop_Suc)
  with assms(1) Cons show ?thesis
    by (auto simp: CassTupleIterator_next_def TupleIterator_next_def Let_def
        split: prod.splits option.splits sum.splits)
qed

lemma listlike_step:
  "cells_left (seq_elem_typ (ll_iterator it)) (ll_value_data_type it) (seq_cells (ll_iterator it)) = x # xs \<Longrightarrow>
     \<exists>it'. CassListlikeIterator_next it = (True, it') \<and> ll_current_value it' = Some x \<and>
       cells_left (seq_elem_typ (ll_iterator it')) (ll_value_data_type it') (seq_cells (ll_iterator it')) = xs"
  by (auto simp: CassListlikeIterator_next_def dest!: sequence_step)

lemma vector_step:
  "cells_left (seq_elem_typ (vi_iterator it)) (vi_element_data_type it) (seq_cells (vi_iterator it)) = x # xs \<Longrightarrow>
     \<exists>it'. CassVectorIterator_next it = (True, it') \<and> vi_current_value it' = Some x \<and>
       cells_left (seq_elem_typ (vi_iterator it')) (vi_element_data_type it') (seq_cells (vi_iterator it')) = xs"
  by (auto simp: CassVectorIterator_next_def dest!: sequence_step)

lemma listlike_stop:
  "cells_left (seq_elem_typ (ll_iterator it)) (ll_value_data_type it) (seq_cells (ll_iterator it)) = [] \<Longrightarrow>
     \<exists>it'. CassListlikeIterator_next it = (False, it')"
  by (auto simp: CassListlikeIterator_next_def dest!: sequence_stop)

lemma vector_stop:
  "cells_left (seq_elem_typ (vi_iterator it)) (vi_element_data_type it) (seq_cells (vi_iterator it)) = [] \<Longrightarrow>
     \<exists>it'. CassVectorIterator_next it = (False, it')"
  by (auto simp: CassVectorIterator_next_def dest!: sequence_stop)

definition map_collection_current :: "CassMapCollectionIterator \<Rightarrow> CassValue option" where
  "map_collection_current it = cass_iterator_get_value (Some (It_Collection (CI_Map it)))"

lemma map_collection_step:
  assumes "map_collection_left it = x # xs"
    and "mc_state it = Some MCS_Key \<longrightarrow> mi_current_entry (mc_iterator it) \<noteq> None"
  shows "\<exists>it'. CassMapCollectionIterator_next it = (True, it') \<and> map_collection_current it' = Some x \<and>
     map_collection_left it' = xs \<and>
     (mc_state it' = Some MCS_Key \<longrightarrow> mi_current_entry (mc_iterator it') \<noteq> None)"
proof (cases "mc_state it = Some MCS_Key")
  case True
  with assms obtain k v where "mi_current_entry (mc_iterator it) = Some (k, v)" by auto
  with True assms(1) show ?thesis
    by (auto simp: CassMapCollectionIterator_next_def map_collection_current_def map_collection_left_def
        cass_iterator_get_value_def)
next
  case False
  with assms(1) have "flat_entries (map_entries_left (mc_iterator it)) = x # xs"
    by (auto simp: map_collection_left_def split: option.splits CassMapCollectionIteratorState.splits)
  then obtain v es where "map_entries_left (mc_iterator it) = (x, v) # es" and xs: "xs = v # flat_entries es"
    by (auto dest: flat_entries_Cons)
  from mapping_step [OF this(1)] obtain m where
    m: "CassMapIterator_next (mc_iterator it) = (True, m)" "mi_current_entry m = Some (x, v)"
      "map_entries_left m = es" .
  with False xs show ?thesis
    by (cases "mc_state it") (auto simp: CassMapCollectionIterator_next_def map_collection_current_def
        map_collection_left_def cass_iterator_get_value_def split: CassMapCollectionIteratorState.splits)
qed

lemma map_collection_stop:
  assumes "map_collection_left it = []"
    and "mc_state it = Some MCS_Key \<longrightarrow> mi_current_entry (mc_iterator it) \<noteq> None"
  shows "\<exists>it'. CassMapCollectionIterator_next it = (False, it')"
proof -
  have nk: "mc_state it \<noteq> Some MCS_Key" using assms by (auto simp: map_collection_left_def)
  with assms(1) have "flat_entries (map_entries_left (mc_iterator it)) = []"
    by (auto simp: map_collection_left_def split: option.splits CassMapCollectionIteratorState.splits)
  then have "map_entries_left (mc_iterator it) = []"
    by (cases "map_entries_left (mc_iterator it)") auto
  from mapping_stop [OF this] nk show ?thesis
    by (cases "mc_state it")
      (auto simp: CassMapCollectionIterator_next_def split: CassMapCollectionIteratorState.splits)
qed

interpretation vals: cursor "cass_iterator_next rd" cass_iterator_get_value "pending_values rd" is_value_iterator
proof
  fix s x xs
  assume g: "is_value_iterator s" and p: "pending_values rd s = x # xs"
  then consider (list) it where "s = Some (It_Collection (CI_Listlike it))"
    | (map) it where "s = Some (It_Collection (CI_Map it))"
    | (tuple) it where "s = Some (It_Tuple it)"
    | (vector) it where "s = Some (It_Vector it)"
    by (auto simp: is_value_iterator_def split: option.splits CassIterator.splits CassCollectionIterator.splits)
  then show "\<exists>s'. cass_iterator_next rd s = Some (True, s') \<and> cass_iterator_get_value s' = Some x \<and>
      pending_values rd s' = xs \<and> is_value_iterator s'"
  proof cases
    case list
    with p listlike_step [of it x xs] show ?thesis
      by (auto simp: cass_iterator_next_def cass_iterator_get_value_def pending_values_def is_value_iterator_def)
  next
    case map
    with p g map_collection_step [of it x xs] show ?thesis
      by (auto simp: cass_iterator_next_def map_collection_current_def pending_values_def is_value_iterator_def)
  next
    case tuple
    with p g have "tuple_left rd (ti_remaining_metadata (tu_iterator it))
        (drop (next_index (tu_current_entry it)) (tu_metadata it)) (ti_slice (tu_iterator it)) = x # xs"
      "next_index (tu_current_entry it) + length (ti_remaining_metadata (tu_iterator it)) \<le>
        length (tu_metadata it)"
      by (simp_all add: pending_values_def is_value_iterator_def)
    from tuple_step [OF this] obtain it' where
      "CassTupleIterator_next rd it = Some (True, it')"
      "map_option te_field_value (tu_current_entry it') = Some x"
      "tuple_left rd (ti_remaining_metadata (tu_iterator it'))
        (drop (next_index (tu_current_entry it')) (tu_metadata it')) (ti_slice (tu_iterator it')) = xs"
      "next_index (tu_current_entry it') + length (ti_remaining_metadata (tu_iterator it')) \<le>
        length (tu_metadata it')" .
    with tuple show ?thesis
      by (simp add: cass_iterator_next_def cass_iterator_get_value_def pending_values_def is_value_iterator_def)
  next
    case vector
    with p vector_step [of it x xs] show ?thesis
      by (auto simp: cass_iterator_next_def cass_iterator_get_value_def pending_values_def is_value_iterator_def)
  qed
next
  fix s
  assume g: "is_value_iterator s" and p: "pending_values rd s = []"
  then consider (list) it where "s = Some (It_Collection (CI_Listlike it))"
    | (map) it where "s = Some (It_Collection (CI_Map it))"
    | (tuple) it where "s = Some (It_Tuple it)"
    | (vector) it where "s = Some (It_Vector it)"
    by (auto simp: is_value_iterator_def split: option.splits CassIterator.splits CassCollectionIterator.splits)
  then show "\<exists>s'. cass_iterator_next rd s = Some (False, s')"
  proof cases
    case list
    with p listlike_stop [of it] show ?thesis by (auto simp: cass_iterator_next_def pending_values_def)
  next
    case map
    with p g map_collection_stop [of it] show ?thesis
      by (auto simp: cass_iterator_next_def pending_values_def is_value_iterator_def)
  next
    case tuple
    with p g tuple_stop [of rd it] show ?thesis
      by (auto simp: cass_iterator_next_def pending_values_def is_value_iterator_def)
  next
    case vector
    with p vector_stop [of it] show ?thesis by (auto simp: cass_iterator_next_def pending_values_def)
  qed
qed

subsection \<open>Entries of maps\<close>

definition current_map_entry :: "CassIterator c_ptr \<Rightarrow> (CassValue \<times> CassValue) option" where
  "current_map_entry iterator =
     do { k \<leftarrow> cass_iterator_get_map_key iterator; v \<leftarrow> cass_iterator_get_map_value iterator; Some (k, v) }"

definition pending_map_entries :: "CassIterator c_ptr \<Rightarrow> (CassValue \<times> CassValue) list" where
  "pending_map_entries iterator = (case iterator of Some (It_Map it) \<Rightarrow> map_entries_left it | _ \<Rightarrow> [])"

definition is_map_iterator :: "CassIterator c_ptr \<Rightarrow> bool" where
  "is_map_iterator iterator \<longleftrightarrow> (\<exists>it. iterator = Some (It_Map it))"

interpretation entries: cursor "cass_iterator_next rd" current_map_entry pending_map_entries is_map_iterator
proof
  fix s x xs
  assume "is_map_iterator s" and p: "pending_map_entries s = x # xs"
  then obtain it where s: "s = Some (It_Map it)" by (auto simp: is_map_iterator_def)
  obtain k v where x: "x = (k, v)" by (cases x)
  with p s have "map_entries_left it = (k, v) # xs" by (simp add: pending_map_entries_def)
  from mapping_step [OF this] obtain it' where "CassMapIterator_next it = (True, it')"
    "mi_current_entry it' = Some (k, v)" "map_entries_left it' = xs" .
  with s x show "\<exists>s'. cass_iterator_next rd s = Some (True, s') \<and> current_map_entry s' = Some x \<and>
      pending_map_entries s' = xs \<and> is_map_iterator s'"
    by (auto simp: cass_iterator_next_def current_map_entry_def cass_iterator_get_map_key_def
        cass_iterator_get_map_value_def pending_map_entries_def is_map_iterator_def)
next
  fix s
  assume "is_map_iterator s" "pending_map_entries s = []"
  with mapping_stop show "\<exists>s'. cass_iterator_next rd s = Some (False, s')"
    by (fastforce simp: is_map_iterator_def pending_map_entries_def cass_iterator_next_def)
qed

subsection \<open>Fields of user defined types\<close>

fun fields_left ::
    "((string \<times> ColumnType) \<times> (unit + frame_slice option option)) list \<Rightarrow> (string \<times> CassDataType) list \<Rightarrow>
     (string \<times> CassValue) list" where
  "fields_left (((_, t), Inr cell) # cs) ((n, d) # ds) =
     (case read_raw t (case cell of Some f \<Rightarrow> f | None \<Rightarrow> None) of
        Inr v \<Rightarrow> (n, \<lparr>cv_value = v, cv_value_type = d\<rparr>) # fields_left cs ds
      | Inl _ \<Rightarrow> [])"
| "fields_left _ _ = []"

definition current_field :: "CassIterator c_ptr \<Rightarrow> (string \<times> CassValue) option" where
  "current_field iterator =
     do { (_, out) \<leftarrow> cass_iterator_get_user_type_field_name iterator;
          (n, _) \<leftarrow> out;
          v \<leftarrow> cass_iterator_get_user_type_field_value iterator;
          Some (n, v) }"

definition pending_fields :: "CassIterator c_ptr \<Rightarrow> (string \<times> CassValue) list" where
  "pending_fields iterator =
     (case iterator of
        Some (It_Udt it) \<Rightarrow>
          fields_left (udt_cells (ui_iterator it)) (drop (next_index (ui_current_entry it)) (ui_metadata it))
      | _ \<Rightarrow> [])"

definition is_udt_iterator :: "CassIterator c_ptr \<Rightarrow> bool" where
  "is_udt_iterator iterator \<longleftrightarrow>
     (\<exists>it. iterator = Some (It_Udt it) \<and>
        next_index (ui_current_entry it) + length (udt_cells (ui_iterator it)) \<le> length (ui_metadata it))"

interpretation udt_fields: cursor "cass_iterator_next rd" current_field pending_fields is_udt_iterator
proof
  fix s x xs
  assume "is_udt_iterator s" and p: "pending_fields s = x # xs"
  then obtain it where s: "s = Some (It_Udt it)"
    and len: "next_index (ui_current_entry it) + length (udt_cells (ui_iterator it)) \<le> length (ui_metadata it)"
    by (auto simp: is_udt_iterator_def)
  let ?i = "next_index (ui_current_entry it)"
  obtain c cs where cs: "udt_cells (ui_iterator it) = c # cs"
    using p s by (cases "udt_cells (ui_iterator it)") (auto simp: pending_fields_def)
  with len have i: "?i < length (ui_metadata it)" by simp
  have d: "drop ?i (ui_metadata it) = ui_metadata it ! ?i # drop (Suc ?i) (ui_metadata it)"
    using i by (simp add: Cons_nth_drop_Suc)
  obtain n dt where nd: "ui_metadata it ! ?i = (n, dt)" by (cases "ui_metadata it ! ?i")
  obtain m t cell v where c: "c = ((m, t), Inr cell)"
      "read_raw t (case cell of Some f \<Rightarrow> f | None \<Rightarrow> None) = Inr v"
    and x: "x = (n, \<lparr>cv_value = v, cv_value_type = dt\<rparr>)" "xs = fields_left cs (drop (Suc ?i) (ui_metadata it))"
    using p s cs d nd
    by (cases "(udt_cells (ui_iterator it), drop ?i (ui_metadata it))" rule: fields_left.cases)
      (auto simp: pending_fields_def split: sum.splits)
  define it' where "it' = it\<lparr>ui_iterator := (ui_iterator it)\<lparr>udt_cells := cs\<rparr>,
    ui_current_entry := Some \<lparr>te_field_value = snd x, te_metadata_types_index = ?i\<rparr>\<rparr>"
  have "CassUdtIterator_next it = Some (True, it')"
    using cs c x i nd by (simp add: it'_def CassUdtIterator_next_def udt_next_def Let_def list_get_def)
  moreover have "current_field (Some (It_Udt it')) = Some x"
    using i nd x by (simp add: it'_def current_field_def cass_iterator_get_user_type_field_name_def
        cass_iterator_get_user_type_field_value_def list_get_def write_str_to_c_def)
  moreover have "pending_fields (Some (It_Udt it')) = xs" "is_udt_iterator (Some (It_Udt it'))"
    using x len cs by (simp_all add: it'_def pending_fields_def is_udt_iterator_def)
  ultimately show "\<exists>s'. cass_iterator_next rd s = Some (True, s') \<and> current_field s' = Some x \<and>
      pending_fields s' = xs \<and> is_udt_iterator s'"
    using s by (auto simp: cass_iterator_next_def)
next
  fix s
  assume "is_udt_iterator s" and p: "pending_fields s = []"
  then obtain it where s: "s = Some (It_Udt it)"
    and len: "next_index (ui_current_entry it) + length (udt_cells (ui_iterator it)) \<le> length (ui_metadata it)"
    by (auto simp: is_udt_iterator_def)
  let ?i = "next_index (ui_current_entry it)"
  show "\<exists>s'. cass_iterator_next rd s = Some (False, s')"
  proof (cases "udt_cells (ui_iterator it)")
    case Nil
    with s show ?thesis by (simp add: cass_iterator_next_def CassUdtIterator_next_def udt_next_def)
  next
    case (Cons c cs)
    obtain m t cell where c: "c = ((m, t), cell)" by (metis surj_pair)
    obtain n dt where nd: "ui_metadata it ! ?i = (n, dt)" by (cases "ui_metadata it ! ?i")
    have "drop ?i (ui_metadata it) = (n, dt) # drop (Suc ?i) (ui_metadata it)"
      using Cons len nd by (simp add: Cons_nth_drop_Suc [symmetric])
    with p s Cons c show ?thesis
      by (cases cell) (auto simp: pending_fields_def cass_iterator_next_def CassUdtIterator_next_def
          udt_next_def Let_def split: sum.splits)
  qed
qed

subsection \<open>Metadata\<close>

definition meta_left :: "('v \<Rightarrow> (string \<times> 'e) list) \<Rightarrow> 'v meta_iterator \<Rightarrow> 'e list" where
  "meta_left entries it = map snd (drop (next_position (mt_position it)) (entries (mt_value it)))"

definition meta_good :: "('v \<Rightarrow> (string \<times> 'e) list) \<Rightarrow> 'v meta_iterator \<Rightarrow> bool" where
  "meta_good entries it \<longleftrightarrow> mt_count it = length (entries (mt_value it))"

lemma meta_step:
  assumes "meta_left entries it = x # xs" "meta_good entries it"
  shows "\<exists>it'. meta_next it = (True, it') \<and> meta_entry entries it' = Some x \<and> meta_left entries it' = xs \<and>
     meta_good entries it'"
proof -
  obtain e es where "drop (next_position (mt_position it)) (entries (mt_value it)) = e # es" "snd e = x"
      "map snd es = xs"
    using assms(1) by (auto simp: meta_left_def)
  with assms(2) drop_next show ?thesis
    by (fastforce simp: meta_next_def meta_entry_def meta_left_def meta_good_def list_get_def Let_def)
qed

lemma meta_stop:
  "meta_left entries it = [] \<Longrightarrow> meta_good entries it \<Longrightarrow> \<exists>it'. meta_next it = (False, it')"
  by (simp add: meta_left_def meta_good_def meta_next_def Let_def)

lemma meta_start_good [simp]: "meta_good entries (meta_start entries v)"
  by (simp add: meta_good_def meta_start_def)

lemma meta_start_left [simp]: "meta_left entries (meta_start entries v) = map snd (entries v)"
  by (simp add: meta_left_def meta_start_def next_position_def)

lemmas meta_next_defs = CassSchemaMetaIterator_next_def CassKeyspaceMetaIterator_next_def
  CassTableMetaIterator_next_def CassViewMetaIterator_next_def

fun pending_keyspaces :: "CassIterator c_ptr \<Rightarrow> CassKeyspaceMeta list" where
  "pending_keyspaces (Some (It_KeyspacesMeta it)) = meta_left id it"
| "pending_keyspaces _ = []"

fun is_keyspaces_iterator :: "CassIterator c_ptr \<Rightarrow> bool" where
  "is_keyspaces_iterator (Some (It_KeyspacesMeta it)) = meta_good id it"
| "is_keyspaces_iterator _ = False"

interpretation keyspaces: cursor "cass_iterator_next rd" cass_iterator_get_keyspace_meta pending_keyspaces
    is_keyspaces_iterator
proof
  fix s x xs
  assume "is_keyspaces_iterator s" "pending_keyspaces s = x # xs"
  with meta_step [of id _ x xs] show "\<exists>s'. cass_iterator_next rd s = Some (True, s') \<and>
      cass_iterator_get_keyspace_meta s' = Some x \<and> pending_keyspaces s' = xs \<and> is_keyspaces_iterator s'"
    by (cases s rule: pending_keyspaces.cases)
      (fastforce simp: cass_iterator_next_def cass_iterator_get_keyspace_meta_def meta_next_defs)+
next
  fix s
  assume "is_keyspaces_iterator s" "pending_keyspaces s = []"
  with meta_stop [of id] show "\<exists>s'. cass_iterator_next rd s = Some (False, s')"
    by (cases s rule: pending_keyspaces.cases) (fastforce simp: cass_iterator_next_def meta_next_defs)+
qed

fun pending_tables :: "CassIterator c_ptr \<Rightarrow> CassTableMeta list" where
  "pending_tables (Some (It_TablesMeta it)) = meta_left km_tables it"
| "pending_tables _ = []"

fun is_tables_iterator :: "CassIterator c_ptr \<Rightarrow> bool" where
  "is_tables_iterator (Some (It_TablesMeta it)) = meta_good km_tables it"
| "is_tables_iterator _ = False"

interpretation tables: cursor "cass_iterator_next rd" cass_iterator_get_table_meta pending_tables
    is_tables_iterator
proof
  fix s x xs
  assume "is_tables_iterator s" "pending_tables s = x # xs"
  with meta_step [of km_tables _ x xs] show "\<exists>s'. cass_iterator_next rd s = Some (True, s') \<and>
      cass_iterator_get_table_meta s' = Some x \<and> pending_tables s' = xs \<and> is_tables_iterator s'"
    by (cases s rule: pending_tables.cases)
      (fastforce simp: cass_iterator_next_def cass_iterator_get_table_meta_def meta_next_defs)+
next
  fix s
  assume "is_tables_iterator s" "pending_tables s = []"
  with meta_stop [of km_tables] show "\<exists>s'. cass_iterator_next rd s = Some (False, s')"
    by (cases s rule: pending_tables.cases) (fastforce simp: cass_iterator_next_def meta_next_defs)+
qed

fun pending_user_types :: "CassIterator c_ptr \<Rightarrow> CassDataType list" where
  "pending_user_types (Some (It_UserTypes it)) = meta_left km_user_defined_type_data_type it"
| "pending_user_types _ = []"

fun is_user_types_iterator :: "CassIterator c_ptr \<Rightarrow> bool" where
  "is_user_types_iterator (Some (It_UserTypes it)) = meta_good km_user_defined_type_data_type it"
| "is_user_types_iterator _ = False"

interpretation user_types: cursor "cass_iterator_next rd" cass_iterator_get_user_type pending_user_types
    is_user_types_iterator
proof
  fix s x xs
  assume "is_user_types_iterator s" "pending_user_types s = x # xs"
  with meta_step [of km_user_defined_type_data_type _ x xs]
  show "\<exists>s'. cass_iterator_next rd s = Some (True, s') \<and>
      cass_iterator_get_user_type s' = Some x \<and> pending_user_types s' = xs \<and> is_user_types_iterator s'"
    by (cases s rule: pending_user_types.cases)
      (fastforce simp: cass_iterator_next_def cass_iterator_get_user_type_def meta_next_defs)+
next
  fix s
  assume "is_user_types_iterator s" "pending_user_types s = []"
  with meta_stop [of km_user_defined_type_data_type] show "\<exists>s'. cass_iterator_next rd s = Some (False, s')"
    by (cases s rule: pending_user_types.cases) (fastforce simp: cass_iterator_next_def meta_next_defs)+
qed

fun pending_views :: "CassIterator c_ptr \<Rightarrow> CassMaterializedViewMeta list" where
  "pending_views (Some (It_MaterializedViewsMeta (VM_FromKeyspace it))) = meta_left km_views it"
| "pending_views (Some (It_MaterializedViewsMeta (VM_FromTable it))) = meta_left tm_views it"
| "pending_views _ = []"

fun is_views_iterator :: "CassIterator c_ptr \<Rightarrow> bool" where
  "is_views_iterator (Some (It_MaterializedViewsMeta (VM_FromKeyspace it))) = meta_good km_views it"
| "is_views_iterator (Some (It_MaterializedViewsMeta (VM_FromTable it))) = meta_good tm_views it"
| "is_views_iterator _ = False"

interpretation views: cursor "cass_iterator_next rd" cass_iterator_get_materialized_view_meta pending_views
    is_views_iterator
proof
  fix s x xs
  assume "is_views_iterator s" "pending_views s = x # xs"
  with meta_step [of km_views _ x xs] meta_step [of tm_views _ x xs]
  show "\<exists>s'. cass_iterator_next rd s = Some (True, s') \<and>
      cass_iterator_get_materialized_view_meta s' = Some x \<and> pending_views s' = xs \<and> is_views_iterator s'"
    by (cases s rule: pending_views.cases)
      (fastforce simp: cass_iterator_next_def cass_iterator_get_materialized_view_meta_def meta_next_defs)+
next
  fix s
  assume "is_views_iterator s" "pending_views s = []"
  with meta_stop [of km_views] meta_stop [of tm_views] show "\<exists>s'. cass_iterator_next rd s = Some (False, s')"
    by (cases s rule: pending_views.cases) (fastforce simp: cass_iterator_next_def meta_next_defs)+
qed

fun pending_column_metas :: "CassIterator c_ptr \<Rightarrow> CassColumnMeta list" where
  "pending_column_metas (Some (It_ColumnsMeta (CM_FromTable it))) = meta_left columns_metadata it"
| "pending_column_metas (Some (It_ColumnsMeta (CM_FromView it))) = meta_left (columns_metadata \<circ> view_metadata) it"
| "pending_column_metas _ = []"

fun is_column_metas_iterator :: "CassIterator c_ptr \<Rightarrow> bool" where
  "is_column_metas_iterator (Some (It_ColumnsMeta (CM_FromTable it))) = meta_good columns_metadata it"
| "is_column_metas_iterator (Some (It_ColumnsMeta (CM_FromView it))) = meta_good (columns_metadata \<circ> view_metadata) it"
| "is_column_metas_iterator _ = False"

interpretation column_metas: cursor "cass_iterator_next rd" cass_iterator_get_column_meta pending_column_metas
    is_column_metas_iterator
proof
  fix s x xs
  assume "is_column_metas_iterator s" "pending_column_metas s = x # xs"
  with meta_step [of columns_metadata _ x xs] meta_step [of "columns_metadata \<circ> view_metadata" _ x xs]
  show "\<exists>s'. cass_iterator_next rd s = Some (True, s') \<and>
      cass_iterator_get_column_meta s' = Some x \<and> pending_column_metas s' = xs \<and> is_column_metas_iterator s'"
    by (cases s rule: pending_column_metas.cases)
      (fastforce simp: cass_iterator_next_def cass_iterator_get_column_meta_def meta_next_defs)+
next
  fix s
  assume "is_column_metas_iterator s" "pending_column_metas s = []"
  with meta_stop [of columns_metadata] meta_stop [of "columns_metadata \<circ> view_metadata"]
  show "\<exists>s'. cass_iterator_next rd s = Some (False, s')"
    by (cases s rule: pending_column_metas.cases) (fastforce simp: cass_iterator_next_def meta_next_defs)+
qed

subsection \<open>Everything is visited\<close>

text \<open>
  Property C15.  An iterator over a row visits its columns in order; an iterator over a result visits
  its rows in order up to the first one that cannot be read; the iterators over metadata visit every
  keyspace, table, user type, view and column.  None of them panics, and each ends after as many steps
  as it has items.
\<close>

theorem iterators_visit_everything:
  assumes "length (row_columns row) < n" and "length (rows_left (shared_metadata rows) (rows_iter (shared_raw_rows rows))) < n"
    and "length schema < n" and "length (km_tables km) < n" and "length (km_views km) < n"
    and "length (km_user_defined_type_data_type km) < n" and "length (columns_metadata tm) < n"
  shows "visit (cass_iterator_next rd) cass_iterator_get_column n (cass_iterator_from_row (Some row)) =
       Some (map Some (row_columns row)) \<and>
     visit (cass_iterator_next rd) cass_iterator_get_row n
         (cass_iterator_from_result (Some (res\<lparr>res_kind := Rows rows\<rparr>))) =
       Some (map Some (rows_left (shared_metadata rows) (rows_iter (shared_raw_rows rows)))) \<and>
     visit (cass_iterator_next rd) cass_iterator_get_keyspace_meta n
         (cass_iterator_keyspaces_from_schema_meta (Some schema)) = Some (map (Some \<circ> snd) schema) \<and>
     visit (cass_iterator_next rd) cass_iterator_get_table_meta n
         (cass_iterator_tables_from_keyspace_meta (Some km)) = Some (map (Some \<circ> snd) (km_tables km)) \<and>
     visit (cass_iterator_next rd) cass_iterator_get_materialized_view_meta n
         (cass_iterator_materialized_views_from_keyspace_meta (Some km)) = Some (map (Some \<circ> snd) (km_views km)) \<and>
     visit (cass_iterator_next rd) cass_iterator_get_user_type n
         (cass_iterator_user_types_from_keyspace_meta (Some km)) =
       Some (map (Some \<circ> snd) (km_user_defined_type_data_type km)) \<and>
     visit (cass_iterator_next rd) cass_iterator_get_column_meta n
         (cass_iterator_columns_from_table_meta (Some tm)) = Some (map (Some \<circ> snd) (columns_metadata tm))"
  using assms
    columns.visits_pending [of "cass_iterator_from_row (Some row)" n rd]
    rows.visits_pending [of "cass_iterator_from_result (Some (res\<lparr>res_kind := Rows rows\<rparr>))" n rd]
    keyspaces.visits_pending [of "cass_iterator_keyspaces_from_schema_meta (Some schema)" n rd]
    tables.visits_pending [of "cass_iterator_tables_from_keyspace_meta (Some km)" n rd]
    views.visits_pending [of "cass_iterator_materialized_views_from_keyspace_meta (Some km)" n rd]
    user_types.visits_pending [of "cass_iterator_user_types_from_keyspace_meta (Some km)" n rd]
    column_metas.visits_pending [of "cass_iterator_columns_from_table_meta (Some tm)" n rd]
  by (simp add: cass_iterator_from_row_def is_row_iterator_def pending_columns_def next_position_def
      cass_iterator_from_result_def is_result_iterator_def pending_rows_def
      cass_iterator_keyspaces_from_schema_meta_def cass_iterator_tables_from_keyspace_meta_def
      cass_iterator_materialized_views_from_keyspace_meta_def cass_iterator_user_types_from_keyspace_meta_def
      cass_iterator_columns_from_table_meta_def comp_def)

definition int_value :: "u32 \<Rightarrow> CassValue" where
  "int_value i = \<lparr>cv_value = \<lparr>rv_typ = CT_Native NT_Int, rv_slice = Some (be_bytes 4 (unat i)),
     rv_item_count = None\<rparr>, cv_value_type = DT_Value CASS_VALUE_TYPE_INT\<rparr>"

theorem iterators_visit_everything_witness:
  "visit (cass_iterator_next (\<lambda>s. (Inl (), s))) cass_iterator_get_column 3
     (cass_iterator_from_row (Some \<lparr>row_columns = [int_value 1, int_value 2], row_result_metadata = []\<rparr>)) =
   Some [Some (int_value 1), Some (int_value 2)]"
  using iterators_visit_everything [of "\<lparr>row_columns = [int_value 1, int_value 2], row_result_metadata = []\<rparr>" 3
      "\<lparr>shared_raw_rows = \<lparr>rows_count = 0, rows_iter = []\<rparr>, shared_metadata = [], rows_first_row = None\<rparr>" "[]"
      "\<lparr>km_name = ''k'', km_user_defined_type_data_type = [], km_tables = [], km_views = []\<rparr>"
      "CassTableMeta ''t'' [] [] [] [] []" "\<lambda>s. (Inl (), s)"]
  by simp

end
