(* ===== verification/Cass_Read_Back.thy ===== *)
theory Cass_Read_Back
  imports Cass_Cursor
begin

text \<open>
  Values from end to end: what is bound to a statement, serialized by \<open>cql_types/value.rs\<close>, and read
  from a result with \<open>query_result.rs\<close> and \<open>iterator.rs\<close>.

  The readers of the Rust driver are arguments; the predicates below say what the protocol says
  about them: a cell is read with its length, a collection is a count and so many cells, a map a count
  and twice as many.  Vectors and user defined types are left out.
\<close>

subsection \<open>Readers that follow the protocol\<close>

definition cell_reader :: "read_cql_bytes \<Rightarrow> bool" where
  "cell_reader rd \<longleftrightarrow> (\<forall>s c rest. read_cell s = Some (c, rest) \<longrightarrow> rd s = (Inr c, rest))"

definition listlike_reader :: "lib_sequence DeserializeValue \<Rightarrow> bool" where
  "listlike_reader L \<longleftrightarrow>
     (\<forall>t fr. type_check L (CT_List t fr) \<and> type_check L (CT_Set t fr)) \<and>
     (\<forall>t fr cs body. length cs \<le> i32_max \<longrightarrow> read_cells (length cs) body = Some (cs, []) \<longrightarrow>
        deserialize_value L (CT_List t fr) (be_bytes 4 (length cs) @ body) =
          Inr \<lparr>seq_elem_typ = t, seq_cells = map Inr cs\<rparr> \<and>
        deserialize_value L (CT_Set t fr) (be_bytes 4 (length cs) @ body) =
          Inr \<lparr>seq_elem_typ = t, seq_cells = map Inr cs\<rparr>)"

definition flat_pairs :: "('a \<times> 'a) list \<Rightarrow> 'a list" where
  "flat_pairs ps = concat (map (\<lambda>(a, b). [a, b]) ps)"

definition mapping_reader :: "lib_mapping DeserializeValue \<Rightarrow> bool" where
  "mapping_reader M \<longleftrightarrow>
     (\<forall>k v fr. type_check M (CT_Map k v fr)) \<and>
     (\<forall>k v fr ps body. length ps \<le> i32_max \<longrightarrow>
        read_cells (length (flat_pairs ps)) body = Some (flat_pairs ps, []) \<longrightarrow>
        deserialize_value M (CT_Map k v fr) (be_bytes 4 (length ps) @ body) =
          Inr \<lparr>map_key_typ = k, map_value_typ = v, map_cells = map Inr ps\<rparr>)"

subsection \<open>What it means to read a value back\<close>

text \<open>
  A null is read for nothing; bytes are read for a scalar; a collection or tuple is visited with an
  iterator and its items are read one by one.  A value that is serialized to no bytes at all is read as
  null when its type has no empty values.
\<close>

definition is_tuple_value :: "CassCqlValue \<Rightarrow> bool" where
  "is_tuple_value v \<longleftrightarrow> (case v of CV_Tuple _ _ \<Rightarrow> True | _ \<Rightarrow> False)"

inductive reads_back ::
    "cell_writer \<Rightarrow> read_cql_bytes \<Rightarrow> lib_sequence DeserializeValue \<Rightarrow> lib_mapping DeserializeValue \<Rightarrow>
     CassValue \<Rightarrow> CassCqlValue option \<Rightarrow> bool" for cw rd L M where
  RB_Null: "cass_value_is_null (Some cv) \<Longrightarrow> reads_back cw rd L M cv None"
| RB_Empty: "cass_value_is_null (Some cv) \<Longrightarrow> do_serialize cw False v = Inr [] \<Longrightarrow>
     reads_back cw rd L M cv (Some v)"
| RB_Bytes: "scalar_value v \<Longrightarrow> do_serialize cw False v = Inr b \<Longrightarrow>
     cass_value_get_bytes (Some cv) = (CASS_OK, Some (b, length b)) \<Longrightarrow> reads_back cw rd L M cv (Some v)"
| RB_Collection: "\<not> is_tuple_value v \<Longrightarrow> wire_items v = Some (header, items) \<Longrightarrow>
     cass_iterator_from_collection L M (Some cv) = Some it \<Longrightarrow>
     visit (cass_iterator_next rd) cass_iterator_get_value n it = Some (map Some cvs) \<Longrightarrow>
     list_all2 (reads_back cw rd L M) cvs items \<Longrightarrow> reads_back cw rd L M cv (Some v)"
| RB_Tuple: "is_tuple_value v \<Longrightarrow> wire_items v = Some (header, items) \<Longrightarrow>
     cass_iterator_from_tuple (Some cv) = Some it \<Longrightarrow>
     visit (cass_iterator_next rd) cass_iterator_get_value n it = Some (map Some cvs) \<Longrightarrow>
     list_all2 (reads_back cw rd L M) cvs items \<Longrightarrow> reads_back cw rd L M cv (Some v)"

fun vector_free :: "ColumnType \<Rightarrow> bool" where
  "vector_free (CT_Native _) = True"
| "vector_free (CT_List t _) = vector_free t"
| "vector_free (CT_Set t _) = vector_free t"
| "vector_free (CT_Map k v _) = (vector_free k \<and> vector_free v)"
| "vector_free (CT_Tuple ts) = (\<forall>t \<in> set ts. vector_free t)"
| "vector_free (CT_UserDefinedType _ _ _ _) = False"
| "vector_free (CT_Vector _ _) = False"
| "vector_free CT_Other = True"

subsection \<open>Cells\<close>

lemma sint_of_small: "n \<le> i32_max \<Longrightarrow> sint (word_of_nat n :: u32) = int n"
  by (simp add: signed_of_nat i32_max_def signed_take_bit_int_eq_self)

lemma collection_length_prefix:
  assumes "n \<le> i32_max"
  shows "collection_length (be_bytes 4 n @ body) = Inr n"
proof -
  have "length (be_bytes 4 n) = 4" by simp
  then show ?thesis
    using assms by (simp add: collection_length_def be_length_id sint_of_small Let_def del: be_bytes.simps)
qed

lemma read_raw_null: "read_raw t None = Inr \<lparr>rv_typ = t, rv_slice = None, rv_item_count = None\<rparr>"
  by (simp add: read_raw_def CassRawValue_deserialize_def determine_value_item_count_def Let_def)

lemma read_raw_plain:
  assumes "\<not> is_collection_type t"
  shows "\<exists>n. read_raw t (Some b) =
     Inr \<lparr>rv_typ = t, rv_slice = (if keeps_empty t \<or> b \<noteq> [] then Some b else None), rv_item_count = n\<rparr>"
  using assms
  by (cases t) (auto simp: read_raw_def CassRawValue_deserialize_def determine_value_item_count_def Let_def)

lemma read_raw_collection:
  assumes "is_collection_type t" "n \<le> i32_max"
  shows "read_raw t (Some (be_bytes 4 n @ body)) =
     Inr \<lparr>rv_typ = t, rv_slice = Some (be_bytes 4 n @ body), rv_item_count = Some n\<rparr>"
proof -
  have "keeps_empty t" using assms(1) by (cases t) simp_all
  with assms show ?thesis
    by (simp add: read_raw_def CassRawValue_deserialize_def determine_value_item_count_def
        collection_length_prefix Let_def)
qed

lemma cells_left_all:
  "list_all2 (\<lambda>c v. read_raw t c = Inr v) cs vs \<Longrightarrow>
     cells_left t dt (map Inr cs) = map (\<lambda>v. \<lparr>cv_value = v, cv_value_type = dt\<rparr>) vs"
  by (induction rule: list_all2_induct) simp_all

lemma entries_left_all:
  "list_all2 (\<lambda>p q. read_raw kt (fst p) = Inr (fst q) \<and> read_raw vt (snd p) = Inr (snd q)) ps qs \<Longrightarrow>
     entries_left kt kd vt vd (map Inr ps) =
       map (\<lambda>q. (\<lparr>cv_value = fst q, cv_value_type = kd\<rparr>, \<lparr>cv_value = snd q, cv_value_type = vd\<rparr>)) qs"
  by (induction rule: list_all2_induct) (auto simp: case_prod_unfold split: prod.splits)

lemma tuple_left_all:
  assumes "cell_reader rd" "read_cells (length ts) bytes = Some (cs, rest)" "length ts \<le> length ds"
    and "\<And>i. i < length ts \<Longrightarrow> read_raw (ts ! i) (cs ! i) = Inr (vs ! i)" "length vs = length ts"
  shows "tuple_left rd ts ds bytes = map2 (\<lambda>v d. \<lparr>cv_value = v, cv_value_type = d\<rparr>) vs ds"
  using assms(2-)
proof (induction ts arbitrary: ds bytes cs vs)
  case (Cons t ts)
  obtain d ds' where ds: "ds = d # ds'" using Cons.prems(2) by (cases ds) auto
  obtain v vs' where vs: "vs = v # vs'" using Cons.prems(4) by (cases vs) auto
  obtain c r cs' where rc: "read_cell bytes = Some (c, r)" "read_cells (length ts) r = Some (cs', rest)"
      "cs = c # cs'"
    using Cons.prems(1) by (auto simp: bind_eq_Some_conv)
  have "bytes \<noteq> []" using rc(1) by (auto simp: read_cell_def)
  with rc(1) assms(1) have "BytesSequenceIterator_next rd bytes = (Some (Inr c), r)"
    by (simp add: BytesSequenceIterator_next_def cell_reader_def)
  moreover have "read_raw t c = Inr v" using Cons.prems(3) [of 0] rc(3) vs by simp
  moreover have "tuple_left rd ts ds' r = map2 (\<lambda>v d. \<lparr>cv_value = v, cv_value_type = d\<rparr>) vs' ds'"
  proof (rule Cons.IH [OF rc(2)])
    show "length ts \<le> length ds'" "length vs' = length ts" using Cons.prems(2,4) ds vs by simp_all
    show "read_raw (ts ! i) (cs' ! i) = Inr (vs' ! i)" if "i < length ts" for i
      using Cons.prems(3) [of "Suc i"] that rc(3) vs by simp
  qed
  ultimately show ?case by (simp add: ds vs)
qed simp

subsection \<open>From bytes to values\<close>

text \<open>The value a cell of a column is read as.\<close>

definition read_as :: "ColumnType \<Rightarrow> CassRawValue \<Rightarrow> CassValue" where
  "read_as ct rv = \<lparr>cv_value = rv, cv_value_type = get_column_type ct\<rparr>"

definition item_read ::
    "cell_writer \<Rightarrow> read_cql_bytes \<Rightarrow> lib_sequence DeserializeValue \<Rightarrow> lib_mapping DeserializeValue \<Rightarrow>
     ColumnType \<Rightarrow> CassCqlValue option \<Rightarrow> frame_slice option \<Rightarrow> CassRawValue \<Rightarrow> bool" where
  "item_read cw rd L M ct item cell rv \<longleftrightarrow>
     read_raw ct cell = Inr rv \<and> reads_back cw rd L M (read_as ct rv) item"

definition value_reads ::
    "cell_writer \<Rightarrow> read_cql_bytes \<Rightarrow> lib_sequence DeserializeValue \<Rightarrow> lib_mapping DeserializeValue \<Rightarrow>
     ColumnType \<Rightarrow> CassCqlValue \<Rightarrow> bool" where
  "value_reads cw rd L M ct v \<longleftrightarrow>
     (\<forall>out. do_serialize cw False v = Inr out \<longrightarrow> (\<exists>rv. item_read cw rd L M ct (Some v) (Some out) rv))"

lemma cell_is_read:
  assumes "cell_holds cw item cell" "\<And>v. item = Some v \<Longrightarrow> value_reads cw rd L M ct v"
  shows "\<exists>rv. item_read cw rd L M ct item cell rv"
proof (cases item)
  case None
  with assms(1) show ?thesis
    by (auto simp: item_read_def cell_holds_def read_raw_null read_as_def cass_value_is_null_def intro: RB_Null)
next
  case (Some v)
  with assms show ?thesis by (auto simp: cell_holds_def value_reads_def)
qed

lemma items_are_read:
  assumes "list_all2 (cell_holds cw) items cells"
    and "\<And>i v. i < length items \<Longrightarrow> items ! i = Some v \<Longrightarrow> value_reads cw rd L M (cts i) v"
  obtains rvs where "length rvs = length items"
    "\<And>i. i < length items \<Longrightarrow> item_read cw rd L M (cts i) (items ! i) (cells ! i) (rvs ! i)"
proof -
  have "\<forall>i < length items. \<exists>rv. item_read cw rd L M (cts i) (items ! i) (cells ! i) rv"
    using assms(1) by (auto simp: list_all2_conv_all_nth intro!: cell_is_read assms(2))
  with that show ?thesis unfolding Skolem_list_nth by blast
qed

lemma visit_values:
  assumes "is_value_iterator it"
  shows "\<exists>n. visit (cass_iterator_next rd) cass_iterator_get_value n it = Some (map Some (pending_values rd it))"
  using vals.visits_pending [OF assms, of rd "Suc (length (pending_values rd it))"] by blast

lemma collection_back:
  assumes "\<not> is_tuple_value v" "wire_items v = Some (header, items)"
    "cass_iterator_from_collection L M (Some cv) = Some it" "is_value_iterator it"
    "list_all2 (reads_back cw rd L M) (pending_values rd it) items"
  shows "reads_back cw rd L M cv (Some v)"
  using visit_values [OF assms(4), of rd] RB_Collection [OF assms(1-3) _ assms(5)] by blast

lemma tuple_back:
  assumes "is_tuple_value v" "wire_items v = Some (header, items)"
    "cass_iterator_from_tuple (Some cv) = Some it" "is_value_iterator it"
    "list_all2 (reads_back cw rd L M) (pending_values rd it) items"
  shows "reads_back cw rd L M cv (Some v)"
  using visit_values [OF assms(4), of rd] RB_Tuple [OF assms(1-3) _ assms(5)] by blast

lemma scalar_reads:
  assumes "scalar_value v" "get_column_type ct = DT_Value vt" "\<not> is_collection_type ct"
  shows "value_reads cw rd L M ct v"
  unfolding value_reads_def
proof (intro allI impI)
  fix out
  assume ser: "do_serialize cw False v = Inr out"
  obtain n where rv: "read_raw ct (Some out) =
      Inr \<lparr>rv_typ = ct, rv_slice = (if keeps_empty ct \<or> out \<noteq> [] then Some out else None), rv_item_count = n\<rparr>"
    using read_raw_plain [OF assms(3)] by blast
  have "reads_back cw rd L M (read_as ct \<lparr>rv_typ = ct,
      rv_slice = (if keeps_empty ct \<or> out \<noteq> [] then Some out else None), rv_item_count = n\<rparr>) (Some v)"
  proof (cases "keeps_empty ct \<or> out \<noteq> []")
    case True
    then show ?thesis
      by (intro RB_Bytes [OF assms(1) ser]) (auto simp: read_as_def cass_value_get_bytes_def get_bytes_non_null_def)
  next
    case False
    with ser show ?thesis
      by (intro RB_Empty) (auto simp: read_as_def cass_value_is_null_def)
  qed
  with rv show "\<exists>rv. item_read cw rd L M ct (Some v) (Some out) rv" by (auto simp: item_read_def)
qed

definition collection_value :: "ColumnType \<Rightarrow> frame_slice \<Rightarrow> nat \<Rightarrow> CassRawValue" where
  "collection_value ct out n = \<lparr>rv_typ = ct, rv_slice = Some out, rv_item_count = Some n\<rparr>"

lemma sequence_reads:
  assumes cw: "cql_framing cw" and L: "listlike_reader L"
    and v: "v = CV_List dt xs \<and> ct = CT_List t fr \<or> v = CV_Set dt xs \<and> ct = CT_Set t fr"
    and IH: "\<And>x. x \<in> set xs \<Longrightarrow> value_reads cw rd L M t x"
  shows "value_reads cw rd L M ct v"
  unfolding value_reads_def
proof (intro allI impI)
  fix out
  assume ser: "do_serialize cw False v = Inr out"
  then have "serialize_sequence cw (do_serialize cw) xs False = Inr out" using v by auto
  moreover from this have len: "length xs \<le> i32_max" by (auto simp: serialize_sequence_def split: if_splits)
  ultimately obtain body cells where out: "out = be_bytes 4 (length xs) @ body"
    and cells: "list_all2 (cell_holds cw) (map Some xs) cells" "read_cells (length xs) body = Some (cells, [])"
    using sequence_readable [OF cw] unfolding readable_def by (metis append_Nil2 length_map)
  have lc: "length cells = length xs" using list_all2_lengthD [OF cells(1)] by simp
  obtain rvs where rvs: "length rvs = length (map Some xs)"
      "\<And>i. i < length (map Some xs) \<Longrightarrow> item_read cw rd L M t (map Some xs ! i) (cells ! i) (rvs ! i)"
    by (rule items_are_read [OF cells(1), of rd L M "\<lambda>_. t"]) (auto intro!: IH)
  have reads: "list_all2 (\<lambda>c rv. read_raw t c = Inr rv) cells rvs"
      "list_all2 (reads_back cw rd L M) (map (read_as t) rvs) (map Some xs)"
    using rvs lc by (auto simp: list_all2_conv_all_nth item_read_def)
  let ?rv = "collection_value ct out (length xs)"
  let ?s = "\<lparr>seq_elem_typ = t, seq_cells = map Inr cells\<rparr>"
  let ?it = "Some (It_Collection (CI_Listlike \<lparr>ll_iterator = ?s, ll_value_data_type = get_column_type t,
      ll_current_value = None\<rparr>))"
  have des: "type_check L ct" "deserialize_value L ct out = Inr ?s"
    using L v len cells(2) out lc unfolding listlike_reader_def by metis+
  have "cass_iterator_from_collection L M (Some (read_as ct ?rv)) = Some ?it"
    using des v by (auto simp: cass_iterator_from_collection_def value_iterator_def read_as_def
        CassListlikeIterator_new_from_value_def get_non_null_def collection_value_def)
  moreover have "pending_values rd ?it = map (read_as t) rvs"
    using cells_left_all [OF reads(1), of "get_column_type t"] by (simp add: pending_values_def read_as_def [abs_def])
  moreover have "is_value_iterator ?it" by (simp add: is_value_iterator_def)
  moreover have "\<not> is_tuple_value v" "\<exists>header. wire_items v = Some (header, map Some xs)"
    using v by (auto simp: is_tuple_value_def)
  ultimately have "reads_back cw rd L M (read_as ct ?rv) (Some v)"
    using reads(2) by (metis collection_back)
  moreover have "read_raw ct (Some out) = Inr ?rv"
    using v out len read_raw_collection [of ct "length xs" body] by (auto simp: collection_value_def)
  ultimately show "\<exists>rv. item_read cw rd L M ct (Some v) (Some out) rv" by (auto simp: item_read_def)
qed

lemma flat_pairs_simps [simp]:
  "flat_pairs [] = []" "flat_pairs (p # ps) = fst p # snd p # flat_pairs ps"
  by (simp_all add: flat_pairs_def case_prod_unfold)

lemma length_flat_pairs [simp]: "length (flat_pairs ps) = 2 * length ps"
  by (induction ps) simp_all

lemma cells_of_entries:
  assumes "list_all2 (cell_holds cw) (concat (map (\<lambda>(k, v). [Some k, Some v]) ps)) cells"
  obtains qs where "cells = flat_pairs qs"
    "list_all2 (\<lambda>p q. cell_holds cw (Some (fst p)) (fst q) \<and> cell_holds cw (Some (snd p)) (snd q)) ps qs"
proof -
  have "\<exists>qs. cells = flat_pairs qs \<and>
      list_all2 (\<lambda>p q. cell_holds cw (Some (fst p)) (fst q) \<and> cell_holds cw (Some (snd p)) (snd q)) ps qs"
    using assms
  proof (induction ps arbitrary: cells)
    case (Cons p ps)
    then obtain c d cs where cs: "cells = c # d # cs"
        "cell_holds cw (Some (fst p)) c" "cell_holds cw (Some (snd p)) d"
        "list_all2 (cell_holds cw) (concat (map (\<lambda>(k, v). [Some k, Some v]) ps)) cs"
      by (auto simp: list_all2_Cons1 case_prod_unfold)
    from Cons.IH [OF cs(4)] obtain qs where "cs = flat_pairs qs"
        "list_all2 (\<lambda>p q. cell_holds cw (Some (fst p)) (fst q) \<and> cell_holds cw (Some (snd p)) (snd q)) ps qs"
      by blast
    with cs show ?case by (intro exI [of _ "(c, d) # qs"]) simp
  qed simp
  with that show ?thesis by blast
qed

lemma entry_items:
  assumes "length rs = length ps" "\<And>i. i < length ps \<Longrightarrow> R (f (rs ! i)) (Some (fst (ps ! i))) \<and>
    R (g (rs ! i)) (Some (snd (ps ! i)))"
  shows "list_all2 R (flat_entries (map (\<lambda>r. (f r, g r)) rs)) (concat (map (\<lambda>(k, v). [Some k, Some v]) ps))"
  using assms
proof (induction rs ps rule: list_induct2)
  case (Cons r rs p ps)
  from Cons.prems [of 0] Cons.prems [of "Suc _"] Cons.IH show ?case by (auto simp: case_prod_unfold)
qed simp

lemma entries_are_read:
  assumes "list_all2 (\<lambda>p q. cell_holds cw (Some (fst p)) (fst q) \<and> cell_holds cw (Some (snd p)) (snd q)) ps qs"
    and "\<And>p. p \<in> set ps \<Longrightarrow> value_reads cw rd L M k (fst p) \<and> value_reads cw rd L M w (snd p)"
  obtains rs where "length rs = length ps"
    "\<And>i. i < length ps \<Longrightarrow> item_read cw rd L M k (Some (fst (ps ! i))) (fst (qs ! i)) (fst (rs ! i)) \<and>
        item_read cw rd L M w (Some (snd (ps ! i))) (snd (qs ! i)) (snd (rs ! i))"
proof -
  have "\<exists>r. item_read cw rd L M k (Some (fst (ps ! i))) (fst (qs ! i)) (fst r) \<and>
      item_read cw rd L M w (Some (snd (ps ! i))) (snd (qs ! i)) (snd r)" if i: "i < length ps" for i
  proof -
    from i assms(1) have "cell_holds cw (Some (fst (ps ! i))) (fst (qs ! i))"
        "cell_holds cw (Some (snd (ps ! i))) (snd (qs ! i))"
      by (simp_all add: list_all2_conv_all_nth)
    from cell_is_read [OF this(1), of rd L M k] cell_is_read [OF this(2), of rd L M w]
      assms(2) [OF nth_mem [OF i]]
    show ?thesis by auto
  qed
  then have "\<forall>i < length ps. \<exists>r. item_read cw rd L M k (Some (fst (ps ! i))) (fst (qs ! i)) (fst r) \<and>
      item_read cw rd L M w (Some (snd (ps ! i))) (snd (qs ! i)) (snd r)" by blast
  with that show ?thesis unfolding Skolem_list_nth by blast
qed

lemma mapping_reads:
  assumes cw: "cql_framing cw" and M: "mapping_reader M"
    and IH: "\<And>p. p \<in> set ps \<Longrightarrow> value_reads cw rd L M k (fst p) \<and> value_reads cw rd L M w (snd p)"
  shows "value_reads cw rd L M (CT_Map k w fr) (CV_Map dt ps)"
  unfolding value_reads_def
proof (intro allI impI)
  fix out
  assume ser: "do_serialize cw False (CV_Map dt ps) = Inr out"
  then have len: "length ps \<le> i32_max" by (auto simp: serialize_mapping_def split: if_splits)
  let ?items = "concat (map (\<lambda>(k, v). [Some k, Some v]) ps)" and ?ct = "CT_Map k w fr"
  obtain body cells where out: "out = be_bytes 4 (length ps) @ body"
    and cells: "list_all2 (cell_holds cw) ?items cells" "read_cells (length ?items) body = Some (cells, [])"
    using mapping_readable [OF cw ser [unfolded do_serialize.simps]] unfolding readable_def by (metis append_Nil2)
  obtain qs where qs: "cells = flat_pairs qs"
      "list_all2 (\<lambda>p q. cell_holds cw (Some (fst p)) (fst q) \<and> cell_holds cw (Some (snd p)) (snd q)) ps qs"
    using cells_of_entries [OF cells(1)] .
  have lq: "length qs = length ps" using list_all2_lengthD [OF qs(2)] by simp
  obtain rs where rs: "length rs = length ps"
      "\<And>i. i < length ps \<Longrightarrow> item_read cw rd L M k (Some (fst (ps ! i))) (fst (qs ! i)) (fst (rs ! i)) \<and>
        item_read cw rd L M w (Some (snd (ps ! i))) (snd (qs ! i)) (snd (rs ! i))"
    using entries_are_read [OF qs(2) IH] by metis
  let ?m = "\<lparr>map_key_typ = k, map_value_typ = w, map_cells = map Inr qs\<rparr>"
  let ?rv = "collection_value ?ct out (length ps)"
  let ?mi = "\<lparr>mi_iterator = ?m, mi_key_type = get_column_type k, mi_value_type = get_column_type w,
      mi_current_entry = None\<rparr>"
  let ?it = "Some (It_Collection (CI_Map \<lparr>mc_iterator = ?mi, mc_state = None\<rparr>))"
  have "length cells = length ?items" using list_all2_lengthD [OF cells(1)] by simp
  then have des: "type_check M ?ct" "deserialize_value M ?ct out = Inr ?m"
    using M len cells(2) out lq unfolding mapping_reader_def qs(1) by metis+
  have from_map: "cass_iterator_from_collection L M (Some (read_as ?ct ?rv)) = Some ?it"
    using des by (simp add: cass_iterator_from_collection_def value_iterator_def read_as_def
        CassMapCollectionIterator_new_from_value_def CassMapIterator_new_from_value_def get_non_null_def
        collection_value_def)
  have "list_all2 (\<lambda>p q. read_raw k (fst p) = Inr (fst q) \<and> read_raw w (snd p) = Inr (snd q)) qs rs"
    using rs lq by (simp add: list_all2_conv_all_nth item_read_def)
  then have "pending_values rd ?it = flat_entries (map (\<lambda>r. (read_as k (fst r), read_as w (snd r))) rs)"
    by (simp add: pending_values_def map_collection_left_def map_entries_left_def entries_left_all read_as_def)
  then have items: "list_all2 (reads_back cw rd L M) (pending_values rd ?it) ?items"
    using rs entry_items [of rs ps "reads_back cw rd L M" "\<lambda>r. read_as k (fst r)" "\<lambda>r. read_as w (snd r)"]
    by (simp add: item_read_def)
  have "reads_back cw rd L M (read_as ?ct ?rv) (Some (CV_Map dt ps))"
    by (rule collection_back [OF _ _ from_map _ items])
      (simp_all add: is_tuple_value_def is_value_iterator_def)
  moreover have "read_raw ?ct (Some out) = Inr ?rv"
    using out len read_raw_collection [of ?ct "length ps" body] by (simp add: collection_value_def)
  ultimately show "\<exists>rv. item_read cw rd L M ?ct (Some (CV_Map dt ps)) (Some out) rv"
    by (auto simp: item_read_def)
qed

lemma tuple_reads:
  assumes cw: "cql_framing cw" and rd: "cell_reader rd" and len: "length xs = length ts"
    and IH: "\<And>i x. i < length xs \<Longrightarrow> xs ! i = Some x \<Longrightarrow> value_reads cw rd L M (ts ! i) x"
  shows "value_reads cw rd L M (CT_Tuple ts) (CV_Tuple dt xs)"
  unfolding value_reads_def
proof (intro allI impI)
  fix out
  assume ser: "do_serialize cw False (CV_Tuple dt xs) = Inr out"
  let ?ct = "CT_Tuple ts"
  obtain cells where cells: "list_all2 (cell_holds cw) xs cells" "read_cells (length xs) out = Some (cells, [])"
    using tuple_like_readable [OF cw ser [unfolded do_serialize.simps]] unfolding readable_def
    by (metis append_Nil2)
  obtain rvs where rvs: "length rvs = length xs"
      "\<And>i. i < length xs \<Longrightarrow> item_read cw rd L M (ts ! i) (xs ! i) (cells ! i) (rvs ! i)"
    by (rule items_are_read [OF cells(1), of rd L M "\<lambda>i. ts ! i"]) (auto intro: IH)
  obtain n where raw: "read_raw ?ct (Some out) =
      Inr \<lparr>rv_typ = ?ct, rv_slice = (if out \<noteq> [] then Some out else None), rv_item_count = n\<rparr>"
    using read_raw_plain [of ?ct out] by auto
  show "\<exists>rv. item_read cw rd L M ?ct (Some (CV_Tuple dt xs)) (Some out) rv"
  proof (cases "out = []")
    case True
    with raw ser show ?thesis
      by (auto simp: item_read_def read_as_def cass_value_is_null_def intro!: RB_Empty)
  next
    case False
    let ?rv = "\<lparr>rv_typ = ?ct, rv_slice = Some out, rv_item_count = n\<rparr>"
    let ?it = "Some (It_Tuple \<lparr>tu_iterator = TupleIterator_new ts out, tu_metadata = map get_column_type ts,
        tu_current_entry = None\<rparr>)"
    have from_tuple: "cass_iterator_from_tuple (Some (read_as ?ct ?rv)) = Some ?it"
      by (simp add: cass_iterator_from_tuple_def value_iterator_def read_as_def
          CassTupleIterator_new_from_value_def get_non_null_def TupleIterator_reader_def)
    have "pending_values rd ?it = map2 (\<lambda>v d. \<lparr>cv_value = v, cv_value_type = d\<rparr>) rvs (map get_column_type ts)"
      using cells(2) len rvs
      by (simp add: pending_values_def next_index_def TupleIterator_new_def item_read_def
          tuple_left_all [OF rd, of ts out cells "[]"])
    then have "list_all2 (reads_back cw rd L M) (pending_values rd ?it) xs"
      using rvs len by (simp add: list_all2_conv_all_nth item_read_def read_as_def)
    then have "reads_back cw rd L M (read_as ?ct ?rv) (Some (CV_Tuple dt xs))"
      by (rule tuple_back [OF _ _ from_tuple, rotated -1])
        (simp_all add: is_tuple_value_def is_value_iterator_def next_index_def TupleIterator_new_def)
    with False raw show ?thesis by (auto simp: item_read_def)
  qed
qed

lemma typed_value_reads:
  assumes "cql_framing cw" "cell_reader rd" "listlike_reader L" "mapping_reader M"
    and "has_type v d" "d = get_column_type ct" "vector_free ct"
  shows "value_reads cw rd L M ct v"
  using assms(5-)
proof (induction v d arbitrary: ct rule: has_type.induct)
  case (HT_Scalar v vt)
  then have "\<not> is_collection_type ct" by (cases ct) simp_all
  with HT_Scalar show ?case by (intro scalar_reads [of v ct vt]) simp_all
next
  case (HT_List xs t dt fr)
  from HT_List.prems obtain u where ct: "ct = CT_List u fr" and u: "t = get_column_type u" "vector_free u"
    by (cases ct) simp_all
  note IH = HT_List.IH [THEN bspec, THEN conjunct2, rule_format, OF _ u]
  show ?case unfolding ct by (rule sequence_reads [OF assms(1,3) _ IH]) simp
next
  case (HT_Set xs t dt fr)
  from HT_Set.prems obtain u where ct: "ct = CT_Set u fr" and u: "t = get_column_type u" "vector_free u"
    by (cases ct) simp_all
  note IH = HT_Set.IH [THEN bspec, THEN conjunct2, rule_format, OF _ u]
  show ?case unfolding ct by (rule sequence_reads [OF assms(1,3) _ IH]) simp
next
  case (HT_Map ps k w dt fr)
  from HT_Map.prems obtain k' w' where ct: "ct = CT_Map k' w' fr"
      and k: "k = get_column_type k'" "vector_free k'" and w: "w = get_column_type w'" "vector_free w'"
    by (cases ct) simp_all
  note IH = HT_Map.IH [THEN bspec, THEN conjunct1, THEN conjunct2, rule_format, OF _ k]
    HT_Map.IH [THEN bspec, THEN conjunct2, THEN conjunct2, rule_format, OF _ w]
  show ?case unfolding ct by (rule mapping_reads [OF assms(1,4)]) (intro conjI IH)
next
  case (HT_Tuple xs ts dt)
  from HT_Tuple.prems obtain us where ct: "ct = CT_Tuple us" and ts: "ts = map get_column_type us"
      and us: "\<forall>u \<in> set us. vector_free u"
    by (cases ct) simp_all
  have len: "length xs = length us" using HT_Tuple.hyps ts by simp
  have "value_reads cw rd L M (us ! i) x" if i: "i < length xs" and x: "xs ! i = Some x" for i x
  proof -
    have u: "ts ! i = get_column_type (us ! i)" "vector_free (us ! i)" using i len ts us by simp_all
    show ?thesis by (rule HT_Tuple.IH [rule_format, OF i x, THEN conjunct2, rule_format, OF u])
  qed
  with len show ?case unfolding ct by (rule tuple_reads [OF assms(1,2)])
next
  case (HT_Vector xs d t dt et)
  from HT_Vector.prems show ?case by (cases ct) simp_all
qed


text \<open>Readers that follow the protocol.\<close>

definition protocol_cell :: read_cql_bytes where
  "protocol_cell s = (case read_cell s of Some (c, rest) \<Rightarrow> (Inr c, rest) | None \<Rightarrow> (Inl (), []))"

definition protocol_sequence :: "lib_sequence DeserializeValue" where
  "protocol_sequence =
     \<lparr>type_check = (\<lambda>typ. case typ of CT_List _ _ \<Rightarrow> True | CT_Set _ _ \<Rightarrow> True | _ \<Rightarrow> False),
      deserialize_value = (\<lambda>typ bytes.
        case read_cells (of_be_bytes (take 4 bytes)) (drop 4 bytes) of
          Some (cs, _) \<Rightarrow>
            (case typ of CT_List t _ \<Rightarrow> Inr \<lparr>seq_elem_typ = t, seq_cells = map Inr cs\<rparr>
             | CT_Set t _ \<Rightarrow> Inr \<lparr>seq_elem_typ = t, seq_cells = map Inr cs\<rparr>
             | _ \<Rightarrow> Inl ())
        | None \<Rightarrow> Inl ())\<rparr>"

fun pair_up :: "'a list \<Rightarrow> ('a \<times> 'a) list" where
  "pair_up (a # b # cs) = (a, b) # pair_up cs"
| "pair_up _ = []"

definition protocol_mapping :: "lib_mapping DeserializeValue" where
  "protocol_mapping =
     \<lparr>type_check = (\<lambda>typ. case typ of CT_Map _ _ _ \<Rightarrow> True | _ \<Rightarrow> False),
      deserialize_value = (\<lambda>typ bytes.
        case read_cells (2 * of_be_bytes (take 4 bytes)) (drop 4 bytes) of
          Some (cs, _) \<Rightarrow>
            (case typ of
               CT_Map k v _ \<Rightarrow> Inr \<lparr>map_key_typ = k, map_value_typ = v, map_cells = map Inr (pair_up cs)\<rparr>
             | _ \<Rightarrow> Inl ())
        | None \<Rightarrow> Inl ())\<rparr>"

lemma protocol_cell_reader: "cell_reader protocol_cell"
  by (simp add: cell_reader_def protocol_cell_def)

lemma protocol_sequence_reader: "listlike_reader protocol_sequence"
  by (simp add: listlike_reader_def protocol_sequence_def be_length_id del: be_bytes.simps)

lemma pair_up_flat [simp]: "pair_up (flat_pairs ps) = ps"
  by (induction ps) simp_all

lemma protocol_mapping_reader: "mapping_reader protocol_mapping"
  by (simp add: mapping_reader_def protocol_mapping_def be_length_id del: be_bytes.simps)


end
