(* ===== verification/Cass_Value_Types.thy ===== *)
theory Cass_Value_Types
  imports Cass_Read_Back
begin

text \<open>
  The values an application can get at.  A value of \<open>query_result.rs\<close> carries two types: the column type
  of the Rust driver that its bytes are read with, and the data type of the C API that \<open>iterator.rs\<close> hands
  down from container to item.  Wherever the source takes them apart in step, a mismatch is a panic.  The
  relation \<open>obtained\<close> is every way to get a row, an iterator or a value from a result, and its invariant
  says that the two types of a value always agree.

  The second part is about columns that are found by name.
\<close>

subsection \<open>Readers that respect the types\<close>

definition sequence_types :: "lib_sequence DeserializeValue \<Rightarrow> bool" where
  "sequence_types L \<longleftrightarrow>
     (\<forall>typ bytes s. type_check L typ \<longrightarrow> deserialize_value L typ bytes = Inr s \<longrightarrow>
        (\<exists>fr. typ = CT_List (seq_elem_typ s) fr \<or> typ = CT_Set (seq_elem_typ s) fr))"

definition vector_types :: "lib_sequence DeserializeValue \<Rightarrow> bool" where
  "vector_types V \<longleftrightarrow>
     (\<forall>typ bytes s. type_check V typ \<longrightarrow> deserialize_value V typ bytes = Inr s \<longrightarrow>
        (\<exists>d. typ = CT_Vector (seq_elem_typ s) d))"

definition mapping_types :: "lib_mapping DeserializeValue \<Rightarrow> bool" where
  "mapping_types M \<longleftrightarrow>
     (\<forall>typ bytes s. type_check M typ \<longrightarrow> deserialize_value M typ bytes = Inr s \<longrightarrow>
        (\<exists>fr. typ = CT_Map (map_key_typ s) (map_value_typ s) fr))"

definition udt_types :: "lib_udt DeserializeValue \<Rightarrow> bool" where
  "udt_types U \<longleftrightarrow>
     (\<forall>typ bytes s. type_check U typ \<longrightarrow> deserialize_value U typ bytes = Inr s \<longrightarrow>
        (\<exists>ks n fr. typ = CT_UserDefinedType (map fst (udt_cells s)) ks n fr))"

record readers =
  rdr_cell :: read_cql_bytes
  rdr_sequence :: "lib_sequence DeserializeValue"
  rdr_vector :: "lib_sequence DeserializeValue"
  rdr_mapping :: "lib_mapping DeserializeValue"
  rdr_udt :: "lib_udt DeserializeValue"

definition typed_readers :: "readers \<Rightarrow> bool" where
  "typed_readers R \<longleftrightarrow> sequence_types (rdr_sequence R) \<and> vector_types (rdr_vector R) \<and>
     mapping_types (rdr_mapping R) \<and> udt_types (rdr_udt R)"

text \<open>The columns of a raw row come with the specifications of the result, in order.\<close>

definition row_follows :: "ColumnSpec list \<Rightarrow> CassRawRow \<Rightarrow> bool" where
  "row_follows specs raw_row \<longleftrightarrow>
     length raw_row \<le> length specs \<and>
     (\<forall>i c. i < length raw_row \<longrightarrow> raw_row ! i = Inr c \<longrightarrow> raw_spec c = specs ! i)"

definition rows_follow :: "QueryRowsResult \<Rightarrow> bool" where
  "rows_follow qr \<longleftrightarrow>
     (\<forall>raw_row. Inr raw_row \<in> set (rows_iter (qr_raw_rows qr)) \<longrightarrow> row_follows (qr_column_specs qr) raw_row)"

subsection \<open>Everything that can be obtained\<close>

text \<open>
  Rows, iterators and values that come from a result.  An iterator is used as the documentation asks:
  it is advanced again only after it has found an item.
\<close>

datatype thing = Row CassRow | Iter CassIterator | Val CassValue

inductive obtained :: "readers \<Rightarrow> CassResult \<Rightarrow> thing \<Rightarrow> bool" for R res where
  Ob_FirstRow: "cass_result_first_row (Some res) = Some row \<Longrightarrow> obtained R res (Row row)"
| Ob_Result: "cass_iterator_from_result (Some res) = Some it \<Longrightarrow> obtained R res (Iter it)"
| Ob_GetRow: "obtained R res (Iter it) \<Longrightarrow> cass_iterator_get_row (Some it) = Some row \<Longrightarrow> obtained R res (Row row)"
| Ob_Row: "obtained R res (Row row) \<Longrightarrow> cass_iterator_from_row (Some row) = Some it \<Longrightarrow> obtained R res (Iter it)"
| Ob_Column: "obtained R res (Row row) \<Longrightarrow> cass_row_get_column (Some row) i = Some v \<Longrightarrow> obtained R res (Val v)"
| Ob_Named: "obtained R res (Row row) \<Longrightarrow> cass_row_get_column_by_name_n (Some row) name n = Some (Some v) \<Longrightarrow>
     obtained R res (Val v)"
| Ob_Collection: "obtained R res (Val v) \<Longrightarrow>
     cass_iterator_from_collection (rdr_sequence R) (rdr_mapping R) (Some v) = Some (Some it) \<Longrightarrow>
     obtained R res (Iter it)"
| Ob_Tuple: "obtained R res (Val v) \<Longrightarrow> cass_iterator_from_tuple (Some v) = Some (Some it) \<Longrightarrow>
     obtained R res (Iter it)"
| Ob_Vector: "obtained R res (Val v) \<Longrightarrow> cass_iterator_from_vector (rdr_vector R) (Some v) = Some (Some it) \<Longrightarrow>
     obtained R res (Iter it)"
| Ob_Map: "obtained R res (Val v) \<Longrightarrow> cass_iterator_from_map (rdr_mapping R) (Some v) = Some (Some it) \<Longrightarrow>
     obtained R res (Iter it)"
| Ob_Udt: "obtained R res (Val v) \<Longrightarrow> cass_iterator_fields_from_user_type (rdr_udt R) (Some v) = Some (Some it) \<Longrightarrow>
     obtained R res (Iter it)"
| Ob_Next: "obtained R res (Iter it) \<Longrightarrow> iterator_next (rdr_cell R) it = Some (True, it') \<Longrightarrow>
     obtained R res (Iter it')"
| Ob_Item: "obtained R res (Iter it) \<Longrightarrow>
     Some v \<in> {cass_iterator_get_column (Some it), cass_iterator_get_value (Some it),
       cass_iterator_get_map_key (Some it), cass_iterator_get_map_value (Some it),
       cass_iterator_get_user_type_field_value (Some it)} \<Longrightarrow> obtained R res (Val v)"

subsection \<open>The invariant\<close>

definition labelled :: "CassValue \<Rightarrow> bool" where
  "labelled v \<longleftrightarrow> cv_value_type v = get_column_type (rv_typ (cv_value v))"

definition row_labelled :: "CassRow \<Rightarrow> bool" where
  "row_labelled row \<longleftrightarrow> (\<forall>v \<in> set (row_columns row). labelled v)"

definition map_typed :: "CassMapIterator \<Rightarrow> bool" where
  "map_typed it \<longleftrightarrow>
     mi_key_type it = get_column_type (map_key_typ (mi_iterator it)) \<and>
     mi_value_type it = get_column_type (map_value_typ (mi_iterator it)) \<and>
     (\<forall>k v. mi_current_entry it = Some (k, v) \<longrightarrow> labelled k \<and> labelled v)"

definition entry_labelled :: "CassTupleIteratorEntry option \<Rightarrow> nat \<Rightarrow> bool" where
  "entry_labelled current n \<longleftrightarrow>
     (\<forall>e. current = Some e \<longrightarrow> labelled (te_field_value e) \<and> te_metadata_types_index e < n)"

fun iter_typed :: "ColumnSpec list \<Rightarrow> CassIterator \<Rightarrow> bool" where
  "iter_typed specs (It_Result (RI_Rows it)) =
     (rri_result_metadata it = from_column_specs specs \<and>
      (\<forall>raw_row. Inr raw_row \<in> set (rri_iterator it) \<longrightarrow> row_follows specs raw_row) \<and>
      (\<forall>row. rri_current_row it = Some row \<longrightarrow> row_labelled row))"
| "iter_typed specs (It_Row it) = row_labelled (ri_row it)"
| "iter_typed specs (It_Collection (CI_Listlike it)) =
     (ll_value_data_type it = get_column_type (seq_elem_typ (ll_iterator it)) \<and>
      (\<forall>v. ll_current_value it = Some v \<longrightarrow> labelled v))"
| "iter_typed specs (It_Collection (CI_Map it)) = map_typed (mc_iterator it)"
| "iter_typed specs (It_Map it) = map_typed it"
| "iter_typed specs (It_Tuple it) =
     (drop (next_index (tu_current_entry it)) (tu_metadata it) =
        map get_column_type (ti_remaining_metadata (tu_iterator it)) \<and>
      entry_labelled (tu_current_entry it) (length (tu_metadata it)))"
| "iter_typed specs (It_Udt it) =
     (map snd (drop (next_index (ui_current_entry it)) (ui_metadata it)) =
        map (get_column_type \<circ> snd \<circ> fst) (udt_cells (ui_iterator it)) \<and>
      entry_labelled (ui_current_entry it) (length (ui_metadata it)))"
| "iter_typed specs (It_Vector it) =
     (vi_element_data_type it = get_column_type (seq_elem_typ (vi_iterator it)) \<and>
      (\<forall>v. vi_current_value it = Some v \<longrightarrow> labelled v))"
| "iter_typed specs _ = True"

lemma read_raw_typ: "read_raw typ cell = Inr v \<Longrightarrow> rv_typ v = typ"
  by (cases "CassRawValue_deserialize typ cell")
    (auto simp: read_raw_def CassRawValue_deserialize_def Let_def split: sum.splits)

lemma labelled_read [intro]:
  "read_raw typ cell = Inr v \<Longrightarrow> dt = get_column_type typ \<Longrightarrow> labelled \<lparr>cv_value = v, cv_value_type = dt\<rparr>"
  by (auto simp: labelled_def dest: read_raw_typ)

lemma map_sum_InrD: "map_sum f g x = Inr y \<Longrightarrow> \<exists>z. x = Inr z \<and> y = g z"
  by (cases x) auto

lemma columns_labelled:
  assumes "raw_columns_loop (zip raw_row (from_column_specs specs)) = Inr cs" "row_follows specs raw_row"
  shows "\<forall>v \<in> set cs. labelled v"
  using assms
proof (induction raw_row arbitrary: specs cs)
  case (Cons c raw_row)
  then obtain spec specs' where specs: "specs = spec # specs'" by (cases specs) (auto simp: row_follows_def)
  with Cons.prems(1) obtain col where c: "c = Inr col"
    by (cases c) (auto simp: from_column_specs_def)
  have "raw_spec col = spec" using Cons.prems(2) c specs by (auto simp: row_follows_def)
  moreover have "row_follows specs' raw_row"
    using Cons.prems(2) specs by (fastforce simp: row_follows_def)
  ultimately show ?case
    using Cons specs c
    by (auto simp: from_column_specs_def labelled_def CassRawValue_deserialize_def Let_def
        split: sum.splits dest!: map_sum_InrD)
qed (simp add: from_column_specs_def)

lemma row_from_specs:
  "from_raw_row_and_metadata raw_row (from_column_specs specs) = Inr row \<Longrightarrow> row_follows specs raw_row \<Longrightarrow>
     row_labelled row"
  by (auto simp: from_raw_row_and_metadata_def row_labelled_def split: sum.splits dest: columns_labelled)


subsection \<open>Advancing keeps the invariant\<close>

lemma sequence_next_types:
  "sequence_next it = (item, it') \<Longrightarrow>
     seq_elem_typ it' = seq_elem_typ it \<and> (\<forall>v. item = Some (Inr v) \<longrightarrow> rv_typ v = seq_elem_typ it)"
  by (auto simp: sequence_next_def split: list.splits sum.splits dest: read_raw_typ)

lemma mapping_next_types:
  "mapping_next it = (item, it') \<Longrightarrow>
     map_key_typ it' = map_key_typ it \<and> map_value_typ it' = map_value_typ it \<and>
     (\<forall>k v. item = Some (Inr (k, v)) \<longrightarrow> rv_typ k = map_key_typ it \<and> rv_typ v = map_value_typ it)"
  by (auto simp: mapping_next_def split: list.splits sum.splits dest!: map_sum_InrD dest: read_raw_typ)

lemma map_next_typed:
  assumes "map_typed it"
  shows "map_typed (snd (CassMapIterator_next it))"
proof -
  obtain item m where m: "mapping_next (mi_iterator it) = (item, m)" by (cases "mapping_next (mi_iterator it)")
  define entry where "entry = (case item of
      Some (Inr (key, val)) \<Rightarrow>
        Some (\<lparr>cv_value = key, cv_value_type = mi_key_type it\<rparr>, \<lparr>cv_value = val, cv_value_type = mi_value_type it\<rparr>)
    | _ \<Rightarrow> None)"
  have next': "snd (CassMapIterator_next it) = it\<lparr>mi_iterator := m, mi_current_entry := entry\<rparr>"
    by (simp add: CassMapIterator_next_def m entry_def Let_def)
  have types: "map_key_typ m = map_key_typ (mi_iterator it)" "map_value_typ m = map_value_typ (mi_iterator it)"
    using mapping_next_types [OF m] by blast+
  have "labelled k \<and> labelled v" if "entry = Some (k, v)" for k v
  proof -
    from that obtain key val where "item = Some (Inr (key, val))"
        "k = \<lparr>cv_value = key, cv_value_type = mi_key_type it\<rparr>"
        "v = \<lparr>cv_value = val, cv_value_type = mi_value_type it\<rparr>"
      by (auto simp: entry_def split: option.splits sum.splits)
    with mapping_next_types [OF m] assms show ?thesis by (auto simp: map_typed_def labelled_def)
  qed
  with assms types show ?thesis unfolding next' map_typed_def by simp
qed

lemma map_collection_next_typed:
  assumes "map_typed (mc_iterator it)"
  shows "map_typed (mc_iterator (snd (CassMapCollectionIterator_next it)))"
proof -
  obtain r m where "CassMapIterator_next (mc_iterator it) = (r, m)" by (cases "CassMapIterator_next (mc_iterator it)")
  with map_next_typed [OF assms] assms show ?thesis
    by (simp add: CassMapCollectionIterator_next_def split: option.split CassMapCollectionIteratorState.split)
qed

lemma listlike_next_typed:
  "iter_typed specs (It_Collection (CI_Listlike it)) \<Longrightarrow>
     iter_typed specs (It_Collection (CI_Listlike (snd (CassListlikeIterator_next it))))"
  by (auto simp: CassListlikeIterator_next_def labelled_def Let_def
      split: prod.splits option.splits sum.splits dest!: sequence_next_types)

lemma vector_next_typed:
  "iter_typed specs (It_Vector it) \<Longrightarrow> iter_typed specs (It_Vector (snd (CassVectorIterator_next it)))"
  by (auto simp: CassVectorIterator_next_def labelled_def Let_def
      split: prod.splits option.splits sum.splits dest!: sequence_next_types)

lemma result_next_typed:
  assumes "iter_typed specs (It_Result it)"
  shows "iter_typed specs (It_Result (snd (CassResultIterator_next it)))"
proof (cases it)
  case (RI_Rows r)
  with assms show ?thesis
    by (cases "rri_iterator r") (auto simp: row_from_specs Let_def split: sum.splits)
qed simp

lemma drop_Cons_conv: "drop n xs = y # ys \<longleftrightarrow> n < length xs \<and> xs ! n = y \<and> drop (Suc n) xs = ys"
  by (metis Cons_nth_drop_Suc drop_eq_Nil2 leI list.discI list.inject)

lemma tuple_next_item:
  assumes "ti_remaining_metadata (tu_iterator it) = t # ts"
    and "BytesSequenceIterator_next rd (ti_slice (tu_iterator it)) = (Some (Inr cell), rest)" "read_raw t cell = Inr v"
  shows "CassTupleIterator_next rd it =
     map_option (\<lambda>d. (True, it\<lparr>
         tu_iterator := (tu_iterator it)\<lparr>ti_remaining_metadata := ts, ti_slice := rest\<rparr>,
         tu_current_entry := Some \<lparr>te_field_value = \<lparr>cv_value = v, cv_value_type = d\<rparr>,
           te_metadata_types_index = next_index (tu_current_entry it)\<rparr>\<rparr>))
       (list_get (tu_metadata it) (next_index (tu_current_entry it)))"
  using assms
  by (cases "list_get (tu_metadata it) (next_index (tu_current_entry it))")
    (simp_all add: CassTupleIterator_next_def TupleIterator_next_def list_get_def Let_def)

lemma tuple_next_typed:
  assumes "iter_typed specs (It_Tuple it)"
  shows "\<exists>r it'. CassTupleIterator_next rd it = Some (r, it') \<and> (r \<longrightarrow> iter_typed specs (It_Tuple it'))"
proof (cases "\<exists>it'. CassTupleIterator_next rd it = Some (False, it')")
  case False
  obtain raw rest where raw: "BytesSequenceIterator_next rd (ti_slice (tu_iterator it)) = (raw, rest)"
    by (cases "BytesSequenceIterator_next rd (ti_slice (tu_iterator it))")
  obtain t ts where ts: "ti_remaining_metadata (tu_iterator it) = t # ts"
    using False by (cases "ti_remaining_metadata (tu_iterator it)")
      (auto simp: CassTupleIterator_next_def TupleIterator_next_def)
  obtain cell where cell: "raw = Some (Inr cell)"
    using False ts raw by (cases raw) (auto simp: CassTupleIterator_next_def TupleIterator_next_def split: sum.splits)
  obtain v where v: "read_raw t cell = Inr v"
    using False ts raw cell by (cases "read_raw t cell") (auto simp: CassTupleIterator_next_def TupleIterator_next_def)
  from assms ts have "next_index (tu_current_entry it) < length (tu_metadata it)"
      "tu_metadata it ! next_index (tu_current_entry it) = get_column_type t"
      "drop (Suc (next_index (tu_current_entry it))) (tu_metadata it) = map get_column_type ts"
    by (simp_all add: drop_Cons_conv)
  with tuple_next_item [OF ts raw [unfolded cell] v] labelled_read [OF v refl] show ?thesis
    by (auto simp: list_get_def entry_labelled_def)
qed blast

lemma udt_next_item:
  assumes "udt_cells (ui_iterator it) = ((n, t), Inr cell) # cs"
    "read_raw t (case cell of Some f \<Rightarrow> f | None \<Rightarrow> None) = Inr v"
  shows "CassUdtIterator_next it =
     map_option (\<lambda>f. (True, it\<lparr>ui_iterator := (ui_iterator it)\<lparr>udt_cells := cs\<rparr>,
         ui_current_entry := Some \<lparr>te_field_value = \<lparr>cv_value = v, cv_value_type = snd f\<rparr>,
           te_metadata_types_index = next_index (ui_current_entry it)\<rparr>\<rparr>))
       (list_get (ui_metadata it) (next_index (ui_current_entry it)))"
  using assms
  by (cases "list_get (ui_metadata it) (next_index (ui_current_entry it))")
    (simp_all add: CassUdtIterator_next_def udt_next_def list_get_def Let_def)

lemma udt_next_typed:
  assumes "iter_typed specs (It_Udt it)"
  shows "\<exists>r it'. CassUdtIterator_next it = Some (r, it') \<and> (r \<longrightarrow> iter_typed specs (It_Udt it'))"
proof (cases "\<exists>it'. CassUdtIterator_next it = Some (False, it')")
  case False
  let ?i = "next_index (ui_current_entry it)"
  obtain n t c cs where cs: "udt_cells (ui_iterator it) = ((n, t), c) # cs"
    using False by (cases "udt_cells (ui_iterator it)") (auto simp: CassUdtIterator_next_def udt_next_def)
  obtain cell where cell: "c = Inr cell"
    using False cs by (cases c) (auto simp: CassUdtIterator_next_def udt_next_def)
  obtain v where v: "read_raw t (case cell of Some f \<Rightarrow> f | None \<Rightarrow> None) = Inr v"
    using False cs cell by (cases "read_raw t (case cell of Some f \<Rightarrow> f | None \<Rightarrow> None)")
      (auto simp: CassUdtIterator_next_def udt_next_def)
  from assms cs have "drop ?i (ui_metadata it) \<noteq> []" by auto
  then have i: "?i < length (ui_metadata it)" by simp
  then have "drop ?i (ui_metadata it) = ui_metadata it ! ?i # drop (Suc ?i) (ui_metadata it)"
    by (simp add: Cons_nth_drop_Suc)
  with assms cs have "snd (ui_metadata it ! ?i) = get_column_type t"
      "map snd (drop (Suc ?i) (ui_metadata it)) = map (get_column_type \<circ> snd \<circ> fst) cs"
    by simp_all
  with i udt_next_item [OF cs [unfolded cell] v] labelled_read [OF v refl] show ?thesis
    by (auto simp: list_get_def entry_labelled_def)
qed blast

lemma collection_next_typed:
  assumes "iter_typed specs (It_Collection it)"
  shows "iter_typed specs (It_Collection (snd (CassCollectionIterator_next it)))"
proof (cases it)
  case (CI_Listlike i)
  with listlike_next_typed [of specs i] assms show ?thesis
    by (cases "CassListlikeIterator_next i") (simp del: iter_typed.simps)
next
  case (CI_Map i)
  with map_collection_next_typed [of i] assms show ?thesis by (cases "CassMapCollectionIterator_next i") simp
qed

lemma iterator_next_typed:
  assumes "iter_typed specs it"
  shows "\<exists>r it'. iterator_next rd it = Some (r, it') \<and> (r \<longrightarrow> iter_typed specs it')"
proof (cases it)
  case (It_Result i)
  with assms result_next_typed [of specs i] show ?thesis
    by (cases "CassResultIterator_next i") (simp del: iter_typed.simps CassResultIterator_next.simps)
next
  case (It_Collection i)
  with assms collection_next_typed [of specs i] show ?thesis
    by (cases "CassCollectionIterator_next i") (simp del: iter_typed.simps CassCollectionIterator_next.simps)
next
  case (It_Tuple i)
  with assms tuple_next_typed [of specs i rd] show ?thesis by (auto simp del: iter_typed.simps)
next
  case (It_Map i)
  with assms map_next_typed [of i] show ?thesis by (cases "CassMapIterator_next i") simp
next
  case (It_Udt i)
  with assms udt_next_typed [of specs i] show ?thesis by (auto simp del: iter_typed.simps)
next
  case (It_Vector i)
  with assms vector_next_typed [of specs i] show ?thesis
    by (cases "CassVectorIterator_next i") (simp del: iter_typed.simps)
next
  case (It_MaterializedViewsMeta i)
  then show ?thesis by (cases i) (simp_all add: meta_next_defs meta_next_def Let_def)
next
  case (It_ColumnsMeta i)
  then show ?thesis by (cases i) (simp_all add: meta_next_defs meta_next_def Let_def)
qed (use assms in \<open>simp_all add: meta_next_defs meta_next_def CassRowIterator_next_def Let_def\<close>)

subsection \<open>Creating iterators and reading items\<close>

text \<open>No panic, and an iterator, if there is one, that keeps the invariant.\<close>

definition safely_typed :: "ColumnSpec list \<Rightarrow> CassIterator c_ptr panics \<Rightarrow> bool" where
  "safely_typed specs r \<longleftrightarrow> r \<noteq> None \<and> (\<forall>it. r = Some (Some it) \<longrightarrow> iter_typed specs it)"

lemma value_iterator_typed:
  assumes "\<exists>r. f v = Some r \<and> (\<forall>i. r = Inr i \<longrightarrow> iter_typed specs (wrap i))"
  shows "safely_typed specs (value_iterator (Some v) f wrap)"
  using assms by (auto simp: value_iterator_def safely_typed_def simp del: iter_typed.simps split: sum.splits)

lemma get_non_null_Inr:
  "get_non_null T v = Inr x \<Longrightarrow>
     type_check T (rv_typ (cv_value v)) \<and>
     (\<exists>bytes. deserialize_value T (rv_typ (cv_value v)) bytes = Inr x)"
  by (auto simp: get_non_null_def Let_def split: option.splits if_splits sum.splits)

lemma listlike_new:
  assumes "sequence_types L" "labelled v"
  shows "\<exists>r. CassListlikeIterator_new_from_value L v = Some r \<and>
     (\<forall>it. r = Inr it \<longrightarrow> iter_typed specs (It_Collection (CI_Listlike it)))"
proof (cases "get_non_null L v")
  case (Inr s)
  with get_non_null_Inr [OF Inr] assms(1) obtain fr where
    "rv_typ (cv_value v) = CT_List (seq_elem_typ s) fr \<or> rv_typ (cv_value v) = CT_Set (seq_elem_typ s) fr"
    unfolding sequence_types_def by blast
  with Inr assms(2) show ?thesis
    by (auto simp: CassListlikeIterator_new_from_value_def labelled_def)
qed (simp add: CassListlikeIterator_new_from_value_def)

lemma vector_new:
  assumes "vector_types V" "labelled v"
  shows "\<exists>r. CassVectorIterator_new_from_value V v = Some r \<and>
     (\<forall>it. r = Inr it \<longrightarrow> iter_typed specs (It_Vector it))"
proof (cases "get_non_null V v")
  case (Inr s)
  with get_non_null_Inr [OF Inr] assms(1) obtain d where "rv_typ (cv_value v) = CT_Vector (seq_elem_typ s) d"
    unfolding vector_types_def by blast
  with Inr assms(2) show ?thesis by (simp add: CassVectorIterator_new_from_value_def labelled_def)
qed (simp add: CassVectorIterator_new_from_value_def)

lemma map_new:
  assumes "mapping_types M" "labelled v"
  shows "\<exists>r. CassMapIterator_new_from_value M v = Some r \<and> (\<forall>it. r = Inr it \<longrightarrow> map_typed it)"
proof (cases "get_non_null M v")
  case (Inr s)
  with get_non_null_Inr [OF Inr] assms(1) obtain fr where
    "rv_typ (cv_value v) = CT_Map (map_key_typ s) (map_value_typ s) fr"
    unfolding mapping_types_def by blast
  with Inr assms(2) show ?thesis by (simp add: CassMapIterator_new_from_value_def labelled_def map_typed_def)
qed (simp add: CassMapIterator_new_from_value_def)

lemma tuple_new:
  assumes "labelled v"
  shows "\<exists>r. CassTupleIterator_new_from_value v = Some r \<and> (\<forall>it. r = Inr it \<longrightarrow> iter_typed specs (It_Tuple it))"
proof (cases "get_non_null TupleIterator_reader v")
  case (Inr s)
  from get_non_null_Inr [OF Inr] obtain ts bytes where
    "rv_typ (cv_value v) = CT_Tuple ts" "s = TupleIterator_new ts bytes"
    by (auto simp: TupleIterator_reader_def split: ColumnType.splits)
  with Inr assms show ?thesis
    by (simp add: CassTupleIterator_new_from_value_def labelled_def TupleIterator_new_def next_index_def
        entry_labelled_def)
qed (simp add: CassTupleIterator_new_from_value_def)

lemma udt_new:
  assumes "udt_types U" "labelled v"
  shows "\<exists>r. CassUdtIterator_new_from_value U v = Some r \<and> (\<forall>it. r = Inr it \<longrightarrow> iter_typed specs (It_Udt it))"
proof (cases "get_non_null U v")
  case (Inr s)
  with get_non_null_Inr [OF Inr] assms(1) obtain ks n fr where
    "rv_typ (cv_value v) = CT_UserDefinedType (map fst (udt_cells s)) ks n fr"
    unfolding udt_types_def by blast
  with Inr assms(2) show ?thesis
    by (simp add: CassUdtIterator_new_from_value_def labelled_def next_index_def entry_labelled_def split_beta comp_def)
qed (simp add: CassUdtIterator_new_from_value_def)

text \<open>A new iterator over a labelled value.\<close>

definition new_iterator :: "readers \<Rightarrow> CassValue \<Rightarrow> CassIterator c_ptr panics \<Rightarrow> bool" where
  "new_iterator R v r \<longleftrightarrow> r \<in> {cass_iterator_from_collection (rdr_sequence R) (rdr_mapping R) (Some v),
     cass_iterator_from_tuple (Some v), cass_iterator_from_vector (rdr_vector R) (Some v),
     cass_iterator_from_map (rdr_mapping R) (Some v), cass_iterator_fields_from_user_type (rdr_udt R) (Some v)}"

lemma new_iterator_typed:
  assumes "typed_readers R" "labelled v" "new_iterator R v r"
  shows "safely_typed specs r"
proof -
  have L: "safely_typed specs (value_iterator (Some v)
      (CassListlikeIterator_new_from_value (rdr_sequence R)) (It_Collection \<circ> CI_Listlike))"
    using listlike_new [of "rdr_sequence R" v specs] assms(1,2)
    by (intro value_iterator_typed) (simp add: typed_readers_def)
  have MC: "safely_typed specs (value_iterator (Some v)
      (CassMapCollectionIterator_new_from_value (rdr_mapping R)) (It_Collection \<circ> CI_Map))"
    using map_new [of "rdr_mapping R" v] assms(1,2)
    by (intro value_iterator_typed)
      (auto simp: typed_readers_def CassMapCollectionIterator_new_from_value_def dest!: map_sum_InrD)
  have M: "safely_typed specs (cass_iterator_from_map (rdr_mapping R) (Some v))"
    using map_new [of "rdr_mapping R" v] assms(1,2) unfolding cass_iterator_from_map_def
    by (intro value_iterator_typed) (simp add: typed_readers_def)
  have V: "safely_typed specs (cass_iterator_from_vector (rdr_vector R) (Some v))"
    using vector_new [of "rdr_vector R" v specs] assms(1,2) unfolding cass_iterator_from_vector_def
    by (intro value_iterator_typed) (simp add: typed_readers_def)
  have U: "safely_typed specs (cass_iterator_fields_from_user_type (rdr_udt R) (Some v))"
    using udt_new [of "rdr_udt R" v specs] assms(1,2) unfolding cass_iterator_fields_from_user_type_def
    by (intro value_iterator_typed) (simp add: typed_readers_def)
  have T: "safely_typed specs (cass_iterator_from_tuple (Some v))"
    using tuple_new [OF assms(2), of specs] unfolding cass_iterator_from_tuple_def by (rule value_iterator_typed)
  have "safely_typed specs (cass_iterator_from_collection (rdr_sequence R) (rdr_mapping R) (Some v))"
    using L MC by (simp add: cass_iterator_from_collection_def Let_def safely_typed_def)
  with M V U T assms(3) show ?thesis by (auto simp: new_iterator_def)
qed

lemma item_labelled:
  assumes "iter_typed specs it"
    "Some v \<in> {cass_iterator_get_column (Some it), cass_iterator_get_value (Some it),
       cass_iterator_get_map_key (Some it), cass_iterator_get_map_value (Some it),
       cass_iterator_get_user_type_field_value (Some it)}"
  shows "labelled v"
proof -
  from assms(2) consider (column) "cass_iterator_get_column (Some it) = Some v"
    | (item) "cass_iterator_get_value (Some it) = Some v"
    | (entry) "cass_iterator_get_map_key (Some it) = Some v \<or> cass_iterator_get_map_value (Some it) = Some v"
    | (field) "cass_iterator_get_user_type_field_value (Some it) = Some v"
    by auto
  then show ?thesis
  proof cases
    case column
    with assms(1) show ?thesis
      by (auto simp: cass_iterator_get_column_def row_labelled_def list_get_def bind_eq_Some_conv
          split: CassIterator.splits if_splits)
  next
    case item
    with assms(1) show ?thesis
      by (auto simp: cass_iterator_get_value_def map_typed_def entry_labelled_def bind_eq_Some_conv Let_def
          split: CassIterator.splits CassCollectionIterator.splits CassMapCollectionIteratorState.splits)
        (metis CassMapCollectionIteratorState.exhaust)
  next
    case entry
    with assms(1) show ?thesis
      by (auto simp: cass_iterator_get_map_key_def cass_iterator_get_map_value_def map_typed_def
          split: CassIterator.splits)
  next
    case field
    with assms(1) show ?thesis
      by (auto simp: cass_iterator_get_user_type_field_value_def entry_labelled_def split: CassIterator.splits)
  qed
qed

subsection \<open>Values keep their types\<close>

fun thing_typed :: "ColumnSpec list \<Rightarrow> thing \<Rightarrow> bool" where
  "thing_typed specs (Row row) = row_labelled row"
| "thing_typed specs (Iter it) = iter_typed specs it"
| "thing_typed specs (Val v) = labelled v"

definition result_typed :: "ColumnSpec list \<Rightarrow> CassResult \<Rightarrow> bool" where
  "result_typed specs res \<longleftrightarrow>
     (\<forall>rows. res_kind res = Rows rows \<longrightarrow>
        shared_metadata rows = from_column_specs specs \<and>
        (\<forall>raw_row. Inr raw_row \<in> set (rows_iter (shared_raw_rows rows)) \<longrightarrow> row_follows specs raw_row) \<and>
        (\<forall>row. rows_first_row rows = Some row \<longrightarrow> row_labelled row))"

lemma obtained_typed:
  assumes "typed_readers R" "result_typed specs res" "obtained R res x"
  shows "thing_typed specs x"
  using assms(3)
proof (induction rule: obtained.induct)
  case (Ob_FirstRow row)
  with assms(2) show ?case
    by (auto simp: cass_result_first_row_def result_typed_def split: CassResultKind.splits)
next
  case (Ob_Result it)
  with assms(2) show ?case
    by (auto simp: cass_iterator_from_result_def result_typed_def split: CassResultKind.splits)
next
  case (Ob_GetRow it row)
  then show ?case
    by (auto simp: cass_iterator_get_row_def split: CassIterator.splits CassResultIterator.splits)
next
  case (Ob_Row row it)
  then show ?case by (auto simp: cass_iterator_from_row_def)
next
  case (Ob_Column row i v)
  then show ?case by (auto simp: cass_row_get_column_def row_labelled_def list_get_def split: if_splits)
next
  case (Ob_Named row name n v)
  then show ?case
    by (auto simp: cass_row_get_column_by_name_n_def row_labelled_def list_get_def bind_eq_Some_conv
        split: if_splits sum.splits option.splits)
next
  case (Ob_Next it it')
  then show ?case using iterator_next_typed [of specs it "rdr_cell R"] by auto
next
  case (Ob_Item it v)
  then show ?case using item_labelled by simp
qed (use new_iterator_typed [OF assms(1)] in
  \<open>force simp: new_iterator_def safely_typed_def simp del: iter_typed.simps\<close>)+

lemma payload_typed:
  assumes "from_result_payload (Rows_Ok qr) ps cached = Inr res" "rows_follow qr"
    "\<And>f md. cached = Some f \<Longrightarrow> f qr = Some md \<Longrightarrow> md = from_column_specs (qr_column_specs qr)"
  shows "result_typed (qr_column_specs qr) res"
proof -
  have "(case cached \<bind> (\<lambda>f. f qr) of Some m \<Rightarrow> m | None \<Rightarrow> from_column_specs (qr_column_specs qr)) =
      from_column_specs (qr_column_specs qr)"
    using assms(3) by (auto split: option.splits simp: bind_eq_Some_conv)
  with assms(1,2) show ?thesis
    by (auto simp: from_result_payload_def result_typed_def init_first_row_def rows_follow_def Let_def
        split: sum.splits list.splits dest!: row_from_specs)
qed

lemma field_name_safe: "iter_typed specs it \<Longrightarrow> cass_iterator_get_user_type_field_name (Some it) \<noteq> None"
  by (auto simp: cass_iterator_get_user_type_field_name_def entry_labelled_def list_get_def
      split: CassIterator.splits option.splits)


definition no_vectors :: "lib_sequence DeserializeValue" where
  "no_vectors = \<lparr>type_check = (\<lambda>typ. case typ of CT_Vector _ _ \<Rightarrow> True | _ \<Rightarrow> False), deserialize_value = (\<lambda>_ _. Inl ())\<rparr>"

definition no_udts :: "lib_udt DeserializeValue" where
  "no_udts = \<lparr>type_check = (\<lambda>typ. case typ of CT_UserDefinedType _ _ _ _ \<Rightarrow> True | _ \<Rightarrow> False),
     deserialize_value = (\<lambda>_ _. Inl ())\<rparr>"

definition protocol_readers :: readers where
  "protocol_readers = \<lparr>rdr_cell = protocol_cell, rdr_sequence = protocol_sequence, rdr_vector = no_vectors,
     rdr_mapping = protocol_mapping, rdr_udt = no_udts\<rparr>"

lemma protocol_readers_typed: "typed_readers protocol_readers"
  by (auto simp: typed_readers_def protocol_readers_def sequence_types_def vector_types_def mapping_types_def
      udt_types_def protocol_sequence_def protocol_mapping_def no_vectors_def no_udts_def
      split: ColumnType.splits option.splits)

text \<open>A result of one row with one column, a list of one 32-bit integer.\<close>

definition list_of_int :: ColumnType where
  "list_of_int = CT_List (CT_Native NT_Int) False"

definition list_cell :: frame_slice where
  "list_cell = be_bytes 4 1 @ be_bytes 4 4 @ be_bytes 4 7"

definition one_list :: QueryRowsResult where
  "one_list =
     (let spec = \<lparr>col_name = ''l'', col_typ = list_of_int\<rparr>
      in \<lparr>qr_column_specs = [spec],
          qr_raw_rows = \<lparr>rows_count = 1,
            rows_iter = [Inr [Inr \<lparr>raw_index = 0, raw_spec = spec, raw_slice = Some list_cell\<rparr>]]\<rparr>,
          qr_tracing_id = None, qr_coordinator = None\<rparr>)"

definition list_value :: CassValue where
  "list_value = \<lparr>cv_value = collection_value list_of_int list_cell 1, cv_value_type = get_column_type list_of_int\<rparr>"

lemma one_list_result:
  "\<exists>res. from_result_payload (Rows_Ok one_list) NoMorePages None = Inr res \<and>
     cass_row_get_column (cass_result_first_row (Some res)) 0 = Some list_value"
proof -
  have "read_raw list_of_int (Some list_cell) = Inr (collection_value list_of_int list_cell 1)"
    unfolding list_cell_def collection_value_def
    by (rule read_raw_collection) (simp_all add: list_of_int_def i32_max_def)
  then have "CassRawValue_deserialize list_of_int (Some list_cell) = Inr (collection_value list_of_int list_cell 1)"
    by (cases "CassRawValue_deserialize list_of_int (Some list_cell)") (simp_all add: read_raw_def)
  then show ?thesis
    by (simp add: from_result_payload_def one_list_def init_first_row_def from_raw_row_and_metadata_def
        from_column_specs_def cass_result_first_row_def cass_row_get_column_def list_value_def list_get_def Let_def)
qed


text \<open>
  The restriction to iterators that have found an item is needed: when an element of a tuple cannot be
  read, the iterator moves on in the bytes but not in the data types, and the next element gets the data
  type of the one that failed.
\<close>

lemma tuple_iterator_mislabels_after_an_error:
  fixes ts defines "ts \<equiv> [list_of_int, CT_Native NT_Int]"
  assumes "rd bytes = (Inr (Some [0]), rest)" "rd rest = (Inr (Some b), rest')" "bytes \<noteq> []" "rest \<noteq> []" "b \<noteq> []"
  shows "\<exists>it it'. CassTupleIterator_next rd \<lparr>tu_iterator = TupleIterator_new ts bytes,
       tu_metadata = map get_column_type ts, tu_current_entry = None\<rparr> = Some (False, it) \<and>
     CassTupleIterator_next rd it = Some (True, it') \<and>
     map_option (cv_value_type \<circ> te_field_value) (tu_current_entry it') = Some (get_column_type list_of_int) \<and>
     map_option (rv_typ \<circ> cv_value \<circ> te_field_value) (tu_current_entry it') = Some (CT_Native NT_Int)"
  using assms(2-)
  by (simp add: ts_def CassTupleIterator_next_def TupleIterator_next_def TupleIterator_new_def list_get_def
      BytesSequenceIterator_next_def list_of_int_def read_raw_def CassRawValue_deserialize_def next_index_def
      determine_value_item_count_def collection_length_def Let_def)

subsection \<open>Columns by name\<close>

text \<open>What a name stands for: a name in quotes is meant literally, any other name in any case.\<close>

definition quoted :: "string \<Rightarrow> bool" where
  "quoted s \<longleftrightarrow> length s \<ge> 2 \<and> hd s = CHR 0x22 \<and> last s = CHR 0x22"

definition names_column :: "string \<Rightarrow> CassColumnSpec \<Rightarrow> bool" where
  "names_column s spec \<longleftrightarrow>
     (if quoted s then spec_name spec = butlast (tl s) else eq_ignore_ascii_case (spec_name spec) s)"

lemma unquote_name_cases:
  "unquote_name s =
     (if s = [CHR 0x22] then None else Some (if quoted s then (butlast (tl s), True) else (s, False)))"
proof (cases s rule: remdups_adj.cases)
  case (3 a b cs)
  then show ?thesis by (auto simp: unquote_name_def quoted_def)
qed (auto simp: unquote_name_def quoted_def)

lemma find_enumerate:
  "List.find (\<lambda>(_, x). P x) (enumerate n xs) = Some (i, x) \<longleftrightarrow>
     n \<le> i \<and> i - n < length xs \<and> x = xs ! (i - n) \<and> P x \<and> (\<forall>j < i - n. \<not> P (xs ! j))"
proof (induction xs arbitrary: n)
  case (Cons y ys)
  show ?case
  proof (cases "P y")
    case True
    show ?thesis
    proof (cases "i = n")
      case False
      with True show ?thesis by (cases "i - n") force+
    qed (use True in auto)
  next
    case False
    have eq: "(\<forall>j < Suc k. \<not> P ((y # ys) ! j)) \<longleftrightarrow> (\<forall>j < k. \<not> P (ys ! j))" for k
      using False by (auto simp: less_Suc_eq_0_disj)
    show ?thesis
    proof (cases "Suc n \<le> i")
      case True
      then have "i - n = Suc (i - Suc n)" by simp
      with True False Cons.IH [of "Suc n"] eq [of "i - Suc n"] show ?thesis by auto
    next
      case le: False
      with False Cons.IH [of "Suc n"] show ?thesis by (auto simp: not_less_eq_eq)
    qed
  qed
qed simp

text \<open>
  Property C37.  A column is found by its name exactly when it is the first one the name stands for, and
  the value is the one at its index.  A name that is no more than one quotation mark makes the call panic.
\<close>

theorem columns_are_found_by_name:
  assumes "CassStrLenDelimited_to_str name n = Inr s"
  shows "(cass_row_get_column_by_name_n (Some row) name n = None \<longleftrightarrow> s = [CHR 0x22]) \<and>
     (s \<noteq> [CHR 0x22] \<longrightarrow>
       (cass_row_get_column_by_name_n (Some row) name n = Some (Some v) \<longleftrightarrow>
         (\<exists>i < length (row_result_metadata row).
            names_column s (row_result_metadata row ! i) \<and>
            (\<forall>j < i. \<not> names_column s (row_result_metadata row ! j)) \<and>
            cass_row_get_column (Some row) i = Some v)))"
proof -
  have match: "name_matches (fst q) (snd q) = names_column s"
    if "q = (if quoted s then (butlast (tl s), True) else (s, False))" for q
    using that by (auto simp: name_matches_def names_column_def fun_eq_iff)
  have lookup: "(case List.find (\<lambda>(_, col_spec). names_column s col_spec) (enumerate 0 md) of
        None \<Rightarrow> None | Some (index, _) \<Rightarrow> list_get (row_columns row) index) = Some v \<longleftrightarrow>
      (\<exists>i < length md. names_column s (md ! i) \<and> (\<forall>j < i. \<not> names_column s (md ! j)) \<and>
         list_get (row_columns row) i = Some v)" for md
  proof (cases "List.find (\<lambda>(_, col_spec). names_column s col_spec) (enumerate 0 md)")
    case None
    then have "\<not> names_column s (md ! i)" if "i < length md" for i
      using that by (auto simp: find_None_iff in_set_enumerate_eq)
    with None show ?thesis by auto
  next
    case (Some p)
    then obtain i where "i < length md" "names_column s (md ! i)" "\<forall>j < i. \<not> names_column s (md ! j)" "fst p = i"
      by (cases p) (auto simp: find_enumerate)
    then show ?thesis unfolding Some by (auto simp: split_beta) (metis linorder_neqE_nat)+
  qed
  show ?thesis
    using assms match [OF refl] lookup [of "row_result_metadata row"]
    by (auto simp: cass_row_get_column_by_name_n_def unquote_name_cases cass_row_get_column_def split: if_splits)
qed

theorem columns_are_found_by_name_witness:
  "cass_row_get_column_by_name_n (Some \<lparr>row_columns = [int_value 1, int_value 2],
       row_result_metadata = [\<lparr>spec_name = ''a'', spec_data_type = DT_Value CASS_VALUE_TYPE_INT\<rparr>,
         \<lparr>spec_name = ''B'', spec_data_type = DT_Value CASS_VALUE_TYPE_INT\<rparr>]\<rparr>) (Some ''b'') 1 =
     Some (Some (int_value 2))"
proof -
  have s: "CassStrLenDelimited_to_str (Some ''b'') 1 = Inr ''b''"
    by (simp add: CassStrLenDelimited_to_str_def utf8_valid_ascii)
  show ?thesis
    by (rule columns_are_found_by_name [OF s, THEN conjunct2, THEN mp, THEN iffD2])
      (simp, rule exI [of _ 1], simp add: names_column_def quoted_def eq_ignore_ascii_case_def
        cass_row_get_column_def list_get_def to_ascii_lowercase_def char_of_def bit_Suc_0_iff)
qed

end
