(* ===== verification/Cass_Session.thy ===== *)
theory Cass_Session
  imports Cass_Query_Result Cass_Batch Cass_Cluster_Props Cass_Events
begin

text \<open>
  \<open>session.rs\<close>: connecting, closing and requests; and the functions of \<open>future.rs\<close> that read the result
  of a future.

  The session of the Rust driver is a value of a type \<open>'l\<close>; what can be asked of it is the record
  \<open>lib_session\<close>, an argument.  The execution profile handle that the source sets on its copy of a
  statement or batch is passed beside it.  The first part has the bodies of the functions; the second
  part puts them together as a step relation over the lock of the session (\<open>tokio::sync::RwLock\<close>).  What is proved about it is in \<open>Cass_Session_Props\<close>.
\<close>

subsection \<open>What the Rust driver provides\<close>

record 'l lib_session =
  lib_build :: "SessionConfig \<Rightarrow> (string \<times> bool) option \<Rightarrow> FilteringInfo \<Rightarrow> NewSessionError + 'l"
  lib_query_single_page :: "'l \<Rightarrow> profile_handle option \<Rightarrow> Statement \<Rightarrow> SimpleQueryRowSerializer \<Rightarrow>
     PagingState \<Rightarrow> ExecutionError + into_rows_result \<times> PagingStateResponse"
  lib_query_unpaged :: "'l \<Rightarrow> profile_handle option \<Rightarrow> Statement \<Rightarrow> SimpleQueryRowSerializer \<Rightarrow>
     ExecutionError + into_rows_result"
  lib_execute_single_page :: "'l \<Rightarrow> profile_handle option \<Rightarrow> PreparedStatement \<Rightarrow> bound_value list \<Rightarrow>
     PagingState \<Rightarrow> ExecutionError + into_rows_result \<times> PagingStateResponse"
  lib_execute_unpaged :: "'l \<Rightarrow> profile_handle option \<Rightarrow> PreparedStatement \<Rightarrow> bound_value list \<Rightarrow>
     ExecutionError + into_rows_result"
  lib_batch :: "'l \<Rightarrow> profile_handle option \<Rightarrow> Batch \<Rightarrow> bound_value list list \<Rightarrow> ExecutionError + nat"
  lib_prepare :: "'l \<Rightarrow> Statement \<Rightarrow> PrepareError + PreparedStatement"

text \<open>The handle that \<open>into_handle\<close> makes of a profile, and the texts of errors.\<close>

record lib_texts =
  into_handle :: "ExecutionProfile \<Rightarrow> profile_handle"
  new_session_msg :: "NewSessionError \<Rightarrow> string"
  prepare_msg :: "PrepareError \<Rightarrow> string"

subsection \<open>State\<close>

datatype CassResultValue =
    Empty
  | QueryResult CassResult
  | QueryError CassErrorResult
  | Prepared CassPrepared

type_synonym CassFutureError = "CassError \<times> string"
type_synonym CassFutureResult = "CassFutureError + CassResultValue"

record 'l CassConnectedSession =
  conn_runtime :: nat
  conn_session :: 'l
  conn_exec_profile_map :: session_profiles

record 'l CassSessionInner =
  connected :: "'l CassConnectedSession option"
  session_client_id :: u128

text \<open>The random identifier is an argument.\<close>

definition cass_session_new :: "u128 \<Rightarrow> 'l CassSessionInner c_ptr" where
  "cass_session_new new_v4 = Some \<lparr>connected = None, session_client_id = new_v4\<rparr>"

subsection \<open>Connecting\<close>

record connect_request =
  cr_runtime :: nat
  cr_session_builder :: SessionConfig
  cr_client_id :: "u128 option"
  cr_exec_profile_map :: "(string \<times> CassExecProfile) list"
  cr_host_filter :: FilteringInfo
  cr_keyspace :: "string option"

definition CassConnectedSession_connect ::
    "(string list \<Rightarrow> string list) \<Rightarrow> ExecutionProfile \<Rightarrow> Runtimes \<Rightarrow> bool \<Rightarrow> CassCluster \<Rightarrow> string option \<Rightarrow>
     (connect_request \<times> Runtimes) panics" where
  "CassConnectedSession_connect shuffle driver runtimes creates cluster keyspace =
     do { (runtime, runtimes') \<leftarrow> get_runtime runtimes (num_threads_io cluster) creates;
          Some (\<lparr>cr_runtime = runtime,
                 cr_session_builder = build_session_builder shuffle driver cluster,
                 cr_client_id = client_id cluster,
                 cr_exec_profile_map = execution_profile_map cluster,
                 cr_host_filter = build_host_filter cluster,
                 cr_keyspace = keyspace\<rparr>, runtimes') }"

text \<open>\<open>remove(0)\<close>, and \<open>pop\<close>, which does nothing to an empty string.\<close>

definition unquote_keyspace :: "string \<Rightarrow> string \<times> bool" where
  "unquote_keyspace maybe_quoted_keyspace =
     (if maybe_quoted_keyspace \<noteq> [] \<and> hd maybe_quoted_keyspace = CHR 0x22 \<and> last maybe_quoted_keyspace = CHR 0x22
      then (butlast (tl maybe_quoted_keyspace), True)
      else (maybe_quoted_keyspace, False))"

text \<open>The beginning of \<open>connect_fut\<close>, when it has got the lock.\<close>

definition connect_begin ::
    "'l CassSessionInner \<Rightarrow> connect_request \<Rightarrow> CassFutureError + 'l CassSessionInner" where
  "connect_begin session_guard req =
     (if connected session_guard \<noteq> None
      then Inl (CASS_ERROR_LIB_UNABLE_TO_CONNECT, ''Already connecting, closing, or connected'')
      else Inr (case cr_client_id req of
                  Some cluster_client_id \<Rightarrow> session_guard\<lparr>session_client_id := cluster_client_id\<rparr>
                | None \<Rightarrow> session_guard))"

text \<open>The builder holds the handle of the driver's own profile until another one is set.\<close>

definition connect_profiles :: "lib_texts \<Rightarrow> ExecutionProfile \<Rightarrow> connect_request \<Rightarrow> session_profiles" where
  "connect_profiles texts driver req =
     (let default_profile =
            (case sc_default_execution_profile (cr_session_builder req) of Some p \<Rightarrow> p | None \<Rightarrow> driver)
      in map (\<lambda>(name, builder). (name, into_handle texts (CassExecProfile_build driver builder default_profile)))
           (cr_exec_profile_map req))"

definition connect_build :: "'l lib_session \<Rightarrow> connect_request \<Rightarrow> NewSessionError + 'l" where
  "connect_build lib req =
     lib_build lib (cr_session_builder req) (map_option unquote_keyspace (cr_keyspace req)) (cr_host_filter req)"

text \<open>The end of \<open>connect_fut\<close>, when the Rust driver has built a session or failed.\<close>

definition connect_end ::
    "lib_texts \<Rightarrow> 'l CassSessionInner \<Rightarrow> connect_request \<Rightarrow> session_profiles \<Rightarrow> NewSessionError + 'l \<Rightarrow>
     CassFutureResult \<times> 'l CassSessionInner" where
  "connect_end texts session_guard req exec_profile_map built =
     (case built of
        Inl err \<Rightarrow> (Inl (NewSessionError_to_cass_error err, new_session_msg texts err), session_guard)
      | Inr session \<Rightarrow>
          (Inr Empty,
           session_guard\<lparr>connected := Some \<lparr>conn_runtime = cr_runtime req, conn_session = session,
                                            conn_exec_profile_map = exec_profile_map\<rparr>\<rparr>))"

definition cass_session_connect_keyspace_n ::
    "(string list \<Rightarrow> string list) \<Rightarrow> ExecutionProfile \<Rightarrow> Runtimes \<Rightarrow> bool \<Rightarrow> 's c_ptr \<Rightarrow> CassCluster c_ptr \<Rightarrow>
     c_chars \<Rightarrow> nat \<Rightarrow> (connect_request c_ptr \<times> Runtimes) panics" where
  "cass_session_connect_keyspace_n shuffle driver runtimes creates session_raw cluster_raw keyspace keyspace_length =
     (case (session_raw, cluster_raw) of
        (Some session, Some cluster) \<Rightarrow>
          (case CassStrLenDelimited_to_str keyspace keyspace_length of
             Inl InvalidUtf8 \<Rightarrow> Some (None, runtimes)
           | Inl NullPointer \<Rightarrow>
               map_option (map_prod Some id) (CassConnectedSession_connect shuffle driver runtimes creates cluster None)
           | Inr ks \<Rightarrow>
               map_option (map_prod Some id)
                 (CassConnectedSession_connect shuffle driver runtimes creates cluster (Some ks)))
      | _ \<Rightarrow> Some (None, runtimes))"

definition cass_session_connect_keyspace ::
    "(string list \<Rightarrow> string list) \<Rightarrow> ExecutionProfile \<Rightarrow> Runtimes \<Rightarrow> bool \<Rightarrow> 's c_ptr \<Rightarrow> CassCluster c_ptr \<Rightarrow>
     c_chars \<Rightarrow> (connect_request c_ptr \<times> Runtimes) panics" where
  "cass_session_connect_keyspace shuffle driver runtimes creates session_raw cluster_raw keyspace =
     (let (keyspace, keyspace_length) = as_len_delimited keyspace
      in cass_session_connect_keyspace_n shuffle driver runtimes creates session_raw cluster_raw keyspace
           keyspace_length)"

definition cass_session_connect ::
    "(string list \<Rightarrow> string list) \<Rightarrow> ExecutionProfile \<Rightarrow> Runtimes \<Rightarrow> bool \<Rightarrow> 's c_ptr \<Rightarrow> CassCluster c_ptr \<Rightarrow>
     (connect_request c_ptr \<times> Runtimes) panics" where
  "cass_session_connect shuffle driver runtimes creates session_raw cluster_raw =
     (case (session_raw, cluster_raw) of
        (Some session, Some cluster) \<Rightarrow>
          map_option (map_prod Some id) (CassConnectedSession_connect shuffle driver runtimes creates cluster None)
      | _ \<Rightarrow> Some (None, runtimes))"

subsection \<open>Closing\<close>

text \<open>
  What \<open>try_read\<close> and \<open>try_read_owned\<close> give: nothing when someone connects or closes the session,
  otherwise the session for reading.
\<close>

type_synonym 'l try_read = "'l CassSessionInner option"

definition close_begin :: "'l try_read \<Rightarrow> CassFutureError + unit" where
  "close_begin session_opt =
     (case session_opt of
        None \<Rightarrow> Inl (CASS_ERROR_LIB_NO_HOSTS_AVAILABLE, ''Still connecting or already closing'')
      | Some session_guard \<Rightarrow>
          (case connected session_guard of
             None \<Rightarrow> Inl (CASS_ERROR_LIB_NO_HOSTS_AVAILABLE, ''Session is not connected'')
           | Some connected_session \<Rightarrow> Inr ()))"

definition close_end :: "'l CassSessionInner \<Rightarrow> CassFutureResult \<times> 'l CassSessionInner" where
  "close_end session_guard =
     (case connected session_guard of
        None \<Rightarrow> (Inl (CASS_ERROR_LIB_UNABLE_TO_CLOSE, ''Session is not connected''), session_guard)
      | Some _ \<Rightarrow> (Inr Empty, session_guard\<lparr>connected := None\<rparr>))"

definition cass_session_close :: "'l try_read c_ptr \<Rightarrow> (CassFutureError + unit) c_ptr" where
  "cass_session_close session = map_option close_begin session"

text \<open>
  Freeing a session closes it and waits for that; \<open>session_guard\<close> is the session when the task that closes
  it gets the lock.  Dropping the pointer is the subject of \<open>Cass_Ownership\<close>.
\<close>

definition cass_session_free ::
    "'l try_read c_ptr \<Rightarrow> 'l CassSessionInner \<Rightarrow> (CassFutureResult \<times> 'l CassSessionInner) c_ptr" where
  "cass_session_free session_raw session_guard =
     (case session_raw of
        None \<Rightarrow> None
      | Some session_opt \<Rightarrow>
          Some (case close_begin session_opt of
                  Inl e \<Rightarrow> (Inl e, session_guard)
                | Inr _ \<Rightarrow> close_end session_guard))"

definition cass_session_get_client_id :: "'l try_read c_ptr \<Rightarrow> CassUuid" where
  "cass_session_get_client_id session =
     (case session of
        Some (Some session_guard) \<Rightarrow> CassUuid_from (session_client_id session_guard)
      | _ \<Rightarrow> CassUuid_from 0)"

subsection \<open>Requests\<close>

datatype request =
    Rq_Execute CassStatement
  | Rq_Batch CassBatch
  | Rq_Prepare Statement
  | Rq_Prepare_from_existing BoundStatement

text \<open>What all requests do before they return a future: the session must be connected.\<close>

definition request_begin :: "'l try_read \<Rightarrow> request \<Rightarrow> CassFutureError + request" where
  "request_begin session_opt req =
     (case session_opt of
        None \<Rightarrow> Inl (CASS_ERROR_LIB_NO_HOSTS_AVAILABLE, ''Session is not connected'')
      | Some session_guard \<Rightarrow>
          (case connected session_guard of
             None \<Rightarrow> Inl (CASS_ERROR_LIB_NO_HOSTS_AVAILABLE, ''Session is not connected'')
           | Some _ \<Rightarrow> Inr req))"

definition cass_session_execute ::
    "'l try_read c_ptr \<Rightarrow> CassStatement c_ptr \<Rightarrow> (CassFutureError + request) c_ptr" where
  "cass_session_execute session_raw statement_raw =
     do { session_opt \<leftarrow> session_raw; statement_opt \<leftarrow> statement_raw;
          Some (request_begin session_opt (Rq_Execute statement_opt)) }"

definition cass_session_execute_batch ::
    "'l try_read c_ptr \<Rightarrow> CassBatch c_ptr \<Rightarrow> (CassFutureError + request) c_ptr" where
  "cass_session_execute_batch session_raw batch_raw =
     do { session_opt \<leftarrow> session_raw; batch_from_raw \<leftarrow> batch_raw;
          Some (request_begin session_opt (Rq_Batch batch_from_raw)) }"

definition cass_session_prepare_from_existing ::
    "'l try_read c_ptr \<Rightarrow> CassStatement c_ptr \<Rightarrow> (CassFutureError + request) c_ptr" where
  "cass_session_prepare_from_existing cass_session statement =
     do { session \<leftarrow> cass_session; cass_statement \<leftarrow> statement;
          Some (request_begin session (Rq_Prepare_from_existing (bound_statement cass_statement))) }"

text \<open>The settings of a new statement of the Rust driver are an argument.\<close>

definition cass_session_prepare_n ::
    "StatementConfig \<Rightarrow> 'l try_read c_ptr \<Rightarrow> c_chars \<Rightarrow> nat \<Rightarrow> (CassFutureError + request) c_ptr" where
  "cass_session_prepare_n defaults cass_session_raw query query_length =
     do { cass_session \<leftarrow> cass_session_raw;
          query_str \<leftarrow> (case CassStrLenDelimited_to_str query query_length of
                         Inr s \<Rightarrow> Some s
                       | Inl NullPointer \<Rightarrow> Some []
                       | Inl InvalidUtf8 \<Rightarrow> None);
          Some (request_begin cass_session
            (Rq_Prepare \<lparr>query_contents = query_str, query_config = defaults\<rparr>)) }"

definition cass_session_prepare ::
    "StatementConfig \<Rightarrow> 'l try_read c_ptr \<Rightarrow> c_chars \<Rightarrow> (CassFutureError + request) c_ptr" where
  "cass_session_prepare defaults session query =
     (let (query, query_length) = as_len_delimited query in cass_session_prepare_n defaults session query query_length)"

text \<open>The profile of a statement or batch on the session; no profile is no handle.\<close>

definition session_profile_handle ::
    "'l CassConnectedSession \<Rightarrow> PerStatementExecProfile option \<Rightarrow> CassFutureError + profile_handle option" where
  "session_profile_handle self profile_opt =
     (case profile_opt of
        None \<Rightarrow> Inr None
      | Some profile \<Rightarrow>
          map_sum id Some (fst (get_or_resolve_profile_handle (conn_exec_profile_map self) profile)))"

text \<open>
  The body of a request.  For a prepared statement, \<open>get_or_make\<close> is its metadata cache's answer to the
  result (\<open>try_update_and_get_result_metadata\<close>).
\<close>

definition query_simple ::
    "'l lib_session \<Rightarrow> 'l \<Rightarrow> profile_handle option \<Rightarrow> CassStatement \<Rightarrow> BoundSimpleStatement \<Rightarrow>
     ExecutionError + into_rows_result \<times> PagingStateResponse" where
  "query_simple lib session handle st query =
     (let bound_values = \<lparr>rs_bound_values = bs_bound_values query,
                          rs_name_to_bound_index = name_to_bound_index query\<rparr>
      in if paging_enabled st
         then lib_query_single_page lib session handle (bs_query query) bound_values (paging_state st)
         else map_sum id (\<lambda>result. (result, NoMorePages))
                (lib_query_unpaged lib session handle (bs_query query) bound_values))"

definition execute_prepared ::
    "'l lib_session \<Rightarrow> 'l \<Rightarrow> profile_handle option \<Rightarrow> CassStatement \<Rightarrow> BoundPreparedStatement \<Rightarrow>
     ExecutionError + into_rows_result \<times> PagingStateResponse" where
  "execute_prepared lib session handle st prepared =
     (if paging_enabled st
      then lib_execute_single_page lib session handle (prepared_statement (bp_statement prepared))
             (bp_bound_values prepared) (paging_state st)
      else map_sum id (\<lambda>result. (result, NoMorePages))
             (lib_execute_unpaged lib session handle (prepared_statement (bp_statement prepared))
                (bp_bound_values prepared)))"

type_synonym metadata_lookup = "CassPrepared \<Rightarrow> QueryRowsResult \<Rightarrow> CassResultMetadata option"

definition execute_body ::
    "'l lib_session \<Rightarrow> metadata_lookup \<Rightarrow> 'l CassConnectedSession \<Rightarrow> CassStatement \<Rightarrow> CassFutureResult" where
  "execute_body lib get_or_make connected_session st =
     (case session_profile_handle connected_session (exec_profile st) of
        Inl e \<Rightarrow> Inl e
      | Inr handle \<Rightarrow>
          (let session = conn_session connected_session;
               (query_res, metadata) =
                 (case bound_statement st of
                    BS_Simple query \<Rightarrow> (query_simple lib session handle st query, None)
                  | BS_Prepared prepared \<Rightarrow>
                      (execute_prepared lib session handle st prepared, Some (get_or_make (bp_statement prepared))))
           in case query_res of
                Inr (result, paging_state_response) \<Rightarrow>
                  (case from_result_payload result paging_state_response metadata of
                     Inr result_arc \<Rightarrow> Inr (QueryResult result_arc)
                   | Inl e \<Rightarrow> Inr (QueryError e))
              | Inl err \<Rightarrow> Inr (QueryError (CER_Execution err))))"

definition execute_batch_body ::
    "'l lib_session \<Rightarrow> 'l CassConnectedSession \<Rightarrow> CassBatch \<Rightarrow> CassFutureResult" where
  "execute_batch_body lib connected_session batch =
     (case session_profile_handle connected_session (batch_exec_profile batch) of
        Inl e \<Rightarrow> Inl e
      | Inr handle \<Rightarrow>
          (case lib_batch lib (conn_session connected_session) handle (state_batch (batch_state batch))
                  (state_bound_values (batch_state batch)) of
             Inr coordinator \<Rightarrow>
               Inr (QueryResult \<lparr>res_tracing_id = None, res_paging_state_response = NoMorePages,
                                 res_kind = NonRows, res_coordinator = Some coordinator\<rparr>)
           | Inl err \<Rightarrow> Inr (QueryError (CER_Execution err))))"

definition prepare_body ::
    "'l lib_session \<Rightarrow> lib_texts \<Rightarrow> 'l CassConnectedSession \<Rightarrow> Statement \<Rightarrow> CassFutureResult" where
  "prepare_body lib texts connected_session query =
     (case lib_prepare lib (conn_session connected_session) query of
        Inl err \<Rightarrow> Inl (PrepareError_to_cass_error err, prepare_msg texts err)
      | Inr prepared \<Rightarrow> Inr (Prepared (CassPrepared_new_from_prepared_statement prepared)))"

text \<open>
  The futures: each begins with the assertion that the session is still connected, except the one for a
  statement that is prepared already.
\<close>

fun request_body ::
    "'l lib_session \<Rightarrow> lib_texts \<Rightarrow> metadata_lookup \<Rightarrow> 'l CassConnectedSession option \<Rightarrow> request \<Rightarrow>
     CassFutureResult panics" where
  "request_body lib texts get_or_make c (Rq_Execute st) = map_option (\<lambda>c. execute_body lib get_or_make c st) c"
| "request_body lib texts get_or_make c (Rq_Batch batch) = map_option (\<lambda>c. execute_batch_body lib c batch) c"
| "request_body lib texts get_or_make c (Rq_Prepare query) = map_option (\<lambda>c. prepare_body lib texts c query) c"
| "request_body lib texts get_or_make c (Rq_Prepare_from_existing (BS_Simple query)) =
     map_option (\<lambda>c. prepare_body lib texts c (bs_query query)) c"
| "request_body lib texts get_or_make c (Rq_Prepare_from_existing (BS_Prepared ps)) =
     Some (Inr (Prepared (bp_statement ps)))"

subsection \<open>Metrics\<close>

text \<open>The ten numbers of a snapshot in the order of the source, in milliseconds; rates are bit patterns.\<close>

record lib_metrics =
  lm_snapshot :: "bool + u64 list"
  lm_rates :: "u64 list"
  lm_total_connections :: u64
  lm_connection_timeouts :: u64
  lm_request_timeouts :: u64

record CassMetrics =
  mt_requests :: "u64 list"
  mt_rates :: "u64 list"
  mt_total_connections :: u64
  mt_available_connections :: u64
  mt_exceeded_pending_requests_water_mark :: u64
  mt_exceeded_write_bytes_water_mark :: u64
  mt_connection_timeouts :: u64
  mt_pending_request_timeouts :: u64
  mt_request_timeouts :: u64

text \<open>
  An empty histogram (\<open>Inl True\<close>) counts as zeros, any other error ends the call.  Scaling to microseconds
  overflows as \<open>u64_arith\<close> says.
\<close>

definition cass_session_get_metrics ::
    "bool \<Rightarrow> ('l \<Rightarrow> lib_metrics) \<Rightarrow> 'l try_read c_ptr \<Rightarrow> CassMetrics c_ptr \<Rightarrow> CassMetrics c_ptr panics" where
  "cass_session_get_metrics overflow_checks get_metrics session_raw metrics =
     (case (session_raw, metrics) of
        (Some (Some session_guard), Some m) \<Rightarrow>
          (case connected session_guard of
             None \<Rightarrow> Some metrics
           | Some session \<Rightarrow>
               (let rust_metrics = get_metrics (conn_session session) in
                case lm_snapshot rust_metrics of
                  Inl False \<Rightarrow> Some metrics
                | snapshot \<Rightarrow>
                    do { requests \<leftarrow> those (map (\<lambda>ms. u64_arith overflow_checks (uint ms * 1000))
                                      (case snapshot of Inr ns \<Rightarrow> ns | Inl _ \<Rightarrow> replicate 10 0));
                         Some (Some \<lparr>mt_requests = requests, mt_rates = lm_rates rust_metrics,
                           mt_total_connections = lm_total_connections rust_metrics,
                           mt_available_connections = 0, mt_exceeded_pending_requests_water_mark = 0,
                           mt_exceeded_write_bytes_water_mark = 0,
                           mt_connection_timeouts = lm_connection_timeouts rust_metrics,
                           mt_pending_request_timeouts = 0,
                           mt_request_timeouts = lm_request_timeouts rust_metrics\<rparr>) }))
      | _ \<Rightarrow> Some metrics)"

subsection \<open>Reading the result of a future\<close>

text \<open>A future that a task resolves has its result once it is resolved; an immediate one has it at once.\<close>

datatype FutureKind = Resolvable "CassFutureResult option" | Immediate CassFutureResult

definition cass_future_ready :: "FutureKind c_ptr \<Rightarrow> bool" where
  "cass_future_ready future_raw =
     (case future_raw of
        None \<Rightarrow> False
      | Some (Resolvable result) \<Rightarrow> result \<noteq> None
      | Some (Immediate _) \<Rightarrow> True)"

text \<open>
  The other functions wait (\<open>Cass_Future\<close>); for them a future is what \<open>waited_result\<close> or \<open>waited_result_timed\<close>
  returns, for the latter on the left when the time is up.
\<close>

definition cass_future_wait_timed :: "(unit + CassFutureResult) c_ptr \<Rightarrow> bool" where
  "cass_future_wait_timed future_raw =
     (case future_raw of None \<Rightarrow> False | Some (Inr _) \<Rightarrow> True | Some (Inl _) \<Rightarrow> False)"


definition cass_future_error_code :: "CassFutureResult c_ptr \<Rightarrow> CassError" where
  "cass_future_error_code future_raw =
     (case future_raw of
        None \<Rightarrow> CASS_ERROR_LIB_BAD_PARAMS
      | Some (Inr (QueryError err)) \<Rightarrow> CassErrorResult_to_cass_error err
      | Some (Inl (err, _)) \<Rightarrow> err
      | Some _ \<Rightarrow> CASS_OK)"

text \<open>Nothing is written for a null future.\<close>

definition cass_future_error_message ::
    "(CassErrorResult \<Rightarrow> string) \<Rightarrow> CassFutureResult c_ptr \<Rightarrow> (string \<times> nat) option" where
  "cass_future_error_message msg future =
     map_option (\<lambda>value. write_str_to_c
       (case value of Inr (QueryError err) \<Rightarrow> msg err | Inl (_, s) \<Rightarrow> s | _ \<Rightarrow> [])) future"

definition cass_future_get_result :: "CassFutureResult c_ptr \<Rightarrow> CassResult c_ptr" where
  "cass_future_get_result future_raw =
     (case future_raw of Some (Inr (QueryResult qr)) \<Rightarrow> Some qr | _ \<Rightarrow> None)"

definition cass_future_get_error_result :: "CassFutureResult c_ptr \<Rightarrow> CassErrorResult c_ptr" where
  "cass_future_get_error_result future_raw =
     (case future_raw of Some (Inr (QueryError qr)) \<Rightarrow> Some qr | _ \<Rightarrow> None)"

definition cass_future_get_prepared :: "CassFutureResult c_ptr \<Rightarrow> CassPrepared c_ptr" where
  "cass_future_get_prepared future_raw =
     (case future_raw of Some (Inr (Prepared p)) \<Rightarrow> Some p | _ \<Rightarrow> None)"

definition cass_future_tracing_id :: "CassFutureResult c_ptr \<Rightarrow> CassError \<times> CassUuid option" where
  "cass_future_tracing_id future =
     (case future of
        None \<Rightarrow> (CASS_ERROR_LIB_BAD_PARAMS, None)
      | Some (Inr (QueryResult result)) \<Rightarrow>
          (case res_tracing_id result of
             Some uid \<Rightarrow> (CASS_OK, Some (CassUuid_from uid))
           | None \<Rightarrow> (CASS_ERROR_LIB_NO_TRACING_ID, None))
      | Some _ \<Rightarrow> (CASS_ERROR_LIB_INVALID_FUTURE_TYPE, None))"

text \<open>A result without a coordinator panics.\<close>

definition cass_future_coordinator :: "CassFutureResult c_ptr \<Rightarrow> nat c_ptr panics" where
  "cass_future_coordinator future_raw =
     (case future_raw of
        Some (Inr (QueryResult result)) \<Rightarrow> do { coordinator \<leftarrow> res_coordinator result; Some (Some coordinator) }
      | _ \<Rightarrow> Some None)"

subsection \<open>The session and its lock\<close>

text \<open>
  Tasks are numbered.  A task that connects or closes waits for the lock for writing; a request takes the
  lock for reading before its future is returned and keeps it to its end.  The lock is given for writing
  when nobody holds it.  It is fair: while a task waits for writing, an attempt to read may fail.
\<close>

datatype 'l session_task =
    Tk_None
  | Tk_Connect connect_request
  | Tk_Connecting connect_request
  | Tk_Close
  | Tk_Request request
  | Tk_Running request "'l CassConnectedSession option"
  | Tk_Done CassFutureResult
  | Tk_Panicked

record 'l session_system =
  ss_inner :: "'l CassSessionInner"
  ss_readers :: "nat set"
  ss_writer :: "nat option"
  ss_tasks :: "nat \<Rightarrow> 'l session_task"

definition lock_free :: "'l session_system \<Rightarrow> bool" where
  "lock_free s \<longleftrightarrow> ss_readers s = {} \<and> ss_writer s = None"

definition may_refuse :: "'l session_system \<Rightarrow> bool" where
  "may_refuse s \<longleftrightarrow> ss_writer s \<noteq> None \<or> (\<exists>j. ss_tasks s j = Tk_Close \<or> (\<exists>req. ss_tasks s j = Tk_Connect req))"

text \<open>The possible results of an attempt to read.\<close>

definition try_read_result :: "'l session_system \<Rightarrow> 'l try_read \<Rightarrow> bool" where
  "try_read_result s r \<longleftrightarrow>
     r = None \<and> may_refuse s \<or> r = Some (ss_inner s) \<and> ss_writer s = None"

definition set_task :: "nat \<Rightarrow> 'l session_task \<Rightarrow> 'l session_system \<Rightarrow> 'l session_system" where
  "set_task i t s = s\<lparr>ss_tasks := (ss_tasks s)(i := t)\<rparr>"

inductive session_step ::
    "'l lib_session \<Rightarrow> lib_texts \<Rightarrow> ExecutionProfile \<Rightarrow> metadata_lookup \<Rightarrow>
     'l session_system \<Rightarrow> 'l session_system \<Rightarrow> bool"
  for lib texts driver get_or_make where
  SS_Connect: "ss_tasks s i = Tk_None \<Longrightarrow>
     CassConnectedSession_connect shuffle driver rs creates cluster ks = Some (req, rs') \<Longrightarrow>
     session_step lib texts driver get_or_make s (set_task i (Tk_Connect req) s)"
| SS_Connect_refused: "ss_tasks s i = Tk_Connect req \<Longrightarrow> lock_free s \<Longrightarrow>
     connect_begin (ss_inner s) req = Inl e \<Longrightarrow>
     session_step lib texts driver get_or_make s (set_task i (Tk_Done (Inl e)) s)"
| SS_Connect_begin: "ss_tasks s i = Tk_Connect req \<Longrightarrow> lock_free s \<Longrightarrow>
     connect_begin (ss_inner s) req = Inr inner \<Longrightarrow>
     session_step lib texts driver get_or_make s
       ((set_task i (Tk_Connecting req) s)\<lparr>ss_inner := inner, ss_writer := Some i\<rparr>)"
| SS_Connect_end: "ss_tasks s i = Tk_Connecting req \<Longrightarrow>
     connect_end texts (ss_inner s) req (connect_profiles texts driver req) (connect_build lib req) = (r, inner) \<Longrightarrow>
     session_step lib texts driver get_or_make s
       ((set_task i (Tk_Done r) s)\<lparr>ss_inner := inner, ss_writer := None\<rparr>)"
| SS_Close: "ss_tasks s i = Tk_None \<Longrightarrow> try_read_result s g \<Longrightarrow>
     session_step lib texts driver get_or_make s
       (set_task i (case close_begin g of Inl e \<Rightarrow> Tk_Done (Inl e) | Inr _ \<Rightarrow> Tk_Close) s)"
| SS_Close_end: "ss_tasks s i = Tk_Close \<Longrightarrow> lock_free s \<Longrightarrow> close_end (ss_inner s) = (r, inner) \<Longrightarrow>
     session_step lib texts driver get_or_make s ((set_task i (Tk_Done r) s)\<lparr>ss_inner := inner\<rparr>)"
| SS_Refused: "ss_tasks s i = Tk_None \<Longrightarrow> try_read_result s g \<Longrightarrow> request_begin g req = Inl e \<Longrightarrow>
     session_step lib texts driver get_or_make s (set_task i (Tk_Done (Inl e)) s)"
| SS_Request: "ss_tasks s i = Tk_None \<Longrightarrow> try_read_result s g \<Longrightarrow> request_begin g req = Inr req' \<Longrightarrow>
     session_step lib texts driver get_or_make s
       ((set_task i (Tk_Request req') s)\<lparr>ss_readers := insert i (ss_readers s)\<rparr>)"
| SS_Poll: "ss_tasks s i = Tk_Request req \<Longrightarrow>
     session_step lib texts driver get_or_make s (set_task i (Tk_Running req (connected (ss_inner s))) s)"
| SS_Finish: "ss_tasks s i = Tk_Running req c \<Longrightarrow>
     session_step lib texts driver get_or_make s
       ((set_task i (case request_body lib texts get_or_make c req of Some r \<Rightarrow> Tk_Done r | None \<Rightarrow> Tk_Panicked) s)
          \<lparr>ss_readers := ss_readers s - {i}\<rparr>)"

definition session_start :: "u128 \<Rightarrow> 'l session_system" where
  "session_start new_v4 =
     \<lparr>ss_inner = \<lparr>connected = None, session_client_id = new_v4\<rparr>, ss_readers = {}, ss_writer = None,
      ss_tasks = (\<lambda>_. Tk_None)\<rparr>"

end
