(* ===== verification/Cass_Session_Props.thy ===== *)
theory Cass_Session_Props
  imports Cass_Session
begin

text \<open>
  What is proved about sessions (\<open>Cass_Session\<close>): an invariant of the lock and the tasks, from which no
  request ever finds its session closed; that every task can finish; and what the future of a request
  tells the application.
\<close>

subsection \<open>Requests run on an open session\<close>

definition is_reader :: "'l session_task \<Rightarrow> bool" where
  "is_reader t \<longleftrightarrow> (case t of Tk_Request _ \<Rightarrow> True | Tk_Running _ _ \<Rightarrow> True | _ \<Rightarrow> False)"

lemma is_reader_simps [simp]:
  "is_reader (Tk_Request req)" "is_reader (Tk_Running req c)" "\<not> is_reader Tk_None" "\<not> is_reader (Tk_Connect cr)"
  "\<not> is_reader (Tk_Connecting cr)" "\<not> is_reader Tk_Close" "\<not> is_reader (Tk_Done r)" "\<not> is_reader Tk_Panicked"
  by (simp_all add: is_reader_def)

definition session_inv :: "'l session_system \<Rightarrow> bool" where
  "session_inv s \<longleftrightarrow>
     finite (ss_readers s) \<and>
     (\<forall>i. i \<in> ss_readers s \<longleftrightarrow> is_reader (ss_tasks s i)) \<and>
     (\<forall>i. ss_writer s = Some i \<longleftrightarrow> (\<exists>req. ss_tasks s i = Tk_Connecting req)) \<and>
     (ss_readers s \<noteq> {} \<longrightarrow> connected (ss_inner s) \<noteq> None \<and> ss_writer s = None) \<and>
     (ss_writer s \<noteq> None \<longrightarrow> connected (ss_inner s) = None) \<and>
     (\<forall>i req c. ss_tasks s i = Tk_Running req c \<longrightarrow> c = connected (ss_inner s)) \<and>
     (\<forall>i. ss_tasks s i \<noteq> Tk_Panicked)"

lemma running_inv:
  assumes "session_inv s" "ss_tasks s i = Tk_Running req c"
  shows "i \<in> ss_readers s" "c = connected (ss_inner s)" "c \<noteq> None" "ss_writer s = None"
proof -
  show i: "i \<in> ss_readers s" and c: "c = connected (ss_inner s)" using assms by (auto simp: session_inv_def)
  from i have "ss_readers s \<noteq> {}" by blast
  with assms(1) c show "c \<noteq> None" "ss_writer s = None" by (simp_all add: session_inv_def)
qed

lemma session_start_inv: "session_inv (session_start new_v4)"
  by (simp add: session_inv_def session_start_def)

lemma request_begin_Inr: "request_begin g req = Inr req' \<longleftrightarrow> req' = req \<and> (\<exists>x. g = Some x \<and> connected x \<noteq> None)"
  by (auto simp: request_begin_def split: option.splits)

lemma request_body_open: "\<exists>r. request_body lib texts get_or_make (Some c) req = Some r"
proof (cases req)
  case (Rq_Prepare_from_existing b)
  then show ?thesis by (cases b) simp_all
qed simp_all

lemma session_inv_step [inv_intros]:
  assumes "session_step lib texts driver get_or_make s s'" "session_inv s"
  shows "session_inv s'"
  using assms
proof (cases rule: session_step.cases)
  case (SS_Connect_begin i req inner)
  then have "connected inner = None"
    by (auto simp: connect_begin_def split: if_splits option.splits)
  moreover have "ss_tasks s j \<noteq> Tk_Running rq c" for j rq c
    using SS_Connect_begin running_inv(1) [OF assms(2), of j rq c] by (auto simp: lock_free_def)
  ultimately show ?thesis
    using SS_Connect_begin assms(2) by (auto simp: session_inv_def set_task_def lock_free_def)
next
  case (SS_Connect_end i req r inner)
  then have "ss_writer s = Some i" using assms(2) by (auto simp: session_inv_def)
  moreover from this have "ss_tasks s j \<noteq> Tk_Running rq c" for j rq c
    using running_inv(4) [OF assms(2), of j rq c] by auto
  moreover have "ss_tasks s j \<noteq> Tk_Connecting cr" if "j \<noteq> i" for j cr
    using calculation(1) that assms(2) by (fastforce simp: session_inv_def)
  ultimately show ?thesis
    using SS_Connect_end assms(2) by (auto simp: session_inv_def set_task_def)
next
  case (SS_Close_end i r inner)
  moreover from this have "ss_tasks s j \<noteq> Tk_Running rq c" for j rq c
    using running_inv(1) [OF assms(2), of j rq c] by (auto simp: lock_free_def)
  ultimately show ?thesis using assms(2) by (auto simp: session_inv_def set_task_def lock_free_def)
next
  case (SS_Request i g req req')
  then have "connected (ss_inner s) \<noteq> None" "ss_writer s = None"
    by (auto simp: request_begin_Inr try_read_result_def)
  with SS_Request assms(2) show ?thesis by (auto simp: session_inv_def set_task_def)
next
  case (SS_Finish i req c)
  note running = running_inv [OF assms(2) SS_Finish(2)]
  from running(3) request_body_open obtain r where "request_body lib texts get_or_make c req = Some r" by blast
  with SS_Finish have s': "ss_tasks s' = (ss_tasks s)(i := Tk_Done r)" "ss_readers s' = ss_readers s - {i}"
      "ss_writer s' = ss_writer s" "ss_inner s' = ss_inner s"
    by (simp_all add: set_task_def)
  have "\<And>j cr. ss_tasks s j \<noteq> Tk_Connecting cr" using assms(2) running(4) by (fastforce simp: session_inv_def)
  moreover have "c' = c" if "ss_tasks s j = Tk_Running rq c'" for j rq c'
    using running_inv(2) [OF assms(2) that] running(2) by simp
  ultimately show ?thesis
    using assms(2) running unfolding session_inv_def s' by simp
qed (auto simp: session_inv_def set_task_def split: sum.splits)

lemma session_inv_reachable:
  "(session_step lib texts driver get_or_make)\<^sup>*\<^sup>* (session_start new_v4) s \<Longrightarrow> session_inv s"
  by (induction rule: rtranclp_induct) (auto intro: session_start_inv session_inv_step)

text \<open>
  Property C3.  Requests run on an open session: under any interleaving of connecting, closing and
  requests, no task panics, in particular the assertions that a session is still connected hold; while a
  request is running nobody connects or closes the session, and it uses the session that was connected
  when it was made.
\<close>

theorem requests_run_on_an_open_session:
  assumes "(session_step lib texts driver get_or_make)\<^sup>*\<^sup>* (session_start new_v4) s"
  shows "ss_tasks s i \<noteq> Tk_Panicked \<and>
     (ss_tasks s i = Tk_Running req c \<longrightarrow>
        c \<noteq> None \<and> connected (ss_inner s) = c \<and>
        (\<forall>s'. session_step lib texts driver get_or_make s s' \<longrightarrow> connected (ss_inner s') = c))"
proof (intro conjI impI allI)
  note inv = session_inv_reachable [OF assms]
  then show "ss_tasks s i \<noteq> Tk_Panicked" by (simp add: session_inv_def)
  assume run: "ss_tasks s i = Tk_Running req c"
  note running = running_inv [OF inv run]
  then show "c \<noteq> None" and c: "connected (ss_inner s) = c" by simp_all
  have "ss_writer s = None" "\<not> lock_free s" using running by (auto simp: lock_free_def)
  moreover from this inv have "\<And>j cr. ss_tasks s j \<noteq> Tk_Connecting cr" by (fastforce simp: session_inv_def)
  ultimately show "connected (ss_inner s') = c" if "session_step lib texts driver get_or_make s s'" for s'
    using c by (cases rule: session_step.cases [OF that]) (auto simp: set_task_def)
qed


text \<open>A driver that answers every request, and a session of it with one request running.\<close>

definition answering_session :: "unit lib_session" where
  "answering_session =
     \<lparr>lib_build = (\<lambda>_ _ _. Inr ()), lib_query_single_page = (\<lambda>_ _ _ _ _. Inr (ResultNotRows None 1, NoMorePages)),
      lib_query_unpaged = (\<lambda>_ _ _ _. Inr (ResultNotRows None 1)),
      lib_execute_single_page = (\<lambda>_ _ _ _ _. Inr (ResultNotRows None 1, NoMorePages)),
      lib_execute_unpaged = (\<lambda>_ _ _ _. Inr (ResultNotRows None 1)), lib_batch = (\<lambda>_ _ _ _. Inr 1),
      lib_prepare = (\<lambda>_ st. Inr \<lparr>variable_col_specs = [], prepared_config = query_config st,
                                   use_cached_result_metadata = False\<rparr>)\<rparr>"

definition plain_texts :: lib_texts where
  "plain_texts = \<lparr>into_handle = (\<lambda>_. 0), new_session_msg = (\<lambda>_. []), prepare_msg = (\<lambda>_. [])\<rparr>"

definition one_request :: request where
  "one_request = Rq_Execute two_parameters"

abbreviation plain_step :: "unit session_system \<Rightarrow> unit session_system \<Rightarrow> bool" where
  "plain_step \<equiv> session_step answering_session plain_texts plain_profile (\<lambda>_ _. None)"

definition one_connection :: "unit CassConnectedSession" where
  "one_connection = \<lparr>conn_runtime = 0, conn_session = (), conn_exec_profile_map = []\<rparr>"

lemma running_session:
  obtains s where "plain_step\<^sup>*\<^sup>* (session_start 7) s" "ss_tasks s 1 = Tk_Running one_request (Some one_connection)"
proof -
  define req where "req = \<lparr>cr_runtime = 0, cr_session_builder = build_session_builder id plain_profile plain_cluster,
    cr_client_id = None, cr_exec_profile_map = [], cr_host_filter = build_host_filter plain_cluster,
    cr_keyspace = None\<rparr>"
  define inner where "inner = \<lparr>connected = Some one_connection, session_client_id = 7\<rparr>"
  define s0 :: "unit session_system" where "s0 = session_start 7"
  define s1 where "s1 = set_task 0 (Tk_Connect req) s0"
  define s2 where "s2 = (set_task 0 (Tk_Connecting req) s1)\<lparr>ss_inner := ss_inner s1, ss_writer := Some 0\<rparr>"
  define s3 where "s3 = (set_task 0 (Tk_Done (Inr Empty)) s2)\<lparr>ss_inner := inner, ss_writer := None\<rparr>"
  define s4 where "s4 = (set_task 1 (Tk_Request one_request) s3)\<lparr>ss_readers := insert 1 (ss_readers s3)\<rparr>"
  define s5 where "s5 = set_task 1 (Tk_Running one_request (connected (ss_inner s4))) s4"
  note defs = s0_def s1_def s2_def s3_def s4_def s5_def session_start_def set_task_def lock_free_def
  have "CassConnectedSession_connect id plain_profile \<lparr>rt_slots = [], rt_alive = [], rt_next = 0\<rparr> True plain_cluster None =
      Some (req, \<lparr>rt_slots = [(None, 0)], rt_alive = [(0, None)], rt_next = 1\<rparr>)"
    by (simp add: CassConnectedSession_connect_def req_def get_runtime_def default_runtime_def
        cached_or_new_runtime_def upgrade_def plain_cluster_def cass_cluster_new_def)
  then have 1: "plain_step s0 s1"
    unfolding s1_def by (intro SS_Connect) (simp_all add: s0_def session_start_def)
  have 2: "plain_step s1 s2"
    unfolding s2_def by (intro SS_Connect_begin) (simp_all add: defs connect_begin_def req_def)
  have 3: "plain_step s2 s3"
    unfolding s3_def by (intro SS_Connect_end [where req = req])
      (simp_all add: defs connect_end_def connect_build_def answering_session_def inner_def connect_profiles_def
        one_connection_def req_def)
  have 4: "plain_step s3 s4"
    unfolding s4_def by (intro SS_Request [where g = "Some inner" and req = one_request])
      (simp_all add: defs try_read_result_def request_begin_def inner_def)
  have 5: "plain_step s4 s5"
    unfolding s5_def by (intro SS_Poll) (simp add: defs)
  have "plain_step\<^sup>*\<^sup>* s0 s5"
    using 1 2 3 4 5 by (meson converse_rtranclp_into_rtranclp r_into_rtranclp)
  moreover have "ss_tasks s5 1 = Tk_Running one_request (Some one_connection)"
    by (simp add: defs inner_def)
  ultimately show ?thesis using that s0_def by blast
qed

theorem requests_run_on_an_open_session_witness:
  "\<exists>s. plain_step\<^sup>*\<^sup>* (session_start 7) s \<and> ss_tasks s 1 = Tk_Running one_request (Some one_connection) \<and>
     connected (ss_inner s) = Some one_connection"
proof -
  obtain s where s: "plain_step\<^sup>*\<^sup>* (session_start 7) s"
      "ss_tasks s 1 = Tk_Running one_request (Some one_connection)"
    by (rule running_session)
  from requests_run_on_an_open_session [OF s(1), of 1 one_request "Some one_connection"] s show ?thesis by blast
qed

subsection \<open>Every task can finish\<close>

lemma finish_reader:
  assumes "session_inv s" "i \<in> ss_readers s"
  obtains s' r where "(session_step lib texts driver get_or_make)\<^sup>*\<^sup>* s s'" "ss_tasks s' i = Tk_Done r"
    "ss_readers s' = ss_readers s - {i}" "ss_writer s' = ss_writer s" "\<And>j. j \<noteq> i \<Longrightarrow> ss_tasks s' j = ss_tasks s j"
proof -
  have run: "\<exists>s' r. (session_step lib texts driver get_or_make)\<^sup>*\<^sup>* s s' \<and> ss_tasks s' i = Tk_Done r \<and>
      ss_readers s' = ss_readers s - {i} \<and> ss_writer s' = ss_writer s \<and> (\<forall>j. j \<noteq> i \<longrightarrow> ss_tasks s' j = ss_tasks s j)"
    if "session_inv s" "ss_tasks s i = Tk_Running req c" for s :: "'a session_system" and req c
  proof -
    note running = running_inv(3) [OF that]
    then obtain c' where "c = Some c'" by blast
    with request_body_open obtain r where r: "request_body lib texts get_or_make c req = Some r" by blast
    let ?s = "(set_task i (Tk_Done r) s)\<lparr>ss_readers := ss_readers s - {i}\<rparr>"
    have "session_step lib texts driver get_or_make s ?s"
      using SS_Finish [of s i req c lib texts driver get_or_make] that(2) r by simp
    then show ?thesis by (intro exI [of _ ?s] exI [of _ r]) (simp add: set_task_def r_into_rtranclp)
  qed
  from assms have "is_reader (ss_tasks s i)" by (simp add: session_inv_def)
  then consider req where "ss_tasks s i = Tk_Request req" | req c where "ss_tasks s i = Tk_Running req c"
    by (cases "ss_tasks s i") simp_all
  then show ?thesis
  proof cases
    case (1 req)
    let ?s = "set_task i (Tk_Running req (connected (ss_inner s))) s"
    have step: "session_step lib texts driver get_or_make s ?s" by (rule SS_Poll [OF 1])
    have "ss_tasks ?s i = Tk_Running req (connected (ss_inner s))" by (simp add: set_task_def)
    from run [OF session_inv_step [OF step assms(1)] this] obtain s' r where
      "(session_step lib texts driver get_or_make)\<^sup>*\<^sup>* ?s s'" "ss_tasks s' i = Tk_Done r"
      "ss_readers s' = ss_readers s - {i}" "ss_writer s' = ss_writer s" "\<And>j. j \<noteq> i \<Longrightarrow> ss_tasks s' j = ss_tasks s j"
      by (auto simp: set_task_def)
    with step that show ?thesis by (meson converse_rtranclp_into_rtranclp)
  next
    case (2 req c)
    from run [OF assms(1) this] that show ?thesis by blast
  qed
qed

lemma drain_readers:
  assumes "session_inv s"
  obtains s' where "(session_step lib texts driver get_or_make)\<^sup>*\<^sup>* s s'" "session_inv s'" "ss_readers s' = {}"
    "\<And>j. \<not> is_reader (ss_tasks s j) \<Longrightarrow> ss_tasks s' j = ss_tasks s j"
    "\<And>j. is_reader (ss_tasks s j) \<Longrightarrow> \<exists>r. ss_tasks s' j = Tk_Done r"
proof -
  have "finite (ss_readers s)" using assms by (simp add: session_inv_def)
  then have "\<exists>s'. (session_step lib texts driver get_or_make)\<^sup>*\<^sup>* s s' \<and> session_inv s' \<and> ss_readers s' = {} \<and>
      (\<forall>j. \<not> is_reader (ss_tasks s j) \<longrightarrow> ss_tasks s' j = ss_tasks s j) \<and>
      (\<forall>j. is_reader (ss_tasks s j) \<longrightarrow> (\<exists>r. ss_tasks s' j = Tk_Done r))"
    using assms
  proof (induction "ss_readers s" arbitrary: s rule: finite_induct)
    case empty
    then have "\<not> is_reader (ss_tasks s j)" for j by (auto simp: session_inv_def)
    with empty show ?case by (intro exI [of _ s]) simp
  next
    case (insert i A)
    obtain s1 r where s1: "(session_step lib texts driver get_or_make)\<^sup>*\<^sup>* s s1" "ss_tasks s1 i = Tk_Done r"
        "ss_readers s1 = ss_readers s - {i}" "\<And>j. j \<noteq> i \<Longrightarrow> ss_tasks s1 j = ss_tasks s j"
      using finish_reader [OF insert.prems, of i] insert.hyps(4) by (metis insertI1)
    have inv1: "session_inv s1"
      using s1(1) insert.prems by (induction rule: rtranclp_induct) (auto intro: session_inv_step)
    have "A = ss_readers s1" using insert.hyps s1(3) by auto
    from insert.hyps(3) [OF this inv1] obtain s' where s':
      "(session_step lib texts driver get_or_make)\<^sup>*\<^sup>* s1 s'" "session_inv s'" "ss_readers s' = {}"
      "\<And>j. \<not> is_reader (ss_tasks s1 j) \<Longrightarrow> ss_tasks s' j = ss_tasks s1 j"
      "\<And>j. is_reader (ss_tasks s1 j) \<Longrightarrow> \<exists>r. ss_tasks s' j = Tk_Done r"
      by blast
    have "is_reader (ss_tasks s i)" using insert.prems insert.hyps(4) by (auto simp: session_inv_def)
    with s1 s' have "ss_tasks s' j = ss_tasks s j" if "\<not> is_reader (ss_tasks s j)" for j
      using that by (cases "j = i") auto
    moreover from s1 s' have "\<exists>r. ss_tasks s' j = Tk_Done r" if "is_reader (ss_tasks s j)" for j
      using that by (cases "j = i") auto
    ultimately show ?case using s1(1) s'(1-3) by (meson rtranclp_trans)
  qed
  with that show ?thesis by blast
qed

lemma finish_connecting:
  assumes "session_inv s" "ss_tasks s i = Tk_Connecting req" "ss_readers s = {}"
  obtains s' r where "session_step lib texts driver get_or_make s s'" "ss_tasks s' i = Tk_Done r"
    "lock_free s'" "\<And>j. j \<noteq> i \<Longrightarrow> ss_tasks s' j = ss_tasks s j"
proof -
  obtain r inner where e: "connect_end texts (ss_inner s) req (connect_profiles texts driver req) (connect_build lib req) =
      (r, inner)"
    by (metis surj_pair)
  from SS_Connect_end [OF assms(2) e, of get_or_make] that show ?thesis
    by (auto simp: set_task_def lock_free_def assms(3))
qed

lemma free_the_lock:
  assumes "session_inv s"
  obtains s' where "(session_step lib texts driver get_or_make)\<^sup>*\<^sup>* s s'" "lock_free s'"
    "\<And>j. ss_tasks s j = Tk_Close \<or> (\<exists>req. ss_tasks s j = Tk_Connect req) \<Longrightarrow> ss_tasks s' j = ss_tasks s j"
    "\<And>j. is_reader (ss_tasks s j) \<or> (\<exists>req. ss_tasks s j = Tk_Connecting req) \<Longrightarrow> \<exists>r. ss_tasks s' j = Tk_Done r"
proof -
  obtain s1 where s1: "(session_step lib texts driver get_or_make)\<^sup>*\<^sup>* s s1" "session_inv s1" "ss_readers s1 = {}"
      "\<And>j. \<not> is_reader (ss_tasks s j) \<Longrightarrow> ss_tasks s1 j = ss_tasks s j"
      "\<And>j. is_reader (ss_tasks s j) \<Longrightarrow> \<exists>r. ss_tasks s1 j = Tk_Done r"
    by (rule drain_readers [OF assms, of lib texts driver get_or_make]) blast
  show ?thesis
  proof (cases "ss_writer s1")
    case None
    have none: "ss_tasks s j \<noteq> Tk_Connecting req" for j req
    proof
      assume j: "ss_tasks s j = Tk_Connecting req"
      then have "ss_tasks s1 j = Tk_Connecting req" using s1(4) [of j] by simp
      with s1(2) None show False unfolding session_inv_def by (metis option.distinct(1))
    qed
    show ?thesis
      by (rule that [OF s1(1)]) (use None s1(3-5) none in \<open>auto simp: lock_free_def\<close>)
  next
    case (Some i)
    with s1(2) obtain req where req: "ss_tasks s1 i = Tk_Connecting req" unfolding session_inv_def by blast
    have only: "j = i" if "ss_tasks s1 j = Tk_Connecting req'" for j req'
      using s1(2) Some that unfolding session_inv_def by (metis option.inject)
    obtain s2 r where s2: "session_step lib texts driver get_or_make s1 s2" "ss_tasks s2 i = Tk_Done r"
        "lock_free s2" "\<And>j. j \<noteq> i \<Longrightarrow> ss_tasks s2 j = ss_tasks s1 j"
      by (rule finish_connecting [OF s1(2) req s1(3), of lib texts driver get_or_make]) blast
    show ?thesis
    proof (rule that [of s2])
      show "(session_step lib texts driver get_or_make)\<^sup>*\<^sup>* s s2"
        using s1(1) s2(1) by (rule rtranclp.rtrancl_into_rtrancl)
      show "ss_tasks s2 j = ss_tasks s j" if "ss_tasks s j = Tk_Close \<or> (\<exists>req. ss_tasks s j = Tk_Connect req)" for j
        using that s1(4) [of j] s2(4) [of j] req by (cases "j = i") auto
      show "\<exists>r. ss_tasks s2 j = Tk_Done r"
        if "is_reader (ss_tasks s j) \<or> (\<exists>req. ss_tasks s j = Tk_Connecting req)" for j
      proof (cases "j = i")
        case False
        with that s1(4,5) [of j] only [of j] s2(4) [of j] show ?thesis by auto
      qed (use s2(2) in blast)
    qed (rule s2(3))
  qed
qed

lemma task_set [simp]: "ss_tasks (set_task i t s) i = t"
  by (simp add: set_task_def)

lemma finish_writer:
  assumes "lock_free s" "ss_tasks s i = Tk_Close \<or> (\<exists>req. ss_tasks s i = Tk_Connect req)"
  shows "\<exists>s' r. (session_step lib texts driver get_or_make)\<^sup>*\<^sup>* s s' \<and> ss_tasks s' i = Tk_Done r"
proof (cases "ss_tasks s i = Tk_Close")
  case True
  obtain r inner where e: "close_end (ss_inner s) = (r, inner)" by (metis surj_pair)
  let ?s = "(set_task i (Tk_Done r) s)\<lparr>ss_inner := inner\<rparr>"
  have "(session_step lib texts driver get_or_make)\<^sup>*\<^sup>* s ?s"
    by (rule r_into_rtranclp, rule SS_Close_end [OF True assms(1) e])
  moreover have "ss_tasks ?s i = Tk_Done r" by simp
  ultimately show ?thesis by blast
next
  case False
  with assms(2) obtain req where t: "ss_tasks s i = Tk_Connect req" by blast
  show ?thesis
  proof (cases "connect_begin (ss_inner s) req")
    case (Inl e)
    have "(session_step lib texts driver get_or_make)\<^sup>*\<^sup>* s (set_task i (Tk_Done (Inl e)) s)"
      by (rule r_into_rtranclp, rule SS_Connect_refused [OF t assms(1) Inl])
    moreover have "ss_tasks (set_task i (Tk_Done (Inl e)) s) i = Tk_Done (Inl e)" by simp
    ultimately show ?thesis by blast
  next
    case (Inr inner)
    let ?s = "(set_task i (Tk_Connecting req) s)\<lparr>ss_inner := inner, ss_writer := Some i\<rparr>"
    obtain r inner' where e: "connect_end texts (ss_inner ?s) req (connect_profiles texts driver req)
        (connect_build lib req) = (r, inner')"
      by (metis surj_pair)
    have c: "ss_tasks ?s i = Tk_Connecting req" by simp
    let ?s' = "(set_task i (Tk_Done r) ?s)\<lparr>ss_inner := inner', ss_writer := None\<rparr>"
    have "(session_step lib texts driver get_or_make)\<^sup>*\<^sup>* s ?s'"
      by (rule converse_rtranclp_into_rtranclp, rule SS_Connect_begin [OF t assms(1) Inr],
          rule r_into_rtranclp, rule SS_Connect_end [OF c e])
    moreover have "ss_tasks ?s' i = Tk_Done r" by simp
    ultimately show ?thesis by blast
  qed
qed

text \<open>
  Property C18.  No task waits for ever: in every reachable state, every task that has been started,
  whether it connects, closes or runs a request, can still finish, whatever other tasks are waiting.
  So \<open>cass_session_free\<close>, which waits for its close to finish, can always return.
\<close>

theorem session_tasks_can_finish:
  assumes "(session_step lib texts driver get_or_make)\<^sup>*\<^sup>* (session_start new_v4) s" "ss_tasks s i \<noteq> Tk_None"
  shows "\<exists>s' r. (session_step lib texts driver get_or_make)\<^sup>*\<^sup>* s s' \<and> ss_tasks s' i = Tk_Done r"
proof -
  note inv = session_inv_reachable [OF assms(1)]
  obtain s1 where s1: "(session_step lib texts driver get_or_make)\<^sup>*\<^sup>* s s1" "lock_free s1"
    "ss_tasks s i = Tk_Close \<or> (\<exists>req. ss_tasks s i = Tk_Connect req) \<Longrightarrow> ss_tasks s1 i = ss_tasks s i"
    "is_reader (ss_tasks s i) \<or> (\<exists>req. ss_tasks s i = Tk_Connecting req) \<Longrightarrow> \<exists>r. ss_tasks s1 i = Tk_Done r"
    by (rule free_the_lock [OF inv, of lib texts driver get_or_make]) blast
  have panic: "ss_tasks s i \<noteq> Tk_Panicked" using inv by (simp add: session_inv_def)
  show ?thesis
  proof (cases "ss_tasks s i = Tk_Close \<or> (\<exists>req. ss_tasks s i = Tk_Connect req)")
    case True
    with s1(3) have "ss_tasks s1 i = Tk_Close \<or> (\<exists>req. ss_tasks s1 i = Tk_Connect req)" by auto
    from finish_writer [OF s1(2) this, of lib texts driver get_or_make] s1(1) show ?thesis
      by (meson rtranclp_trans)
  next
    case False
    with assms(2) panic s1(1,4) show ?thesis by (cases "ss_tasks s i") auto
  qed
qed

theorem session_tasks_can_finish_witness:
  "\<exists>s s' r. plain_step\<^sup>*\<^sup>* (session_start 7) s \<and> ss_tasks s 1 = Tk_Running one_request (Some one_connection) \<and>
     plain_step\<^sup>*\<^sup>* s s' \<and> ss_tasks s' 1 = Tk_Done r"
proof -
  obtain s where s: "plain_step\<^sup>*\<^sup>* (session_start 7) s"
      "ss_tasks s 1 = Tk_Running one_request (Some one_connection)"
    by (rule running_session)
  from session_tasks_can_finish [OF s(1), of 1] s show ?thesis by auto
qed

subsection \<open>What the future of a request reports\<close>

lemma server_error_not_ok: "DbError_to_cass_error e \<noteq> CASS_OK"
  by (cases e) (simp_all add: or_eq_0_iff push_bit_eq_mult)

lemma attempt_error_not_ok: "RequestAttemptError_to_cass_error e \<noteq> CASS_OK"
proof (cases e)
  case (RA_SerializationError x)
  then show ?thesis by (cases x) simp_all
qed (simp_all add: server_error_not_ok)

lemma prepare_error_not_ok: "PrepareError_to_cass_error e \<noteq> CASS_OK"
  by (cases e) (simp_all add: attempt_error_not_ok ConnectionPoolError_to_cass_error_def)

lemma serialization_error_not_ok: "SerializationError_to_cass_error e \<noteq> CASS_OK"
  by (cases e) simp_all

lemma metadata_error_not_ok: "MetadataError_to_cass_error e \<noteq> CASS_OK"
  by (cases e) (simp_all add: attempt_error_not_ok prepare_error_not_ok serialization_error_not_ok
      ConnectionPoolError_to_cass_error_def
      split: MetadataFetchErrorKind.split NextRowError.split NextPageError.split RequestError.split)

lemma execution_error_not_ok: "ExecutionError_to_cass_error e \<noteq> CASS_OK"
proof (cases e)
  case (EE_BadQuery x)
  then show ?thesis by (cases x) (simp_all add: serialization_error_not_ok)
qed (simp_all add: attempt_error_not_ok prepare_error_not_ok metadata_error_not_ok ConnectionPoolError_to_cass_error_def)

lemma error_result_not_ok: "CassErrorResult_to_cass_error e \<noteq> CASS_OK"
  by (cases e) (simp_all add: execution_error_not_ok)

lemmas errors_not_ok = error_result_not_ok prepare_error_not_ok

fun is_prepare :: "request \<Rightarrow> bool" where
  "is_prepare (Rq_Execute _) = False"
| "is_prepare (Rq_Batch _) = False"
| "is_prepare _ = True"

lemma profile_handle_error:
  assumes "session_profile_handle c p = Inl e"
  shows "fst e = CASS_ERROR_LIB_EXECUTION_PROFILE_INVALID"
proof (cases p)
  case (Some q)
  with assms show ?thesis
    by (cases q) (auto simp: session_profile_handle_def get_or_resolve_profile_handle_def resolve_exec_profile_def
        split: option.splits)
qed (use assms in \<open>simp add: session_profile_handle_def\<close>)

text \<open>The possible outcomes of a request, by its kind.\<close>

definition query_outcome :: "CassFutureResult \<Rightarrow> bool" where
  "query_outcome r \<longleftrightarrow> (\<exists>res. r = Inr (QueryResult res)) \<or> (\<exists>e. r = Inr (QueryError e)) \<or>
     (\<exists>msg. r = Inl (CASS_ERROR_LIB_EXECUTION_PROFILE_INVALID, msg))"

lemma query_outcomes [simp]:
  "query_outcome (Inr (QueryResult res))" "query_outcome (Inr (QueryError e))"
  "query_outcome (Inl (CASS_ERROR_LIB_EXECUTION_PROFILE_INVALID, msg))"
  by (simp_all add: query_outcome_def)

lemma execute_body_outcome: "query_outcome (execute_body lib get_or_make c st)"
proof (cases "session_profile_handle c (exec_profile st)")
  case (Inl e)
  with profile_handle_error [OF Inl] show ?thesis by (cases e) (simp add: execute_body_def)
next
  case (Inr handle)
  then show ?thesis
    by (simp add: execute_body_def Let_def split: BoundStatement.split sum.split prod.split)
qed

lemma execute_batch_body_outcome: "query_outcome (execute_batch_body lib c b)"
proof (cases "session_profile_handle c (batch_exec_profile b)")
  case (Inl e)
  with profile_handle_error [OF Inl] show ?thesis by (cases e) (simp add: execute_batch_body_def)
qed (simp add: execute_batch_body_def split: sum.split)

lemma execute_outcomes:
  "request_body lib texts get_or_make (Some c) req = Some r \<Longrightarrow> \<not> is_prepare req \<Longrightarrow> query_outcome r"
  by (cases req) (auto simp: execute_body_outcome execute_batch_body_outcome)

lemma prepare_outcomes:
  assumes "request_body lib texts get_or_make (Some c) req = Some r" "is_prepare req"
  obtains p where "r = Inr (Prepared p)" | e msg where "r = Inl (PrepareError_to_cass_error e, msg)"
proof -
  have body: "(\<exists>p. prepare_body lib texts c q = Inr (Prepared p)) \<or>
      (\<exists>e msg. prepare_body lib texts c q = Inl (PrepareError_to_cass_error e, msg))" for q
    by (auto simp: prepare_body_def split: sum.splits)
  have "(\<exists>p. r = Inr (Prepared p)) \<or> (\<exists>e msg. r = Inl (PrepareError_to_cass_error e, msg))"
    using assms body by (cases "(lib, texts, get_or_make, Some c, req)" rule: request_body.cases) auto
  with that show ?thesis by blast
qed



subsection \<open>Paging\<close>

text \<open>
  To ask for the next page, handing over the previous result and handing over its paging
  state token are the same; only a token that is present but empty is taken for the first page.  Without
  more pages there is no token, and handing over the result starts from the first page.
\<close>

lemma paging_tokens_stand_for_results:
  "(cass_result_paging_state_token (Some res) = (CASS_OK, Some (token, len)) \<and> token \<noteq> Some [] \<longrightarrow>
       cass_statement_set_paging_state_token statement token len =
       cass_statement_set_paging_state statement (Some (res_paging_state_response res))) \<and>
     (\<not> cass_result_has_more_pages (Some res) \<longrightarrow>
       cass_result_paging_state_token (Some res) = (CASS_ERROR_LIB_NO_PAGING_STATE, None) \<and>
       cass_statement_set_paging_state (Some st) (Some (res_paging_state_response res)) =
         Some (CASS_OK, Some (st\<lparr>paging_state := None\<rparr>)))"
proof (cases "res_paging_state_response res")
  case (HasMorePages state)
  then show ?thesis
    by (cases "state = Some []"; cases state)
      (auto simp: cass_result_paging_state_token_def cass_result_has_more_pages_def
        cass_statement_set_paging_state_token_def cass_statement_set_paging_state_def)
next
  case NoMorePages
  then show ?thesis
    by (simp add: cass_result_paging_state_token_def cass_result_has_more_pages_def
        cass_statement_set_paging_state_def with_statement_def)
qed

end
