(* ===== verification/Cass_Ssl.thy ===== *)
theory Cass_Ssl
  imports Cass_Arg_Conv
begin

text \<open>
  \<open>ssl.rs\<close>: the settings of a TLS context.

  OpenSSL is the record \<open>OpenSSL\<close>, an argument: contexts, stores, certificates and keys are types
  \<open>'c\<close>, \<open>'s\<close>, \<open>'x\<close> and \<open>'k\<close> that only OpenSSL looks into.  A memory \<open>BIO\<close> is what is left to be
  read of it.  Functions that fail return \<open>0\<close> as in C, beside the object they change.  What the proofs
  need of OpenSSL is named at the end of the definitions (\<open>verifies_as_documented\<close>,
  \<open>reading_consumes\<close>, \<open>returns_zero_or_one\<close>).
\<close>

subsection \<open>What OpenSSL provides\<close>

type_synonym verify_callback = "32 word \<Rightarrow> 32 word \<Rightarrow> 32 word \<times> 32 word"
type_synonym password_callback = "32 word \<Rightarrow> (32 word \<times> string) panics"

text \<open>
  \<open>handshake_accepts\<close> tells whether a handshake accepts a peer for which the steps of the verification
  have the given results, \<open>X509_V_OK\<close> or an error.
\<close>

record ('c, 's, 'x, 'k) OpenSSL =
  SSL_CTX_new :: 'c
  X509_STORE_new :: 's
  SSL_CTX_set_cert_store :: "'c \<Rightarrow> 's \<Rightarrow> 'c"
  SSL_CTX_set_verify :: "'c \<Rightarrow> 32 word \<Rightarrow> verify_callback option \<Rightarrow> 'c"
  handshake_accepts :: "'c \<Rightarrow> 32 word list \<Rightarrow> bool"
  BIO_new_mem_buf :: "string \<Rightarrow> string c_ptr"
  PEM_read_bio_X509 :: "string \<Rightarrow> password_callback \<Rightarrow> 'x c_ptr \<times> string"
  PEM_read_bio_PrivateKey :: "string \<Rightarrow> password_callback \<Rightarrow> 'k c_ptr panics"
  X509_STORE_add_cert :: "'s \<Rightarrow> 'x \<Rightarrow> 's"
  SSL_CTX_use_certificate :: "'c \<Rightarrow> 'x \<Rightarrow> 32 word \<times> 'c"
  SSL_CTX_add_extra_chain_cert :: "'c \<Rightarrow> 'x \<Rightarrow> 32 word \<times> 'c"
  SSL_CTX_use_PrivateKey :: "'c \<Rightarrow> 'k \<Rightarrow> 'c"

text \<open>Constants of the headers of OpenSSL.\<close>

abbreviation X509_V_OK :: "32 word" where
  "X509_V_OK \<equiv> 0"

abbreviation X509_V_ERR_HOSTNAME_MISMATCH :: "32 word" where
  "X509_V_ERR_HOSTNAME_MISMATCH \<equiv> 62"

abbreviation X509_V_ERR_EMAIL_MISMATCH :: "32 word" where
  "X509_V_ERR_EMAIL_MISMATCH \<equiv> 63"

abbreviation X509_V_ERR_IP_ADDRESS_MISMATCH :: "32 word" where
  "X509_V_ERR_IP_ADDRESS_MISMATCH \<equiv> 64"

abbreviation SslVerifyMode_NONE :: "32 word" where
  "SslVerifyMode_NONE \<equiv> 0"

abbreviation SslVerifyMode_PEER :: "32 word" where
  "SslVerifyMode_PEER \<equiv> 1"

subsection \<open>Contexts\<close>

abbreviation CASS_SSL_VERIFY_NONE :: "32 word" where
  "CASS_SSL_VERIFY_NONE \<equiv> 0"

abbreviation CASS_SSL_VERIFY_PEER_CERT :: "32 word" where
  "CASS_SSL_VERIFY_PEER_CERT \<equiv> 1"

abbreviation CASS_SSL_VERIFY_PEER_IDENTITY :: "32 word" where
  "CASS_SSL_VERIFY_PEER_IDENTITY \<equiv> 2"

abbreviation CASS_SSL_VERIFY_PEER_IDENTITY_DNS :: "32 word" where
  "CASS_SSL_VERIFY_PEER_IDENTITY_DNS \<equiv> 4"

definition CASS_SSL_VERIFY_KNOWN_FLAGS :: "32 word" where
  "CASS_SSL_VERIFY_KNOWN_FLAGS =
     CASS_SSL_VERIFY_PEER_CERT OR CASS_SSL_VERIFY_PEER_IDENTITY OR CASS_SSL_VERIFY_PEER_IDENTITY_DNS"

record ('c, 's) CassSsl =
  ssl_context :: 'c
  trusted_store :: 's

text \<open>The second component of a callback's result is the error it leaves behind.\<close>

definition verify_peer_cert_callback :: verify_callback where
  "verify_peer_cert_callback preverify_ok x509_error =
     (if preverify_ok = 1 then (1, x509_error)
      else if x509_error \<in> {X509_V_ERR_HOSTNAME_MISMATCH, X509_V_ERR_EMAIL_MISMATCH,
                            X509_V_ERR_IP_ADDRESS_MISMATCH}
      then (1, X509_V_OK)
      else (0, x509_error))"

text \<open>\<open>cass_ssl_new\<close> is the same after it has initialized OpenSSL.\<close>

definition cass_ssl_new_no_lib_init :: "('c, 's, 'x, 'k) OpenSSL \<Rightarrow> ('c, 's) CassSsl c_ptr" where
  "cass_ssl_new_no_lib_init lib =
     Some \<lparr>ssl_context =
             SSL_CTX_set_verify lib (SSL_CTX_set_cert_store lib (SSL_CTX_new lib) (X509_STORE_new lib))
               SslVerifyMode_PEER (Some verify_peer_cert_callback),
           trusted_store = X509_STORE_new lib\<rparr>"

text \<open>
  The password of a private key.  The result is the returned length and what is copied to the buffer; a
  negative size of the buffer is a panic.
\<close>

definition pem_password_callback :: "c_chars \<Rightarrow> password_callback" where
  "pem_password_callback u sz =
     (case u of
        None \<Rightarrow> Some (0, [])
      | Some mem \<Rightarrow>
          (let len = strlen u in
           if len = 0 then Some (0, [])
           else if sint sz < 0 then None
           else (let to_copy = (if len < nat (sint sz) then len else nat (sint sz))
                 in Some (word_of_nat len, take to_copy mem))))"

text \<open>A buffer longer than a \<open>c_int\<close> can tell is a panic.\<close>

definition new_mem_buf :: "('c, 's, 'x, 'k) OpenSSL \<Rightarrow> string \<Rightarrow> string c_ptr panics" where
  "new_mem_buf lib s = (if length s < 2 ^ 31 then Some (BIO_new_mem_buf lib s) else None)"

definition cass_ssl_add_trusted_cert_n ::
    "('c, 's, 'x, 'k) OpenSSL \<Rightarrow> ('c, 's) CassSsl c_ptr \<Rightarrow> c_chars \<Rightarrow> nat \<Rightarrow>
     (CassError \<times> ('c, 's) CassSsl c_ptr) panics" where
  "cass_ssl_add_trusted_cert_n lib ssl_raw cert cert_length =
     (case ssl_raw of
        None \<Rightarrow> Some (CASS_ERROR_LIB_BAD_PARAMS, ssl_raw)
      | Some ssl \<Rightarrow>
          (case CassStrLenDelimited_to_str cert cert_length of
             Inl e \<Rightarrow> Some (CASS_ERROR_SSL_INVALID_CERT, ssl_raw)
           | Inr cert_str \<Rightarrow>
               do { buf \<leftarrow> new_mem_buf lib cert_str;
                    Some (case buf of
                            None \<Rightarrow> (CASS_ERROR_SSL_INVALID_CERT, ssl_raw)
                          | Some bio \<Rightarrow>
                              (case fst (PEM_read_bio_X509 lib bio (pem_password_callback None)) of
                                 None \<Rightarrow> (CASS_ERROR_SSL_INVALID_CERT, ssl_raw)
                               | Some x509 \<Rightarrow>
                                   (CASS_OK,
                                    Some (ssl\<lparr>trusted_store :=
                                            X509_STORE_add_cert lib (trusted_store ssl) x509\<rparr>)))) }))"

definition cass_ssl_add_trusted_cert ::
    "('c, 's, 'x, 'k) OpenSSL \<Rightarrow> ('c, 's) CassSsl c_ptr \<Rightarrow> c_chars \<Rightarrow>
     (CassError \<times> ('c, 's) CassSsl c_ptr) panics" where
  "cass_ssl_add_trusted_cert lib ssl cert =
     (let (cert, cert_length) = as_len_delimited cert in cass_ssl_add_trusted_cert_n lib ssl cert cert_length)"

subsection \<open>Verification of peers\<close>

definition verify_settings :: "32 word \<Rightarrow> 32 word \<times> verify_callback option" where
  "verify_settings requested =
     (let flags = (if requested AND NOT CASS_SSL_VERIFY_KNOWN_FLAGS \<noteq> 0 then CASS_SSL_VERIFY_PEER_IDENTITY
                   else requested);
          verify_identity =
            (flags AND (CASS_SSL_VERIFY_PEER_IDENTITY OR CASS_SSL_VERIFY_PEER_IDENTITY_DNS) \<noteq> 0);
          verify_peer = (flags AND CASS_SSL_VERIFY_KNOWN_FLAGS \<noteq> CASS_SSL_VERIFY_NONE)
      in if verify_identity then (SslVerifyMode_PEER, None)
         else if verify_peer then (SslVerifyMode_PEER, Some verify_peer_cert_callback)
         else (SslVerifyMode_NONE, None))"

definition cass_ssl_set_verify_flags ::
    "('c, 's, 'x, 'k) OpenSSL \<Rightarrow> ('c, 's) CassSsl c_ptr \<Rightarrow> 32 word \<Rightarrow> ('c, 's) CassSsl c_ptr" where
  "cass_ssl_set_verify_flags lib ssl_raw flags =
     map_option (\<lambda>ssl. let (mode, callback) = verify_settings flags
                       in ssl\<lparr>ssl_context := SSL_CTX_set_verify lib (ssl_context ssl) mode callback\<rparr>) ssl_raw"

subsection \<open>The certificate of the client and its key\<close>

text \<open>The loop over the certificates after the first one; both ways out of it leave \<open>0\<close> in \<open>ret\<close>.\<close>

partial_function (option) chain_loop ::
    "('c, 's, 'x, 'k) OpenSSL \<Rightarrow> 'c \<Rightarrow> string \<Rightarrow> (32 word \<times> 'c) option" where
  "chain_loop lib ctx bio =
     (case PEM_read_bio_X509 lib bio (pem_password_callback None) of
        (None, _) \<Rightarrow> Some (0, ctx)
      | (Some ca, rest) \<Rightarrow>
          (case SSL_CTX_add_extra_chain_cert lib ctx ca of
             (r, ctx') \<Rightarrow> if r = 0 then Some (0, ctx') else chain_loop lib ctx' rest))"

definition SSL_CTX_use_certificate_chain_bio ::
    "('c, 's, 'x, 'k) OpenSSL \<Rightarrow> 'c \<Rightarrow> string \<Rightarrow> (32 word \<times> 'c) option" where
  "SSL_CTX_use_certificate_chain_bio lib ctx bio =
     (case PEM_read_bio_X509 lib bio (pem_password_callback None) of
        (None, _) \<Rightarrow> Some (0, ctx)
      | (Some x, rest) \<Rightarrow>
          (case SSL_CTX_use_certificate lib ctx x of
             (ret, ctx') \<Rightarrow> if ret \<noteq> 1 then chain_loop lib ctx' rest else Some (ret, ctx')))"

text \<open>No result is a panic or a loop that does not end.\<close>

definition cass_ssl_set_cert_n ::
    "('c, 's, 'x, 'k) OpenSSL \<Rightarrow> ('c, 's) CassSsl c_ptr \<Rightarrow> c_chars \<Rightarrow> nat \<Rightarrow>
     (CassError \<times> ('c, 's) CassSsl c_ptr) option" where
  "cass_ssl_set_cert_n lib ssl_raw cert cert_length =
     (case ssl_raw of
        None \<Rightarrow> Some (CASS_ERROR_LIB_BAD_PARAMS, ssl_raw)
      | Some ssl \<Rightarrow>
          (case CassStrLenDelimited_to_str cert cert_length of
             Inl e \<Rightarrow> Some (CASS_ERROR_SSL_INVALID_CERT, ssl_raw)
           | Inr cert_str \<Rightarrow>
               do { buf \<leftarrow> new_mem_buf lib cert_str;
                    case buf of
                      None \<Rightarrow> Some (CASS_ERROR_SSL_INVALID_CERT, ssl_raw)
                    | Some bio \<Rightarrow>
                        do { (rc, ctx) \<leftarrow> SSL_CTX_use_certificate_chain_bio lib (ssl_context ssl) bio;
                             Some (if rc = 0 then CASS_ERROR_SSL_INVALID_CERT else CASS_OK,
                                   Some (ssl\<lparr>ssl_context := ctx\<rparr>)) } }))"

definition cass_ssl_set_cert ::
    "('c, 's, 'x, 'k) OpenSSL \<Rightarrow> ('c, 's) CassSsl c_ptr \<Rightarrow> c_chars \<Rightarrow>
     (CassError \<times> ('c, 's) CassSsl c_ptr) option" where
  "cass_ssl_set_cert lib ssl cert =
     (let (cert, cert_length) = as_len_delimited cert in cass_ssl_set_cert_n lib ssl cert cert_length)"

definition cass_ssl_set_private_key_n ::
    "('c, 's, 'x, 'k) OpenSSL \<Rightarrow> ('c, 's) CassSsl c_ptr \<Rightarrow> c_chars \<Rightarrow> nat \<Rightarrow> c_chars \<Rightarrow> nat \<Rightarrow>
     (CassError \<times> ('c, 's) CassSsl c_ptr) panics" where
  "cass_ssl_set_private_key_n lib ssl_raw key key_length password password_length =
     (case ssl_raw of
        None \<Rightarrow> Some (CASS_ERROR_LIB_BAD_PARAMS, ssl_raw)
      | Some ssl \<Rightarrow>
          (case CassStrLenDelimited_to_str key key_length of
             Inl e \<Rightarrow> Some (CASS_ERROR_SSL_INVALID_PRIVATE_KEY, ssl_raw)
           | Inr key_str \<Rightarrow>
               do { buf \<leftarrow> new_mem_buf lib key_str;
                    case buf of
                      None \<Rightarrow> Some (CASS_ERROR_SSL_INVALID_CERT, ssl_raw)
                    | Some bio \<Rightarrow>
                        do { read \<leftarrow> PEM_read_bio_PrivateKey lib bio (pem_password_callback password);
                             Some (case read of
                                     None \<Rightarrow> (CASS_ERROR_SSL_INVALID_PRIVATE_KEY, ssl_raw)
                                   | Some pkey \<Rightarrow>
                                       (CASS_OK,
                                        Some (ssl\<lparr>ssl_context :=
                                                SSL_CTX_use_PrivateKey lib (ssl_context ssl) pkey\<rparr>))) } }))"

definition cass_ssl_set_private_key ::
    "('c, 's, 'x, 'k) OpenSSL \<Rightarrow> ('c, 's) CassSsl c_ptr \<Rightarrow> c_chars \<Rightarrow> c_chars \<Rightarrow>
     (CassError \<times> ('c, 's) CassSsl c_ptr) panics" where
  "cass_ssl_set_private_key lib ssl key password =
     (if password = None then Some (CASS_ERROR_SSL_INVALID_PRIVATE_KEY, ssl)
      else (let (key, key_length) = as_len_delimited key
            in cass_ssl_set_private_key_n lib ssl key key_length password 0))"

subsection \<open>What is assumed of OpenSSL\<close>

text \<open>
  Without \<open>SSL_VERIFY_PEER\<close> a client goes on whatever the verification finds.  With it, a step of the
  verification must succeed, or the callback must answer \<open>1\<close> for it.
\<close>

definition step_passes :: "verify_callback option \<Rightarrow> 32 word \<Rightarrow> bool" where
  "step_passes callback result =
     (case callback of
        None \<Rightarrow> result = X509_V_OK
      | Some f \<Rightarrow> fst (f (if result = X509_V_OK then 1 else 0) result) = 1)"

definition verifies_as_documented :: "('c, 's, 'x, 'k) OpenSSL \<Rightarrow> bool" where
  "verifies_as_documented lib \<longleftrightarrow>
     (\<forall>ctx mode callback results.
        handshake_accepts lib (SSL_CTX_set_verify lib ctx mode callback) results \<longleftrightarrow>
        mode = SslVerifyMode_NONE \<or> list_all (step_passes callback) results)"

text \<open>Reading a certificate uses up the text of it.\<close>

definition reading_consumes :: "('c, 's, 'x, 'k) OpenSSL \<Rightarrow> bool" where
  "reading_consumes lib \<longleftrightarrow>
     (\<forall>bio callback x rest. PEM_read_bio_X509 lib bio callback = (Some x, rest) \<longrightarrow> length rest < length bio)"

definition returns_zero_or_one :: "('c, 's, 'x, 'k) OpenSSL \<Rightarrow> bool" where
  "returns_zero_or_one lib \<longleftrightarrow> (\<forall>ctx x. fst (SSL_CTX_use_certificate lib ctx x) \<in> {0, 1})"

subsection \<open>Specifications\<close>

text \<open>What a set of flags asks for, as the C header describes it.\<close>

datatype verification = Verify_Nothing | Verify_Certificate | Verify_Identity

definition requested_verification :: "32 word \<Rightarrow> verification" where
  "requested_verification flags =
     (if flags = 0 then Verify_Nothing
      else if flags = CASS_SSL_VERIFY_PEER_CERT then Verify_Certificate
      else Verify_Identity)"

fun verification_passes :: "verification \<Rightarrow> 32 word list \<Rightarrow> bool" where
  "verification_passes Verify_Nothing results = True"
| "verification_passes Verify_Certificate results =
     list_all (\<lambda>e. e \<in> {X509_V_OK, X509_V_ERR_HOSTNAME_MISMATCH, X509_V_ERR_EMAIL_MISMATCH,
                        X509_V_ERR_IP_ADDRESS_MISMATCH}) results"
| "verification_passes Verify_Identity results = list_all (\<lambda>e. e = X509_V_OK) results"

text \<open>The certificates in a text, and adding them until one is refused.\<close>

fun pem_certs :: "('c, 's, 'x, 'k) OpenSSL \<Rightarrow> nat \<Rightarrow> string \<Rightarrow> 'x list" where
  "pem_certs lib 0 bio = []"
| "pem_certs lib (Suc n) bio =
     (case PEM_read_bio_X509 lib bio (pem_password_callback None) of
        (None, _) \<Rightarrow> []
      | (Some x, rest) \<Rightarrow> x # pem_certs lib n rest)"

fun add_to_chain :: "('c, 's, 'x, 'k) OpenSSL \<Rightarrow> 'c \<Rightarrow> 'x list \<Rightarrow> 'c" where
  "add_to_chain lib ctx [] = ctx"
| "add_to_chain lib ctx (x # xs) =
     (case SSL_CTX_add_extra_chain_cert lib ctx x of
        (r, ctx') \<Rightarrow> if r = 0 then ctx' else add_to_chain lib ctx' xs)"

section \<open>Lemmas\<close>

subsection \<open>Flags\<close>

lemma known_flags: "CASS_SSL_VERIFY_KNOWN_FLAGS = 7"
  by (simp add: CASS_SSL_VERIFY_KNOWN_FLAGS_def)

lemma no_unknown_flags:
  fixes w :: "32 word"
  assumes "w AND NOT 7 = 0"
  shows "w \<in> {0, 1, 2, 3, 4, 5, 6, 7}"
proof -
  have "w = (w AND 7) OR (w AND NOT 7)"
    by (simp flip: bit.conj_disj_distrib)
  then have "w AND 7 = w"
    using assms by simp
  moreover have "w AND 7 \<le> 7"
    by (rule word_and_le1)
  ultimately have "unat w \<le> 7"
    by (simp add: word_le_nat_alt)
  then have "unat w \<in> {0, 1, 2, 3, 4, 5, 6, 7}"
    by auto
  then show ?thesis
    by (elim insertE emptyE; simp add: word_unat_eq_iff)
qed

lemma verify_settings_of_request:
  "verify_settings flags =
     (case requested_verification flags of
        Verify_Nothing \<Rightarrow> (SslVerifyMode_NONE, None)
      | Verify_Certificate \<Rightarrow> (SslVerifyMode_PEER, Some verify_peer_cert_callback)
      | Verify_Identity \<Rightarrow> (SslVerifyMode_PEER, None))"
proof (cases "flags AND NOT 7 = 0")
  case True
  then have "flags \<in> {0, 1, 2, 3, 4, 5, 6, 7}"
    by (rule no_unknown_flags)
  then show ?thesis
    by (auto simp: verify_settings_def requested_verification_def known_flags)
next
  case False
  then have "flags \<noteq> 0" "flags \<noteq> 1"
    by auto
  with False show ?thesis
    by (simp add: verify_settings_def requested_verification_def known_flags)
qed

lemma step_passes_without_callback: "step_passes None = (\<lambda>e. e = X509_V_OK)"
  by (simp add: step_passes_def fun_eq_iff)

lemma step_passes_chain_only:
  "step_passes (Some verify_peer_cert_callback) =
     (\<lambda>e. e \<in> {X509_V_OK, X509_V_ERR_HOSTNAME_MISMATCH, X509_V_ERR_EMAIL_MISMATCH,
                X509_V_ERR_IP_ADDRESS_MISMATCH})"
  by (auto simp: step_passes_def verify_peer_cert_callback_def fun_eq_iff)

lemma requested_verification_or:
  assumes "requested_verification (f OR g) = v" "v \<noteq> Verify_Identity"
  shows "requested_verification f = Verify_Nothing \<or> requested_verification f = v"
proof (cases "f OR g = 0")
  case True
  then show ?thesis
    by (simp add: requested_verification_def or_eq_0_iff)
next
  case False
  with assms have *: "f OR g = 1" and v: "v = Verify_Certificate"
    by (auto simp: requested_verification_def split: if_splits)
  have "f AND NOT 7 = (f AND (f OR g)) AND NOT 7"
    by simp
  also have "\<dots> = 0"
    unfolding * by (simp add: and.assoc)
  finally have "f \<in> {0, 1, 2, 3, 4, 5, 6, 7}"
    by (rule no_unknown_flags)
  moreover have "f AND 1 = f"
    using arg_cong [OF *, of "\<lambda>x. f AND x"] by simp
  ultimately show ?thesis
    by (auto simp: requested_verification_def v)
qed

lemma more_flags_pass_less:
  assumes "verification_passes (requested_verification (f OR g)) results"
  shows "verification_passes (requested_verification f) results"
proof -
  have identity: "verification_passes v results" if "list_all (\<lambda>e. e = X509_V_OK) results" for v
    using that by (cases v) (auto simp: list_all_iff)
  show ?thesis
    using assms requested_verification_or [of f g, OF refl] identity
    by (cases "requested_verification (f OR g)") auto
qed

subsection \<open>Certificates\<close>

text \<open>The loop ends, and does what adding the certificates one after the other does.\<close>

lemma chain_loop_returns:
  assumes "reading_consumes lib"
  shows "length bio \<le> n \<Longrightarrow> chain_loop lib ctx bio = Some (0, add_to_chain lib ctx (pem_certs lib n bio))"
proof (induction n arbitrary: bio ctx)
  case 0
  then have "PEM_read_bio_X509 lib bio (pem_password_callback None) \<noteq> (Some x, rest)" for x rest
    using assms unfolding reading_consumes_def by fastforce
  then show ?case
    by (subst chain_loop.simps) (auto split: prod.split option.split)
next
  case (Suc n)
  have "chain_loop lib ctx' rest = Some (0, add_to_chain lib ctx' (pem_certs lib n rest))"
    if "PEM_read_bio_X509 lib bio (pem_password_callback None) = (Some x, rest)" for x rest ctx'
  proof (rule Suc.IH)
    have "length rest < length bio"
      using assms that unfolding reading_consumes_def by blast
    then show "length rest \<le> n"
      using Suc.prems by simp
  qed
  then show ?case
    by (subst chain_loop.simps) (auto split: prod.split option.split)
qed

lemma use_chain_accepted:
  assumes "PEM_read_bio_X509 lib bio (pem_password_callback None) = (Some x, rest)"
    and "SSL_CTX_use_certificate lib ctx x = (1, ctx')"
  shows "SSL_CTX_use_certificate_chain_bio lib ctx bio = Some (1, ctx')"
  using assms by (simp add: SSL_CTX_use_certificate_chain_bio_def)

lemma use_chain_refused:
  assumes "reading_consumes lib"
    and "PEM_read_bio_X509 lib bio (pem_password_callback None) = (Some x, rest)"
    and "SSL_CTX_use_certificate lib ctx x = (0, ctx')"
  shows "SSL_CTX_use_certificate_chain_bio lib ctx bio =
     Some (0, add_to_chain lib ctx' (pem_certs lib (length rest) rest))"
  using assms by (simp add: SSL_CTX_use_certificate_chain_bio_def chain_loop_returns)

text \<open>
  A password that does not fit the buffer: what is copied is the beginning of it, the returned length is
  the one of the whole password.
\<close>

lemma long_passwords_are_cut:
  assumes "password = Some mem" "0 < sint sz" "nat (sint sz) < strlen password" "strlen password < 2 ^ 31"
  shows "\<exists>n buf. pem_password_callback password sz = Some (n, buf) \<and> int (length buf) = sint sz \<and> sint sz < sint n"
proof -
  have "strlen password \<le> length mem"
    using assms(1) by (simp add: strlen_def cstr_content_def length_takeWhile_le)
  moreover have "sint (word_of_nat (strlen password) :: 32 word) = int (strlen password)"
    using assms(4) by (simp add: signed_of_nat signed_take_bit_int_eq_self)
  ultimately show ?thesis
    using assms by (auto simp: pem_password_callback_def Let_def)
qed

section \<open>Properties\<close>

text \<open>
  Property C39: the flags of \<open>cass_ssl_set_verify_flags\<close> are a set.  No flag asks for nothing,
  \<open>CASS_SSL_VERIFY_PEER_CERT\<close> alone for a valid certificate whatever its name, every other set of flags,
  one with unknown flags included, for a valid certificate with the right name; a handshake accepts a
  peer exactly when it passes what the last flags ask for.  A new context asks for a valid certificate.
  Adding flags never makes a handshake accept more.
\<close>

theorem tls_verification_follows_the_flags:
  assumes "verifies_as_documented lib"
  shows "(\<exists>ssl'. cass_ssl_set_verify_flags lib (Some ssl) flags = Some ssl' \<and>
            trusted_store ssl' = trusted_store ssl \<and>
            handshake_accepts lib (ssl_context ssl') results =
            verification_passes (requested_verification flags) results) \<and>
         (\<exists>ssl'. cass_ssl_new_no_lib_init lib = Some ssl' \<and>
            handshake_accepts lib (ssl_context ssl') results = verification_passes Verify_Certificate results) \<and>
         (verification_passes (requested_verification (flags OR other_flags)) results \<longrightarrow>
            verification_passes (requested_verification flags) results)"
proof (intro conjI impI)
  have accepts: "handshake_accepts lib (SSL_CTX_set_verify lib ctx mode callback) results \<longleftrightarrow>
      mode = SslVerifyMode_NONE \<or> list_all (step_passes callback) results" for ctx mode callback
    using assms unfolding verifies_as_documented_def by blast
  show "\<exists>ssl'. cass_ssl_set_verify_flags lib (Some ssl) flags = Some ssl' \<and>
      trusted_store ssl' = trusted_store ssl \<and>
      handshake_accepts lib (ssl_context ssl') results = verification_passes (requested_verification flags) results"
    by (cases "requested_verification flags")
      (simp_all add: cass_ssl_set_verify_flags_def verify_settings_of_request accepts
        step_passes_without_callback step_passes_chain_only)
  show "\<exists>ssl'. cass_ssl_new_no_lib_init lib = Some ssl' \<and>
      handshake_accepts lib (ssl_context ssl') results = verification_passes Verify_Certificate results"
    by (simp add: cass_ssl_new_no_lib_init_def accepts step_passes_chain_only)
next
  assume "verification_passes (requested_verification (flags OR other_flags)) results"
  then show "verification_passes (requested_verification flags) results"
    by (rule more_flags_pass_less)
qed

text \<open>A library whose certificates and keys are characters, and whose contexts remember what they are given.\<close>

definition demo_openssl ::
    "((32 word \<times> verify_callback option) \<times> string \<times> string, string, char, char) OpenSSL" where
  "demo_openssl =
     \<lparr>SSL_CTX_new = ((0, None), [], []), X509_STORE_new = [],
      SSL_CTX_set_cert_store = (\<lambda>ctx store. ctx),
      SSL_CTX_set_verify = (\<lambda>ctx mode callback. ((mode, callback), snd ctx)),
      handshake_accepts = (\<lambda>ctx results. fst (fst ctx) = 0 \<or> list_all (step_passes (snd (fst ctx))) results),
      BIO_new_mem_buf = Some,
      PEM_read_bio_X509 = (\<lambda>bio callback. case bio of [] \<Rightarrow> (None, []) | c # cs \<Rightarrow> (Some c, cs)),
      PEM_read_bio_PrivateKey = (\<lambda>bio callback. Some (case bio of [] \<Rightarrow> None | c # cs \<Rightarrow> Some c)),
      X509_STORE_add_cert = (\<lambda>store x. store @ [x]),
      SSL_CTX_use_certificate =
        (\<lambda>ctx x. if x = CHR 0x78 then (0, ctx) else (1, (fst ctx, [x], snd (snd ctx)))),
      SSL_CTX_add_extra_chain_cert = (\<lambda>ctx x. (1, (fst ctx, fst (snd ctx), snd (snd ctx) @ [x]))),
      SSL_CTX_use_PrivateKey = (\<lambda>ctx k. ctx)\<rparr>"

theorem tls_verification_follows_the_flags_witness:
  "\<exists>ssl'. cass_ssl_set_verify_flags demo_openssl (cass_ssl_new_no_lib_init demo_openssl) 3 = Some ssl' \<and>
     \<not> handshake_accepts demo_openssl (ssl_context ssl') [0, 64] \<and>
     handshake_accepts demo_openssl (ssl_context ssl') [0, 0]"
proof -
  have law: "verifies_as_documented demo_openssl"
    by (simp add: verifies_as_documented_def demo_openssl_def)
  obtain ssl where ssl: "cass_ssl_new_no_lib_init demo_openssl = Some ssl"
    by (simp add: cass_ssl_new_no_lib_init_def)
  show ?thesis
    using tls_verification_follows_the_flags [OF law, of ssl 3 "[0, 64]" 0]
      tls_verification_follows_the_flags [OF law, of ssl 3 "[0, 0]" 0]
    by (auto simp: ssl requested_verification_def)
qed

text \<open>
  Property C40: \<open>cass_ssl_set_cert_n\<close> always returns.  When OpenSSL accepts the first certificate of the
  text the call succeeds, and the certificates after it, the chain of the client, are not added to the
  context.  They are added when the first one is refused, and then the call fails.
\<close>

theorem only_the_first_certificate_is_used:
  assumes "reading_consumes lib" and "returns_zero_or_one lib"
    and "CassStrLenDelimited_to_str cert cert_length = Inr cert_str" and "length cert_str < 2 ^ 31"
    and "BIO_new_mem_buf lib cert_str = Some bio"
    and "PEM_read_bio_X509 lib bio (pem_password_callback None) = (Some x, rest)"
    and "SSL_CTX_use_certificate lib (ssl_context ssl) x = (ret, ctx)"
  shows "cass_ssl_set_cert_n lib (Some ssl) cert cert_length =
     Some (if ret = 1
           then (CASS_OK, Some (ssl\<lparr>ssl_context := ctx\<rparr>))
           else (CASS_ERROR_SSL_INVALID_CERT,
                 Some (ssl\<lparr>ssl_context := add_to_chain lib ctx (pem_certs lib (length rest) rest)\<rparr>)))"
proof -
  have "fst (SSL_CTX_use_certificate lib (ssl_context ssl) x) \<in> {0, 1}"
    using assms(2) unfolding returns_zero_or_one_def by blast
  then have "ret = 0 \<or> ret = 1"
    by (simp add: assms(7))
  then show ?thesis
  proof
    assume "ret = 0"
    then show ?thesis
      using assms(3-) use_chain_refused [OF assms(1), OF assms(6), of "ssl_context ssl" ctx]
      by (simp add: cass_ssl_set_cert_n_def new_mem_buf_def)
  next
    assume "ret = 1"
    then show ?thesis
      using assms(3-) use_chain_accepted [OF assms(6), of "ssl_context ssl" ctx]
      by (simp add: cass_ssl_set_cert_n_def new_mem_buf_def)
  qed
qed

theorem only_the_first_certificate_is_used_witness:
  "cass_ssl_set_cert_n demo_openssl (Some \<lparr>ssl_context = ((1, None), [], []), trusted_store = []\<rparr>) (Some ''abc'') 3 =
     Some (CASS_OK, Some \<lparr>ssl_context = ((1, None), ''a'', []), trusted_store = []\<rparr>) \<and>
   cass_ssl_set_cert_n demo_openssl (Some \<lparr>ssl_context = ((1, None), [], []), trusted_store = []\<rparr>) (Some ''xbc'') 3 =
     Some (CASS_ERROR_SSL_INVALID_CERT, Some \<lparr>ssl_context = ((1, None), [], ''bc''), trusted_store = []\<rparr>)"
proof -
  have laws: "reading_consumes demo_openssl" "returns_zero_or_one demo_openssl"
    by (auto simp: reading_consumes_def returns_zero_or_one_def demo_openssl_def split: list.splits)
  have str: "CassStrLenDelimited_to_str (Some ''abc'') 3 = Inr ''abc''"
    "CassStrLenDelimited_to_str (Some ''xbc'') 3 = Inr ''xbc''"
    by code_simp+
  show ?thesis
    using only_the_first_certificate_is_used [OF laws str(1),
        of "''abc''" "CHR ''a''" "''bc''" "\<lparr>ssl_context = ((1, None), [], []), trusted_store = []\<rparr>"
           1 "((1, None), ''a'', [])"]
      only_the_first_certificate_is_used [OF laws str(2),
        of "''xbc''" "CHR ''x''" "''bc''" "\<lparr>ssl_context = ((1, None), [], []), trusted_store = []\<rparr>"
           0 "((1, None), [], [])"]
    by (simp add: demo_openssl_def)
qed

end
