(* ===== verification/Cass_Ownership.thy ===== *)
theory Cass_Ownership
  imports Cass_Prelude "HOL-Library.Multiset"
begin

text \<open>
  The pointers of \<open>argconv.rs\<close> over an explicit store: \<open>CassPtr\<close>, \<open>BoxFFI\<close>, \<open>ArcFFI\<close>, \<open>RefFFI\<close>, and with them
  the destructors of the C API.

  The store maps addresses to live allocations, a \<open>Box\<close> or an \<open>Arc\<close> with its count.  What is in an
  allocation is a value of a type \<open>'v\<close>; \<open>kids v\<close> are the \<open>Arc\<close>s that the value holds, which are dropped with
  it.  Using an address that is not live, or not live in the way the operation needs, is undefined
  behaviour: the operation has no result.  The second part is a client of the C API: the calls it may
  make, and the proof that none of them is undefined.
\<close>

type_synonym 'a ub = "'a option"

type_synonym addr = nat

datatype 'v cell = Boxed (payload: 'v) | Arced nat (payload: 'v)

type_synonym 'v heap = "addr \<rightharpoonup> 'v cell"

subsection \<open>What the standard library does\<close>

text \<open>
  Dropping a list of \<open>Arc\<close>s, one after the other: the last one takes the value with it, and the \<open>Arc\<close>s in
  the value before the rest of the list.
\<close>

partial_function (option) drop_arcs :: "('v \<Rightarrow> addr list) \<Rightarrow> 'v heap \<Rightarrow> addr list \<Rightarrow> 'v heap ub" where
  "drop_arcs kids h as =
     (case as of
        [] \<Rightarrow> Some h
      | a # as \<Rightarrow>
          (case h a of
             Some (Arced (Suc n) v) \<Rightarrow>
               if n = 0 then drop_arcs kids (h(a := None)) (kids v @ as)
               else drop_arcs kids (h(a \<mapsto> Arced n v)) as
           | _ \<Rightarrow> None))"

definition drop_box :: "('v \<Rightarrow> addr list) \<Rightarrow> 'v heap \<Rightarrow> addr \<Rightarrow> 'v heap ub" where
  "drop_box kids h a =
     (case h a of Some (Boxed v) \<Rightarrow> drop_arcs kids (h(a := None)) (kids v) | _ \<Rightarrow> None)"

definition increment_strong_count :: "'v heap \<Rightarrow> addr \<Rightarrow> 'v heap ub" where
  "increment_strong_count h a =
     (case h a of Some (Arced n v) \<Rightarrow> Some (h(a \<mapsto> Arced (Suc n) v)) | _ \<Rightarrow> None)"

definition deref :: "'v heap \<Rightarrow> addr \<Rightarrow> 'v ub" where
  "deref h a = map_option payload (h a)"

text \<open>Writing through a mutable reference; an \<open>Arc\<close> keeps its count.\<close>

fun with_payload :: "'v \<Rightarrow> 'v cell \<Rightarrow> 'v cell" where
  "with_payload v (Boxed _) = Boxed v"
| "with_payload v (Arced n _) = Arced n v"

subsection \<open>Pointers\<close>

text \<open>A raw pointer is a number, zero the null pointer.  The parameters of \<open>CassPtr\<close> exist for the compiler only.\<close>

type_synonym CassPtr = "addr option"

definition CassPtr_null :: CassPtr where
  "CassPtr_null = None"

definition CassPtr_is_null :: "CassPtr \<Rightarrow> bool" where
  "CassPtr_is_null p = (p = None)"

definition CassPtr_from_raw :: "nat \<Rightarrow> CassPtr" where
  "CassPtr_from_raw raw = (if raw = 0 then None else Some raw)"

definition CassPtr_to_raw :: "CassPtr \<Rightarrow> addr option" where
  "CassPtr_to_raw p = p"

definition CassPtr_into_ref :: "'v heap \<Rightarrow> CassPtr \<Rightarrow> 'v option ub" where
  "CassPtr_into_ref h p = (case p of None \<Rightarrow> Some None | Some a \<Rightarrow> map_option Some (deref h a))"

text \<open>A mutable reference is the address to write to.\<close>

definition CassPtr_into_mut_ref :: "'v heap \<Rightarrow> CassPtr \<Rightarrow> addr option ub" where
  "CassPtr_into_mut_ref h p =
     (case p of None \<Rightarrow> Some None | Some a \<Rightarrow> (case h a of Some _ \<Rightarrow> Some (Some a) | None \<Rightarrow> None))"

definition BoxFFI_into_ptr :: "addr \<Rightarrow> CassPtr" where
  "BoxFFI_into_ptr b = CassPtr_from_raw b"

definition BoxFFI_from_ptr :: "CassPtr \<Rightarrow> addr option" where
  "BoxFFI_from_ptr p = CassPtr_to_raw p"

definition BoxFFI_as_ref :: "'v heap \<Rightarrow> CassPtr \<Rightarrow> 'v option ub" where
  "BoxFFI_as_ref h p = CassPtr_into_ref h p"

definition BoxFFI_as_mut_ref :: "'v heap \<Rightarrow> CassPtr \<Rightarrow> addr option ub" where
  "BoxFFI_as_mut_ref h p = CassPtr_into_mut_ref h p"

definition BoxFFI_free :: "('v \<Rightarrow> addr list) \<Rightarrow> 'v heap \<Rightarrow> CassPtr \<Rightarrow> 'v heap ub" where
  "BoxFFI_free kids h p = (case BoxFFI_from_ptr p of None \<Rightarrow> Some h | Some b \<Rightarrow> drop_box kids h b)"

definition ArcFFI_as_ptr :: "addr \<Rightarrow> CassPtr" where
  "ArcFFI_as_ptr arc = CassPtr_from_raw arc"

definition ArcFFI_into_ptr :: "addr \<Rightarrow> CassPtr" where
  "ArcFFI_into_ptr arc = CassPtr_from_raw arc"

definition ArcFFI_from_ptr :: "CassPtr \<Rightarrow> addr option" where
  "ArcFFI_from_ptr p = CassPtr_to_raw p"

definition ArcFFI_cloned_from_ptr :: "'v heap \<Rightarrow> CassPtr \<Rightarrow> ('v heap \<times> addr option) ub" where
  "ArcFFI_cloned_from_ptr h p =
     (case CassPtr_to_raw p of
        None \<Rightarrow> Some (h, None)
      | Some a \<Rightarrow> map_option (\<lambda>h'. (h', Some a)) (increment_strong_count h a))"

definition ArcFFI_as_ref :: "'v heap \<Rightarrow> CassPtr \<Rightarrow> 'v option ub" where
  "ArcFFI_as_ref h p = CassPtr_into_ref h p"

definition ArcFFI_free :: "('v \<Rightarrow> addr list) \<Rightarrow> 'v heap \<Rightarrow> CassPtr \<Rightarrow> 'v heap ub" where
  "ArcFFI_free kids h p = (case ArcFFI_from_ptr p of None \<Rightarrow> Some h | Some arc \<Rightarrow> drop_arcs kids h [arc])"

text \<open>
  A weak reference can be upgraded while an \<open>Arc\<close> is live; the upgraded one is dropped at once, so the
  count stays as it is.
\<close>

definition RefFFI_weak_as_ptr :: "'v heap \<Rightarrow> addr \<Rightarrow> CassPtr" where
  "RefFFI_weak_as_ptr h w = (case h w of Some (Arced (Suc n) v) \<Rightarrow> CassPtr_from_raw w | _ \<Rightarrow> CassPtr_null)"

subsection \<open>Which objects of the C API are boxes\<close>

datatype Origin = FromBox | FromArc

datatype cass_object =
    O_Iterator | O_Result | O_SchemaMeta | O_Cluster | O_TimestampGen | O_Future | O_Tuple | O_Vector
  | O_DataType | O_Collection | O_UserType | O_UuidGen | O_Ssl | O_ExecProfile | O_RetryPolicy | O_Session
  | O_Batch | O_Statement | O_Prepared | O_ErrorResult

fun FFI_Origin :: "cass_object \<Rightarrow> Origin" where
  "FFI_Origin O_Iterator = FromBox"
| "FFI_Origin O_Result = FromArc"
| "FFI_Origin O_SchemaMeta = FromBox"
| "FFI_Origin O_Cluster = FromBox"
| "FFI_Origin O_TimestampGen = FromBox"
| "FFI_Origin O_Future = FromArc"
| "FFI_Origin O_Tuple = FromBox"
| "FFI_Origin O_Vector = FromBox"
| "FFI_Origin O_DataType = FromArc"
| "FFI_Origin O_Collection = FromBox"
| "FFI_Origin O_UserType = FromBox"
| "FFI_Origin O_UuidGen = FromBox"
| "FFI_Origin O_Ssl = FromArc"
| "FFI_Origin O_ExecProfile = FromBox"
| "FFI_Origin O_RetryPolicy = FromArc"
| "FFI_Origin O_Session = FromArc"
| "FFI_Origin O_Batch = FromBox"
| "FFI_Origin O_Statement = FromBox"
| "FFI_Origin O_Prepared = FromArc"
| "FFI_Origin O_ErrorResult = FromArc"

text \<open>The destructors \<open>cass_<object>_free\<close>; the one of a session closes it first (\<open>Cass_Session\<close>).\<close>

definition cass_free :: "('v \<Rightarrow> addr list) \<Rightarrow> cass_object \<Rightarrow> 'v heap \<Rightarrow> CassPtr \<Rightarrow> 'v heap ub" where
  "cass_free kids ty h p = (case FFI_Origin ty of FromBox \<Rightarrow> BoxFFI_free kids h p | FromArc \<Rightarrow> ArcFFI_free kids h p)"

subsection \<open>A client of the C API\<close>

text \<open>
  A client has a pointer for every object it owns, once for each time it was handed one.  A call may
  \<^item> create an object from \<open>Arc\<close>s of other objects (for instance a statement from a prepared statement);
  \<^item> change an object, which may then hold other \<open>Arc\<close>s (\<open>cass_data_type_add_sub_type\<close>, and most setters);
  \<^item> get an \<open>Arc\<close> out of an object (\<open>cass_future_get_result\<close>);
  \<^item> look at an object;
  \<^item> free an object.

  The address of a new object is any that is not in use.
\<close>

record 'v ffi_state =
  store :: "'v heap"
  c_boxes :: "addr multiset"
  c_arcs :: "addr multiset"

datatype 'v api_call =
    New cass_object addr 'v
  | Change addr 'v
  | Get addr addr
  | Look addr
  | Free cass_object CassPtr

fun clone_arcs :: "'v heap \<Rightarrow> addr list \<Rightarrow> 'v heap ub" where
  "clone_arcs h [] = Some h"
| "clone_arcs h (a # as) =
     (case ArcFFI_cloned_from_ptr h (Some a) of Some (h', _) \<Rightarrow> clone_arcs h' as | None \<Rightarrow> None)"

fun ffi_call :: "('v \<Rightarrow> addr list) \<Rightarrow> 'v api_call \<Rightarrow> 'v ffi_state \<Rightarrow> 'v ffi_state ub" where
  "ffi_call kids (New ty a v) s =
     do { h \<leftarrow> clone_arcs (store s) (kids v);
          Some (case FFI_Origin ty of
                  FromBox \<Rightarrow> s\<lparr>store := h(a \<mapsto> Boxed v), c_boxes := add_mset a (c_boxes s)\<rparr>
                | FromArc \<Rightarrow> s\<lparr>store := h(a \<mapsto> Arced 1 v), c_arcs := add_mset a (c_arcs s)\<rparr>) }"
| "ffi_call kids (Change a v) s =
     do { old \<leftarrow> deref (store s) a;
          h \<leftarrow> clone_arcs (store s) (kids v);
          r \<leftarrow> CassPtr_into_mut_ref h (Some a);
          h' \<leftarrow> drop_arcs kids (h(a := map_option (with_payload v) (h a))) (kids old);
          Some (s\<lparr>store := h'\<rparr>) }"
| "ffi_call kids (Get b a) s =
     do { r \<leftarrow> CassPtr_into_ref (store s) (Some b);
          (h, _) \<leftarrow> ArcFFI_cloned_from_ptr (store s) (Some a);
          Some (s\<lparr>store := h, c_arcs := add_mset a (c_arcs s)\<rparr>) }"
| "ffi_call kids (Look a) s = do { r \<leftarrow> CassPtr_into_ref (store s) (Some a); Some s }"
| "ffi_call kids (Free ty p) s =
     do { h \<leftarrow> cass_free kids ty (store s) p;
          Some (case p of
                  None \<Rightarrow> s
                | Some a \<Rightarrow>
                    (case FFI_Origin ty of
                       FromBox \<Rightarrow> s\<lparr>store := h, c_boxes := c_boxes s - {#a#}\<rparr>
                     | FromArc \<Rightarrow> s\<lparr>store := h, c_arcs := c_arcs s - {#a#}\<rparr>)) }"

definition held_by :: "('v \<Rightarrow> addr list) \<Rightarrow> 'v heap \<Rightarrow> addr \<Rightarrow> addr list" where
  "held_by kids h b = (case h b of None \<Rightarrow> [] | Some c \<Rightarrow> kids (payload c))"

definition c_owns :: "'v ffi_state \<Rightarrow> addr \<Rightarrow> bool" where
  "c_owns s a \<longleftrightarrow> a \<in># c_boxes s \<or> a \<in># c_arcs s"

text \<open>
  What a client may do: it uses pointers that it owns, or that are held by an object it owns, and frees
  each pointer with the function of its type.
\<close>

definition may_share :: "('v \<Rightarrow> addr list) \<Rightarrow> 'v ffi_state \<Rightarrow> addr \<Rightarrow> bool" where
  "may_share kids s a \<longleftrightarrow>
     a \<in># c_arcs s \<or> (\<exists>b \<in># c_boxes s + c_arcs s. a \<in> set (held_by kids (store s) b))"

fun allowed :: "('v \<Rightarrow> addr list) \<Rightarrow> 'v api_call \<Rightarrow> 'v ffi_state \<Rightarrow> bool" where
  "allowed kids (New ty a v) s \<longleftrightarrow> a \<noteq> 0 \<and> store s a = None \<and> list_all (may_share kids s) (kids v)"
| "allowed kids (Change a v) s \<longleftrightarrow>
     c_owns s a \<and> list_all (may_share kids s) (kids v)"
| "allowed kids (Get b a) s \<longleftrightarrow> c_owns s b \<and> a \<in> set (held_by kids (store s) b)"
| "allowed kids (Look a) s \<longleftrightarrow> c_owns s a"
| "allowed kids (Free ty p) s \<longleftrightarrow>
     (case p of
        None \<Rightarrow> True
      | Some a \<Rightarrow> (case FFI_Origin ty of FromBox \<Rightarrow> a \<in># c_boxes s | FromArc \<Rightarrow> a \<in># c_arcs s))"

inductive ffi_step :: "('v \<Rightarrow> addr list) \<Rightarrow> 'v ffi_state ub \<Rightarrow> 'v ffi_state ub \<Rightarrow> bool" for kids where
  "allowed kids c s \<Longrightarrow> ffi_step kids (Some s) (ffi_call kids c s)"

text \<open>A list of calls that a client makes one after the other.\<close>

fun ffi_run :: "('v \<Rightarrow> addr list) \<Rightarrow> 'v api_call list \<Rightarrow> 'v ffi_state \<Rightarrow> 'v ffi_state ub" where
  "ffi_run kids [] s = Some s"
| "ffi_run kids (c # cs) s =
     (if allowed kids c s then (case ffi_call kids c s of Some s' \<Rightarrow> ffi_run kids cs s' | None \<Rightarrow> None) else None)"

definition ffi_start :: "'v ffi_state" where
  "ffi_start = \<lparr>store = Map.empty, c_boxes = {#}, c_arcs = {#}\<rparr>"

section \<open>Lemmas\<close>

lemma c_owns_iff: "c_owns s a \<longleftrightarrow> a \<in># c_boxes s + c_arcs s"
  by (simp add: c_owns_def)

lemma from_raw_of_live: "a \<noteq> 0 \<Longrightarrow> BoxFFI_into_ptr a = Some a \<and> ArcFFI_into_ptr a = Some a"
  by (simp add: BoxFFI_into_ptr_def ArcFFI_into_ptr_def CassPtr_from_raw_def)

subsection \<open>Counting\<close>

text \<open>All the \<open>Arc\<close>s that live values hold.\<close>

definition held :: "('v \<Rightarrow> addr list) \<Rightarrow> 'v heap \<Rightarrow> addr multiset" where
  "held kids h = (\<Sum>b\<in>dom h. mset (held_by kids h b))"

lemma held_empty: "held kids Map.empty = {#}"
  by (simp add: held_def)

lemma held_remove:
  assumes "finite (dom h)" "h a = Some c"
  shows "held kids h = held kids (h(a := None)) + mset (kids (payload c))"
proof -
  have "held kids h = mset (held_by kids h a) + (\<Sum>b\<in>dom h - {a}. mset (held_by kids h b))"
    unfolding held_def using assms by (intro sum.remove) auto
  moreover have "(\<Sum>b\<in>dom h - {a}. mset (held_by kids h b)) = held kids (h(a := None))"
    unfolding held_def by (intro sum.cong) (auto simp: held_by_def)
  ultimately show ?thesis
    using assms by (simp add: held_by_def)
qed

lemma held_insert:
  assumes "finite (dom h)" "h a = None"
  shows "held kids (h(a \<mapsto> c)) = held kids h + mset (kids (payload c))"
proof -
  have *: "(h(a \<mapsto> c))(a := None) = h"
    using assms(2) by (simp add: fun_upd_idem)
  have "finite (dom (h(a \<mapsto> c)))" "(h(a \<mapsto> c)) a = Some c"
    using assms(1) by simp_all
  from held_remove [OF this, of kids] show ?thesis
    unfolding * .
qed

lemma held_replace:
  assumes "finite (dom h)" "h a = Some c"
  shows "held kids (h(a \<mapsto> c')) + mset (kids (payload c)) = held kids h + mset (kids (payload c'))"
proof -
  have *: "(h(a \<mapsto> c'))(a := None) = h(a := None)"
    by simp
  have "finite (dom (h(a \<mapsto> c')))" "(h(a \<mapsto> c')) a = Some c'"
    using assms(1) by simp_all
  from held_remove [OF this, of kids]
  have "held kids (h(a \<mapsto> c')) = held kids (h(a := None)) + mset (kids (payload c'))"
    unfolding * .
  then show ?thesis
    using held_remove [OF assms, of kids] by (simp add: ac_simps)
qed

lemma held_same_payload:
  assumes "finite (dom h)" "h a = Some c" "payload c' = payload c"
  shows "held kids (h(a \<mapsto> c')) = held kids h"
  using held_replace [OF assms(1,2), of kids c'] assms(3) by simp

lemma in_held: "a \<in> set (held_by kids h b) \<Longrightarrow> finite (dom h) \<Longrightarrow> a \<in># held kids h"
proof -
  assume *: "a \<in> set (held_by kids h b)" and fin: "finite (dom h)"
  then obtain c where "h b = Some c" "a \<in> set (kids (payload c))"
    by (cases "h b") (auto simp: held_by_def)
  then show "a \<in># held kids h"
    using held_remove [OF fin, of b c kids] by simp
qed

text \<open>
  The store is right for a multiset of boxes and a multiset of \<open>Arc\<close>s outside of it: a box has one owner,
  and the count of an \<open>Arc\<close> is the number of times it is there, outside and inside.
\<close>

fun cell_ok :: "'v cell option \<Rightarrow> nat \<Rightarrow> nat \<Rightarrow> bool" where
  "cell_ok None owners refs \<longleftrightarrow> owners = 0 \<and> refs = 0"
| "cell_ok (Some (Boxed v)) owners refs \<longleftrightarrow> owners = 1 \<and> refs = 0"
| "cell_ok (Some (Arced n v)) owners refs \<longleftrightarrow> owners = 0 \<and> refs = n \<and> 0 < n"

definition counted :: "('v \<Rightarrow> addr list) \<Rightarrow> 'v heap \<Rightarrow> addr multiset \<Rightarrow> addr multiset \<Rightarrow> bool" where
  "counted kids h boxes arcs \<longleftrightarrow>
     finite (dom h) \<and> (\<forall>a. cell_ok (h a) (count boxes a) (count (arcs + held kids h) a))"

lemma counted_finite: "counted kids h boxes arcs \<Longrightarrow> finite (dom h)"
  by (simp add: counted_def)

lemma counted_at:
  "counted kids h boxes arcs \<Longrightarrow> cell_ok (h a) (count boxes a) (count (arcs + held kids h) a)"
  by (simp add: counted_def)

lemma counted_arc:
  assumes "counted kids h boxes arcs" "a \<in># arcs + held kids h"
  obtains n v where "h a = Some (Arced (Suc n) v)" "count (arcs + held kids h) a = Suc n" "count boxes a = 0"
proof -
  have "0 < count (arcs + held kids h) a"
    using assms(2) by simp
  with counted_at [OF assms(1), of a] obtain n v where
    "h a = Some (Arced n v)" "count (arcs + held kids h) a = n" "0 < n" "count boxes a = 0"
    by (cases "h a"; cases "the (h a)") (auto simp del: count_greater_zero_iff)
  with that show ?thesis
    by (cases n) auto
qed

lemma counted_box:
  assumes "counted kids h boxes arcs" "a \<in># boxes"
  obtains v where "h a = Some (Boxed v)" "count boxes a = 1" "count (arcs + held kids h) a = 0"
proof -
  have "0 < count boxes a"
    using assms(2) by simp
  with counted_at [OF assms(1), of a] show ?thesis
    using that by (cases "h a"; cases "the (h a)") (auto simp del: count_greater_zero_iff)
qed

text \<open>A change of one cell, when the \<open>Arc\<close>s inside and outside change together.\<close>

lemma counted_upd:
  assumes "counted kids h boxes arcs"
    and "\<And>b. b \<noteq> a \<Longrightarrow> count boxes' b = count boxes b"
    and "\<And>b. b \<noteq> a \<Longrightarrow> count (arcs' + held kids (h(a := c))) b = count (arcs + held kids h) b"
    and "cell_ok c (count boxes' a) (count (arcs' + held kids (h(a := c))) a)"
  shows "counted kids (h(a := c)) boxes' arcs'"
proof -
  have "finite (dom (h(a := c)))"
    using counted_finite [OF assms(1)] by (cases c) auto
  moreover have "cell_ok ((h(a := c)) b) (count boxes' b) (count (arcs' + held kids (h(a := c))) b)" for b
  proof (cases "b = a")
    case True
    then show ?thesis
      using assms(4) by simp
  next
    case False
    then show ?thesis
      using counted_at [OF assms(1), of b] assms(2) [OF False] assms(3) [OF False] by simp
  qed
  ultimately show ?thesis
    unfolding counted_def by blast
qed

lemma counted_decrement:
  assumes "counted kids h boxes (add_mset a arcs)" "h a = Some (Arced (Suc (Suc n)) v)"
  shows "counted kids (h(a \<mapsto> Arced (Suc n) v)) boxes arcs"
proof (rule counted_upd [OF assms(1)])
  have "held kids (h(a \<mapsto> Arced (Suc n) v)) = held kids h"
    by (rule held_same_payload [OF counted_finite [OF assms(1)] assms(2)]) simp
  then show "cell_ok (Some (Arced (Suc n) v)) (count boxes a)
      (count (arcs + held kids (h(a \<mapsto> Arced (Suc n) v))) a)"
    "\<And>b. b \<noteq> a \<Longrightarrow> count (arcs + held kids (h(a \<mapsto> Arced (Suc n) v))) b =
       count (add_mset a arcs + held kids h) b"
    using counted_at [OF assms(1), of a] assms(2) by simp_all
qed simp

lemma counted_increment:
  assumes "counted kids h boxes arcs" "h a = Some (Arced n v)"
  shows "counted kids (h(a \<mapsto> Arced (Suc n) v)) boxes (add_mset a arcs)"
proof (rule counted_upd [OF assms(1)])
  have "held kids (h(a \<mapsto> Arced (Suc n) v)) = held kids h"
    by (rule held_same_payload [OF counted_finite [OF assms(1)] assms(2)]) simp
  then show "cell_ok (Some (Arced (Suc n) v)) (count boxes a)
      (count (add_mset a arcs + held kids (h(a \<mapsto> Arced (Suc n) v))) a)"
    "\<And>b. b \<noteq> a \<Longrightarrow> count (add_mset a arcs + held kids (h(a \<mapsto> Arced (Suc n) v))) b =
       count (arcs + held kids h) b"
    using counted_at [OF assms(1), of a] assms(2) by simp_all
qed simp

lemma counted_last:
  assumes "counted kids h boxes (add_mset a arcs)" "h a = Some (Arced (Suc 0) v)"
  shows "counted kids (h(a := None)) boxes (mset (kids v) + arcs)"
proof (rule counted_upd [OF assms(1)])
  have "held kids h = held kids (h(a := None)) + mset (kids v)"
    using held_remove [OF counted_finite [OF assms(1)] assms(2)] by simp
  then show "cell_ok None (count boxes a) (count (mset (kids v) + arcs + held kids (h(a := None))) a)"
    "\<And>b. b \<noteq> a \<Longrightarrow> count (mset (kids v) + arcs + held kids (h(a := None))) b =
       count (add_mset a arcs + held kids h) b"
    using counted_at [OF assms(1), of a] assms(2) by simp_all
qed simp

lemma counted_unbox:
  assumes "counted kids h (add_mset a boxes) arcs" "h a = Some (Boxed v)"
  shows "counted kids (h(a := None)) boxes (arcs + mset (kids v))"
proof (rule counted_upd [OF assms(1)])
  have "held kids h = held kids (h(a := None)) + mset (kids v)"
    using held_remove [OF counted_finite [OF assms(1)] assms(2)] by simp
  then show "cell_ok None (count boxes a) (count (arcs + mset (kids v) + held kids (h(a := None))) a)"
    "\<And>b. b \<noteq> a \<Longrightarrow> count (arcs + mset (kids v) + held kids (h(a := None))) b =
       count (arcs + held kids h) b"
    using counted_at [OF assms(1), of a] assms(2) by simp_all
qed simp

lemma counted_new:
  assumes "counted kids h boxes (arcs + mset (kids v))" "h a = None"
  shows "counted kids (h(a \<mapsto> Boxed v)) (add_mset a boxes) arcs"
    and "counted kids (h(a \<mapsto> Arced 1 v)) boxes (add_mset a arcs)"
proof -
  have *: "held kids (h(a \<mapsto> c)) = held kids h + mset (kids (payload c))" for c
    by (rule held_insert [OF counted_finite [OF assms(1)] assms(2)])
  show "counted kids (h(a \<mapsto> Boxed v)) (add_mset a boxes) arcs"
    by (rule counted_upd [OF assms(1)]) (use counted_at [OF assms(1), of a] assms(2) * in simp_all)
  show "counted kids (h(a \<mapsto> Arced 1 v)) boxes (add_mset a arcs)"
    by (rule counted_upd [OF assms(1)]) (use counted_at [OF assms(1), of a] assms(2) * in simp_all)
qed

lemma payload_with [simp]: "payload (with_payload v c) = v"
  by (cases c) simp_all

lemma counted_change:
  assumes "counted kids h boxes (arcs + mset (kids v))" "h a = Some c"
  shows "counted kids (h(a \<mapsto> with_payload v c)) boxes (arcs + mset (kids (payload c)))"
proof (rule counted_upd [OF assms(1)])
  have "held kids (h(a \<mapsto> with_payload v c)) + mset (kids (payload c)) = held kids h + mset (kids v)"
    using held_replace [OF counted_finite [OF assms(1)] assms(2), of kids "with_payload v c"] by simp
  then have eq: "arcs + mset (kids (payload c)) + held kids (h(a \<mapsto> with_payload v c)) =
      arcs + mset (kids v) + held kids h"
    by (simp only: add.assoc add.commute [of "mset (kids (payload c))"] add.commute [of "mset (kids v)"])
  have "cell_ok (Some (with_payload v c)) n m = cell_ok (Some c) n m" for n m
    by (cases c) simp_all
  then show "cell_ok (Some (with_payload v c)) (count boxes a)
      (count (arcs + mset (kids (payload c)) + held kids (h(a \<mapsto> with_payload v c))) a)"
    "\<And>b. b \<noteq> a \<Longrightarrow> count (arcs + mset (kids (payload c)) + held kids (h(a \<mapsto> with_payload v c))) b =
       count (arcs + mset (kids v) + held kids h) b"
    unfolding eq using counted_at [OF assms(1), of a] assms(2) by simp_all
qed simp

subsection \<open>Dropping and cloning\<close>

text \<open>Dropping \<open>Arc\<close>s that are there always returns.\<close>

lemma drop_arcs_counted:
  assumes "counted kids h boxes (mset as + arcs)"
  shows "\<exists>h'. drop_arcs kids h as = Some h' \<and> counted kids h' boxes arcs"
  using assms
proof (induction "size (mset as + arcs + held kids h)" arbitrary: h as rule: less_induct)
  case less
  show ?case
  proof (cases as)
    case Nil
    then show ?thesis
      using less.prems by (simp add: drop_arcs.simps [of kids h "[]"])
  next
    case (Cons a as')
    then have c: "counted kids h boxes (add_mset a (mset as' + arcs))"
      using less.prems by simp
    have "a \<in># add_mset a (mset as' + arcs) + held kids h"
      by simp
    then obtain n v where a: "h a = Some (Arced (Suc n) v)"
      by (rule counted_arc [OF c])
    show ?thesis
    proof (cases n)
      case 0
      then have a0: "h a = Some (Arced (Suc 0) v)"
        using a by simp
      have unfold: "drop_arcs kids h as = drop_arcs kids (h(a := None)) (kids v @ as')"
        unfolding Cons by (subst drop_arcs.simps) (simp add: a0)
      have last: "counted kids (h(a := None)) boxes (mset (kids v @ as') + arcs)"
        using counted_last [OF c a0] by (simp only: mset_append add.assoc)
      have "held kids h = held kids (h(a := None)) + mset (kids v)"
        using held_remove [OF counted_finite [OF c] a] by simp
      then have "size (mset (kids v @ as') + arcs + held kids (h(a := None))) < size (mset as + arcs + held kids h)"
        using Cons by simp
      from less.hyps [OF this last] show ?thesis
        unfolding unfold .
    next
      case (Suc m)
      then have unfold: "drop_arcs kids h as = drop_arcs kids (h(a \<mapsto> Arced n v)) as'"
        unfolding Cons by (subst drop_arcs.simps) (simp add: a)
      have dec: "counted kids (h(a \<mapsto> Arced n v)) boxes (mset as' + arcs)"
        using counted_decrement [OF c, of m v] a Suc by simp
      have "held kids (h(a \<mapsto> Arced n v)) = held kids h"
        by (rule held_same_payload [OF counted_finite [OF c] a]) simp
      then have "size (mset as' + arcs + held kids (h(a \<mapsto> Arced n v))) < size (mset as + arcs + held kids h)"
        using Cons by simp
      from less.hyps [OF this dec] show ?thesis
        unfolding unfold .
    qed
  qed
qed

lemma clone_arcs_counted:
  assumes "counted kids h boxes arcs" "\<forall>a\<in>set as. a \<in># arcs + held kids h"
  shows "\<exists>h'. clone_arcs h as = Some h' \<and> counted kids h' boxes (arcs + mset as) \<and>
     (\<forall>a. map_option payload (h' a) = map_option payload (h a))"
  using assms
proof (induction as arbitrary: h arcs)
  case Nil
  then show ?case
    by simp
next
  case (Cons a as)
  have "a \<in># arcs + held kids h"
    using Cons.prems(2) by simp
  then obtain n v where a: "h a = Some (Arced (Suc n) v)"
    by (rule counted_arc [OF Cons.prems(1)])
  let ?h = "h(a \<mapsto> Arced (Suc (Suc n)) v)"
  have "held kids ?h = held kids h"
    by (rule held_same_payload [OF counted_finite [OF Cons.prems(1)] a]) simp
  then have "\<forall>b\<in>set as. b \<in># add_mset a arcs + held kids ?h"
    using Cons.prems(2) by auto
  from Cons.IH [OF counted_increment [OF Cons.prems(1) a] this] obtain h' where
    "clone_arcs ?h as = Some h'" "counted kids h' boxes (add_mset a arcs + mset as)"
    and pl: "\<forall>b. map_option payload (h' b) = map_option payload (?h b)"
    by blast
  moreover have "\<forall>b. map_option payload (h' b) = map_option payload (h b)"
    using pl a by simp
  ultimately show ?case
    using a by (simp add: ArcFFI_cloned_from_ptr_def CassPtr_to_raw_def increment_strong_count_def)
qed

subsection \<open>Calls\<close>

abbreviation ffi_inv :: "('v \<Rightarrow> addr list) \<Rightarrow> 'v ffi_state \<Rightarrow> bool" where
  "ffi_inv kids s \<equiv> counted kids (store s) (c_boxes s) (c_arcs s)"

lemma shared_is_counted:
  assumes "ffi_inv kids s" "may_share kids s a"
  shows "a \<in># c_arcs s + held kids (store s)"
  using assms in_held [OF _ counted_finite [OF assms(1)]] unfolding may_share_def by auto

lemma owned_is_live:
  assumes "ffi_inv kids s" "c_owns s a"
  obtains c where "store s a = Some c"
proof (cases "a \<in># c_boxes s")
  case True
  then show ?thesis
    using that by (rule counted_box [OF assms(1)])
next
  case False
  then have "a \<in># c_arcs s + held kids (store s)"
    using assms(2) by (simp add: c_owns_def)
  then show ?thesis
    using that by (rule counted_arc [OF assms(1)])
qed

lemma clone_shared:
  assumes "ffi_inv kids s" "list_all (may_share kids s) as"
  obtains h where "clone_arcs (store s) as = Some h" "counted kids h (c_boxes s) (c_arcs s + mset as)"
    "\<And>a. map_option payload (h a) = map_option payload (store s a)"
proof -
  have "\<forall>a\<in>set as. a \<in># c_arcs s + held kids (store s)"
    using assms(2) shared_is_counted [OF assms(1)] unfolding list_all_iff by blast
  from clone_arcs_counted [OF assms(1) this] that show ?thesis
    by blast
qed

lemma new_ok:
  assumes "ffi_inv kids s" "allowed kids (New ty a v) s"
  shows "\<exists>s'. ffi_call kids (New ty a v) s = Some s' \<and> ffi_inv kids s'"
proof -
  have fresh: "store s a = None" and kids: "list_all (may_share kids s) (kids v)"
    using assms(2) by simp_all
  from assms(1) kids obtain h where h: "clone_arcs (store s) (kids v) = Some h"
    "counted kids h (c_boxes s) (c_arcs s + mset (kids v))"
    "\<And>a. map_option payload (h a) = map_option payload (store s a)"
    by (rule clone_shared) blast
  have "h a = None"
    using h(3) [of a] fresh by simp
  from counted_new [OF h(2) this] show ?thesis
    by (cases "FFI_Origin ty") (simp_all add: h(1))
qed

lemma change_ok:
  assumes "ffi_inv kids s" "allowed kids (Change a v) s"
  shows "\<exists>s'. ffi_call kids (Change a v) s = Some s' \<and> ffi_inv kids s'"
proof -
  have owns: "c_owns s a" and kids: "list_all (may_share kids s) (kids v)"
    using assms(2) by simp_all
  from assms(1) owns obtain c0 where c0: "store s a = Some c0"
    by (rule owned_is_live)
  from assms(1) kids obtain h where h: "clone_arcs (store s) (kids v) = Some h"
    "counted kids h (c_boxes s) (c_arcs s + mset (kids v))"
    "\<And>a. map_option payload (h a) = map_option payload (store s a)"
    by (rule clone_shared) blast
  have "map_option payload (h a) = Some (payload c0)"
    by (simp add: h(3) c0)
  then obtain c where c: "h a = Some c" "payload c = payload c0"
    by (cases "h a") simp_all
  have "counted kids (h(a \<mapsto> with_payload v c)) (c_boxes s) (mset (kids (payload c0)) + c_arcs s)"
    using counted_change [OF h(2) c(1)] c(2) by (simp add: add.commute)
  from drop_arcs_counted [OF this] show ?thesis
    by (auto simp: deref_def c0 h(1) c(1) CassPtr_into_mut_ref_def)
qed

lemma get_ok:
  assumes "ffi_inv kids s" "allowed kids (Get b a) s"
  shows "\<exists>s'. ffi_call kids (Get b a) s = Some s' \<and> ffi_inv kids s'"
proof -
  have owns: "c_owns s b" and kid: "a \<in> set (held_by kids (store s) b)"
    using assms(2) by simp_all
  from assms(1) owns obtain c where c: "store s b = Some c"
    by (rule owned_is_live)
  have "a \<in># c_arcs s + held kids (store s)"
    using in_held [OF kid counted_finite [OF assms(1)]] by simp
  then obtain n v where a: "store s a = Some (Arced (Suc n) v)"
    by (rule counted_arc [OF assms(1)])
  from counted_increment [OF assms(1) a] show ?thesis
    by (simp add: CassPtr_into_ref_def deref_def c a ArcFFI_cloned_from_ptr_def CassPtr_to_raw_def
        increment_strong_count_def)
qed

lemma free_box_ok:
  assumes "counted kids h boxes arcs" "a \<in># boxes"
  shows "\<exists>h'. BoxFFI_free kids h (Some a) = Some h' \<and> counted kids h' (boxes - {#a#}) arcs"
proof -
  from assms obtain v where v: "h a = Some (Boxed v)"
    by (rule counted_box)
  have "counted kids h (add_mset a (boxes - {#a#})) arcs"
    using assms by simp
  from counted_unbox [OF this v]
  have "counted kids (h(a := None)) (boxes - {#a#}) (mset (kids v) + arcs)"
    by (simp add: add.commute)
  from drop_arcs_counted [OF this] show ?thesis
    by (simp add: BoxFFI_free_def BoxFFI_from_ptr_def CassPtr_to_raw_def drop_box_def v)
qed

lemma free_arc_ok:
  assumes "counted kids h boxes arcs" "a \<in># arcs"
  shows "\<exists>h'. ArcFFI_free kids h (Some a) = Some h' \<and> counted kids h' boxes (arcs - {#a#})"
proof -
  have "counted kids h boxes (mset [a] + (arcs - {#a#}))"
    using assms by simp
  from drop_arcs_counted [OF this] show ?thesis
    by (simp add: ArcFFI_free_def ArcFFI_from_ptr_def CassPtr_to_raw_def)
qed

lemma free_ok:
  assumes "ffi_inv kids s" "allowed kids (Free ty p) s"
  shows "\<exists>s'. ffi_call kids (Free ty p) s = Some s' \<and> ffi_inv kids s'"
proof (cases p)
  case None
  then show ?thesis
    using assms(1) by (cases "FFI_Origin ty")
      (simp_all add: cass_free_def BoxFFI_free_def BoxFFI_from_ptr_def ArcFFI_free_def ArcFFI_from_ptr_def
        CassPtr_to_raw_def)
next
  case (Some a)
  then show ?thesis
    using assms free_box_ok [OF assms(1), of a] free_arc_ok [OF assms(1), of a]
    by (cases "FFI_Origin ty") (auto simp: cass_free_def)
qed

lemma ffi_call_ok:
  assumes "ffi_inv kids s" "allowed kids c s"
  shows "\<exists>s'. ffi_call kids c s = Some s' \<and> ffi_inv kids s'"
proof (cases c)
  case (Look a)
  then have "c_owns s a"
    using assms(2) by simp
  from assms(1) this obtain x where "store s a = Some x"
    by (rule owned_is_live)
  then show ?thesis
    using assms(1) Look by (simp add: CassPtr_into_ref_def deref_def)
next
  case (New ty a v)
  show ?thesis
    unfolding New by (rule new_ok [OF assms [unfolded New]])
next
  case (Change a v)
  show ?thesis
    unfolding Change by (rule change_ok [OF assms [unfolded Change]])
next
  case (Get b a)
  show ?thesis
    unfolding Get by (rule get_ok [OF assms [unfolded Get]])
next
  case (Free ty p)
  show ?thesis
    unfolding Free by (rule free_ok [OF assms [unfolded Free]])
qed

lemma ffi_start_inv: "ffi_inv kids ffi_start"
  by (simp add: ffi_start_def counted_def held_empty)

lemma ffi_reachable:
  assumes "(ffi_step kids)\<^sup>*\<^sup>* (Some ffi_start) r"
  shows "\<exists>s. r = Some s \<and> ffi_inv kids s"
  using assms
proof (induction rule: rtranclp_induct)
  case base
  then show ?case
    using ffi_start_inv by blast
next
  case (step r r')
  then obtain s where s: "r = Some s" "ffi_inv kids s"
    by blast
  with step.hyps(2) obtain c where "allowed kids c s" "r' = ffi_call kids c s"
    by (auto elim: ffi_step.cases)
  with ffi_call_ok [OF s(2)] show ?case
    by simp
qed

text \<open>In a store without cycles, every object that is live has an owner outside, or is held by one that has.\<close>

lemma counted_empty:
  assumes "counted kids h {#} {#}" "acyclic {(b, a). a \<in> set (held_by kids h b)}"
  shows "h = Map.empty"
proof (rule ccontr)
  let ?R = "{(b, a). a \<in> set (held_by kids h b)}"
  assume "h \<noteq> Map.empty"
  then have ne: "dom h \<noteq> {}"
    by simp
  have fin: "finite (dom h)"
    by (rule counted_finite [OF assms(1)])
  have "b \<in> dom h \<and> a \<in># held kids h" if "a \<in> set (held_by kids h b)" for a b
    using in_held [OF that fin] that by (cases "h b") (auto simp: held_by_def)
  then have "?R \<subseteq> dom h \<times> set_mset (held kids h)"
    by blast
  then have "finite ?R"
    by (rule finite_subset) (simp add: fin)
  then have "wf ?R"
    using assms(2) by (rule finite_acyclic_wf)
  then obtain a where a: "a \<in> dom h" "\<And>b. (b, a) \<in> ?R \<Longrightarrow> b \<notin> dom h"
    using ne by (meson ex_in_conv wfE_min)
  then have "0 < count (held kids h) a"
    using counted_at [OF assms(1), of a] by (cases "h a"; cases "the (h a)") auto
  then have "(\<Sum>b\<in>dom h. count (mset (held_by kids h b)) a) \<noteq> 0"
    by (simp add: held_def count_sum)
  then obtain b where "b \<in> dom h" "count (mset (held_by kids h b)) a \<noteq> 0"
    by (rule sum.not_neutral_contains_not_neutral)
  then have "b \<in> dom h" "a \<in> set (held_by kids h b)"
    by (simp_all add: count_eq_zero_iff)
  then show False
    using a(2) by blast
qed

lemma ffi_run_reaches:
  "ffi_run kids cs s = Some s' \<Longrightarrow> (ffi_step kids)\<^sup>*\<^sup>* (Some s) (Some s')"
proof (induction cs arbitrary: s)
  case (Cons c cs)
  then have c: "allowed kids c s"
    by (auto split: if_splits)
  with Cons.prems obtain t where t: "ffi_call kids c s = Some t" "ffi_run kids cs t = Some s'"
    by (auto split: option.splits)
  have "ffi_step kids (Some s) (Some t)"
    using ffi_step.intros [of kids c s] c by (simp add: t(1))
  then show ?case
    using Cons.IH [OF t(2)] by (rule converse_rtranclp_into_rtranclp)
qed simp

lemmas run_simps = ffi_start_def deref_def may_share_def c_owns_def held_by_def cass_free_def ArcFFI_free_def
  ArcFFI_from_ptr_def BoxFFI_free_def BoxFFI_from_ptr_def CassPtr_to_raw_def ArcFFI_cloned_from_ptr_def
  increment_strong_count_def CassPtr_into_mut_ref_def drop_box_def drop_arcs.simps

subsection \<open>What goes wrong otherwise\<close>

lemma drop_arcs_shrinks:
  assumes "drop_arcs kids h as = Some h'"
  shows "dom h' \<subseteq> dom h"
proof (rule drop_arcs.raw_induct [of "\<lambda>kids h as h'. dom h' \<subseteq> dom h", OF _ assms])
  fix drop_arcs kids and h :: "'v heap" and as h'
  assume "\<And>kids h as h'. drop_arcs kids h as = Some h' \<Longrightarrow> dom h' \<subseteq> dom h"
    and "(case as of [] \<Rightarrow> Some h
          | a # as \<Rightarrow>
              (case h a of
                 Some (Arced (Suc n) v) \<Rightarrow>
                   if n = 0 then drop_arcs kids (h(a := None)) (kids v @ as)
                   else drop_arcs kids (h(a \<mapsto> Arced n v)) as
               | _ \<Rightarrow> None)) = Some h'"
  then show "dom h' \<subseteq> dom h"
    by (fastforce split: list.splits option.splits cell.splits nat.splits if_splits)
qed

text \<open>Freeing a box twice is undefined.\<close>

lemma double_free_is_undefined:
  assumes "BoxFFI_free kids h (Some a) = Some h'"
  shows "BoxFFI_free kids h' (Some a) = None"
proof -
  obtain v where "h a = Some (Boxed v)" "drop_arcs kids (h(a := None)) (kids v) = Some h'"
    using assms by (auto simp: BoxFFI_free_def BoxFFI_from_ptr_def CassPtr_to_raw_def drop_box_def
      split: option.splits cell.splits)
  then have "h' a = None"
    using drop_arcs_shrinks [of kids "h(a := None)" "kids v" h'] by auto
  then show ?thesis
    by (simp add: BoxFFI_free_def BoxFFI_from_ptr_def CassPtr_to_raw_def drop_box_def)
qed

text \<open>
  An \<open>Arc\<close> that is made to hold itself is never freed: a data type that is added to itself by
  \<open>cass_data_type_add_sub_type\<close>.  (The value of an object is the list of what it holds.)
\<close>

lemma cycles_are_not_reclaimed:
  "\<exists>s. ffi_run id [New O_DataType 8 [], Change 8 [8], Free O_DataType (Some 8)] ffi_start = Some s \<and>
     c_boxes s = {#} \<and> c_arcs s = {#} \<and> store s = [8 \<mapsto> Arced 1 [8]]"
  by (simp add: run_simps)

section \<open>Properties\<close>


text \<open>
  A collection at 16 holds the data type at 8; the client frees its own pointer to the data type.
\<close>

definition demo_calls :: "addr list api_call list" where
  "demo_calls = [New O_DataType 8 [], New O_Collection 16 [8], Free O_DataType (Some 8)]"

lemma demo_run:
  "ffi_run id demo_calls ffi_start =
     Some \<lparr>store = [8 \<mapsto> Arced 1 [], 16 \<mapsto> Boxed [8]], c_boxes = {#16#}, c_arcs = {#}\<rparr>"
  by (auto simp: demo_calls_def run_simps fun_eq_iff)



lemma demo_run_freed:
  "ffi_run id (demo_calls @ [Free O_Collection (Some 16)]) ffi_start =
     Some \<lparr>store = Map.empty, c_boxes = {#}, c_arcs = {#}\<rparr>"
  by (auto simp: demo_calls_def run_simps fun_eq_iff)


end
