(* ===== verification/Cass_Type_Heap.thy ===== *)
theory Cass_Type_Heap
  imports Cass_Data_Type_Api Cass_Ownership
begin

text \<open>
  Data types as \<open>cql_types/data_type.rs\<close> has them: objects in memory that share their sub-types.

  The other theories treat a data type as a tree.  Here a data type is an \<open>Arc\<close> in the store of
  \<open>Cass_Ownership\<close>, its sub-types are addresses, and a function that adds a sub-type writes to the store, so
  that everything that shares the object sees it.  The tree of an address is read off the store with a
  bound on its height; a type that contains itself has no tree.  What is proved is when the functions
  on trees say what happens in memory.
\<close>

subsection \<open>Objects\<close>

datatype MapDataType_node = MN_Untyped | MN_Key addr | MN_KeyAndValue addr addr

datatype CassDataTypeInner =
    TN_Value CassValueType
  | TN_Udt "(string \<times> addr) list" string string bool
  | TN_List "addr option" bool
  | TN_Set "addr option" bool
  | TN_Map MapDataType_node bool
  | TN_Tuple "addr list"
  | TN_Vector addr u16
  | TN_Custom string

fun sub_types_of_map :: "MapDataType_node \<Rightarrow> addr list" where
  "sub_types_of_map MN_Untyped = []"
| "sub_types_of_map (MN_Key k) = [k]"
| "sub_types_of_map (MN_KeyAndValue k v) = [k, v]"

fun sub_arcs :: "CassDataTypeInner \<Rightarrow> addr list" where
  "sub_arcs (TN_Value _) = []"
| "sub_arcs (TN_Udt fs _ _ _) = map snd fs"
| "sub_arcs (TN_List typ _) = (case typ of None \<Rightarrow> [] | Some a \<Rightarrow> [a])"
| "sub_arcs (TN_Set typ _) = (case typ of None \<Rightarrow> [] | Some a \<Rightarrow> [a])"
| "sub_arcs (TN_Map typ _) = sub_types_of_map typ"
| "sub_arcs (TN_Tuple types) = types"
| "sub_arcs (TN_Vector typ _) = [typ]"
| "sub_arcs (TN_Custom _) = []"

text \<open>\<open>add_sub_data_type\<close> on the object itself.  Moving the key of a map keeps its count.\<close>

fun add_sub_arc :: "CassDataTypeInner \<Rightarrow> addr \<Rightarrow> CassError + CassDataTypeInner" where
  "add_sub_arc (TN_List typ fr) sub_type =
     (case typ of Some _ \<Rightarrow> Inl CASS_ERROR_LIB_BAD_PARAMS | None \<Rightarrow> Inr (TN_List (Some sub_type) fr))"
| "add_sub_arc (TN_Set typ fr) sub_type =
     (case typ of Some _ \<Rightarrow> Inl CASS_ERROR_LIB_BAD_PARAMS | None \<Rightarrow> Inr (TN_Set (Some sub_type) fr))"
| "add_sub_arc (TN_Map (MN_KeyAndValue _ _) fr) sub_type = Inl CASS_ERROR_LIB_BAD_PARAMS"
| "add_sub_arc (TN_Map (MN_Key k) fr) sub_type = Inr (TN_Map (MN_KeyAndValue k sub_type) fr)"
| "add_sub_arc (TN_Map MN_Untyped fr) sub_type = Inr (TN_Map (MN_Key sub_type) fr)"
| "add_sub_arc (TN_Tuple types) sub_type = Inr (TN_Tuple (types @ [sub_type]))"
| "add_sub_arc _ sub_type = Inl CASS_ERROR_LIB_INVALID_VALUE_TYPE"

fun add_named_arc :: "CassDataTypeInner \<Rightarrow> string \<Rightarrow> addr \<Rightarrow> CassError + CassDataTypeInner" where
  "add_named_arc (TN_Udt fs ks n fr) name sub_type = Inr (TN_Udt (fs @ [(name, sub_type)]) ks n fr)"
| "add_named_arc _ name sub_type = Inl CASS_ERROR_LIB_INVALID_VALUE_TYPE"

subsection \<open>The functions that share sub-types\<close>

type_synonym type_heap = "CassDataTypeInner heap"

text \<open>
  Both ways to add a sub-type: the object is written to, or the new reference to the sub-type is dropped
  again when the function returns.
\<close>

definition write_or_drop ::
    "type_heap \<Rightarrow> addr \<Rightarrow> addr \<Rightarrow> CassError + CassDataTypeInner \<Rightarrow> (CassError \<times> type_heap) ub" where
  "write_or_drop h a sub_type r =
     (case r of
        Inr node \<Rightarrow> Some (CASS_OK, h(a := map_option (with_payload node) (h a)))
      | Inl e \<Rightarrow> map_option (Pair e) (drop_arcs sub_arcs h [sub_type]))"

definition heap_add_sub_type :: "type_heap \<Rightarrow> CassPtr \<Rightarrow> CassPtr \<Rightarrow> (CassError \<times> type_heap) ub" where
  "heap_add_sub_type h data_type sub_data_type =
     do { dt \<leftarrow> ArcFFI_as_ref h data_type;
          case (dt, data_type) of
            (Some node, Some a) \<Rightarrow>
              do { (h', sub_type) \<leftarrow> ArcFFI_cloned_from_ptr h sub_data_type;
                   case sub_type of
                     None \<Rightarrow> Some (CASS_ERROR_LIB_BAD_PARAMS, h')
                   | Some s \<Rightarrow> write_or_drop h' a s (add_sub_arc node s) }
          | _ \<Rightarrow> Some (CASS_ERROR_LIB_BAD_PARAMS, h) }"

definition heap_add_sub_type_by_name_n ::
    "type_heap \<Rightarrow> CassPtr \<Rightarrow> c_chars \<Rightarrow> nat \<Rightarrow> CassPtr \<Rightarrow> (CassError \<times> type_heap) ub" where
  "heap_add_sub_type_by_name_n h data_type name name_length sub_data_type =
     do { dt \<leftarrow> ArcFFI_as_ref h data_type;
          case (dt, data_type) of
            (Some node, Some a) \<Rightarrow>
              do { (h', sub_type) \<leftarrow> ArcFFI_cloned_from_ptr h sub_data_type;
                   case sub_type of
                     None \<Rightarrow> Some (CASS_ERROR_LIB_BAD_PARAMS, h')
                   | Some s \<Rightarrow>
                       (case CassStrLenDelimited_to_str name name_length of
                          Inl _ \<Rightarrow> write_or_drop h' a s (Inl CASS_ERROR_LIB_BAD_PARAMS)
                        | Inr name_string \<Rightarrow> write_or_drop h' a s (add_named_arc node name_string s)) }
          | _ \<Rightarrow> Some (CASS_ERROR_LIB_BAD_PARAMS, h) }"

text \<open>The copy has the sub-types of the original; its address is an argument.\<close>

definition heap_new_from_existing :: "type_heap \<Rightarrow> addr \<Rightarrow> CassPtr \<Rightarrow> (CassPtr \<times> type_heap) ub" where
  "heap_new_from_existing h fresh data_type =
     do { dt \<leftarrow> ArcFFI_as_ref h data_type;
          case dt of
            None \<Rightarrow> Some (CassPtr_null, h)
          | Some node \<Rightarrow>
              do { h' \<leftarrow> clone_arcs h (sub_arcs node);
                   Some (ArcFFI_into_ptr fresh, h'(fresh \<mapsto> Arced 1 node)) } }"

subsection \<open>The tree of a data type\<close>

definition tree_of_list :: "(addr \<Rightarrow> CassDataType option) \<Rightarrow> addr list \<Rightarrow> CassDataType list option" where
  "tree_of_list f as = those (map f as)"

fun tree_of_map :: "(addr \<Rightarrow> CassDataType option) \<Rightarrow> MapDataType_node \<Rightarrow> MapDataType option" where
  "tree_of_map f MN_Untyped = Some MT_Untyped"
| "tree_of_map f (MN_Key k) = map_option MT_Key (f k)"
| "tree_of_map f (MN_KeyAndValue k v) = do { k \<leftarrow> f k; v \<leftarrow> f v; Some (MT_KeyAndValue k v) }"

fun tree_of_node :: "(addr \<Rightarrow> CassDataType option) \<Rightarrow> CassDataTypeInner \<Rightarrow> CassDataType option" where
  "tree_of_node f (TN_Value t) = Some (DT_Value t)"
| "tree_of_node f (TN_Udt fs ks n fr) =
     map_option (\<lambda>ts. DT_Udt (UdtDataType (zip (map fst fs) ts) ks n fr)) (tree_of_list f (map snd fs))"
| "tree_of_node f (TN_List typ fr) =
     (case typ of None \<Rightarrow> Some (DT_List None fr) | Some a \<Rightarrow> map_option (\<lambda>t. DT_List (Some t) fr) (f a))"
| "tree_of_node f (TN_Set typ fr) =
     (case typ of None \<Rightarrow> Some (DT_Set None fr) | Some a \<Rightarrow> map_option (\<lambda>t. DT_Set (Some t) fr) (f a))"
| "tree_of_node f (TN_Map typ fr) = map_option (\<lambda>t. DT_Map t fr) (tree_of_map f typ)"
| "tree_of_node f (TN_Tuple types) = map_option DT_Tuple (tree_of_list f types)"
| "tree_of_node f (TN_Vector typ d) = map_option (\<lambda>t. DT_Vector t d) (f typ)"
| "tree_of_node f (TN_Custom s) = Some (DT_Custom s)"

fun tree_of :: "nat \<Rightarrow> type_heap \<Rightarrow> addr \<Rightarrow> CassDataType option" where
  "tree_of 0 h a = None"
| "tree_of (Suc n) h a = (case deref h a of None \<Rightarrow> None | Some node \<Rightarrow> tree_of_node (tree_of n h) node)"

definition is_tree :: "type_heap \<Rightarrow> addr \<Rightarrow> CassDataType \<Rightarrow> bool" where
  "is_tree h a t \<longleftrightarrow> (\<exists>n. tree_of n h a = Some t)"

fun live_arc :: "type_heap \<Rightarrow> addr \<Rightarrow> bool" where
  "live_arc h a = (case h a of Some (Arced (Suc n) _) \<Rightarrow> True | _ \<Rightarrow> False)"

text \<open>What is part of what.\<close>

definition part_of :: "type_heap \<Rightarrow> (addr \<times> addr) set" where
  "part_of h = {(b, a). a \<in> set (held_by sub_arcs h b)}"

section \<open>Lemmas\<close>

subsection \<open>Trees\<close>

lemma those_cong: "(\<And>a. a \<in> set as \<Longrightarrow> f a = g a) \<Longrightarrow> those (map f as) = those (map g as)"
  by (rule arg_cong [of _ _ those]) simp

lemma those_mono:
  "(\<And>a t. a \<in> set as \<Longrightarrow> f a = Some t \<Longrightarrow> g a = Some t) \<Longrightarrow> those (map f as) = Some ts \<Longrightarrow>
   those (map g as) = Some ts"
  by (induction as arbitrary: ts) (auto split: option.splits)

lemma those_snoc: "those (xs @ [x]) = (case those xs of None \<Rightarrow> None | Some ys \<Rightarrow> map_option (\<lambda>y. ys @ [y]) x)"
  by (induction xs; cases x) (auto split: option.splits)

lemma tree_of_node_cong:
  assumes "\<And>a. a \<in> set (sub_arcs node) \<Longrightarrow> f a = g a"
  shows "tree_of_node f node = tree_of_node g node"
proof (cases node)
  case (TN_Udt fs ks n fr)
  then show ?thesis
    using those_cong [of "map snd fs" f g] assms by (simp add: tree_of_list_def)
next
  case (TN_Map m fr)
  then show ?thesis
    using assms by (cases m) simp_all
next
  case (TN_Tuple ts)
  then show ?thesis
    using those_cong [of ts f g] assms by (simp add: tree_of_list_def)
qed (use assms in \<open>auto split: option.split\<close>)

lemma tree_of_node_mono:
  assumes "\<And>a t. a \<in> set (sub_arcs node) \<Longrightarrow> f a = Some t \<Longrightarrow> g a = Some t"
    and "tree_of_node f node = Some t"
  shows "tree_of_node g node = Some t"
proof (cases node)
  case (TN_Udt fs ks n fr)
  then show ?thesis
    using those_mono [of "map snd fs" f g] assms by (auto simp: tree_of_list_def)
next
  case (TN_Map m fr)
  then show ?thesis
    using assms by (cases m) (auto simp: bind_eq_Some_conv)
next
  case (TN_Tuple ts)
  then show ?thesis
    using those_mono [of ts f g] assms by (auto simp: tree_of_list_def)
qed (use assms in \<open>auto split: option.splits\<close>)

lemma tree_of_node_subs:
  assumes "tree_of_node f node = Some t" "a \<in> set (sub_arcs node)"
  shows "f a \<noteq> None"
proof -
  have *: "those (map f as) = Some ts \<Longrightarrow> a \<in> set as \<Longrightarrow> f a \<noteq> None" for as ts
    by (induction as arbitrary: ts) (auto split: option.splits)
  show ?thesis
  proof (cases node)
    case (TN_Udt fs ks n fr)
    then show ?thesis
      using * [of "map snd fs"] assms by (auto simp: tree_of_list_def)
  next
    case (TN_Map m fr)
    then show ?thesis
      using assms by (cases m) (auto simp: bind_eq_Some_conv)
  next
    case (TN_Tuple ts)
    then show ?thesis
      using * [of ts] assms by (auto simp: tree_of_list_def)
  qed (use assms in \<open>auto split: option.splits\<close>)
qed

lemma tree_of_Suc: "tree_of n h a = Some t \<Longrightarrow> tree_of (Suc n) h a = Some t"
proof (induction n arbitrary: a t)
  case (Suc n)
  then obtain node where node: "deref h a = Some node" "tree_of_node (tree_of n h) node = Some t"
    by (auto split: option.splits)
  have "tree_of_node (tree_of (Suc n) h) node = Some t"
    by (rule tree_of_node_mono [OF _ node(2)]) (rule Suc.IH)
  then show ?case
    using node(1) by simp
qed simp

lemma tree_of_mono: "tree_of n h a = Some t \<Longrightarrow> n \<le> m \<Longrightarrow> tree_of m h a = Some t"
  by (induction m) (auto simp: le_Suc_eq simp del: tree_of.simps intro: tree_of_Suc)

lemma is_tree_unique: "is_tree h a t \<Longrightarrow> is_tree h a u \<Longrightarrow> t = u"
proof -
  assume "is_tree h a t" "is_tree h a u"
  then obtain n m where "tree_of n h a = Some t" "tree_of m h a = Some u"
    by (auto simp: is_tree_def)
  then show "t = u"
    using tree_of_mono [of n h a t "max n m"] tree_of_mono [of m h a u "max n m"] by simp
qed

text \<open>Only what is part of a type matters for its tree.\<close>

lemma tree_of_frame:
  assumes "\<And>b. (a, b) \<in> (part_of h)\<^sup>* \<Longrightarrow> deref h' b = deref h b"
  shows "tree_of n h' a = tree_of n h a"
  using assms
proof (induction n arbitrary: a)
  case (Suc n)
  have d: "deref h' a = deref h a"
    by (rule Suc.prems) simp
  have "tree_of n h' b = tree_of n h b" if node: "deref h a = Some node" "b \<in> set (sub_arcs node)" for node b
  proof (rule Suc.IH)
    fix c
    have "(a, b) \<in> part_of h"
      using node by (auto simp: part_of_def held_by_def deref_def)
    moreover assume "(b, c) \<in> (part_of h)\<^sup>*"
    ultimately show "deref h' c = deref h c"
      by (intro Suc.prems) (rule converse_rtrancl_into_rtrancl)
  qed
  then have "tree_of_node (tree_of n h') node = tree_of_node (tree_of n h) node" if "deref h a = Some node" for node
    using that by (intro tree_of_node_cong) blast
  then show ?case
    using d by (simp split: option.split)
qed simp

lemma is_tree_frame:
  assumes "\<And>b. (a, b) \<in> (part_of h)\<^sup>* \<Longrightarrow> deref h' b = deref h b"
  shows "is_tree h' a t = is_tree h a t"
  unfolding is_tree_def using tree_of_frame [of a h h', OF assms] by simp

text \<open>A type that has a tree is no part of itself.\<close>

lemma part_has_tree:
  assumes "tree_of n h a \<noteq> None" "(a, b) \<in> part_of h"
  shows "\<exists>k < n. tree_of k h b \<noteq> None"
proof (cases n)
  case 0
  then show ?thesis
    using assms(1) by simp
next
  case (Suc k)
  from assms(2) obtain node where node: "deref h a = Some node" "b \<in> set (sub_arcs node)"
    by (cases "h a") (auto simp: part_of_def held_by_def deref_def)
  then obtain t where "tree_of_node (tree_of k h) node = Some t"
    using assms(1) Suc by auto
  from tree_of_node_subs [OF this node(2)] show ?thesis
    using Suc by (intro exI [of _ k]) simp
qed

lemma part_has_smaller_tree:
  assumes "(a, b) \<in> (part_of h)\<^sup>+" "tree_of n h a \<noteq> None"
  shows "\<exists>m < n. tree_of m h b \<noteq> None"
  using assms(1)
proof (induction rule: trancl_induct)
  case (base b)
  then show ?case
    by (rule part_has_tree [OF assms(2)])
next
  case (step b c)
  from step.IH obtain m where m: "m < n" "tree_of m h b \<noteq> None"
    by blast
  from part_has_tree [OF m(2) step.hyps(2)] obtain k where "k < m" "tree_of k h c \<noteq> None"
    by blast
  with m(1) show ?case
    by (intro exI [of _ k]) simp
qed

lemma tree_not_part_of_itself:
  assumes "is_tree h a t"
  shows "(a, a) \<notin> (part_of h)\<^sup>+"
proof
  assume loop: "(a, a) \<in> (part_of h)\<^sup>+"
  have "tree_of n h a = None" for n
  proof (induction n rule: less_induct)
    case (less n)
    show ?case
    proof (rule ccontr)
      assume "tree_of n h a \<noteq> None"
      from part_has_smaller_tree [OF loop this] obtain m where "m < n" "tree_of m h a \<noteq> None"
        by blast
      with less.IH [of m] show False
        by simp
    qed
  qed
  then show False
    using assms by (simp add: is_tree_def)
qed

subsection \<open>Adding to an object and adding to a tree\<close>

lemma add_sub_arc_tree:
  assumes "tree_of_node f node = Some t" "f s = Some u"
  shows "case add_sub_arc node s of
           Inl e \<Rightarrow> add_sub_data_type t u = Inl e
         | Inr node' \<Rightarrow> \<exists>t'. add_sub_data_type t u = Inr t' \<and> tree_of_node f node' = Some t'"
proof (cases node)
  case (TN_Map m fr)
  then show ?thesis
    using assms by (cases m) (auto simp: bind_eq_Some_conv)
next
  case (TN_Tuple ts)
  then show ?thesis
    using assms by (auto simp: tree_of_list_def those_snoc)
qed (use assms in \<open>auto split: option.splits\<close>)

lemma add_named_arc_tree:
  assumes "tree_of_node f node = Some t" "f s = Some u" "CassStrLenDelimited_to_str name len = Inr str"
  shows "cass_data_type_add_sub_type_by_name_n (Some t) name len (Some u) =
     (case add_named_arc node str s of
        Inl e \<Rightarrow> (e, Some t)
      | Inr node' \<Rightarrow> (CASS_OK, tree_of_node f node')) \<and>
     (case add_named_arc node str s of Inl e \<Rightarrow> True | Inr node' \<Rightarrow> tree_of_node f node' \<noteq> None)"
proof (cases node)
  case (TN_Udt fs ks n fr)
  then obtain ts where ts: "those (map f (map snd fs)) = Some ts"
    "t = DT_Udt (UdtDataType (zip (map fst fs) ts) ks n fr)"
    using assms(1) by (auto simp: tree_of_list_def)
  have "those (map f as) = Some ts \<Longrightarrow> length ts = length as" for as
    by (induction as arbitrary: ts) (auto split: option.splits)
  from this [OF ts(1)] have "length ts = length fs"
    by simp
  then show ?thesis
    using TN_Udt ts assms(2,3)
    by (simp add: cass_data_type_add_sub_type_by_name_n_def tree_of_list_def those_snoc zip_append1)
next
  case (TN_Map m fr)
  then show ?thesis
    using assms by (auto simp: cass_data_type_add_sub_type_by_name_n_def)
next
  case (TN_Tuple ts)
  then show ?thesis
    using assms by (auto simp: cass_data_type_add_sub_type_by_name_n_def)
qed (use assms in \<open>auto simp: cass_data_type_add_sub_type_by_name_n_def split: option.splits\<close>)

subsection \<open>Writing to the store\<close>

lemma live_arcE:
  assumes "live_arc h a"
  obtains n v where "h a = Some (Arced (Suc n) v)"
  using assms that by (auto split: option.splits cell.splits nat.splits)

lemma sub_arcs_after_add:
  "add_sub_arc node s = Inr node' \<Longrightarrow> set (sub_arcs node') = insert s (set (sub_arcs node))"
  by (induction node s rule: add_sub_arc.induct) (auto split: option.splits)

lemma sub_arcs_after_add_named:
  "add_named_arc node name s = Inr node' \<Longrightarrow> set (sub_arcs node') = insert s (set (sub_arcs node))"
  by (induction node name s rule: add_named_arc.induct) force+

lemma write_refines:
  assumes "is_tree h a t" "deref h a = Some node" "(s, a) \<notin> (part_of h)\<^sup>*"
    and "set (sub_arcs node') = insert s (set (sub_arcs node))"
    and "tree_of_node (tree_of n h) node' = Some t'"
    and "\<And>b. deref h' b = (if b = a then Some node' else deref h b)"
  shows "is_tree h' a t'"
proof -
  have "tree_of n h' k = tree_of n h k" if k: "k \<in> set (sub_arcs node')" for k
  proof (rule tree_of_frame)
    fix b
    assume b: "(k, b) \<in> (part_of h)\<^sup>*"
    have "(k, a) \<notin> (part_of h)\<^sup>*"
    proof (cases "k = s")
      case False
      then have "(a, k) \<in> part_of h"
        using k assms(2,4) by (auto simp: part_of_def held_by_def deref_def)
      then show ?thesis
        using tree_not_part_of_itself [OF assms(1)] by (meson rtrancl_into_trancl2)
    qed (simp add: assms(3))
    then show "deref h' b = deref h b"
      using b assms(6) by auto
  qed
  then have "tree_of_node (tree_of n h') node' = Some t'"
    using tree_of_node_cong [of node' "tree_of n h'" "tree_of n h"] assms(5) by simp
  then have "tree_of (Suc n) h' a = Some t'"
    by (simp add: assms(6))
  then show ?thesis
    unfolding is_tree_def by blast
qed

lemma write_frame:
  assumes "\<And>b. deref h' b = (if b = a then Some node' else deref h b)" "(b, a) \<notin> (part_of h)\<^sup>*"
  shows "is_tree h' b v = is_tree h b v"
  by (rule is_tree_frame) (use assms in auto)

text \<open>A bound that is enough for two types.\<close>

lemma common_bound:
  assumes "is_tree h a t" "is_tree h s u" "deref h a = Some node"
  obtains n where "tree_of_node (tree_of n h) node = Some t" "tree_of n h s = Some u"
proof -
  obtain n m where nm: "tree_of n h a = Some t" "tree_of m h s = Some u"
    using assms(1,2) by (auto simp: is_tree_def)
  let ?k = "max n m"
  have "tree_of (Suc ?k) h a = Some t"
    by (rule tree_of_mono [OF nm(1)]) simp
  moreover have "tree_of ?k h s = Some u"
    by (rule tree_of_mono [OF nm(2)]) simp
  ultimately show ?thesis
    using that [of ?k] assms(3) by simp
qed

text \<open>What adding a sub-type does to the store.\<close>

lemma write_or_drop_cases:
  assumes "h s = Some (Arced (Suc n) v)" "deref h a = Some node"
  shows "case r of
      Inl e \<Rightarrow> write_or_drop (h(s \<mapsto> Arced (Suc (Suc n)) v)) a s r = Some (e, h)
    | Inr node' \<Rightarrow> \<exists>h'. write_or_drop (h(s \<mapsto> Arced (Suc (Suc n)) v)) a s r = Some (CASS_OK, h') \<and>
        (\<forall>b. deref h' b = (if b = a then Some node' else deref h b))"
proof (cases r)
  case (Inl e)
  then show ?thesis
    using assms(1) by (simp add: write_or_drop_def drop_arcs.simps fun_upd_idem)
next
  case (Inr node')
  then show ?thesis
    using assms by (auto simp: write_or_drop_def deref_def)
qed

lemma add_sub_type_refines:
  assumes "live_arc h a" "live_arc h s" "is_tree h a t" "is_tree h s u" "(s, a) \<notin> (part_of h)\<^sup>*"
  shows "\<exists>code h' t'. heap_add_sub_type h (Some a) (Some s) = Some (code, h') \<and>
     cass_data_type_add_sub_type (Some t) (Some u) = (code, Some t') \<and> is_tree h' a t' \<and>
     (\<forall>b v. (b, a) \<notin> (part_of h)\<^sup>* \<longrightarrow> is_tree h' b v = is_tree h b v)"
proof -
  from assms(1) obtain na node where a: "h a = Some (Arced (Suc na) node)"
    by (rule live_arcE)
  from assms(2) obtain n v where s: "h s = Some (Arced (Suc n) v)"
    by (rule live_arcE)
  have d: "deref h a = Some node"
    by (simp add: deref_def a)
  from assms(3,4) d obtain k where k: "tree_of_node (tree_of k h) node = Some t" "tree_of k h s = Some u"
    by (rule common_bound)
  have run: "heap_add_sub_type h (Some a) (Some s) =
      write_or_drop (h(s \<mapsto> Arced (Suc (Suc n)) v)) a s (add_sub_arc node s)"
    by (simp add: heap_add_sub_type_def ArcFFI_as_ref_def CassPtr_into_ref_def d ArcFFI_cloned_from_ptr_def
        CassPtr_to_raw_def increment_strong_count_def s)
  note w = write_or_drop_cases [OF s d, of "add_sub_arc node s"]
  note t = add_sub_arc_tree [OF k]
  show ?thesis
  proof (cases "add_sub_arc node s")
    case (Inl e)
    then show ?thesis
      using w t run assms(3) by (simp add: cass_data_type_add_sub_type_def)
  next
    case (Inr node')
    with w obtain h' where h': "write_or_drop (h(s \<mapsto> Arced (Suc (Suc n)) v)) a s (Inr node') = Some (CASS_OK, h')"
      "\<And>b. deref h' b = (if b = a then Some node' else deref h b)"
      by auto
    from t Inr obtain t' where t': "add_sub_data_type t u = Inr t'" "tree_of_node (tree_of k h) node' = Some t'"
      by auto
    have "is_tree h' a t'"
      using assms(3) d assms(5) sub_arcs_after_add [OF Inr] t'(2) h'(2) by (rule write_refines)
    moreover have "\<forall>b v. (b, a) \<notin> (part_of h)\<^sup>* \<longrightarrow> is_tree h' b v = is_tree h b v"
      using write_frame [OF h'(2)] by blast
    ultimately show ?thesis
      using run h'(1) Inr t'(1) by (simp add: cass_data_type_add_sub_type_def)
  qed
qed

lemma add_sub_type_by_name_refines:
  assumes "live_arc h a" "live_arc h s" "is_tree h a t" "is_tree h s u" "(s, a) \<notin> (part_of h)\<^sup>*"
  shows "\<exists>code h' t'. heap_add_sub_type_by_name_n h (Some a) name len (Some s) = Some (code, h') \<and>
     cass_data_type_add_sub_type_by_name_n (Some t) name len (Some u) = (code, Some t') \<and> is_tree h' a t' \<and>
     (\<forall>b v. (b, a) \<notin> (part_of h)\<^sup>* \<longrightarrow> is_tree h' b v = is_tree h b v)"
proof -
  from assms(1) obtain na node where a: "h a = Some (Arced (Suc na) node)"
    by (rule live_arcE)
  from assms(2) obtain n v where s: "h s = Some (Arced (Suc n) v)"
    by (rule live_arcE)
  have d: "deref h a = Some node"
    by (simp add: deref_def a)
  from assms(3,4) d obtain k where k: "tree_of_node (tree_of k h) node = Some t" "tree_of k h s = Some u"
    by (rule common_bound)
  let ?h = "h(s \<mapsto> Arced (Suc (Suc n)) v)"
  have run: "heap_add_sub_type_by_name_n h (Some a) name len (Some s) =
      (case CassStrLenDelimited_to_str name len of
         Inl _ \<Rightarrow> write_or_drop ?h a s (Inl CASS_ERROR_LIB_BAD_PARAMS)
       | Inr str \<Rightarrow> write_or_drop ?h a s (add_named_arc node str s))"
    by (simp add: heap_add_sub_type_by_name_n_def ArcFFI_as_ref_def CassPtr_into_ref_def d
        ArcFFI_cloned_from_ptr_def CassPtr_to_raw_def increment_strong_count_def s)
  note w = write_or_drop_cases [OF s d]
  show ?thesis
  proof (cases "CassStrLenDelimited_to_str name len")
    case (Inl e)
    then show ?thesis
      using w [of "Inl CASS_ERROR_LIB_BAD_PARAMS"] run assms(3)
      by (simp add: cass_data_type_add_sub_type_by_name_n_def)
  next
    case (Inr str)
    note t = add_named_arc_tree [OF k Inr]
    show ?thesis
    proof (cases "add_named_arc node str s")
      case (Inl e)
      then show ?thesis
        using w [of "Inl e"] t run Inr assms(3) by simp
    next
      case added: (Inr node')
      with w [of "Inr node'"] obtain h' where h': "write_or_drop ?h a s (Inr node') = Some (CASS_OK, h')"
        "\<And>b. deref h' b = (if b = a then Some node' else deref h b)"
        by auto
      from t added obtain t' where t': "tree_of_node (tree_of k h) node' = Some t'"
        "cass_data_type_add_sub_type_by_name_n (Some t) name len (Some u) = (CASS_OK, Some t')"
        by auto
      have "is_tree h' a t'"
        using assms(3) d assms(5) sub_arcs_after_add_named [OF added] t'(1) h'(2) by (rule write_refines)
      moreover have "\<forall>b v. (b, a) \<notin> (part_of h)\<^sup>* \<longrightarrow> is_tree h' b v = is_tree h b v"
        using write_frame [OF h'(2)] by blast
      ultimately show ?thesis
        using run h'(1) Inr added t'(2) by simp
    qed
  qed
qed

text \<open>A type that is added to itself has no tree any more: no function that walks through it returns.\<close>

lemma type_in_itself_has_no_tree:
  assumes "live_arc h a" "heap_add_sub_type h (Some a) (Some a) = Some (CASS_OK, h')"
  shows "\<not> is_tree h' a t"
proof -
  from assms(1) obtain n node where a: "h a = Some (Arced (Suc n) node)"
    by (rule live_arcE)
  have d: "deref h a = Some node"
    by (simp add: deref_def a)
  have run: "heap_add_sub_type h (Some a) (Some a) =
      write_or_drop (h(a \<mapsto> Arced (Suc (Suc n)) node)) a a (add_sub_arc node a)"
    by (simp add: heap_add_sub_type_def ArcFFI_as_ref_def CassPtr_into_ref_def d ArcFFI_cloned_from_ptr_def
        CassPtr_to_raw_def increment_strong_count_def a)
  note w = write_or_drop_cases [OF a d, of "add_sub_arc node a"]
  have "add_sub_arc node a \<noteq> Inl CASS_OK"
    by (induction node a rule: add_sub_arc.induct) (auto split: option.splits)
  then obtain node' where node': "add_sub_arc node a = Inr node'"
    using w run assms(2) by (cases "add_sub_arc node a") auto
  then have "deref h' a = Some node'" "a \<in> set (sub_arcs node')"
    using w run assms(2) sub_arcs_after_add [OF node'] by auto
  then have "(a, a) \<in> part_of h'"
    by (auto simp: part_of_def held_by_def deref_def)
  then show ?thesis
    using tree_not_part_of_itself [of h' a t] by auto
qed

text \<open>A copy has the tree of the original, and takes its own references to the sub-types.\<close>

lemma parts_are_live:
  assumes "is_tree h a t" "(a, b) \<in> (part_of h)\<^sup>*"
  shows "deref h b \<noteq> None"
proof -
  obtain n where n: "tree_of n h a \<noteq> None"
    using assms(1) by (auto simp: is_tree_def)
  have "\<exists>m. tree_of m h b \<noteq> None"
    using assms(2)
  proof (cases rule: rtranclE)
    case base
    then show ?thesis
      using n by blast
  next
    case (step c)
    then have "(a, b) \<in> (part_of h)\<^sup>+"
      by (rule rtrancl_into_trancl1)
    from part_has_smaller_tree [OF this n] show ?thesis
      by auto
  qed
  then obtain m where "tree_of m h b \<noteq> None"
    by blast
  then show ?thesis
    by (cases m) (auto split: option.splits)
qed

lemma copy_has_the_tree:
  assumes "counted sub_arcs h boxes arcs" "is_tree h a t" "h fresh = None" "fresh \<noteq> 0"
  shows "\<exists>h'. heap_new_from_existing h fresh (Some a) = Some (Some fresh, h') \<and>
     is_tree h' fresh t \<and> is_tree h' a t \<and> counted sub_arcs h' boxes (add_mset fresh arcs)"
proof -
  from parts_are_live [OF assms(2), of a] obtain node where d: "deref h a = Some node"
    by auto
  have "\<forall>k\<in>set (sub_arcs node). k \<in># arcs + held sub_arcs h"
    using d in_held [of _ sub_arcs h a, OF _ counted_finite [OF assms(1)]]
    by (auto simp: held_by_def deref_def)
  from clone_arcs_counted [OF assms(1) this] obtain g where g: "clone_arcs h (sub_arcs node) = Some g"
    "counted sub_arcs g boxes (arcs + mset (sub_arcs node))"
    "\<forall>b. map_option payload (g b) = map_option payload (h b)"
    by blast
  let ?h = "g(fresh \<mapsto> Arced 1 node)"
  have "g fresh = None"
    using g(3) [rule_format, of fresh] assms(3) by simp
  then have counted: "counted sub_arcs ?h boxes (add_mset fresh arcs)"
    by (rule counted_new(2) [OF g(2)])
  have same: "deref ?h b = deref h b" if "(a, b) \<in> (part_of h)\<^sup>*" for b
    using parts_are_live [OF assms(2) that] g(3) assms(3) by (auto simp: deref_def)
  have "tree_of n ?h k = tree_of n h k" if "k \<in> set (sub_arcs node)" for n k
  proof (rule tree_of_frame, rule same)
    fix b
    have "(a, k) \<in> part_of h"
      using that d by (auto simp: part_of_def held_by_def deref_def)
    moreover assume "(k, b) \<in> (part_of h)\<^sup>*"
    ultimately show "(a, b) \<in> (part_of h)\<^sup>*"
      by (rule converse_rtrancl_into_rtrancl)
  qed
  then have node: "tree_of_node (tree_of n ?h) node = tree_of_node (tree_of n h) node" for n
    by (rule tree_of_node_cong)
  obtain n where n: "tree_of n h a = Some t"
    using assms(2) by (auto simp: is_tree_def)
  have "tree_of_node (tree_of n h) node = Some t"
    using tree_of_Suc [OF n] by (simp add: d)
  then have "tree_of (Suc n) ?h fresh = Some t"
    using node [of n] by (simp add: deref_def)
  then have "is_tree ?h fresh t"
    unfolding is_tree_def by (rule exI)
  moreover have "is_tree ?h a t"
    using is_tree_frame [of a h ?h, OF same] assms(2) by simp
  ultimately show ?thesis
    using g(1) d counted assms(4)
    by (auto simp: heap_new_from_existing_def ArcFFI_as_ref_def CassPtr_into_ref_def ArcFFI_into_ptr_def
        CassPtr_from_raw_def)
qed

section \<open>Properties\<close>

text \<open>
  Property C12: as long as no type is made a part of itself, what happens in memory is what the functions
  on trees say.  Adding a sub-type, by position or by name, is defined, returns the code and leaves the
  tree of the function on trees; every type that the changed one is no part of keeps its tree.  But adding a type
  to itself succeeds as well, and then it has no tree.
\<close>

theorem shared_types_refine_trees:
  assumes "live_arc h a" "live_arc h s" "is_tree h a t" "is_tree h s u"
  shows "((s, a) \<notin> (part_of h)\<^sup>* \<longrightarrow>
           (\<exists>code h' t'. heap_add_sub_type h (Some a) (Some s) = Some (code, h') \<and>
              cass_data_type_add_sub_type (Some t) (Some u) = (code, Some t') \<and> is_tree h' a t' \<and>
              (\<forall>b v. (b, a) \<notin> (part_of h)\<^sup>* \<longrightarrow> is_tree h' b v = is_tree h b v)) \<and>
           (\<exists>code h' t'. heap_add_sub_type_by_name_n h (Some a) name len (Some s) = Some (code, h') \<and>
              cass_data_type_add_sub_type_by_name_n (Some t) name len (Some u) = (code, Some t') \<and> is_tree h' a t' \<and>
              (\<forall>b v. (b, a) \<notin> (part_of h)\<^sup>* \<longrightarrow> is_tree h' b v = is_tree h b v))) \<and>
         (\<forall>h' v. heap_add_sub_type h (Some a) (Some a) = Some (CASS_OK, h') \<longrightarrow> \<not> is_tree h' a v)"
  using add_sub_type_refines [OF assms] add_sub_type_by_name_refines [OF assms]
    type_in_itself_has_no_tree [OF assms(1)] by blast

text \<open>An empty tuple at 8, an integer at 16, and a list of that tuple at 24.\<close>

definition demo_types :: type_heap where
  "demo_types = [8 \<mapsto> Arced 2 (TN_Tuple []), 16 \<mapsto> Arced 1 (TN_Value CASS_VALUE_TYPE_INT),
                 24 \<mapsto> Arced 1 (TN_List (Some 8) False)]"

theorem shared_types_refine_trees_witness:
  "\<exists>h'. heap_add_sub_type demo_types (Some 8) (Some 16) = Some (CASS_OK, h') \<and>
     is_tree h' 8 (DT_Tuple [DT_Value CASS_VALUE_TYPE_INT])"
proof -
  have trees: "is_tree demo_types 8 (DT_Tuple [])" "is_tree demo_types 16 (DT_Value CASS_VALUE_TYPE_INT)"
    unfolding is_tree_def
    by (rule exI [of _ "Suc 0"], simp add: demo_types_def deref_def tree_of_list_def)+
  have "(16, b) \<notin> part_of demo_types" for b
    by (simp add: part_of_def held_by_def demo_types_def)
  then have "(16, 8) \<notin> (part_of demo_types)\<^sup>*"
    by (auto elim: converse_rtranclE)
  then show ?thesis
    using shared_types_refine_trees [of demo_types 8 16, OF _ _ trees, of None 0]
    by (auto simp: demo_types_def cass_data_type_add_sub_type_def numeral_2_eq_2)
qed

text \<open>The list at 24 shares the tuple, so that its type changes as well.\<close>

lemma sharing_is_visible:
  "\<exists>h'. heap_add_sub_type demo_types (Some 8) (Some 16) = Some (CASS_OK, h') \<and>
     is_tree demo_types 24 (DT_List (Some (DT_Tuple [])) False) \<and>
     is_tree h' 24 (DT_List (Some (DT_Tuple [DT_Value CASS_VALUE_TYPE_INT])) False)"
proof -
  let ?h = "demo_types(16 \<mapsto> Arced 2 (TN_Value CASS_VALUE_TYPE_INT), 8 \<mapsto> Arced 2 (TN_Tuple [16]))"
  have "heap_add_sub_type demo_types (Some 8) (Some 16) = Some (CASS_OK, ?h)"
    by (simp add: demo_types_def heap_add_sub_type_def ArcFFI_as_ref_def CassPtr_into_ref_def deref_def
        ArcFFI_cloned_from_ptr_def CassPtr_to_raw_def increment_strong_count_def write_or_drop_def numeral_2_eq_2)
  moreover have "tree_of (Suc (Suc (Suc 0))) demo_types 24 = Some (DT_List (Some (DT_Tuple [])) False)"
    by (simp add: demo_types_def deref_def tree_of_list_def)
  moreover have "tree_of (Suc (Suc (Suc 0))) ?h 24 =
      Some (DT_List (Some (DT_Tuple [DT_Value CASS_VALUE_TYPE_INT])) False)"
    by (simp add: demo_types_def deref_def tree_of_list_def)
  ultimately show ?thesis
    unfolding is_tree_def by blast
qed

end
