(* ===== verification/Spec2Isabelle.thy ===== *)
theory Spec2Isabelle
  imports Cass_Data_Type_Api Cass_Serialize Cass_Metadata_Cache Cass_Batch Cass_Error Cass_Cluster_Props Cass_Future
    Cass_Events Cass_Read_Back Cass_Value_Types Cass_Session_Props Cass_Ssl Cass_Type_Heap
begin

text \<open>
  Verification of the Rust part of the ScyllaDB C/C++ RS driver, \<open>scylla-rust-wrapper\<close>: the library that
  gives the C API of \<open>include/cassandra.h\<close> to applications and hands the work to the Rust driver.

  \<^bold>\<open>The program.\<close>  An application builds data types and values, binds values to statements, configures a
  cluster and execution profiles, connects a session, executes statements and batches on it, waits for
  futures, and reads results through iterators.  Every object is a pointer to the application.  The files
  below are those of \<open>src/scylla-rust-wrapper/src\<close>; a definition has the name of the function or type that it
  models, with the name of its type in front where several types have such a function
  (\<open>CassTuple_bind_value\<close> is \<open>CassTuple::bind_value\<close>).

  \<^bold>\<open>Conventions\<close> (\<open>Cass_Prelude\<close>, \<open>Cass_Enums\<close>, \<open>Cass_Arg_Conv\<close>).  An integer is a word of its width, read as a signed number by
  \<open>sint\<close>; enumerations of C are words, since a caller may pass any number; a float is its bit pattern; a
  duration is a number of nanoseconds.  A string is its list of bytes, a pointer that may be null is an
  option (\<open>c_ptr\<close>), a panic is no result (\<open>panics\<close>), a \<open>Result\<close> is a sum with the error on the left.  An
  object that a function changes is passed and returned.  A function that writes through pointers of its
  caller returns what it writes.  A hash map is an association list, whose order is arbitrary; arithmetic
  that overflows panics or wraps according to a flag for the build profile.

  \<^bold>\<open>What is not under the directory is a parameter\<close>: the Rust driver (\<open>lib_session\<close>, the plans of its load
  balancing policy, its serializer of single values, its readers of frames), \<open>tokio\<close>'s scheduling (steps in
  any order), OpenSSL, the clock, random numbers.  What is assumed of a parameter is a named hypothesis
  of the theorem, and the witness of the theorem has a concrete parameter for which it holds.

  \<^bold>\<open>Theories.\<close>
  \<^item> \<open>Cass_Data_Type\<close>, \<open>Cass_Data_Type_Api\<close> (\<open>cql_types/data_type.rs\<close>): data types as trees, their comparison, the
    functions that build and read them.  The comparison decides equality on types without wildcards.
  \<^item> \<open>Cass_Ownership\<close> (\<open>argconv.rs\<close>): \<open>BoxFFI\<close>, \<open>ArcFFI\<close> and \<open>RefFFI\<close> over a store with reference counts, and a client of
    them.  Pointers that a client owns never dangle, and what it frees is reclaimed.
  \<^item> \<open>Cass_Type_Heap\<close> (\<open>cql_types/data_type.rs\<close>): data types in that store, with shared sub-types; when the functions
    on trees say what happens in memory.
  \<^item> \<open>Cass_Cql_Value\<close>, \<open>Cass_Vint\<close>, \<open>Cass_Serialize\<close> (\<open>cql_types/value.rs\<close>): values, the check of a value against a type,
    and the bytes of a value.  The check is deep, variable length integers and containers can be read back.
  \<^item> \<open>Cass_Uuid\<close>, \<open>Cass_Inet_Date\<close> (\<open>cql_types/uuid.rs\<close>, \<open>inet.rs\<close>, \<open>date_time.rs\<close>): UUIDs, with threads that use one generator
    at the same time; addresses, dates and times.
  \<^item> \<open>Cass_Containers\<close>, \<open>Cass_Binding\<close> (\<open>cql_types/collection.rs\<close>, \<open>tuple.rs\<close>, \<open>user_type.rs\<close>, \<open>vector.rs\<close>, \<open>binding.rs\<close>): the
    containers an application fills and the generated setters.  The interface \<open>positional\<close> is what
    tuples, user defined types and vectors have in common; each is an interpretation of it.
  \<^item> \<open>Cass_Statement\<close>, \<open>Cass_Statement_Api\<close>, \<open>Cass_Statement_Props\<close>, \<open>Cass_Metadata_Cache\<close>, \<open>Cass_Batch\<close> (\<open>statements/\<close>):
    statements, prepared statements and their cache of metadata under concurrent updates, batches.  Binding by name is a map,
    indices stay in range, values fit their columns.
  \<^item> \<open>Cass_Config\<close>, \<open>Cass_Lb_Settings\<close>, \<open>Cass_Load_Balancing\<close>, \<open>Cass_Exec_Profile\<close>, \<open>Cass_Cluster\<close>, \<open>Cass_Cluster_Props\<close>
    (\<open>config_value.rs\<close>, \<open>retry_policy.rs\<close>, \<open>timestamp_generator.rs\<close>, \<open>load_balancing.rs\<close>, \<open>exec_profile.rs\<close>, \<open>cluster.rs\<close>): configuration.  The
    interface \<open>maybe_unset_config\<close> is that of settings that can be unset, with four interpretations.  Plans obey the
    rules, profiles are completed from the cluster, sessions connect to the hosts that plans can name.
  \<^item> \<open>Cass_Error\<close> (\<open>cass_error.rs\<close>): codes and details of errors.
  \<^item> \<open>Cass_Future\<close> (\<open>future.rs\<close>): a step relation of a task, waiting threads and a callback.  No wake-up is lost,
    results are the same for all, the callback runs once.
  \<^item> \<open>Cass_Events\<close> (\<open>logging.rs\<close>, \<open>host_listener.rs\<close>, \<open>runtime.rs\<close>): callbacks and the cache of runtimes.
  \<^item> \<open>Cass_Ssl\<close> (\<open>ssl.rs\<close>): contexts of TLS; what the verification flags make a handshake accept.
  \<^item> \<open>Cass_Session\<close>, \<open>Cass_Session_Props\<close> (\<open>session.rs\<close>): connecting, closing and requests, their bodies, and a step relation
    over the lock of the session.  A request runs on the session it was made on, every task can finish.
  \<^item> \<open>Cass_Query_Result\<close>, \<open>Cass_Value_Types\<close> (\<open>query_result.rs\<close>): results, rows and values; a value has the type its
    result says.
  \<^item> \<open>Cass_Schema_Meta\<close> (\<open>metadata.rs\<close>): the copy of the schema.
  \<^item> \<open>Cass_Iterator\<close>, \<open>Cass_Cursor\<close>, \<open>Cass_Read_Back\<close> (\<open>iterator.rs\<close>): iterators.  The interface \<open>cursor\<close> is that of an iterator with
    a getter, with an interpretation for each kind; what is bound is read back.
  \<^item> This theory: reading a table page by page, through statements, sessions, futures, results and iterators.

  \<^bold>\<open>Kinds of statements.\<close>  A theorem that is named as a property stands after a text that begins with its number.  Step
  relations (\<open>future_step\<close>, \<open>uuid_step\<close>, \<open>cache_step\<close>, \<open>resolution_step\<close>, \<open>session_step\<close>, \<open>ffi_step\<close>) have invariants by rule
  induction; liveness says that from every reachable state there is a way to the end.  Some properties say what the code does where it is not what
  one would expect; they are marked as such in their texts.

  \<^bold>\<open>Bounds.\<close>  Loops that end by themselves are recursive functions with a termination proof.  The retry loop of the
  generator of UUIDs, the loops of an application (\<open>visit\<close>, \<open>page_loop\<close>) and the reading of a data type from the store have a
  bound, and it is proved which bound is enough: the number of items, of pages, of threads that interfere, the height of the
  type.  Loops that need not end (\<open>drop_arcs\<close>, \<open>chain_loop\<close>) are partial functions with a proof that they return.

  \<^bold>\<open>Not modelled.\<close>  \<open>api.rs\<close> and \<open>lib.rs\<close> only re-export names; \<open>testing/\<close> and the \<open>tests\<close> modules are tests; \<open>build.rs\<close>
  generates bindings.  \<open>argconv.rs\<close>: the life times and the mutability in the types of pointers, which only the compiler sees, and
  pointers that borrow a part of an object (a row of a result), which are values in the other theories.  The texts of
  error and log messages, except where a function returns them.  How the Rust driver talks to servers, balances load and
  retries; how tokio shuts down.  The handles of profiles are numbers; the recording of hosts for integration
  tests is left out.  Nothing is said about time except for time-outs as possible steps.

  \<^bold>\<open>Structure taken from other developments.\<close>  Interfaces as locales with an abstraction function and interpretations on concrete
  definitions: \<open>HOL/Data_Structures/Queue_Spec\<close>, \<open>Queue_2Lists\<close>, \<open>Map_Specs\<close>, \<open>Priority_Queue_Specs\<close>.  Step relations with labels,
  reachability and one preservation lemma for each step: \<open>HOL/Unix/Unix\<close>, \<open>HOL/IMP/Star\<close>, \<open>HOL/IMP/Finite_Reachable\<close>, the AFP
  entries CISC-Kernel and JinjaThreads (locks, progress), Igloo's \<open>Event_Systems\<close>.  Conformance of values to types:
  AFP Jinja, \<open>Common/Conform\<close>.  Rust integers and iterators: AutoCorrode, \<open>StdLib_Arithmetic\<close>, \<open>Rust_Iterator\<close>, \<open>Byte_Encoding_Array\<close>.  A
  store with allocation: AFP Solidity, \<open>Storage\<close>.  Refinement of an abstract state: CleanQ, \<open>CleanQ_SetListRefinement\<close>.
\<close>

section \<open>Reading a table page by page\<close>

text \<open>
  The function \<open>select_from_paging\<close> of \<open>examples/paging/paging.c\<close>, which an application is meant to follow:
  execute, look at the rows of the page, hand the result back for the next page.  It uses statements,
  sessions, futures, results and iterators.  The bounds are on the number of rows of a page and on the number
  of pages; no result is a panic or a bound that is too small.
\<close>

definition execute_and_wait ::
    "'l lib_session \<Rightarrow> lib_texts \<Rightarrow> metadata_lookup \<Rightarrow> 'l CassSessionInner \<Rightarrow> CassStatement c_ptr \<Rightarrow>
     CassFutureResult c_ptr panics" where
  "execute_and_wait lib texts get_or_make session statement =
     (case cass_session_execute (Some (Some session)) statement of
        None \<Rightarrow> Some None
      | Some (Inl e) \<Rightarrow> Some (Some (Inl e))
      | Some (Inr req) \<Rightarrow> map_option Some (request_body lib texts get_or_make (connected session) req))"

fun page_loop ::
    "'l lib_session \<Rightarrow> lib_texts \<Rightarrow> metadata_lookup \<Rightarrow> read_cql_bytes \<Rightarrow> 'l CassSessionInner \<Rightarrow> nat \<Rightarrow> nat \<Rightarrow>
     CassStatement c_ptr \<Rightarrow> CassRow c_ptr list panics" where
  "page_loop lib texts get_or_make rd session row_bound 0 statement = None"
| "page_loop lib texts get_or_make rd session row_bound (Suc n) statement =
     do { future \<leftarrow> execute_and_wait lib texts get_or_make session statement;
          if cass_future_error_code future \<noteq> CASS_OK then Some []
          else (let result = cass_future_get_result future in
            do { rows \<leftarrow> visit (cass_iterator_next rd) cass_iterator_get_row row_bound (cass_iterator_from_result result);
                 if cass_result_has_more_pages result
                 then do { (_, statement') \<leftarrow>
                             cass_statement_set_paging_state statement (map_option res_paging_state_response result);
                           rest \<leftarrow> page_loop lib texts get_or_make rd session row_bound n statement';
                           Some (rows @ rest) }
                 else Some rows }) }"

definition select_from_paging ::
    "StatementConfig \<Rightarrow> 'l lib_session \<Rightarrow> lib_texts \<Rightarrow> metadata_lookup \<Rightarrow> read_cql_bytes \<Rightarrow> nat \<Rightarrow> nat \<Rightarrow>
     'l CassSessionInner \<Rightarrow> CassRow c_ptr list panics" where
  "select_from_paging defaults lib texts get_or_make rd row_bound page_bound session =
     (let statement = cass_statement_new defaults (Some (''SELECT * FROM paging'' @ [nul])) 0 in
      do { (_, statement) \<leftarrow> cass_statement_set_paging_size statement 100;
           page_loop lib texts get_or_make rd session row_bound page_bound statement })"

subsection \<open>The server\<close>

text \<open>
  A server that has the given pages for the query, and a token for each page but the first: it answers
  a request with the page of the token, or the first page without one, and says how to go on.
\<close>

definition paging_query :: "StatementConfig \<Rightarrow> Statement" where
  "paging_query defaults =
     \<lparr>query_contents = ''SELECT * FROM paging'', query_config = defaults\<lparr>cfg_page_size := 100\<rparr>\<rparr>"

definition token_of_page :: "(nat \<Rightarrow> string) \<Rightarrow> nat \<Rightarrow> PagingState" where
  "token_of_page token i = (if i = 0 then None else Some (token i))"

definition serves_pages ::
    "StatementConfig \<Rightarrow> 'l lib_session \<Rightarrow> 'l \<Rightarrow> (nat \<Rightarrow> string) \<Rightarrow> QueryRowsResult list \<Rightarrow> bool" where
  "serves_pages defaults lib session token pages \<longleftrightarrow>
     pages \<noteq> [] \<and>
     (\<forall>i < length pages.
        lib_query_single_page lib session None (paging_query defaults)
          \<lparr>rs_bound_values = [], rs_name_to_bound_index = []\<rparr> (token_of_page token i) =
        Inr (Rows_Ok (pages ! i),
             if Suc i < length pages then HasMorePages (token_of_page token (Suc i)) else NoMorePages))"

definition rows_of_page :: "QueryRowsResult \<Rightarrow> CassRow list" where
  "rows_of_page page = rows_left (from_column_specs (qr_column_specs page)) (rows_iter (qr_raw_rows page))"

text \<open>A page in which every row can be read.\<close>

definition readable_page :: "nat \<Rightarrow> QueryRowsResult \<Rightarrow> bool" where
  "readable_page row_bound page \<longleftrightarrow>
     length (rows_of_page page) = length (rows_iter (qr_raw_rows page)) \<and> length (rows_of_page page) < row_bound"

subsection \<open>Lemmas\<close>

definition paging_statement :: "StatementConfig \<Rightarrow> PagingState \<Rightarrow> CassStatement" where
  "paging_statement defaults state =
     \<lparr>bound_statement = BS_Simple \<lparr>bs_query = paging_query defaults, bs_bound_values = [], name_to_bound_index = []\<rparr>,
      paging_state = state, paging_enabled = True, exec_profile = None\<rparr>"

lemma select_from_paging_starts:
  "select_from_paging defaults lib texts get_or_make rd row_bound page_bound session =
     page_loop lib texts get_or_make rd session row_bound page_bound (Some (paging_statement defaults None))"
proof -
  have "CassStrLenDelimited_to_str (Some (''SELECT * FROM paging'' @ [nul])) 20 = Inr ''SELECT * FROM paging''"
    by (simp add: CassStrLenDelimited_to_str_def utf8_valid_ascii)
  moreover have "strlen (Some (''SELECT * FROM paging'' @ [nul])) = 20"
    by (simp add: strlen_def cstr_content_def)
  ultimately have "cass_statement_new defaults (Some (''SELECT * FROM paging'' @ [nul])) 0 =
      Some (CassStatement_new (BS_Simple \<lparr>bs_query = \<lparr>query_contents = ''SELECT * FROM paging'', query_config = defaults\<rparr>,
        bs_bound_values = [], name_to_bound_index = []\<rparr>))"
    by (simp add: cass_statement_new_def cass_statement_new_n_def as_len_delimited_def del: append.simps)
  then show ?thesis
    by (simp add: select_from_paging_def cass_statement_set_paging_size_def with_statement_def modify_config_def
        CassStatement_new_def paging_statement_def paging_query_def)
qed

lemma readable_page_result:
  assumes "readable_page row_bound page"
  shows "\<exists>rows. from_result_payload (Rows_Ok page) psr None =
     Inr \<lparr>res_tracing_id = qr_tracing_id page, res_paging_state_response = psr, res_kind = Rows rows,
          res_coordinator = qr_coordinator page\<rparr> \<and>
     visit (cass_iterator_next rd) cass_iterator_get_row row_bound
       (cass_iterator_from_result (Some \<lparr>res_tracing_id = qr_tracing_id page, res_paging_state_response = psr,
          res_kind = Rows rows, res_coordinator = qr_coordinator page\<rparr>)) = Some (map Some (rows_of_page page))"
proof -
  let ?rows = "\<lparr>shared_raw_rows = qr_raw_rows page, shared_metadata = from_column_specs (qr_column_specs page),
      rows_first_row = None\<rparr>"
  obtain first where first: "init_first_row ?rows = Inr (?rows\<lparr>rows_first_row := first\<rparr>)"
  proof (cases "rows_iter (qr_raw_rows page)")
    case Nil
    with that [of None] show ?thesis
      by (simp add: init_first_row_def)
  next
    case (Cons raw rest)
    then obtain raw_row row where "raw = Inr raw_row"
      "from_raw_row_and_metadata raw_row (from_column_specs (qr_column_specs page)) = Inr row"
      using assms by (cases raw) (auto simp: readable_page_def rows_of_page_def split: sum.splits)
    with that [of "Some row"] Cons show ?thesis
      by (simp add: init_first_row_def)
  qed
  let ?it = "cass_iterator_from_result (Some \<lparr>res_tracing_id = qr_tracing_id page, res_paging_state_response = psr,
      res_kind = Rows (?rows\<lparr>rows_first_row := first\<rparr>), res_coordinator = qr_coordinator page\<rparr>)"
  have "pending_rows ?it = rows_of_page page" "is_result_iterator ?it"
    by (simp_all add: cass_iterator_from_result_def pending_rows_def is_result_iterator_def rows_of_page_def)
  then have "visit (cass_iterator_next rd) cass_iterator_get_row row_bound ?it = Some (map Some (rows_of_page page))"
    using rows.visits_pending [of ?it row_bound rd] assms by (simp add: readable_page_def)
  then show ?thesis
    using first by (auto simp: from_result_payload_def Let_def)
qed

text \<open>One round of the loop.\<close>

lemma page_step:
  assumes "connected session = Some conn" "serves_pages defaults lib (conn_session conn) token pages"
    and "i < length pages" "readable_page row_bound (pages ! i)"
  shows "page_loop lib texts get_or_make rd session row_bound (Suc n)
      (Some (paging_statement defaults (token_of_page token i))) =
    (if Suc i < length pages
     then map_option (append (map Some (rows_of_page (pages ! i))))
       (page_loop lib texts get_or_make rd session row_bound n
          (Some (paging_statement defaults (token_of_page token (Suc i)))))
     else Some (map Some (rows_of_page (pages ! i))))"
proof -
  let ?psr = "if Suc i < length pages then HasMorePages (token_of_page token (Suc i)) else NoMorePages"
  have page: "lib_query_single_page lib (conn_session conn) None (paging_query defaults)
      \<lparr>rs_bound_values = [], rs_name_to_bound_index = []\<rparr> (token_of_page token i) = Inr (Rows_Ok (pages ! i), ?psr)"
    using assms(2,3) unfolding serves_pages_def by blast
  from readable_page_result [OF assms(4), of ?psr rd] obtain rows where
    res: "from_result_payload (Rows_Ok (pages ! i)) ?psr None =
      Inr \<lparr>res_tracing_id = qr_tracing_id (pages ! i), res_paging_state_response = ?psr, res_kind = Rows rows,
           res_coordinator = qr_coordinator (pages ! i)\<rparr>"
    and rows: "visit (cass_iterator_next rd) cass_iterator_get_row row_bound (cass_iterator_from_result
        (Some \<lparr>res_tracing_id = qr_tracing_id (pages ! i), res_paging_state_response = ?psr, res_kind = Rows rows,
           res_coordinator = qr_coordinator (pages ! i)\<rparr>)) = Some (map Some (rows_of_page (pages ! i)))"
    by blast
  let ?res = "\<lparr>res_tracing_id = qr_tracing_id (pages ! i), res_paging_state_response = ?psr, res_kind = Rows rows,
      res_coordinator = qr_coordinator (pages ! i)\<rparr>"
  let ?st = "paging_statement defaults (token_of_page token i)"
  have "execute_body lib get_or_make conn ?st = Inr (QueryResult ?res)"
    by (simp add: execute_body_def session_profile_handle_def paging_statement_def query_simple_def Let_def page res)
  then have "execute_and_wait lib texts get_or_make session (Some ?st) = Some (Some (Inr (QueryResult ?res)))"
    by (simp add: execute_and_wait_def cass_session_execute_def request_begin_def assms(1))
  moreover have "cass_statement_set_paging_state (Some ?st) (Some (HasMorePages s)) =
      Some (CASS_OK, Some (paging_statement defaults s))" for s
    by (simp add: cass_statement_set_paging_state_def with_statement_def paging_statement_def)
  ultimately show ?thesis
    using rows by (simp add: cass_future_error_code_def cass_future_get_result_def cass_result_has_more_pages_def
        map_option_case split: option.split)
qed

lemma page_loop_reads_the_rest:
  assumes "connected session = Some conn" "serves_pages defaults lib (conn_session conn) token pages"
    and "list_all (readable_page row_bound) pages" "i < length pages" "length pages \<le> i + n"
  shows "page_loop lib texts get_or_make rd session row_bound n
      (Some (paging_statement defaults (token_of_page token i))) =
    Some (map Some (concat (map rows_of_page (drop i pages))))"
  using assms(4,5)
proof (induction n arbitrary: i)
  case (Suc n)
  have "readable_page row_bound (pages ! i)"
    using assms(3) Suc.prems(1) by (simp add: list_all_length)
  note step = page_step [OF assms(1,2) Suc.prems(1) this]
  have drop: "drop i pages = pages ! i # drop (Suc i) pages"
    using Suc.prems(1) by (simp add: Cons_nth_drop_Suc)
  show ?case
  proof (cases "Suc i < length pages")
    case True
    with Suc.IH [OF True] Suc.prems(2) show ?thesis
      unfolding step drop by simp
  next
    case False
    then show ?thesis
      unfolding step drop by simp
  qed
qed simp

subsection \<open>Every row is read\<close>

text \<open>
  Property C5.  On an open session, \<open>select_from_paging\<close> ends and looks at every row of every page, once and
  in order, however the rows are divided into pages and whatever the tokens are.
\<close>

theorem paged_queries_read_every_row:
  assumes "connected session = Some conn" "serves_pages defaults lib (conn_session conn) token pages"
    and "list_all (readable_page row_bound) pages" "length pages \<le> page_bound"
  shows "select_from_paging defaults lib texts get_or_make rd row_bound page_bound session =
     Some (map Some (concat (map rows_of_page pages)))"
proof -
  have "0 < length pages"
    using assms(2) by (simp add: serves_pages_def)
  from page_loop_reads_the_rest [OF assms(1-3) this, of page_bound] assms(4) show ?thesis
    by (simp add: select_from_paging_starts token_of_page_def)
qed

text \<open>Three pages: two rows, no row, one row.  The tokens are strings of as many letters as pages came before.\<close>

definition demo_column :: ColumnSpec where
  "demo_column = \<lparr>col_name = ''v'', col_typ = CT_Native NT_Int\<rparr>"

definition demo_row :: "u8 \<Rightarrow> unit + CassRawRow" where
  "demo_row b = Inr [Inr \<lparr>raw_index = 0, raw_spec = demo_column, raw_slice = Some [0, 0, 0, b]\<rparr>]"

definition demo_page :: "u8 list \<Rightarrow> QueryRowsResult" where
  "demo_page bs =
     \<lparr>qr_column_specs = [demo_column], qr_raw_rows = \<lparr>rows_count = length bs, rows_iter = map demo_row bs\<rparr>,
      qr_tracing_id = None, qr_coordinator = None\<rparr>"

definition demo_pages :: "QueryRowsResult list" where
  "demo_pages = [demo_page [1, 2], demo_page [], demo_page [3]]"

definition demo_token :: "nat \<Rightarrow> string" where
  "demo_token i = replicate i CHR 0x61"

definition demo_server :: "unit lib_session" where
  "demo_server = answering_session\<lparr>lib_query_single_page := (\<lambda>_ _ _ _ state.
     (let i = (case state of None \<Rightarrow> 0 | Some s \<Rightarrow> length s) in
      Inr (Rows_Ok (demo_pages ! i), if Suc i < 3 then HasMorePages (Some (demo_token (Suc i))) else NoMorePages)))\<rparr>"

definition demo_value :: "u8 \<Rightarrow> CassRow" where
  "demo_value b =
     \<lparr>row_columns = [\<lparr>cv_value = \<lparr>rv_typ = CT_Native NT_Int, rv_slice = Some [0, 0, 0, b], rv_item_count = None\<rparr>,
        cv_value_type = DT_Value CASS_VALUE_TYPE_INT\<rparr>],
      row_result_metadata = from_column_specs [demo_column]\<rparr>"

lemma rows_of_demo_page: "rows_of_page (demo_page bs) = map demo_value bs"
  by (induction bs) (simp_all add: rows_of_page_def demo_page_def demo_row_def demo_value_def demo_column_def
      from_raw_row_and_metadata_def from_column_specs_def CassRawValue_deserialize_def determine_value_item_count_def
      Let_def)

theorem paged_queries_read_every_row_witness:
  "select_from_paging plain_config demo_server plain_texts (\<lambda>_ _. None) (\<lambda>s. (Inl (), s)) 3 3
     \<lparr>connected = Some one_connection, session_client_id = 7\<rparr> =
   Some [Some (demo_value 1), Some (demo_value 2), Some (demo_value 3)]"
proof -
  have "serves_pages plain_config demo_server (conn_session one_connection) demo_token demo_pages"
    by (auto simp: serves_pages_def demo_server_def demo_pages_def token_of_page_def demo_token_def)
  moreover have "list_all (readable_page 3) demo_pages"
    by (simp add: demo_pages_def readable_page_def rows_of_demo_page) (simp add: demo_page_def)
  ultimately show ?thesis
    using paged_queries_read_every_row [of "\<lparr>connected = Some one_connection, session_client_id = 7\<rparr>" one_connection
        plain_config demo_server demo_token demo_pages 3 3]
    by (simp add: demo_pages_def rows_of_demo_page)
qed

end
